(* ===== verification/Tyrion_Prelude.thy ===== *)
theory Tyrion_Prelude
  imports Main "HOL-Library.Word" "HOL-Library.Sublist"
begin

text \<open>
  Shared vocabulary of the development.

  \<^item> Outcomes of fallible Rust code. A function returning \<^verbatim>\<open>Result<T, E>\<close> becomes a HOL
    function into \<open>'e failure + 'a\<close>: \<open>Inr x\<close> is \<^verbatim>\<open>Ok(x)\<close>, \<open>Inl (Raised e)\<close> is
    \<^verbatim>\<open>Err(e)\<close>, and \<open>Inl (Panic m)\<close> is a panic (an index out of range,
    \<^verbatim>\<open>unreachable!\<close>, a bad slice), so that "this code never panics" is a statement that
    can be proved or refuted.
  \<^item> \<^verbatim>\<open>str\<close> and \<^verbatim>\<open>String\<close>: a \<open>string\<close> is the list of the UTF-8 bytes of the value, so
    \<^verbatim>\<open>len()\<close> is \<open>length\<close>. \<open>trim\<close> strips the Unicode White\_Space code points from
    both ends, written out on their UTF-8 encodings.
  \<^item> \<^verbatim>\<open>u16\<close>, \<^verbatim>\<open>u32\<close>, \<^verbatim>\<open>u64\<close> are words of that width, with \<^verbatim>\<open>checked_add\<close>;
    \<^verbatim>\<open>i64\<close> values that are only compared or counted up are \<open>int\<close>.
  \<^item> \<^verbatim>\<open>std::path::Path\<close> on Unix: \<open>is_absolute\<close> and \<open>components\<close>.
\<close>

named_theorems rust_simps \<open>unfolding rules for the modelled parts of the Rust library\<close>
named_theorems outcome_simps \<open>unfolding rules for sequencing of fallible code\<close>

section \<open>Machine integers\<close>

type_synonym u16 = "16 word"
type_synonym u32 = "32 word"
type_synonym u64 = "64 word"

definition checked_add :: "'a::len word \<Rightarrow> 'a word \<Rightarrow> 'a word option" where
  "checked_add a b = (if unat a + unat b < 2 ^ LENGTH('a) then Some (a + b) else None)"

lemma checked_add_Some_iff:
  "checked_add a b = Some c \<longleftrightarrow> unat c = unat a + unat b"
  for a b c :: "'a::len word"
proof (cases "unat a + unat b < 2 ^ LENGTH('a)")
  case True
  then show ?thesis
    by (auto simp: checked_add_def unat_word_ariths word_unat_eq_iff)
next
  case False
  moreover have "unat c < 2 ^ LENGTH('a)" by (rule unsigned_less)
  ultimately have "unat c \<noteq> unat a + unat b" by linarith
  with False show ?thesis by (simp add: checked_add_def)
qed

lemma checked_add_None_iff:
  "checked_add a b = None \<longleftrightarrow> 2 ^ LENGTH('a) \<le> unat a + unat b"
  for a b :: "'a::len word"
  by (auto simp: checked_add_def)

text \<open>An equation that evaluates without leaving the word type.\<close>

lemma checked_add_code [code]:
  "checked_add a b = (let c = a + b in if c < a then None else Some c)"
  for a b :: "'a::len word"
proof -
  have "unat a + unat b < 2 ^ LENGTH('a) \<longleftrightarrow> a \<le> a + b"
    by (metis add.commute le_add1 no_olen_add_nat word_le_nat_alt)
  then show ?thesis
    by (auto simp: checked_add_def Let_def)
qed

text \<open>\<^verbatim>\<open>a.checked_add(b).is_some_and(|total| total <= ceiling)\<close>: the sum exists and is within the
  ceiling. As natural numbers this is the plain inequality, whatever the operands.\<close>

definition fits_within :: "'a::len word \<Rightarrow> 'a word \<Rightarrow> 'a word \<Rightarrow> bool" where
  "fits_within used requested ceiling =
     (case checked_add used requested of None \<Rightarrow> False | Some tot \<Rightarrow> tot \<le> ceiling)"

lemma fits_within_iff:
  "fits_within u q c \<longleftrightarrow> unat u + unat q \<le> unat c"
  for u q c :: "'a::len word"
proof (cases "unat u + unat q < 2 ^ LENGTH('a)")
  case True
  then show ?thesis
    by (auto simp: fits_within_def checked_add_def word_le_nat_alt unat_word_ariths)
next
  case False
  moreover have "unat c < 2 ^ LENGTH('a)" by (rule unsigned_less)
  ultimately have "\<not> unat u + unat q \<le> unat c" by linarith
  with False show ?thesis by (simp add: fits_within_def checked_add_def)
qed

lemma unat_add_fits:
  assumes "fits_within u q c"
  shows "unat (u + q) = unat u + unat q"
  using assms by (auto simp: fits_within_def checked_add_def unat_word_ariths split: option.splits if_splits)

definition saturating_sub :: "'a::len word \<Rightarrow> 'a word \<Rightarrow> 'a word" where
  "saturating_sub a b = (if a < b then 0 else a - b)"

lemma unat_saturating_sub: "unat (saturating_sub a b) = unat a - unat b"
  by (auto simp: saturating_sub_def word_less_nat_alt unat_sub word_le_nat_alt)

section \<open>Fallible code\<close>

datatype 'e failure = Raised 'e | Panic string

type_synonym ('e, 'a) outcome = "'e failure + 'a"

abbreviation Ok :: "'a \<Rightarrow> ('e, 'a) outcome" where
  "Ok x \<equiv> Inr x"

abbreviation Err :: "'e \<Rightarrow> ('e, 'a) outcome" where
  "Err e \<equiv> Inl (Raised e)"

abbreviation Panicked :: "string \<Rightarrow> ('e, 'a) outcome" where
  "Panicked m \<equiv> Inl (Panic m)"

text \<open>The \<^verbatim>\<open>?\<close> operator: continue with the value, or return the failure.\<close>

definition and_then :: "('e, 'a) outcome \<Rightarrow> ('a \<Rightarrow> ('e, 'b) outcome) \<Rightarrow> ('e, 'b) outcome" where
  "and_then m f = (case m of Inl e \<Rightarrow> Inl e | Inr x \<Rightarrow> f x)"

lemma and_then_simps [simp]:
  "and_then (Inl e) f = Inl e"
  "and_then (Inr x) f = f x"
  by (simp_all add: and_then_def)

lemma and_then_eq_Inr [outcome_simps]:
  "and_then m f = Inr y \<longleftrightarrow> (\<exists>x. m = Inr x \<and> f x = Inr y)"
  by (cases m) auto

lemma and_then_unit_Inr:
  "and_then m f = Inr y \<longleftrightarrow> m = Inr () \<and> f () = Inr y" for m :: "('e, unit) outcome"
  by (cases m) auto

lemma and_then_eq_Inl [outcome_simps]:
  "and_then m f = Inl e \<longleftrightarrow> m = Inl e \<or> (\<exists>x. m = Inr x \<and> f x = Inl e)"
  by (cases m) auto

lemma and_then_cong [fundef_cong]:
  "m = m' \<Longrightarrow> (\<And>x. m' = Inr x \<Longrightarrow> f x = g x) \<Longrightarrow> and_then m f = and_then m' g"
  by (cases m') auto

lemma and_then_assoc:
  "and_then (and_then m f) g = and_then m (\<lambda>x. and_then (f x) g)"
  by (cases m) auto

lemma case_option_eq_Inr [outcome_simps]:
  "(case x of None \<Rightarrow> Inl e | Some y \<Rightarrow> f y) = Inr r \<longleftrightarrow> (\<exists>y. x = Some y \<and> f y = Inr r)"
  by (cases x) auto

lemma if_eq_Inr [outcome_simps]:
  "(if b then Inl e else m) = Inr r \<longleftrightarrow> \<not> b \<and> m = Inr r"
  by simp

text \<open>\<^verbatim>\<open>for x in xs { f(x)?; }\<close>: stop at the first failure.\<close>

fun try_each :: "('a \<Rightarrow> ('e, unit) outcome) \<Rightarrow> 'a list \<Rightarrow> ('e, unit) outcome" where
  "try_each f [] = Ok ()"
| "try_each f (x # xs) = and_then (f x) (\<lambda>_. try_each f xs)"

lemma try_each_Ok_iff [outcome_simps]: "try_each f xs = Inr u \<longleftrightarrow> (\<forall>x \<in> set xs. f x = Inr ())"
  by (induction xs) (auto simp: outcome_simps)

lemma try_each_Inl: "try_each f xs = Inl e \<Longrightarrow> \<exists>x \<in> set xs. f x = Inl e"
  by (induction xs) (auto simp: outcome_simps)

definition panics :: "('e, 'a) outcome \<Rightarrow> bool" where
  "panics m = (case m of Inl (Panic _) \<Rightarrow> True | _ \<Rightarrow> False)"

lemma panics_simps [simp]:
  "panics (Inl (Panic m))"
  "\<not> panics (Inl (Raised e))"
  "\<not> panics (Inr x)"
  by (simp_all add: panics_def)

lemma panics_and_then [simp]:
  "panics (and_then m f) \<longleftrightarrow> panics m \<or> (\<exists>x. m = Inr x \<and> panics (f x))"
  by (cases m) (auto simp: panics_def)

lemma panics_try_each:
  "panics (try_each f xs) \<Longrightarrow> \<exists>x \<in> set xs. panics (f x)"
  by (induction xs) auto

section \<open>Strings\<close>

subsection \<open>Searching and splitting\<close>

definition starts_with :: "string \<Rightarrow> string \<Rightarrow> bool" where
  "starts_with s p = (take (length p) s = p)"

lemma starts_with_iff: "starts_with s p \<longleftrightarrow> prefix p s"
  by (auto simp: starts_with_def prefix_def) (metis append_take_drop_id)

lemma starts_with_self [simp]: "starts_with s s"
  by (simp add: starts_with_def)

definition contains_char :: "string \<Rightarrow> char \<Rightarrow> bool" where
  "contains_char s c = (c \<in> set s)"

abbreviation NUL :: char where
  "NUL \<equiv> CHR 0x00"

text \<open>\<^verbatim>\<open>str::split(c)\<close> on a character: always at least one piece.\<close>

fun split_on :: "char \<Rightarrow> string \<Rightarrow> string list" where
  "split_on c [] = [[]]"
| "split_on c (x # xs) =
     (if x = c then [] # split_on c xs
      else (case split_on c xs of [] \<Rightarrow> [[x]] | p # ps \<Rightarrow> (x # p) # ps))"

lemma split_on_nonempty [simp]: "split_on c s \<noteq> []"
  by (induction s) (auto split: list.splits)

lemma split_on_no_sep: "c \<notin> set s \<Longrightarrow> split_on c s = [s]"
  by (induction s) auto

lemma split_on_append_sep: "split_on c (xs @ c # ys) = split_on c xs @ split_on c ys"
  by (induction xs) (auto split: list.splits)

lemma split_on_inject: "split_on c xs = split_on c ys \<Longrightarrow> xs = ys"
proof (induction xs arbitrary: ys)
  case Nil
  then show ?case by (cases ys) (auto split: list.splits if_splits)
next
  case (Cons x xs)
  then show ?case
    by (cases ys) (auto split: list.splits if_splits)
qed

lemma split_on_prefix_iff:
  "prefix (split_on c s) (split_on c p) \<longleftrightarrow> p = s \<or> prefix (s @ [c]) p"
proof
  assume "p = s \<or> prefix (s @ [c]) p"
  then show "prefix (split_on c s) (split_on c p)"
    by (auto simp: prefix_def split_on_append_sep)
next
  show "prefix (split_on c s) (split_on c p) \<Longrightarrow> p = s \<or> prefix (s @ [c]) p"
  proof (induction s arbitrary: p)
    case Nil
    then show ?case by (cases p) (auto split: list.splits if_splits)
  next
    case (Cons x s)
    show ?case
    proof (cases p)
      case Nil
      with Cons.prems show ?thesis by (auto split: list.splits if_splits)
    next
      case (Cons y p')
      with Cons.prems have "x = y \<and> prefix (split_on c s) (split_on c p')"
        by (auto split: list.splits if_splits)
      with Cons.IH Cons show ?thesis by auto
    qed
  qed
qed

subsection \<open>Trimming White\_Space\<close>

text \<open>The code points with the Unicode White\_Space property, as UTF-8 byte sequences. On a valid
  UTF-8 string one of these sequences is a prefix (a suffix) exactly when the first (the last)
  character is white space, because no encoding of a character starts inside another.\<close>

definition byte_of :: "char \<Rightarrow> nat" where
  "byte_of c = of_char c"

definition white_space :: "nat list list" where
  "white_space =
     [[0x09], [0x0A], [0x0B], [0x0C], [0x0D], [0x20], [0xC2, 0x85], [0xC2, 0xA0],
      [0xE1, 0x9A, 0x80], [0xE2, 0x80, 0x80], [0xE2, 0x80, 0x81], [0xE2, 0x80, 0x82],
      [0xE2, 0x80, 0x83], [0xE2, 0x80, 0x84], [0xE2, 0x80, 0x85], [0xE2, 0x80, 0x86],
      [0xE2, 0x80, 0x87], [0xE2, 0x80, 0x88], [0xE2, 0x80, 0x89], [0xE2, 0x80, 0x8A],
      [0xE2, 0x80, 0xA8], [0xE2, 0x80, 0xA9], [0xE2, 0x80, 0xAF], [0xE2, 0x81, 0x9F],
      [0xE3, 0x80, 0x80]]"

fun strip_any :: "nat list list \<Rightarrow> string \<Rightarrow> string option" where
  "strip_any [] s = None"
| "strip_any (w # ws) s =
     (if map byte_of (take (length w) s) = w then Some (drop (length w) s) else strip_any ws s)"

lemma strip_any_shorter:
  "strip_any ws s = Some r \<Longrightarrow> [] \<notin> set ws \<Longrightarrow> length r < length s"
proof (induction ws)
  case (Cons w ws)
  show ?case
  proof (cases "map byte_of (take (length w) s) = w")
    case True
    then have "length (take (length w) s) = length w" by (metis length_map)
    then have "length w \<le> length s" by simp
    moreover from Cons.prems have "0 < length w" by auto
    ultimately have "length (drop (length w) s) < length s"
      unfolding length_drop by linarith
    with True Cons.prems show ?thesis by auto
  next
    case False
    with Cons show ?thesis by simp
  qed
qed simp

lemma white_space_nonempty: "[] \<notin> set white_space" "[] \<notin> set (map rev white_space)"
  by (simp_all add: white_space_def)

function trim_start :: "string \<Rightarrow> string" where
  "trim_start s = (case strip_any white_space s of None \<Rightarrow> s | Some r \<Rightarrow> trim_start r)"
  by pat_completeness auto
termination
  by (relation "measure length") (auto dest: strip_any_shorter [OF _ white_space_nonempty(1)])

declare trim_start.simps [simp del]

function trim_end_rev :: "string \<Rightarrow> string" where
  "trim_end_rev s = (case strip_any (map rev white_space) s of None \<Rightarrow> s | Some r \<Rightarrow> trim_end_rev r)"
  by pat_completeness auto
termination
  by (relation "measure length") (auto dest: strip_any_shorter [OF _ white_space_nonempty(2)])

declare trim_end_rev.simps [simp del]

definition trim :: "string \<Rightarrow> string" where
  "trim s = rev (trim_end_rev (rev (trim_start s)))"

text \<open>\<^verbatim>\<open>s.trim().is_empty()\<close>\<close>

definition blank :: "string \<Rightarrow> bool" where
  "blank s = (trim s = [])"

lemma strip_any_Nil [simp]: "[] \<notin> set ws \<Longrightarrow> strip_any ws [] = None"
  by (induction ws) auto

lemma blank_Nil [simp]: "blank []"
  by (simp add: blank_def trim_def trim_start.simps [of "[]"] trim_end_rev.simps [of "[]"]
      white_space_def)

text \<open>A byte of no white-space sequence survives trimming, so one visible ASCII character makes a
  string non-blank.\<close>

lemma strip_any_keeps:
  "strip_any ws s = Some r \<Longrightarrow> c \<in> set s \<Longrightarrow> byte_of c \<notin> \<Union> (set ` set ws) \<Longrightarrow> c \<in> set r"
proof (induction ws)
  case (Cons w ws)
  show ?case
  proof (cases "map byte_of (take (length w) s) = w")
    case True
    then have "set w = byte_of ` set (take (length w) s)" by (metis list.set_map)
    with Cons.prems(3) have "c \<notin> set (take (length w) s)" by auto
    moreover have "set s = set (take (length w) s) \<union> set (drop (length w) s)"
      by (metis append_take_drop_id set_append)
    ultimately show ?thesis using True Cons.prems by auto
  next
    case False
    with Cons show ?thesis by auto
  qed
qed simp

lemma trim_start_keeps:
  "c \<in> set s \<Longrightarrow> byte_of c \<notin> \<Union> (set ` set white_space) \<Longrightarrow> c \<in> set (trim_start s)"
proof (induction s rule: trim_start.induct)
  case (1 s)
  show ?case
  proof (cases "strip_any white_space s")
    case None
    with 1 show ?thesis by (simp add: trim_start.simps [of s])
  next
    case (Some r)
    with "1.IH" [OF Some] strip_any_keeps [OF Some "1.prems"] "1.prems"(2) show ?thesis
      by (simp add: trim_start.simps [of s])
  qed
qed

lemma trim_end_rev_keeps:
  "c \<in> set s \<Longrightarrow> byte_of c \<notin> \<Union> (set ` set white_space) \<Longrightarrow> c \<in> set (trim_end_rev s)"
proof (induction s rule: trim_end_rev.induct)
  case (1 s)
  have bytes: "\<Union> (set ` set (map rev white_space)) = \<Union> (set ` set white_space)" by simp
  show ?case
  proof (cases "strip_any (map rev white_space) s")
    case None
    with 1 show ?thesis by (simp add: trim_end_rev.simps [of s])
  next
    case (Some r)
    with "1.IH" [OF Some] strip_any_keeps [OF Some "1.prems"(1)] "1.prems"(2) bytes show ?thesis
      by (simp add: trim_end_rev.simps [of s])
  qed
qed

lemma not_blank_visible:
  assumes "c \<in> set s" and "33 \<le> byte_of c" and "byte_of c < 128"
  shows "\<not> blank s"
proof -
  have "byte_of c \<notin> \<Union> (set ` set white_space)"
    using assms(2, 3) by (auto simp: white_space_def)
  with assms(1) have "c \<in> set (trim_end_rev (rev (trim_start s)))"
    by (intro trim_end_rev_keeps) (simp_all add: trim_start_keeps)
  then show ?thesis by (auto simp: blank_def trim_def)
qed

lemma not_blank_Cons [simp]: "33 \<le> byte_of c \<Longrightarrow> byte_of c < 128 \<Longrightarrow> \<not> blank (c # s)"
  by (rule not_blank_visible [of c]) simp_all

lemma byte_of_Char [simp]:
  "byte_of (Char b0 b1 b2 b3 b4 b5 b6 b7)
   = of_bool b0 + 2 * (of_bool b1 + 2 * (of_bool b2 + 2 * (of_bool b3
     + 2 * (of_bool b4 + 2 * (of_bool b5 + 2 * (of_bool b6 + 2 * of_bool b7))))))"
  by (simp add: byte_of_def)

lemma not_blank_nonempty: "\<not> blank s \<Longrightarrow> s \<noteq> []"
  by auto

subsection \<open>Hexadecimal digits and decimal printing\<close>

definition is_ascii_digit :: "char \<Rightarrow> bool" where
  "is_ascii_digit c = (48 \<le> byte_of c \<and> byte_of c \<le> 57)"

definition is_ascii_hexdigit :: "char \<Rightarrow> bool" where
  "is_ascii_hexdigit c =
     (is_ascii_digit c \<or> (65 \<le> byte_of c \<and> byte_of c \<le> 70) \<or> (97 \<le> byte_of c \<and> byte_of c \<le> 102))"

definition is_lower_hexdigit :: "char \<Rightarrow> bool" where
  "is_lower_hexdigit c = (is_ascii_digit c \<or> (97 \<le> byte_of c \<and> byte_of c \<le> 102))"

lemma lower_hexdigit_hexdigit: "is_lower_hexdigit c \<Longrightarrow> is_ascii_hexdigit c"
  by (auto simp: is_lower_hexdigit_def is_ascii_hexdigit_def)

definition to_ascii_lowercase :: "string \<Rightarrow> string" where
  "to_ascii_lowercase s =
     map (\<lambda>c. if 65 \<le> byte_of c \<and> byte_of c \<le> 90 then char_of (byte_of c + 32) else c) s"

fun nat_dec :: "nat \<Rightarrow> string" where
  "nat_dec n = (if n < 10 then [char_of (48 + n)] else nat_dec (n div 10) @ [char_of (48 + n mod 10)])"

declare nat_dec.simps [simp del]

definition int_dec :: "int \<Rightarrow> string" where
  "int_dec i = (if i < 0 then ''-'' @ nat_dec (nat (- i)) else nat_dec (nat i))"

definition word_dec :: "'a::len word \<Rightarrow> string" where
  "word_dec w = nat_dec (unat w)"

section \<open>Paths\<close>

abbreviation slash :: char where
  "slash \<equiv> CHR ''/''"

definition is_absolute :: "string \<Rightarrow> bool" where
  "is_absolute p = (case p of [] \<Rightarrow> False | c # _ \<Rightarrow> c = slash)"

datatype component = RootDir | CurDir | ParentDir | Normal string

definition segment :: "string \<Rightarrow> component option" where
  "segment s =
     (if s = [] \<or> s = ''.'' then None else if s = ''..'' then Some ParentDir else Some (Normal s))"

text \<open>\<^verbatim>\<open>Path::components\<close> on Unix: empty pieces and \<^verbatim>\<open>.\<close> pieces are dropped, except that a
  leading \<^verbatim>\<open>.\<close> of a relative path is a \<open>CurDir\<close>.\<close>

definition path_components :: "string \<Rightarrow> component list" where
  "path_components p =
     (if p = [] then []
      else if is_absolute p then RootDir # List.map_filter segment (split_on slash p)
      else (if hd (split_on slash p) = ''.'' then [CurDir] else [])
             @ List.map_filter segment (split_on slash p))"

fun is_normal :: "component \<Rightarrow> bool" where
  "is_normal (Normal _) = True"
| "is_normal _ = False"

text \<open>\<^verbatim>\<open>Path::starts_with\<close> compares whole components.\<close>

definition path_starts_with :: "string \<Rightarrow> string \<Rightarrow> bool" where
  "path_starts_with p q = prefix (path_components q) (path_components p)"

section \<open>Lists\<close>

text \<open>\<^verbatim>\<open>for v in values { if bad(v) { return Err(e) } if !seen.insert(key(v)) { return Err(d) } }\<close>:
  the loop shape of the validators, with the accumulated set as a list.\<close>

fun check_unique ::
  "('a \<Rightarrow> ('e, unit) outcome) \<Rightarrow> ('a \<Rightarrow> 'k) \<Rightarrow> ('a \<Rightarrow> 'e) \<Rightarrow> 'k list \<Rightarrow> 'a list \<Rightarrow> ('e, unit) outcome" where
  "check_unique chk key dup seen [] = Ok ()"
| "check_unique chk key dup seen (v # vs) =
     and_then (chk v) (\<lambda>_.
       if key v \<in> set seen then Err (dup v) else check_unique chk key dup (key v # seen) vs)"

lemma check_unique_Ok_iff [outcome_simps]:
  "check_unique chk key dup seen vs = Inr u \<longleftrightarrow>
     (\<forall>v \<in> set vs. chk v = Inr ()) \<and> distinct (map key vs) \<and> set (map key vs) \<inter> set seen = {}"
  by (induction vs arbitrary: seen) (auto simp: outcome_simps)

lemma panics_check_unique:
  "panics (check_unique chk key dup seen vs) \<Longrightarrow> \<exists>v \<in> set vs. panics (chk v)"
  by (induction vs arbitrary: seen) (auto split: if_splits)

lemma find_Some_mem: "List.find P xs = Some x \<Longrightarrow> x \<in> set xs \<and> P x"
  by (metis find_Some_iff nth_mem)

lemma find_None_all: "List.find P xs = None \<longleftrightarrow> (\<forall>x \<in> set xs. \<not> P x)"
  by (auto simp: find_None_iff)

end
