(* ===== verification/Json.thy ===== *)
theory Json
  imports Tyrion_Prelude
begin

text \<open>
  \<^verbatim>\<open>serde_json::Value\<close> as the code uses it. An object is its list of entries in key order with
  each key once, which is what the map type of \<^verbatim>\<open>serde_json\<close> keeps. Numbers are the three
  representations the library distinguishes; a float is kept as the text it was read from, since
  no modelled code computes with one.
\<close>

datatype json =
    JNull
  | JBool bool
  | JPosInt u64
  | JNegInt int
  | JFloat string
  | JString string
  | JArray "json list"
  | JObject "(string \<times> json) list"

section \<open>Accessors\<close>

text \<open>\<^verbatim>\<open>value[field]\<close> on a shared reference: \<open>JNull\<close> when the value is no object or has no such
  key; \<^verbatim>\<open>value.get(field)\<close> is the option.\<close>

fun json_get :: "json \<Rightarrow> string \<Rightarrow> json option" where
  "json_get (JObject m) k = map_of m k"
| "json_get _ k = None"

definition json_index :: "json \<Rightarrow> string \<Rightarrow> json" where
  "json_index v k = (case json_get v k of None \<Rightarrow> JNull | Some x \<Rightarrow> x)"

fun json_as_str :: "json \<Rightarrow> string option" where
  "json_as_str (JString s) = Some s"
| "json_as_str _ = None"

fun json_as_u64 :: "json \<Rightarrow> u64 option" where
  "json_as_u64 (JPosInt n) = Some n"
| "json_as_u64 _ = None"

fun json_as_i64 :: "json \<Rightarrow> int option" where
  "json_as_i64 (JPosInt n) = (if uint n < 2 ^ 63 then Some (uint n) else None)"
| "json_as_i64 (JNegInt i) = Some i"
| "json_as_i64 _ = None"

fun json_as_bool :: "json \<Rightarrow> bool option" where
  "json_as_bool (JBool b) = Some b"
| "json_as_bool _ = None"

fun json_as_array :: "json \<Rightarrow> json list option" where
  "json_as_array (JArray xs) = Some xs"
| "json_as_array _ = None"

fun json_as_object :: "json \<Rightarrow> (string \<times> json) list option" where
  "json_as_object (JObject m) = Some m"
| "json_as_object _ = None"

definition json_of_int :: "int \<Rightarrow> json" where
  "json_of_int i = (if i < 0 then JNegInt i else JPosInt (word_of_int i))"

lemma json_index_simps [simp]:
  "json_index (JObject m) k = (case map_of m k of None \<Rightarrow> JNull | Some x \<Rightarrow> x)"
  "json_index JNull k = JNull"
  "json_index (JString s) k = JNull"
  "json_index (JArray xs) k = JNull"
  by (simp_all add: json_index_def)

text \<open>A 64-bit signed integer survives being written as a JSON number and read back.\<close>

lemma json_i64_roundtrip:
  assumes "- (2 ^ 63) \<le> i" and "i < 2 ^ 63"
  shows "json_as_i64 (json_of_int i) = Some i"
proof (cases "i < 0")
  case True
  then show ?thesis by (simp add: json_of_int_def)
next
  case False
  then have "uint (word_of_int i :: u64) = i"
    using assms by (simp add: uint_word_of_int_eq take_bit_int_eq_self)
  with False assms show ?thesis by (simp add: json_of_int_def)
qed

end
