(* ===== verification/Errors.thy ===== *)
theory Errors
  imports Json
begin

text \<open>
  \<^verbatim>\<open>src/src/error.rs\<close>: the error type every fallible operation returns, the wire code each
  variant is reported with, its message and its structured details. Errors of the I/O, database
  and serialization libraries are kept as the text they print.
\<close>

datatype IntegrationFailureKind = StaleBase | Conflict

fun IntegrationFailureKind_as_str :: "IntegrationFailureKind \<Rightarrow> string" where
  "IntegrationFailureKind_as_str StaleBase = ''stale_base''"
| "IntegrationFailureKind_as_str Conflict = ''conflict''"

datatype ErrorCode =
    Internal | InvalidRequest | UnsupportedVersion | NotFound | IdempotencyConflict
  | StaleRevision | StaleControlRevision | AttachmentRejected | ControlDenied

datatype TyrionError =
    InvalidRequest string
  | UnsupportedVersion u16 u16
  | NotFound string
  | IdempotencyConflict
  | StaleRevision int int
  | StaleControlRevision int int
  | AttachmentRejected string
  | AttachmentRejectedWithDetails string json
  | ControlDenied string
  | WorkerLeaseExpired string
  | WorkerInterrupted
  | WatchdogContained string
  | SecurityInvariantViolation string
  | WorkerConfigurationUnavailable string string
  | RequiredSkillUnavailable string string string string
  | StorageCeilingExceeded u64 u64
  | IntegrationFailure IntegrationFailureKind string
  | Io string
  | Database string
  | Serialization string

type_synonym 'a result = "(TyrionError, 'a) outcome"

fun code :: "TyrionError \<Rightarrow> ErrorCode" where
  "code (InvalidRequest _) = ErrorCode.InvalidRequest"
| "code (UnsupportedVersion _ _) = ErrorCode.UnsupportedVersion"
| "code (NotFound _) = ErrorCode.NotFound"
| "code IdempotencyConflict = ErrorCode.IdempotencyConflict"
| "code (StaleRevision _ _) = ErrorCode.StaleRevision"
| "code (StaleControlRevision _ _) = ErrorCode.StaleControlRevision"
| "code (AttachmentRejected _) = ErrorCode.AttachmentRejected"
| "code (AttachmentRejectedWithDetails _ _) = ErrorCode.AttachmentRejected"
| "code (ControlDenied _) = ErrorCode.ControlDenied"
| "code (WorkerLeaseExpired _) = ErrorCode.InvalidRequest"
| "code WorkerInterrupted = ErrorCode.InvalidRequest"
| "code (WatchdogContained _) = ErrorCode.InvalidRequest"
| "code (SecurityInvariantViolation _) = ErrorCode.InvalidRequest"
| "code (WorkerConfigurationUnavailable _ _) = ErrorCode.InvalidRequest"
| "code (RequiredSkillUnavailable _ _ _ _) = ErrorCode.InvalidRequest"
| "code (StorageCeilingExceeded _ _) = ErrorCode.InvalidRequest"
| "code (IntegrationFailure _ _) = ErrorCode.InvalidRequest"
| "code (Io _) = Internal"
| "code (Database _) = Internal"
| "code (Serialization _) = Internal"

fun details :: "TyrionError \<Rightarrow> json option" where
  "details (StaleRevision expected actual) =
     Some (JObject [(''current_revision'', json_of_int actual),
                    (''expected_revision'', json_of_int expected)])"
| "details (StaleControlRevision expected actual) =
     Some (JObject [(''current_control_revision'', json_of_int actual),
                    (''expected_control_revision'', json_of_int expected)])"
| "details (AttachmentRejectedWithDetails _ d) = Some d"
| "details _ = None"

text \<open>The message each variant displays (the \<^verbatim>\<open>#[error(...)]\<close> attributes).\<close>

fun message :: "TyrionError \<Rightarrow> string" where
  "message (InvalidRequest m) = m"
| "message (UnsupportedVersion actual expected) =
     ''protocol version '' @ word_dec actual @ '' is unsupported; expected '' @ word_dec expected"
| "message (NotFound i) = ''commission '' @ i @ '' was not found''"
| "message IdempotencyConflict =
     ''the idempotency key was already used for a different request''"
| "message (StaleRevision expected actual) =
     ''stale commission revision: expected '' @ int_dec expected
       @ '', current revision is '' @ int_dec actual"
| "message (StaleControlRevision expected actual) =
     ''stale attachment control revision: expected '' @ int_dec expected
       @ '', current revision is '' @ int_dec actual"
| "message (AttachmentRejected m) = ''attachment rejected: '' @ m"
| "message (AttachmentRejectedWithDetails m _) = ''attachment rejected: '' @ m"
| "message (ControlDenied m) = ''control denied: '' @ m"
| "message (WorkerLeaseExpired operation) = ''Worker Lease expired '' @ operation"
| "message WorkerInterrupted = ''Worker was interrupted by the Principal''"
| "message (WatchdogContained signal) =
     ''Watchdog contained the Attempt after detecting '' @ signal"
| "message (SecurityInvariantViolation m) = ''Security Invariant failed: '' @ m"
| "message (WorkerConfigurationUnavailable configuration_id m) =
     ''Worker Configuration '' @ configuration_id @ '' is unavailable: '' @ m"
| "message (RequiredSkillUnavailable configuration_id skill_name content_digest m) =
     ''Worker Configuration '' @ configuration_id
       @ '' could not execute Required Skill Version '' @ skill_name @ ''@'' @ content_digest
       @ '': '' @ m"
| "message (StorageCeilingExceeded required_bytes ceiling_bytes) =
     ''max_storage_bytes exceeded: Git artifacts require at least '' @ word_dec required_bytes
       @ '' bytes; start a new Commission with max_storage_bytes of '' @ word_dec required_bytes
       @ '' or more (current ceiling: '' @ word_dec ceiling_bytes @ '').''"
| "message (IntegrationFailure kind m) =
     ''Integration '' @ IntegrationFailureKind_as_str kind @ '': '' @ m"
| "message (Io e) = ''I/O failure: '' @ e"
| "message (Database e) = ''database failure: '' @ e"
| "message (Serialization e) = ''serialization failure: '' @ e"

abbreviation invalid_request :: "string \<Rightarrow> 'a result" where
  "invalid_request m \<equiv> Err (TyrionError.InvalidRequest m)"

abbreviation control_denied :: "string \<Rightarrow> 'a result" where
  "control_denied m \<equiv> Err (TyrionError.ControlDenied m)"

text \<open>Details travel exactly with the two stale-revision errors and the detailed attachment
  rejection, so a client that receives details knows how to retry.\<close>

lemma details_code:
  "details e \<noteq> None \<Longrightarrow>
     code e \<in> {ErrorCode.StaleRevision, ErrorCode.StaleControlRevision, ErrorCode.AttachmentRejected}"
  by (cases e) simp_all

lemma internal_code_iff:
  "code e = Internal \<longleftrightarrow> (\<exists>m. e \<in> {Io m, Database m, Serialization m})"
  by (cases e) simp_all

end
