(* ===== verification/Protocol.thy ===== *)
theory Protocol
  imports Errors
begin

text \<open>
  \<^verbatim>\<open>src/src/protocol.rs\<close>: the data that crosses the daemon's socket. Each struct is a record with
  the fields of the source in their order, under a prefix that names the struct; each enum is a
  datatype with the source's constructors. A sorted map of strings is the list of its entries.
\<close>

definition PROTOCOL_VERSION :: u16 where
  "PROTOCOL_VERSION = 2"

section \<open>Skills and Worker requirements\<close>

record SkillVersion =
  sv_name :: string
  sv_content_digest :: string

definition is_content_identified :: "SkillVersion \<Rightarrow> bool" where
  "is_content_identified s =
     (trim (sv_name s) = sv_name s
      \<and> sv_name s \<noteq> []
      \<and> \<not> contains_char (sv_name s) NUL
      \<and> length (sv_content_digest s) = 71
      \<and> starts_with (sv_content_digest s) ''sha256:''
      \<and> list_all is_lower_hexdigit (drop 7 (sv_content_digest s)))"

datatype SkillSelectionProvenance = Principal | Plan | Worker

fun SkillSelectionProvenance_as_str :: "SkillSelectionProvenance \<Rightarrow> string" where
  "SkillSelectionProvenance_as_str Principal = ''principal''"
| "SkillSelectionProvenance_as_str Plan = ''plan''"
| "SkillSelectionProvenance_as_str Worker = ''worker''"

definition SkillSelectionProvenance_parse :: "string \<Rightarrow> SkillSelectionProvenance option" where
  "SkillSelectionProvenance_parse s =
     (if s = ''principal'' then Some Principal
      else if s = ''plan'' then Some Plan
      else if s = ''worker'' then Some Worker
      else None)"

record SelectedSkillVersion =
  sel_version :: SkillVersion
  sel_provenance :: SkillSelectionProvenance

abbreviation sel_name :: "SelectedSkillVersion \<Rightarrow> string" where
  "sel_name s \<equiv> sv_name (sel_version s)"

abbreviation sel_content_digest :: "SelectedSkillVersion \<Rightarrow> string" where
  "sel_content_digest s \<equiv> sv_content_digest (sel_version s)"

record WorkerRequirements =
  wr_capabilities :: "string list"
  wr_tools :: "string list"
  wr_skills :: "SkillVersion list"
  wr_selected_skills :: "SelectedSkillVersion list"
  wr_min_context_tokens :: u64
  wr_context_strategy :: "string option"
  wr_assignment_constraints :: "string list"
  wr_require_configurations :: "string list"
  wr_exclude_configurations :: "string list"

definition default_worker_requirements :: WorkerRequirements where
  "default_worker_requirements =
     \<lparr>wr_capabilities = [], wr_tools = [], wr_skills = [], wr_selected_skills = [],
      wr_min_context_tokens = 0, wr_context_strategy = None, wr_assignment_constraints = [],
      wr_require_configurations = [], wr_exclude_configurations = []\<rparr>"

section \<open>Plans\<close>

datatype AssignmentPurpose = CriticalPath | UncertaintyReduction | IndependentVerification

fun AssignmentPurpose_as_str :: "AssignmentPurpose \<Rightarrow> string" where
  "AssignmentPurpose_as_str CriticalPath = ''critical_path''"
| "AssignmentPurpose_as_str UncertaintyReduction = ''uncertainty_reduction''"
| "AssignmentPurpose_as_str IndependentVerification = ''independent_verification''"

record AssignmentResources =
  ar_concurrency_slots :: u32
  ar_max_storage_bytes :: u64
  ar_max_model_spend_cents :: u64
  ar_max_paid_service_spend_cents :: u64

record CompetitionPlan =
  cp_group :: string
  cp_uncertainty :: string
  cp_comparison_rule :: string

record PlannedAssignment =
  pa_id :: string
  pa_goal :: string
  pa_dependencies :: "string list"
  pa_criterion_ids :: "string list"
  pa_purpose :: AssignmentPurpose
  pa_read_scopes :: "string list"
  pa_write_scopes :: "string list"
  pa_resources :: AssignmentResources
  pa_worker_requirements :: WorkerRequirements
  pa_competition :: "CompetitionPlan option"

record CommissionPlan =
  plan_assignments :: "PlannedAssignment list"

datatype PlanningMode = PlanningWorker

section \<open>Criteria and Evidence\<close>

datatype VerifierType = Deterministic | Model | Principal

fun VerifierType_as_str :: "VerifierType \<Rightarrow> string" where
  "VerifierType_as_str VerifierType.Deterministic = ''deterministic''"
| "VerifierType_as_str VerifierType.Model = ''model''"
| "VerifierType_as_str VerifierType.Principal = ''principal''"

datatype VerificationDepth = Standard | Independent

fun VerificationDepth_as_str :: "VerificationDepth \<Rightarrow> string" where
  "VerificationDepth_as_str Standard = ''standard''"
| "VerificationDepth_as_str Independent = ''independent''"

fun required_passes :: "VerificationDepth \<Rightarrow> nat" where
  "required_passes Standard = 1"
| "required_passes Independent = 2"

datatype Verifier = ExactMatch string | Command "string list" | Prompt string

definition default_verification_environment :: string where
  "default_verification_environment = ''tyrion-controlled-v1''"

record AcceptanceCriterion =
  ac_id :: string
  ac_description :: string
  ac_required_evidence :: string
  ac_verifier_type :: VerifierType
  ac_verification_depth :: VerificationDepth
  ac_verifier_configuration :: string
  ac_verification_environment :: string
  ac_verifier :: Verifier

datatype VerificationVerdict = Passed | Failed | Uncertain

fun VerificationVerdict_as_str :: "VerificationVerdict \<Rightarrow> string" where
  "VerificationVerdict_as_str Passed = ''passed''"
| "VerificationVerdict_as_str Failed = ''failed''"
| "VerificationVerdict_as_str Uncertain = ''uncertain''"

datatype VerificationDefect = Result | Verifier | Environment | Criterion

fun VerificationDefect_as_str :: "VerificationDefect \<Rightarrow> string" where
  "VerificationDefect_as_str Result = ''result''"
| "VerificationDefect_as_str Verifier = ''verifier''"
| "VerificationDefect_as_str Environment = ''environment''"
| "VerificationDefect_as_str Criterion = ''criterion''"

record VerificationEvidenceSubmission =
  ves_criterion_id :: string
  ves_result_id :: string
  ves_evidence_type :: string
  ves_verdict :: VerificationVerdict
  ves_verifier_configuration :: string
  ves_procedure :: Verifier
  ves_environment :: string
  ves_inspectable_output :: string
  ves_material_contradiction :: bool
  ves_defect :: "VerificationDefect option"

record VerificationAmendment =
  va_criteria :: "AcceptanceCriterion list"

section \<open>Authority, ceilings and proposals\<close>

datatype ExecutionSpec = Deterministic | CodexGit string string

record AuthorityEnvelope =
  auth_repositories :: "string list"
  auth_paths :: "string list"
  auth_actions :: "string list"
  auth_destinations :: "string list"
  auth_effects :: "string list"

record ResourceCeilings =
  rc_max_attempts :: u32
  rc_max_elapsed_seconds :: u64
  rc_max_worker_concurrency :: u32
  rc_max_storage_bytes :: u64
  rc_max_model_spend_cents :: u64
  rc_max_paid_service_spend_cents :: u64

record CommissionAmendment =
  am_authority :: AuthorityEnvelope
  am_resource_ceilings :: ResourceCeilings
  am_reason :: string

record CommissionProposal =
  prop_project_id :: "string option"
  prop_goal :: string
  prop_commission_constraints :: "string list"
  prop_execution :: ExecutionSpec
  prop_worker_requirements :: WorkerRequirements
  prop_plan :: "CommissionPlan option"
  prop_planning :: "PlanningMode option"
  prop_criteria :: "AcceptanceCriterion list"
  prop_authority :: AuthorityEnvelope
  prop_resource_ceilings :: ResourceCeilings
  prop_known_uncertainties :: "string list"

section \<open>Learning\<close>

record ReusablePreference =
  rp_statement :: string

datatype WorkerControlPlanningProvenance = AcceptedKnownUncertainty string

datatype LearningObservationKind =
    PrincipalEdit | ExplainedRejection | UneditedAcceptance | Contradiction

fun LearningObservationKind_as_str :: "LearningObservationKind \<Rightarrow> string" where
  "LearningObservationKind_as_str PrincipalEdit = ''principal_edit''"
| "LearningObservationKind_as_str ExplainedRejection = ''explained_rejection''"
| "LearningObservationKind_as_str UneditedAcceptance = ''unedited_acceptance''"
| "LearningObservationKind_as_str Contradiction = ''contradiction''"

fun strength :: "LearningObservationKind \<Rightarrow> string" where
  "strength PrincipalEdit = ''strong''"
| "strength ExplainedRejection = ''strong''"
| "strength UneditedAcceptance = ''weak''"
| "strength Contradiction = ''contradiction''"

definition LearningObservationKind_from_str :: "string \<Rightarrow> (string, LearningObservationKind) outcome" where
  "LearningObservationKind_from_str s =
     (if s = ''principal-edit'' \<or> s = ''principal_edit'' then Ok PrincipalEdit
      else if s = ''explained-rejection'' \<or> s = ''explained_rejection'' then Ok ExplainedRejection
      else if s = ''unedited-acceptance'' \<or> s = ''unedited_acceptance'' then Ok UneditedAcceptance
      else if s = ''contradiction'' then Ok Contradiction
      else Err ''outcome must be principal-edit, explained-rejection, unedited-acceptance, or contradiction'')"

section \<open>Operations and credentials\<close>

datatype CredentialUseMode = Brokered | OneShotExposure

record CredentialUse =
  cu_grant_id :: string
  cu_mode :: CredentialUseMode

record OperationLimits =
  ol_max_output_bytes :: u64
  ol_max_duration_seconds :: u64
  ol_max_paid_service_spend_cents :: u64

record OperationRequest =
  op_assignment_id :: string
  op_attempt_id :: string
  op_worker_lease_id :: string
  op_mandate_revision :: int
  op_plan_revision :: int
  op_operation :: string
  op_repository :: "string option"
  op_target :: string
  op_parameters :: "(string \<times> string) list"
  op_destination :: "string option"
  op_effect :: "string option"
  op_credential :: "CredentialUse option"
  op_consequences :: "string list"
  op_limits :: OperationLimits

datatype CredentialExposure = BrokeredOnly | OneShot

fun CredentialExposure_as_str :: "CredentialExposure \<Rightarrow> string" where
  "CredentialExposure_as_str BrokeredOnly = ''brokered_only''"
| "CredentialExposure_as_str OneShot = ''one_shot''"

datatype CredentialRevocation = DeleteFromKeychain

fun CredentialRevocation_as_str :: "CredentialRevocation \<Rightarrow> string" where
  "CredentialRevocation_as_str DeleteFromKeychain = ''delete_from_keychain''"

record CredentialGrantRequest =
  cg_assignment_id :: string
  cg_attempt_id :: string
  cg_worker_lease_id :: string
  cg_mandate_revision :: int
  cg_plan_revision :: int
  cg_credential_reference :: string
  cg_capability :: string
  cg_destination :: string
  cg_exposure :: CredentialExposure
  cg_credential_expires_at :: int
  cg_revocation :: CredentialRevocation

datatype OperationReconciliationOutcome = Confirmed | NotApplied

definition OperationReconciliationOutcome_from_str ::
  "string \<Rightarrow> (string, OperationReconciliationOutcome) outcome" where
  "OperationReconciliationOutcome_from_str s =
     (if s = ''confirmed'' then Ok Confirmed
      else if s = ''not-applied'' \<or> s = ''not_applied'' then Ok NotApplied
      else Err ''outcome must be confirmed or not-applied'')"

section \<open>Requests and responses\<close>

record AdapterIdentity =
  ai_harness :: string
  ai_adapter_identity :: string
  ai_adapter_version :: string

record AttachmentHandshake =
  ah_adapter :: AdapterIdentity
  ah_adapter_protocol_version :: u16
  ah_native_session_id :: string
  ah_capabilities :: "string list"

record CommissionReplayCursor =
  crc_commission_id :: string
  crc_last_event_sequence :: int

datatype Command =
    CreateProposal CommissionProposal
  | InspectCommission string
  | ExportCommissionRecord string
  | AcceptCommission string
  | PauseCommission string
  | ResumeCommission string
  | CancelCommission string
  | ProposeOperation string OperationRequest
  | GrantCredential string CredentialGrantRequest
  | InspectApprovalGate string
  | ApproveOperation string string string
  | ExecuteOperation string string OperationRequest
  | ReconcileOperation string string OperationReconciliationOutcome string
  | ProposeCommissionAmendment string CommissionAmendment
  | InspectCommissionAmendment string
  | AcceptCommissionAmendment string string string
  | RecordVerificationEvidence string VerificationEvidenceSubmission
  | AmendVerification string VerificationAmendment
  | IssueAttachmentToken AdapterIdentity u64
  | ConnectAttachment string AttachmentHandshake "CommissionReplayCursor option"
  | ResumeAttachment AttachmentHandshake CommissionReplayCursor
  | UpdateAttachmentCapabilities string "string list"
  | TakeControl string
  | ReplayEvents string int
  | SteerWorker string string string "WorkerControlPlanningProvenance option"
  | InterruptWorker string string string "WorkerControlPlanningProvenance option"
  | RetryWorker string string
  | CreateProfileClaim string ReusablePreference
  | ReviseProfileClaim string string int "string option" ReusablePreference
  | ObserveProfilePreference string ReusablePreference LearningObservationKind "string option"
  | ConfirmProfileClaim string string int
  | SuppressProfileClaim string string int
  | ForgetProfileClaim string string int "string option"
  | CreateLearningBoundary string ReusablePreference
  | ExportMemory "string option"
  | ImportMemory string json
  | PinMemoryMaterial string string
  | InspectProfileClaim string
  | InspectProfile "string option"

definition is_mutating :: "Command \<Rightarrow> bool" where
  "is_mutating c =
     (\<not> (case c of
            InspectCommission _ \<Rightarrow> True
          | ExportCommissionRecord _ \<Rightarrow> True
          | InspectApprovalGate _ \<Rightarrow> True
          | InspectCommissionAmendment _ \<Rightarrow> True
          | ResumeAttachment _ _ \<Rightarrow> True
          | ReplayEvents _ _ \<Rightarrow> True
          | InspectProfileClaim _ \<Rightarrow> True
          | InspectProfile _ \<Rightarrow> True
          | ExportMemory _ \<Rightarrow> True
          | _ \<Rightarrow> False))"

record Request =
  req_protocol_version :: u16
  req_attachment_token :: "string option"
  req_principal_token :: "string option"
  req_idempotency_key :: "string option"
  req_expected_revision :: "int option"
  req_expected_control_revision :: "int option"
  req_command :: Command

record ResponseError =
  re_code :: ErrorCode
  re_message :: string
  re_details :: "json option"

record Response =
  resp_protocol_version :: u16
  resp_ok :: bool
  resp_data :: "json option"
  resp_error :: "ResponseError option"

definition response_success :: "json \<Rightarrow> Response" where
  "response_success d =
     \<lparr>resp_protocol_version = PROTOCOL_VERSION, resp_ok = True, resp_data = Some d,
      resp_error = None\<rparr>"

definition response_failure :: "TyrionError \<Rightarrow> Response" where
  "response_failure e =
     \<lparr>resp_protocol_version = PROTOCOL_VERSION, resp_ok = False, resp_data = None,
      resp_error = Some \<lparr>re_code = code e, re_message = message e, re_details = details e\<rparr>\<rparr>"

section \<open>Facts about the data\<close>

lemma provenance_parse_as_str: "SkillSelectionProvenance_parse (SkillSelectionProvenance_as_str p) = Some p"
  by (cases p) (simp_all add: SkillSelectionProvenance_parse_def)

lemma provenance_parse_Some:
  "SkillSelectionProvenance_parse s = Some p \<longleftrightarrow> s = SkillSelectionProvenance_as_str p"
  by (cases p) (auto simp: SkillSelectionProvenance_parse_def split: if_splits)

lemma observation_from_as_str:
  "LearningObservationKind_from_str (LearningObservationKind_as_str k) = Ok k"
  by (cases k) (simp_all add: LearningObservationKind_from_str_def)

lemma content_identified_digest:
  assumes "is_content_identified s"
  shows "\<exists>h. sv_content_digest s = ''sha256:'' @ h \<and> length h = 64 \<and> list_all is_lower_hexdigit h"
proof -
  from assms obtain h where h: "sv_content_digest s = ''sha256:'' @ h"
    by (auto simp: is_content_identified_def starts_with_iff prefix_def)
  with assms show ?thesis
    by (auto simp: is_content_identified_def)
qed

text \<open>A response carries data exactly when it is a success, an error exactly when it is not.\<close>

lemma response_shape:
  "resp_ok (response_success d)" "resp_data (response_success d) = Some d"
  "resp_error (response_success d) = None"
  "\<not> resp_ok (response_failure e)" "resp_data (response_failure e) = None"
  by (simp_all add: response_success_def response_failure_def)

end
