(* ===== verification/Acyclic_Plan.thy ===== *)
theory Acyclic_Plan
  imports Protocol
begin

text \<open>
  \<^verbatim>\<open>ensure_acyclic_plan\<close> of \<^verbatim>\<open>src/src/store.rs\<close>: a depth-first search over the declared
  dependencies. The hash map of Assignments is the list of its entries; the order in which a hash map
  yields its keys is not specified, so it is the argument \<open>order\<close>, of which only
  \<open>iteration_order\<close> is assumed. The set \<^verbatim>\<open>visiting\<close> is restored by the code before each return
  (the insertion is undone by \<^verbatim>\<open>remove\<close>), so it is passed down and not returned; \<^verbatim>\<open>visited\<close> only
  grows and is threaded through. Indexing the map with an unknown id panics.

  Results: the search ends on every plan, it panics on none whose dependencies name planned
  Assignments, and it accepts exactly the plans whose dependency relation is acyclic.
\<close>

definition iteration_order :: "('a list \<Rightarrow> 'a list) \<Rightarrow> bool" where
  "iteration_order order \<longleftrightarrow> (\<forall>ks. distinct ks \<longrightarrow> distinct (order ks) \<and> set (order ks) = set ks)"

lemma iteration_orderD: "iteration_order order \<Longrightarrow> distinct ks \<Longrightarrow> set (order ks) = set ks"
  by (simp add: iteration_order_def)

lemma iteration_order_id: "iteration_order (\<lambda>ks. ks)"
  by (simp add: iteration_order_def)

lemma iteration_order_rev: "iteration_order rev"
  by (simp add: iteration_order_def)

type_synonym assignment_map = "(string \<times> PlannedAssignment) list"

text \<open>Every descent adds an Assignment id of the plan to the path, and a path repeats none.\<close>

definition unexplored :: "assignment_map \<Rightarrow> string list \<Rightarrow> nat" where
  "unexplored m visiting = card (set (map fst m) - set visiting)"

lemma unexplored_decreases:
  assumes "map_of m i = Some a" and "i \<notin> set visiting"
  shows "unexplored m (i # visiting) < unexplored m visiting"
proof -
  from assms(1) have "i \<in> set (map fst m)" by (auto dest: map_of_SomeD intro: rev_image_eqI)
  with assms(2) show ?thesis
    unfolding unexplored_def by (intro psubset_card_mono) auto
qed

function (sequential) visit ::
    "assignment_map \<Rightarrow> string \<Rightarrow> string list \<Rightarrow> string list \<Rightarrow> (TyrionError, bool \<times> string list) outcome"
  and visit_all ::
    "assignment_map \<Rightarrow> string list \<Rightarrow> string list \<Rightarrow> string list \<Rightarrow> (TyrionError, bool \<times> string list) outcome"
where
  "visit m i visiting visited =
     (if i \<in> set visited then Ok (True, visited)
      else if i \<in> set visiting then Ok (False, visited)
      else (case map_of m i of
              None \<Rightarrow> Panicked ''no entry found for key''
            | Some a \<Rightarrow>
                and_then (visit_all m (pa_dependencies a) (i # visiting) visited)
                  (\<lambda>(acyclic, visited'). Ok (acyclic, if acyclic then i # visited' else visited'))))"
| "visit_all m [] visiting visited = Ok (True, visited)"
| "visit_all m (d # ds) visiting visited =
     and_then (visit m d visiting visited)
       (\<lambda>(acyclic, visited'). if acyclic then visit_all m ds visiting visited' else Ok (False, visited'))"
  by pat_completeness auto

termination
  by (relation "measures
        [\<lambda>x. case x of Inl (m, i, visiting, visited) \<Rightarrow> unexplored m visiting
                     | Inr (m, ds, visiting, visited) \<Rightarrow> unexplored m visiting,
         \<lambda>x. case x of Inl _ \<Rightarrow> 0 | Inr (m, ds, visiting, visited) \<Rightarrow> Suc (length ds)]")
    (auto simp: unexplored_decreases)

declare visit.simps [simp del]

definition assignment_entries :: "CommissionPlan \<Rightarrow> assignment_map" where
  "assignment_entries plan = rev (map (\<lambda>a. (pa_id a, a)) (plan_assignments plan))"

definition ensure_acyclic_plan :: "(string list \<Rightarrow> string list) \<Rightarrow> CommissionPlan \<Rightarrow> unit result" where
  "ensure_acyclic_plan order plan =
     (let m = assignment_entries plan
      in and_then (visit_all m (order (remdups (map fst m))) [] [])
           (\<lambda>(acyclic, _). if acyclic then Ok ()
              else invalid_request ''Commission Plan dependencies must be acyclic''))"

section \<open>The dependency relation\<close>

definition depends :: "assignment_map \<Rightarrow> (string \<times> string) set" where
  "depends m = {(i, d). \<exists>a. map_of m i = Some a \<and> d \<in> set (pa_dependencies a)}"

definition closed_map :: "assignment_map \<Rightarrow> bool" where
  "closed_map m \<longleftrightarrow> (\<forall>(i, d) \<in> depends m. map_of m d \<noteq> None)"

text \<open>The ids from which every chain of dependencies ends.\<close>

abbreviation grounded :: "assignment_map \<Rightarrow> string set" where
  "grounded m \<equiv> Wellfounded.acc ((depends m)\<inverse>)"

lemma groundedI:
  "map_of m i = Some a \<Longrightarrow> set (pa_dependencies a) \<subseteq> grounded m \<Longrightarrow> i \<in> grounded m"
  by (rule accI) (auto simp: depends_def)

lemma visit_sound:
  "visit m i visiting visited = Inr (b, v') \<Longrightarrow> set visited \<subseteq> grounded m \<Longrightarrow>
     set visited \<subseteq> set v' \<and> set v' \<subseteq> grounded m \<and> (b \<longrightarrow> i \<in> set v')"
  "visit_all m ds visiting visited = Inr (b, v') \<Longrightarrow> set visited \<subseteq> grounded m \<Longrightarrow>
     set visited \<subseteq> set v' \<and> set v' \<subseteq> grounded m \<and> (b \<longrightarrow> set ds \<subseteq> set v')"
proof (induction m i visiting visited and m ds visiting visited
    arbitrary: b v' and b v' rule: visit_visit_all.induct)
  case (1 m i visiting visited)
  show ?case
  proof (cases "i \<in> set visited \<or> i \<in> set visiting")
    case True
    with "1.prems" show ?thesis by (auto simp: visit.simps [of m i] split: if_splits)
  next
    case False
    with "1.prems"(1) obtain a v where a: "map_of m i = Some a"
      and v: "visit_all m (pa_dependencies a) (i # visiting) visited = Inr (b, v)"
      and v': "v' = (if b then i # v else v)"
      by (auto simp: visit.simps [of m i] outcome_simps split: option.splits)
    from "1.IH" [OF _ _ a v "1.prems"(2)] False
    have "set visited \<subseteq> set v" "set v \<subseteq> grounded m" "b \<longrightarrow> set (pa_dependencies a) \<subseteq> set v"
      by auto
    moreover from this have "i \<in> grounded m" if b
      using that by (intro groundedI [OF a]) simp
    ultimately show ?thesis using v' by auto
  qed
next
  case (2 m visiting visited)
  then show ?case by auto
next
  case (3 m d ds visiting visited)
  from "3.prems"(1) obtain b1 v1 where one: "visit m d visiting visited = Inr (b1, v1)"
    and rest: "if b1 then visit_all m ds visiting v1 = Inr (b, v') else \<not> b \<and> v' = v1"
    by (auto simp: outcome_simps split: if_splits)
  from "3.IH"(1) [OF one "3.prems"(2)]
  have *: "set visited \<subseteq> set v1" "set v1 \<subseteq> grounded m" "b1 \<longrightarrow> d \<in> set v1" by auto
  show ?case
  proof (cases b1)
    case True
    with "3.IH"(2) [OF one refl] rest * show ?thesis by fastforce
  next
    case False
    with rest * show ?thesis by auto
  qed
qed

lemma visit_complete:
  "visit m i visiting visited = Inr (False, v') \<Longrightarrow> \<forall>x \<in> set visiting. (x, i) \<in> (depends m)\<^sup>+ \<Longrightarrow>
     \<exists>x. (x, x) \<in> (depends m)\<^sup>+"
  "visit_all m ds visiting visited = Inr (False, v') \<Longrightarrow>
     \<forall>x \<in> set visiting. \<forall>d \<in> set ds. (x, d) \<in> (depends m)\<^sup>+ \<Longrightarrow>
     \<exists>x. (x, x) \<in> (depends m)\<^sup>+"
proof (induction m i visiting visited and m ds visiting visited
    arbitrary: v' and v' rule: visit_visit_all.induct)
  case (1 m i visiting visited)
  show ?case
  proof (cases "i \<in> set visiting")
    case True
    with "1.prems"(2) show ?thesis by blast
  next
    case False
    with "1.prems"(1) obtain a v where "i \<notin> set visited" and a: "map_of m i = Some a"
      and v: "visit_all m (pa_dependencies a) (i # visiting) visited = Inr (False, v)"
      by (auto simp: visit.simps [of m i] outcome_simps split: option.splits if_splits)
    have step: "(i, d) \<in> depends m" if "d \<in> set (pa_dependencies a)" for d
      using a that by (auto simp: depends_def)
    with "1.prems"(2) have "\<forall>x \<in> set (i # visiting). \<forall>d \<in> set (pa_dependencies a). (x, d) \<in> (depends m)\<^sup>+"
      by (auto intro: trancl_into_trancl)
    with "1.IH" [OF \<open>i \<notin> set visited\<close> False a v] show ?thesis by blast
  qed
next
  case (2 m visiting visited)
  then show ?case by simp
next
  case (3 m d ds visiting visited)
  from "3.prems"(1) obtain b1 v1 where one: "visit m d visiting visited = Inr (b1, v1)"
    and rest: "b1 \<Longrightarrow> visit_all m ds visiting v1 = Inr (False, v')"
    by (auto simp: outcome_simps split: if_splits)
  show ?case
  proof (cases b1)
    case True
    with "3.IH"(2) [of "(b1, v1)" b1 v1 v'] rest "3.prems"(2) one show ?thesis by auto
  next
    case False
    with one "3.IH"(1) "3.prems"(2) show ?thesis by auto
  qed
qed

lemma visit_no_failure:
  "closed_map m \<Longrightarrow> map_of m i \<noteq> None \<Longrightarrow> \<exists>r. visit m i visiting visited = Inr r"
  "closed_map m \<Longrightarrow> \<forall>d \<in> set ds. map_of m d \<noteq> None \<Longrightarrow> \<exists>r. visit_all m ds visiting visited = Inr r"
proof (induction m i visiting visited and m ds visiting visited rule: visit_visit_all.induct)
  case (1 m i visiting visited)
  show ?case
  proof (cases "i \<in> set visited \<or> i \<in> set visiting")
    case True
    then show ?thesis by (auto simp: visit.simps [of m i])
  next
    case False
    from "1.prems"(2) obtain a where a: "map_of m i = Some a" by blast
    with "1.prems"(1) have "\<forall>d \<in> set (pa_dependencies a). map_of m d \<noteq> None"
      by (fastforce simp: closed_map_def depends_def)
    with "1.IH" [OF _ _ a "1.prems"(1)] False a show ?thesis
      by (auto simp: visit.simps [of m i])
  qed
next
  case (2 m visiting visited)
  show ?case unfolding visit_all.simps by blast
next
  case (3 m d ds visiting visited)
  then obtain b1 v1 where one: "visit m d visiting visited = Inr (b1, v1)" by fastforce
  show ?case
  proof (cases b1)
    case True
    with "3.IH"(2) [of "(b1, v1)" b1 v1] "3.prems" one show ?thesis by auto
  next
    case False
    with one have "visit_all m (d # ds) visiting visited = Inr (False, v1)" by simp
    then show ?thesis by blast
  qed
qed

section \<open>The verdict\<close>

lemma closed_map_no_fresh: "map_of m i = None \<Longrightarrow> i \<in> grounded m"
  by (rule accI) (auto simp: depends_def)

lemma grounded_all_acyclic:
  assumes "\<And>i. i \<in> grounded m"
  shows "acyclic (depends m)"
proof -
  from assms have "wf ((depends m)\<inverse>)" by (simp add: wf_iff_acc)
  then show ?thesis by (metis acyclic_converse wf_acyclic)
qed

theorem ensure_acyclic_plan_iff:
  assumes order: "iteration_order order" and closed: "closed_map (assignment_entries plan)"
  shows "ensure_acyclic_plan order plan = Inr () \<longleftrightarrow> acyclic (depends (assignment_entries plan))"
    and "\<not> panics (ensure_acyclic_plan order plan)"
proof -
  let ?m = "assignment_entries plan"
  let ?keys = "order (remdups (map fst ?m))"
  have keys: "set ?keys = set (map fst ?m)"
    using iteration_orderD [OF order distinct_remdups] by simp
  then have "\<forall>k \<in> set ?keys. map_of ?m k \<noteq> None"
    by (auto simp: map_of_eq_None_iff)
  with visit_no_failure(2) [OF closed] obtain b v
    where run: "visit_all ?m ?keys [] [] = Inr (b, v)" by fastforce
  then have verdict: "ensure_acyclic_plan order plan =
      (if b then Ok () else invalid_request ''Commission Plan dependencies must be acyclic'')"
    by (simp add: ensure_acyclic_plan_def Let_def)
  then show "\<not> panics (ensure_acyclic_plan order plan)" by simp
  show "ensure_acyclic_plan order plan = Inr () \<longleftrightarrow> acyclic (depends ?m)"
  proof (cases b)
    case True
    with visit_sound(2) [OF run] keys have "set (map fst ?m) \<subseteq> grounded ?m" by auto
    then have "i \<in> grounded ?m" for i
      using closed_map_no_fresh [of ?m i] by (cases "i \<in> set (map fst ?m)") (auto simp: map_of_eq_None_iff)
    then have "acyclic (depends ?m)" by (rule grounded_all_acyclic)
    with True verdict show ?thesis by simp
  next
    case False
    with visit_complete(2) [of ?m ?keys "[]" "[]" v] run have "\<not> acyclic (depends ?m)"
      by (auto simp: acyclic_def)
    with False verdict show ?thesis by simp
  qed
qed

text \<open>Progress: in an acyclic plan, whatever closed part of the work is done, some remaining
  Assignment has only finished dependencies.\<close>

lemma acyclic_has_ready:
  assumes "acyclic (depends m)" and "finite rest" and "rest \<noteq> {}"
  shows "\<exists>i \<in> rest. \<forall>d. (i, d) \<in> depends m \<longrightarrow> d \<notin> rest"
proof -
  let ?r = "(depends m \<inter> rest \<times> rest)\<inverse>"
  have "acyclic (depends m \<inter> rest \<times> rest)"
    by (rule acyclic_subset [OF assms(1)]) blast
  then have "acyclic ?r" by (simp only: acyclic_converse)
  moreover have "finite ?r" using assms(2) by (auto intro: finite_subset [of _ "rest \<times> rest"])
  ultimately have "wf ?r" by (simp add: finite_acyclic_wf)
  then obtain i where "i \<in> rest" "\<And>y. (y, i) \<in> ?r \<Longrightarrow> y \<notin> rest"
    using assms(3) by (rule wfE_min') blast
  then show ?thesis by blast
qed

end
