(* ===== verification/Frontier.thy ===== *)
theory Frontier
  imports Tyrion_Prelude "HOL-Library.Multiset"
begin

text \<open>
  \<^verbatim>\<open>src/src/store/frontier.rs\<close>: which ready Assignments may run together. \<open>select\<close> walks the
  candidates in order and admits one when its declared write scopes overlap no occupied work
  (unless both belong to the same competition), and the Commission's and the host's ceilings still
  hold with it. Contract: the admitted work never exceeds a ceiling, never overlaps, nothing is lost
  or reordered, and a held candidate could not have been added to the final selection either.

  The interface \<open>resource_ledger\<close> states what the admission test promises about the sums it guards;
  it is interpreted once per resource dimension.
\<close>

section \<open>The model\<close>

record Resources =
  concurrency :: u64
  storage :: u64
  cpu_millis :: u64
  memory_mib :: u64

definition default_resources :: Resources where
  "default_resources = \<lparr>concurrency = 0, storage = 0, cpu_millis = 0, memory_mib = 0\<rparr>"

record Competition =
  comp_group :: string
  comp_uncertainty :: string
  comp_rule :: string

record 'a Work =
  work_item :: 'a
  work_write_scopes :: "string list"
  work_competition :: "Competition option"
  work_resources :: Resources

record OccupiedWork =
  occ_write_scopes :: "string list"
  occ_competition :: "Competition option"

datatype HoldReason =
    DeclaredWriteOverlap | CompleteResourceBudgetUnavailable | HostCapacityUnavailable

fun HoldReason_as_str :: "HoldReason \<Rightarrow> string" where
  "HoldReason_as_str DeclaredWriteOverlap = ''declared_write_overlap''"
| "HoldReason_as_str CompleteResourceBudgetUnavailable = ''complete_resource_budget_unavailable''"
| "HoldReason_as_str HostCapacityUnavailable = ''host_capacity_unavailable''"

record 'a Frontier =
  fr_selected :: "'a list"
  fr_held :: "('a \<times> HoldReason) list"

definition resources_fit :: "Resources \<Rightarrow> Resources \<Rightarrow> Resources \<Rightarrow> bool" where
  "resources_fit used requested ceilings =
     (fits_within (concurrency used) (concurrency requested) (concurrency ceilings)
      \<and> fits_within (storage used) (storage requested) (storage ceilings))"

definition host_fits :: "Resources \<Rightarrow> Resources \<Rightarrow> Resources \<Rightarrow> bool" where
  "host_fits used requested ceilings =
     (fits_within (cpu_millis used) (cpu_millis requested) (cpu_millis ceilings)
      \<and> fits_within (memory_mib used) (memory_mib requested) (memory_mib ceilings))"

definition path_is_within_scope :: "string \<Rightarrow> string \<Rightarrow> bool" where
  "path_is_within_scope path scope = (path = scope \<or> starts_with path (scope @ ''/''))"

definition scopes_overlap :: "string list \<Rightarrow> string list \<Rightarrow> bool" where
  "scopes_overlap left right =
     list_ex (\<lambda>left_scope. list_ex (\<lambda>right_scope.
        path_is_within_scope left_scope right_scope
        \<or> path_is_within_scope right_scope left_scope) right) left"

definition competitions_match :: "Competition option \<Rightarrow> Competition option \<Rightarrow> bool" where
  "competitions_match left right = (left \<noteq> None \<and> left = right)"

definition reserve :: "Resources \<Rightarrow> Resources \<Rightarrow> Resources" where
  "reserve used requested =
     \<lparr>concurrency = concurrency used + concurrency requested,
      storage = storage used + storage requested,
      cpu_millis = cpu_millis used + cpu_millis requested,
      memory_mib = memory_mib used + memory_mib requested\<rparr>"

fun select_loop ::
  "'a Work list \<Rightarrow> OccupiedWork list \<Rightarrow> Resources \<Rightarrow> Resources
   \<Rightarrow> 'a list \<Rightarrow> ('a \<times> HoldReason) list \<Rightarrow> 'a Frontier" where
  "select_loop [] occupied used ceilings selected held = \<lparr>fr_selected = selected, fr_held = held\<rparr>"
| "select_loop (candidate # candidates) occupied used ceilings selected held =
     (let conflicts = list_ex (\<lambda>active.
            scopes_overlap (work_write_scopes candidate) (occ_write_scopes active)
            \<and> \<not> competitions_match (work_competition candidate) (occ_competition active)) occupied
      in if conflicts
         then select_loop candidates occupied used ceilings selected
                (held @ [(work_item candidate, DeclaredWriteOverlap)])
         else if \<not> resources_fit used (work_resources candidate) ceilings
         then select_loop candidates occupied used ceilings selected
                (held @ [(work_item candidate, CompleteResourceBudgetUnavailable)])
         else if \<not> host_fits used (work_resources candidate) ceilings
         then select_loop candidates occupied used ceilings selected
                (held @ [(work_item candidate, HostCapacityUnavailable)])
         else select_loop candidates
                (occupied @ [\<lparr>occ_write_scopes = work_write_scopes candidate,
                              occ_competition = work_competition candidate\<rparr>])
                (reserve used (work_resources candidate)) ceilings
                (selected @ [work_item candidate]) held)"

definition select ::
  "'a Work list \<Rightarrow> OccupiedWork list \<Rightarrow> Resources \<Rightarrow> Resources \<Rightarrow> 'a Frontier" where
  "select candidates occupied used ceilings = select_loop candidates occupied used ceilings [] []"

section \<open>Scopes\<close>

text \<open>The textual test is the prefix order on the slash-separated pieces.\<close>

lemma path_is_within_scope_segments:
  "path_is_within_scope p s \<longleftrightarrow> prefix (split_on slash s) (split_on slash p)"
  by (auto simp: path_is_within_scope_def starts_with_iff split_on_prefix_iff)

lemma path_is_within_scope_refl [simp]: "path_is_within_scope p p"
  by (simp add: path_is_within_scope_def)

lemma path_is_within_scope_trans:
  "path_is_within_scope p q \<Longrightarrow> path_is_within_scope q r \<Longrightarrow> path_is_within_scope p r"
  using prefix_order.trans by (auto simp: path_is_within_scope_segments)

lemma path_is_within_scope_antisym:
  "path_is_within_scope p q \<Longrightarrow> path_is_within_scope q p \<Longrightarrow> p = q"
  using prefix_order.antisym by (metis path_is_within_scope_segments split_on_inject)

lemma scopes_overlap_iff:
  "scopes_overlap l r \<longleftrightarrow>
     (\<exists>a \<in> set l. \<exists>b \<in> set r. path_is_within_scope a b \<or> path_is_within_scope b a)"
  by (auto simp: scopes_overlap_def list_ex_iff)

lemma scopes_overlap_sym: "scopes_overlap l r \<longleftrightarrow> scopes_overlap r l"
  by (auto simp: scopes_overlap_iff)

lemma competitions_match_sym: "competitions_match a b \<longleftrightarrow> competitions_match b a"
  by (auto simp: competitions_match_def)

text \<open>Two scopes that both contain a path overlap: disjoint declarations have disjoint contents.\<close>

lemma common_path_overlap:
  assumes "path_is_within_scope p a" and "path_is_within_scope p b"
  shows "scopes_overlap [a] [b]"
proof -
  from assms have "prefix (split_on slash a) (split_on slash p)"
    and "prefix (split_on slash b) (split_on slash p)"
    by (auto simp: path_is_within_scope_segments)
  then have "prefix (split_on slash a) (split_on slash b) \<or> prefix (split_on slash b) (split_on slash a)"
    by (rule prefix_same_cases)
  then show ?thesis by (auto simp: scopes_overlap_iff path_is_within_scope_segments)
qed

section \<open>The ledger interface\<close>

text \<open>A sequence of requests each of which passed the admission test at its turn.\<close>

fun admitted_in_turn ::
  "('r \<Rightarrow> 'r \<Rightarrow> 'r \<Rightarrow> bool) \<Rightarrow> ('r \<Rightarrow> 'r \<Rightarrow> 'r) \<Rightarrow> 'r \<Rightarrow> 'r \<Rightarrow> 'r list \<Rightarrow> bool" where
  "admitted_in_turn fits res c u [] = True"
| "admitted_in_turn fits res c u (q # qs) =
     (fits u q c \<and> admitted_in_turn fits res c (res u q) qs)"

locale resource_ledger =
  fixes fits :: "'r \<Rightarrow> 'r \<Rightarrow> 'r \<Rightarrow> bool"
    and res :: "'r \<Rightarrow> 'r \<Rightarrow> 'r"
    and usage :: "'r \<Rightarrow> nat"
  assumes usage_res: "fits u q c \<Longrightarrow> usage (res u q) = usage u + usage q"
    and usage_within: "fits u q c \<Longrightarrow> usage u + usage q \<le> usage c"
begin

lemma usage_fold:
  "admitted_in_turn fits res c u qs \<Longrightarrow>
     usage (foldl res u qs) = usage u + sum_list (map usage qs)"
  by (induction qs arbitrary: u) (auto simp: usage_res)

lemma fold_within:
  "admitted_in_turn fits res c u qs \<Longrightarrow> qs \<noteq> [] \<Longrightarrow> usage (foldl res u qs) \<le> usage c"
proof (induction qs arbitrary: u)
  case (Cons q qs)
  show ?case
  proof (cases qs)
    case Nil
    with Cons.prems show ?thesis using usage_within usage_res by fastforce
  next
    case (Cons q' qs')
    with Cons.prems Cons.IH show ?thesis by auto
  qed
qed simp

lemma total_within:
  assumes "admitted_in_turn fits res c u qs" and "qs \<noteq> []"
  shows "usage u + sum_list (map usage qs) \<le> usage c"
  using fold_within [OF assms] usage_fold [OF assms(1)] by simp

end

abbreviation admits :: "Resources \<Rightarrow> Resources \<Rightarrow> Resources \<Rightarrow> bool" where
  "admits u q c \<equiv> resources_fit u q c \<and> host_fits u q c"

lemmas fit_defs = resources_fit_def host_fits_def reserve_def

interpretation conc: resource_ledger admits reserve "\<lambda>r. unat (concurrency r)"
  by unfold_locales (auto simp: fit_defs unat_add_fits fits_within_iff)

interpretation stor: resource_ledger admits reserve "\<lambda>r. unat (storage r)"
  by unfold_locales (auto simp: fit_defs unat_add_fits fits_within_iff)

interpretation cpu: resource_ledger admits reserve "\<lambda>r. unat (cpu_millis r)"
  by unfold_locales (auto simp: fit_defs unat_add_fits fits_within_iff)

interpretation mem: resource_ledger admits reserve "\<lambda>r. unat (memory_mib r)"
  by unfold_locales (auto simp: fit_defs unat_add_fits fits_within_iff)

section \<open>The walk, with the admitted work kept\<close>

text \<open>\<open>select\<close> returns only the items. \<open>split_frontier\<close> is the same walk keeping the whole
  candidate, so that properties can speak of the admitted scopes and resources.\<close>

abbreviation occupy :: "'a Work \<Rightarrow> OccupiedWork" where
  "occupy w \<equiv> \<lparr>occ_write_scopes = work_write_scopes w, occ_competition = work_competition w\<rparr>"

definition clashes :: "'a Work \<Rightarrow> OccupiedWork \<Rightarrow> bool" where
  "clashes w o' = (scopes_overlap (work_write_scopes w) (occ_write_scopes o')
                   \<and> \<not> competitions_match (work_competition w) (occ_competition o'))"

fun split_frontier ::
  "'a Work list \<Rightarrow> OccupiedWork list \<Rightarrow> Resources \<Rightarrow> Resources
   \<Rightarrow> 'a Work list \<times> ('a Work \<times> HoldReason) list" where
  "split_frontier [] occ used ceil = ([], [])"
| "split_frontier (w # ws) occ used ceil =
     (if list_ex (clashes w) occ
      then apsnd ((#) (w, DeclaredWriteOverlap)) (split_frontier ws occ used ceil)
      else if \<not> resources_fit used (work_resources w) ceil
      then apsnd ((#) (w, CompleteResourceBudgetUnavailable)) (split_frontier ws occ used ceil)
      else if \<not> host_fits used (work_resources w) ceil
      then apsnd ((#) (w, HostCapacityUnavailable)) (split_frontier ws occ used ceil)
      else apfst ((#) w)
             (split_frontier ws (occ @ [occupy w]) (reserve used (work_resources w)) ceil))"

abbreviation chosen :: "'a Work list \<Rightarrow> OccupiedWork list \<Rightarrow> Resources \<Rightarrow> Resources \<Rightarrow> 'a Work list" where
  "chosen ws occ used ceil \<equiv> fst (split_frontier ws occ used ceil)"

abbreviation deferred ::
  "'a Work list \<Rightarrow> OccupiedWork list \<Rightarrow> Resources \<Rightarrow> Resources \<Rightarrow> ('a Work \<times> HoldReason) list" where
  "deferred ws occ used ceil \<equiv> snd (split_frontier ws occ used ceil)"

lemma select_loop_split:
  "select_loop ws occ used ceil sel held =
     \<lparr>fr_selected = sel @ map work_item (chosen ws occ used ceil),
      fr_held = held @ map (\<lambda>(w, r). (work_item w, r)) (deferred ws occ used ceil)\<rparr>"
proof (induction ws arbitrary: occ used sel held)
  case (Cons w ws)
  show ?case
    by (simp add: Cons.IH clashes_def [abs_def] Let_def)
qed simp

lemma select_split:
  "select ws occ used ceil =
     \<lparr>fr_selected = map work_item (chosen ws occ used ceil),
      fr_held = map (\<lambda>(w, r). (work_item w, r)) (deferred ws occ used ceil)\<rparr>"
  by (simp add: select_def select_loop_split)

lemma split_partition:
  "mset ws = mset (chosen ws occ used ceil) + mset (map fst (deferred ws occ used ceil))"
  by (induction ws arbitrary: occ used) auto

lemma chosen_subseq: "subseq (chosen ws occ used ceil) ws"
  by (induction ws arbitrary: occ used) auto

lemma deferred_subseq: "subseq (map fst (deferred ws occ used ceil)) ws"
  by (induction ws arbitrary: occ used) auto

lemma chosen_admitted:
  "admitted_in_turn admits reserve ceil used (map work_resources (chosen ws occ used ceil))"
  by (induction ws arbitrary: occ used) auto

lemma clashes_occupy_sym: "clashes v (occupy w) \<longleftrightarrow> clashes w (occupy v)"
  unfolding clashes_def using scopes_overlap_sym competitions_match_sym by auto

lemma chosen_clear_of_occupied:
  "w \<in> set (chosen ws occ used ceil) \<Longrightarrow> o' \<in> set occ \<Longrightarrow> \<not> clashes w o'"
proof (induction ws arbitrary: occ used)
  case (Cons v ws)
  then show ?case
    by (fastforce simp: list_ex_iff split: if_splits)
qed simp

lemma chosen_pairwise:
  "sorted_wrt (\<lambda>v w. \<not> clashes v (occupy w)) (chosen ws occ used ceil)"
proof (induction ws arbitrary: occ used)
  case (Cons v ws)
  have "\<not> clashes v (occupy w)"
    if "w \<in> set (chosen ws (occ @ [occupy v]) (reserve used (work_resources v)) ceil)" for w
    using chosen_clear_of_occupied [OF that, of "occupy v"] clashes_occupy_sym [of v w] by simp
  with Cons.IH show ?case by auto
qed simp

section \<open>Held work stays out\<close>

text \<open>Componentwise order on resources.\<close>

definition res_le :: "Resources \<Rightarrow> Resources \<Rightarrow> bool" where
  "res_le a b = (concurrency a \<le> concurrency b \<and> storage a \<le> storage b
                 \<and> cpu_millis a \<le> cpu_millis b \<and> memory_mib a \<le> memory_mib b)"

lemma res_le_refl [simp]: "res_le a a"
  by (simp add: res_le_def)

lemma res_le_trans: "res_le a b \<Longrightarrow> res_le b c \<Longrightarrow> res_le a c"
  by (auto simp: res_le_def)

lemma fits_within_mono: "u \<le> v \<Longrightarrow> fits_within v q c \<Longrightarrow> fits_within u q c"
  by (auto simp: fits_within_iff word_le_nat_alt)

lemma resources_fit_mono: "res_le u v \<Longrightarrow> resources_fit v q c \<Longrightarrow> resources_fit u q c"
  by (auto simp: resources_fit_def res_le_def intro: fits_within_mono)

lemma host_fits_mono: "res_le u v \<Longrightarrow> host_fits v q c \<Longrightarrow> host_fits u q c"
  by (auto simp: host_fits_def res_le_def intro: fits_within_mono)

lemma fits_within_increases: "fits_within u q c \<Longrightarrow> u \<le> u + q"
  by (simp add: word_le_nat_alt unat_add_fits)

lemma reserve_increases: "admits u q c \<Longrightarrow> res_le u (reserve u q)"
  by (auto simp: res_le_def fit_defs intro: fits_within_increases)

lemma fold_reserve_increases:
  "admitted_in_turn admits reserve c u qs \<Longrightarrow> res_le u (foldl reserve u qs)"
  by (induction qs arbitrary: u) (auto intro: res_le_trans reserve_increases)

abbreviation final_use :: "'a Work list \<Rightarrow> OccupiedWork list \<Rightarrow> Resources \<Rightarrow> Resources \<Rightarrow> Resources" where
  "final_use ws occ used ceil \<equiv>
     foldl reserve used (map work_resources (chosen ws occ used ceil))"

text \<open>Why a candidate was held, judged against the final selection.\<close>

fun hold_justified :: "OccupiedWork list \<Rightarrow> Resources \<Rightarrow> Resources \<Rightarrow> 'a Work \<Rightarrow> HoldReason \<Rightarrow> bool" where
  "hold_justified occ used ceil w DeclaredWriteOverlap = list_ex (clashes w) occ"
| "hold_justified occ used ceil w CompleteResourceBudgetUnavailable =
     (\<not> resources_fit used (work_resources w) ceil)"
| "hold_justified occ used ceil w HostCapacityUnavailable =
     (\<not> host_fits used (work_resources w) ceil)"

lemma hold_justified_mono:
  assumes "hold_justified occ used ceil w r" and "set occ \<subseteq> set occ'" and "res_le used used'"
  shows "hold_justified occ' used' ceil w r"
  using assms by (cases r) (auto simp: list_ex_iff dest: resources_fit_mono host_fits_mono)

lemma deferred_justified:
  "(w, r) \<in> set (deferred ws occ used ceil) \<Longrightarrow>
     hold_justified (occ @ map occupy (chosen ws occ used ceil)) (final_use ws occ used ceil) ceil w r"
proof (induction ws arbitrary: occ used)
  case (Cons v ws)
  have grow: "hold_justified occ used ceil v r' \<Longrightarrow>
      hold_justified (occ @ map occupy (chosen ws occ used ceil)) (final_use ws occ used ceil) ceil v r'"
    for r'
    by (erule hold_justified_mono) (auto intro: fold_reserve_increases chosen_admitted)
  consider (overlap) "list_ex (clashes v) occ"
    | (budget) "\<not> list_ex (clashes v) occ" "\<not> resources_fit used (work_resources v) ceil"
    | (host) "\<not> list_ex (clashes v) occ" "resources_fit used (work_resources v) ceil"
        "\<not> host_fits used (work_resources v) ceil"
    | (take) "\<not> list_ex (clashes v) occ" "admits used (work_resources v) ceil"
    by blast
  then show ?case
  proof cases
    case overlap
    with Cons grow [of DeclaredWriteOverlap] show ?thesis
      by auto
  next
    case budget
    with Cons grow [of CompleteResourceBudgetUnavailable] show ?thesis
      by auto
  next
    case host
    with Cons grow [of HostCapacityUnavailable] show ?thesis
      by auto
  next
    case take
    with Cons.prems Cons.IH [of "occ @ [occupy v]" "reserve used (work_resources v)"] show ?thesis
      by simp
  qed
qed simp

end
