(* ===== verification/Plan_Validation.thy ===== *)
theory Plan_Validation
  imports Acyclic_Plan Frontier "HOL-Library.AList"
begin

text \<open>
  The plan validator of \<^verbatim>\<open>src/src/store.rs\<close> (\<^verbatim>\<open>validate_plan_against\<close> and what it calls): the gate
  between a plan, whoever wrote it, and dispatch. Hash sets of strings are lists read as sets; the
  two hash maps keyed by competition group are association lists in order of first insertion, and
  every iteration over a hash map goes through an order of the record \<open>HashOrders\<close>, so that the
  theorems hold for any order.
\<close>

record HashOrders =
  ho_competitions :: "string list \<Rightarrow> string list"
  ho_competition_assignments :: "string list \<Rightarrow> string list"
  ho_assignments :: "string list \<Rightarrow> string list"

definition valid_orders :: "HashOrders \<Rightarrow> bool" where
  "valid_orders ho \<longleftrightarrow> iteration_order (ho_competitions ho)
     \<and> iteration_order (ho_competition_assignments ho) \<and> iteration_order (ho_assignments ho)"

section \<open>Worker requirements\<close>

definition check_named_value :: "string \<Rightarrow> string \<Rightarrow> unit result" where
  "check_named_value name v =
     (if blank v \<or> contains_char v NUL
      then invalid_request (''Worker requirement '' @ name @ '' names must not be empty'')
      else Ok ())"

definition validate_worker_requirements ::
  "WorkerRequirements \<Rightarrow> SkillSelectionProvenance \<Rightarrow> unit result" where
  "validate_worker_requirements requirements expected_selection_provenance =
     (let named_sets =
            [(''capability'', wr_capabilities requirements),
             (''tool'', wr_tools requirements),
             (''Assignment constraint'', wr_assignment_constraints requirements),
             (''required Worker Configuration'', wr_require_configurations requirements),
             (''excluded Worker Configuration'', wr_exclude_configurations requirements)];
          skill_names = map sv_name (wr_skills requirements)
      in
      and_then (try_each (\<lambda>(name, vs).
          check_unique (check_named_value name) id
            (\<lambda>v. TyrionError.InvalidRequest
                    (''Worker requirement '' @ name @ '' '' @ v @ '' is duplicated'')) [] vs) named_sets) (\<lambda>_.
      and_then (check_unique
          (\<lambda>skill. if \<not> is_content_identified skill
             then invalid_request (''Required Skill Version '' @ sv_name skill
                    @ '' requires a lowercase sha256 content digest'')
             else Ok ())
          sv_name
          (\<lambda>skill. TyrionError.InvalidRequest
                     (''Required Skill Version '' @ sv_name skill @ '' is duplicated''))
          [] (wr_skills requirements)) (\<lambda>_.
      \<comment> \<open>a selected name that was seen or is required is refused with one message\<close>
      and_then (check_unique
          (\<lambda>selected. if \<not> is_content_identified (sel_version selected)
             then invalid_request (''Selected Skill Version '' @ sel_name selected
                    @ '' requires a lowercase sha256 content digest'')
             else if sel_provenance selected \<noteq> expected_selection_provenance
             then invalid_request (''Selected Skill Version '' @ sel_name selected @ '' must use ''
                    @ SkillSelectionProvenance_as_str expected_selection_provenance
                    @ '' provenance in this constraint'')
             else Ok ())
          (\<lambda>selected. sel_name selected)
          (\<lambda>selected. TyrionError.InvalidRequest
             (''Skill Version '' @ sel_name selected
              @ '' cannot be selected more than once or also be required''))
          skill_names (wr_selected_skills requirements)) (\<lambda>_.
      if (case wr_context_strategy requirements of None \<Rightarrow> False
          | Some strategy \<Rightarrow> blank strategy \<or> contains_char strategy NUL)
      then invalid_request ''Worker requirement context strategy must not be empty''
      else if list_ex (\<lambda>required. required \<in> set (wr_exclude_configurations requirements))
                (wr_require_configurations requirements)
      then invalid_request ''a Worker Configuration cannot be both required and excluded''
      else Ok ()))))"

fun merge_skills :: "SkillVersion list \<Rightarrow> SkillVersion list \<Rightarrow> SkillVersion list result" where
  "merge_skills skills [] = Ok skills"
| "merge_skills skills (skill # planned) =
     (case List.find (\<lambda>existing. sv_name existing = sv_name skill) skills of
        Some existing \<Rightarrow>
          if existing \<noteq> skill
          then invalid_request (''Required Skill Version '' @ sv_name skill
                 @ '' conflicts between Principal and plan constraints'')
          else merge_skills skills planned
      | None \<Rightarrow> merge_skills (skills @ [skill]) planned)"

fun merge_selected ::
  "SelectedSkillVersion list \<Rightarrow> SelectedSkillVersion list \<Rightarrow> SelectedSkillVersion list result" where
  "merge_selected selected_skills [] = Ok selected_skills"
| "merge_selected selected_skills (selected # planned) =
     (case List.find (\<lambda>existing. sel_name existing = sel_name selected) selected_skills of
        Some existing \<Rightarrow>
          if sel_content_digest existing \<noteq> sel_content_digest selected
          then invalid_request (''Selected Skill Version '' @ sel_name selected
                 @ '' conflicts between Principal and plan constraints'')
          else merge_selected selected_skills planned
      | None \<Rightarrow> merge_selected (selected_skills @ [selected]) planned)"

definition merge_worker_requirements ::
  "WorkerRequirements \<Rightarrow> WorkerRequirements \<Rightarrow> WorkerRequirements result" where
  "merge_worker_requirements principal_req planned =
     and_then (merge_skills (wr_skills principal_req) (wr_skills planned)) (\<lambda>skills.
     and_then (merge_selected (wr_selected_skills principal_req) (wr_selected_skills planned)) (\<lambda>selected_skills.
     and_then (try_each (\<lambda>skill.
         if list_ex (\<lambda>selected. sel_name selected = sv_name skill) selected_skills
         then invalid_request (''Skill Version '' @ sv_name skill
                @ '' cannot be both required and optionally selected'')
         else Ok ()) skills) (\<lambda>_.
     Ok (planned\<lparr>wr_skills := skills, wr_selected_skills := selected_skills\<rparr>))))"

section \<open>Resources and scopes\<close>

abbreviation overflow_error :: TyrionError where
  "overflow_error \<equiv> TyrionError.InvalidRequest ''competition comparison storage budget overflows''"

fun comparison_loop :: "Resources \<Rightarrow> u64 \<Rightarrow> Resources list \<Rightarrow> (Resources \<times> u64) result" where
  "comparison_loop comparison member_storage [] = Ok (comparison, member_storage)"
| "comparison_loop comparison member_storage (member # members) =
     (let comparison' = comparison\<lparr>concurrency := max (concurrency comparison) (concurrency member),
                                   storage := max (storage comparison) (storage member)\<rparr>
      in case checked_add member_storage (storage member) of
           None \<Rightarrow> Err overflow_error
         | Some member_storage' \<Rightarrow> comparison_loop comparison' member_storage' members)"

definition comparison_resources :: "Resources list \<Rightarrow> Resources result" where
  "comparison_resources members =
     and_then (comparison_loop default_resources 0 members) (\<lambda>(comparison, member_storage).
       case checked_add member_storage (storage comparison) of
         None \<Rightarrow> Err overflow_error
       | Some needed \<Rightarrow> Ok (comparison\<lparr>storage := needed\<rparr>))"

definition validate_assignment_resources ::
  "string \<Rightarrow> AssignmentResources \<Rightarrow> ResourceCeilings \<Rightarrow> unit result" where
  "validate_assignment_resources assignment_id resources ceilings =
     (if ar_concurrency_slots resources = 0 \<or> ar_max_storage_bytes resources = 0
      then invalid_request (''planned Assignment '' @ assignment_id
             @ '' requires positive concurrency and storage reservations'')
      else if ar_concurrency_slots resources > rc_max_worker_concurrency ceilings
              \<or> ar_max_storage_bytes resources > rc_max_storage_bytes ceilings
              \<or> ar_max_model_spend_cents resources > rc_max_model_spend_cents ceilings
              \<or> ar_max_paid_service_spend_cents resources > rc_max_paid_service_spend_cents ceilings
      then invalid_request (''planned Assignment '' @ assignment_id
             @ '' requests resources outside the Commission ceilings'')
      else Ok ())"

definition validate_relative_scope :: "string \<Rightarrow> unit result" where
  "validate_relative_scope scope =
     (if blank scope \<or> is_absolute scope
         \<or> list_ex (\<lambda>component. \<not> is_normal component) (path_components scope)
      then invalid_request ''planned artifact scopes must be normalized relative paths''
      else Ok ())"

text \<open>\<^verbatim>\<open>src/src/store.rs\<close> has its own copy of the frontier's scope test.\<close>

definition store_path_is_within_scope :: "string \<Rightarrow> string \<Rightarrow> bool" where
  "store_path_is_within_scope path scope = (path = scope \<or> starts_with path (scope @ ''/''))"

lemma store_path_is_within_scope_eq: "store_path_is_within_scope = path_is_within_scope"
  by (simp add: fun_eq_iff store_path_is_within_scope_def path_is_within_scope_def)

section \<open>The plan against its mandate\<close>

record PlanMandate =
  pm_criterion_ids :: "string list"
  pm_all_deterministic :: bool
  pm_authority :: AuthorityEnvelope
  pm_resource_ceilings :: ResourceCeilings
  pm_worker_requirements :: WorkerRequirements
  pm_attempts_available :: u32

type_synonym competition_entry = "string \<times> string \<times> Resources list"

record PlanScan =
  ps_assignment_ids :: "string list"
  ps_owned_criteria :: "string list"
  ps_competitions :: "(string \<times> competition_entry) list"
  ps_competition_assignments :: "(string \<times> PlannedAssignment list) list"

fun own_criteria :: "string list \<Rightarrow> string \<Rightarrow> string list \<Rightarrow> string list \<Rightarrow> string list result" where
  "own_criteria known assignment_id owned [] = Ok owned"
| "own_criteria known assignment_id owned (criterion_id # ids) =
     (if criterion_id \<notin> set known
      then invalid_request (''planned Assignment '' @ assignment_id @ '' names unknown criterion ''
             @ criterion_id)
      else if criterion_id \<in> set owned
      then invalid_request (''Acceptance Criterion '' @ criterion_id
             @ '' is owned by more than one planned Assignment'')
      else own_criteria known assignment_id (criterion_id # owned) ids)"

definition requested_resources :: "PlannedAssignment \<Rightarrow> Resources" where
  "requested_resources a =
     default_resources\<lparr>concurrency := ucast (ar_concurrency_slots (pa_resources a)),
                       storage := ar_max_storage_bytes (pa_resources a)\<rparr>"

definition entry_or :: "'v \<Rightarrow> ('k \<times> 'v) list \<Rightarrow> 'k \<Rightarrow> 'v" where
  "entry_or d m k = (case map_of m k of None \<Rightarrow> d | Some v \<Rightarrow> v)"

definition scan_competition :: "PlannedAssignment \<Rightarrow> PlanScan \<Rightarrow> PlanScan result" where
  "scan_competition a scan =
     (case pa_competition a of
        None \<Rightarrow> Ok scan
      | Some competition \<Rightarrow>
          let grp = cp_group competition;
              scan1 = scan\<lparr>ps_competition_assignments :=
                        AList.update grp (entry_or [] (ps_competition_assignments scan) grp @ [a])
                          (ps_competition_assignments scan)\<rparr>;
              entry = entry_or (cp_uncertainty competition, cp_comparison_rule competition, [])
                        (ps_competitions scan) grp
          in if blank grp \<or> blank (cp_uncertainty competition) \<or> blank (cp_comparison_rule competition)
             then invalid_request ''competing work requires a group, uncertainty, and comparison rule''
             else if fst entry \<noteq> cp_uncertainty competition
                     \<or> fst (snd entry) \<noteq> cp_comparison_rule competition
             then invalid_request (''competition group '' @ grp
                    @ '' must use one uncertainty and comparison rule'')
             else Ok (scan1\<lparr>ps_competitions :=
                    AList.update grp
                      (fst entry, fst (snd entry), snd (snd entry) @ [requested_resources a])
                      (ps_competitions scan)\<rparr>))"

definition scan_assignment :: "PlanMandate \<Rightarrow> PlannedAssignment \<Rightarrow> PlanScan \<Rightarrow> PlanScan result" where
  "scan_assignment mandate a scan =
     (if blank (pa_id a) \<or> blank (pa_goal a)
      then invalid_request ''planned Assignment id and goal must not be empty''
      else if pa_id a \<in> set (ps_assignment_ids scan)
      then invalid_request (''planned Assignment id '' @ pa_id a @ '' is duplicated'')
      else if pa_criterion_ids a = []
      then invalid_request (''planned Assignment '' @ pa_id a
             @ '' must own at least one Acceptance Criterion'')
      else
      and_then (validate_worker_requirements (pa_worker_requirements a) SkillSelectionProvenance.Plan) (\<lambda>_.
      and_then (merge_worker_requirements (pm_worker_requirements mandate) (pa_worker_requirements a)) (\<lambda>_.
      and_then (own_criteria (pm_criterion_ids mandate) (pa_id a) (ps_owned_criteria scan)
                  (pa_criterion_ids a)) (\<lambda>owned.
      and_then (validate_assignment_resources (pa_id a) (pa_resources a) (pm_resource_ceilings mandate)) (\<lambda>_.
      and_then (try_each validate_relative_scope (pa_read_scopes a @ pa_write_scopes a)) (\<lambda>_.
      and_then (try_each (\<lambda>scope.
          if \<not> list_ex (store_path_is_within_scope scope) (auth_paths (pm_authority mandate))
          then invalid_request (''planned Assignment '' @ pa_id a
                 @ '' declares unauthorized write scope '' @ scope)
          else Ok ()) (pa_write_scopes a)) (\<lambda>_.
      scan_competition a (scan\<lparr>ps_assignment_ids := pa_id a # ps_assignment_ids scan,
                               ps_owned_criteria := owned\<rparr>))))))))"

fun scan_plan :: "PlanMandate \<Rightarrow> PlannedAssignment list \<Rightarrow> PlanScan \<Rightarrow> PlanScan result" where
  "scan_plan mandate [] scan = Ok scan"
| "scan_plan mandate (a # as) scan =
     and_then (scan_assignment mandate a scan) (scan_plan mandate as)"

definition empty_scan :: PlanScan where
  "empty_scan = \<lparr>ps_assignment_ids = [], ps_owned_criteria = [], ps_competitions = [],
                 ps_competition_assignments = []\<rparr>"

fun comparison_requirements ::
  "(string \<times> competition_entry) list \<Rightarrow> string list \<Rightarrow> (string \<times> nat \<times> Resources) list result" where
  "comparison_requirements m [] = Ok []"
| "comparison_requirements m (grp # groups) =
     (let members = snd (snd (entry_or ([], [], []) m grp))
      in and_then (comparison_resources members) (\<lambda>needed.
         and_then (comparison_requirements m groups) (\<lambda>rest.
         Ok ((grp, length members, needed) # rest))))"

definition check_dependencies :: "string list \<Rightarrow> PlannedAssignment \<Rightarrow> unit result" where
  "check_dependencies ids a =
     try_each (\<lambda>dependency.
       if dependency = pa_id a \<or> dependency \<notin> set ids
       then invalid_request (''planned Assignment '' @ pa_id a @ '' has invalid dependency ''
              @ dependency)
       else Ok ()) (pa_dependencies a)"

definition check_competition_frontier :: "(string \<times> PlannedAssignment list) list \<Rightarrow> string \<Rightarrow> unit result" where
  "check_competition_frontier m grp =
     (let members = entry_or [] m grp
      in case members of
           [] \<Rightarrow> Panicked ''index out of bounds''
         | first # _ \<Rightarrow>
             try_each (\<lambda>member.
               if list_ex (\<lambda>dependency. dependency \<in> set (map pa_id members)) (pa_dependencies member)
                  \<or> set (pa_dependencies member) \<noteq> set (pa_dependencies first)
               then invalid_request (''competition group '' @ grp
                      @ '' members must share one dependency frontier and cannot depend on each other'')
               else Ok ()) members)"

abbreviation len_u32 :: "'a list \<Rightarrow> u32" where
  "len_u32 xs \<equiv> of_nat (length xs)"

definition validate_plan_against :: "HashOrders \<Rightarrow> PlanMandate \<Rightarrow> CommissionPlan \<Rightarrow> unit result" where
  "validate_plan_against ho mandate plan =
     (let assignments = plan_assignments plan in
      if len_u32 assignments > pm_attempts_available mandate
      then invalid_request
        (''max_attempts must cover every Assignment in the Commission Plan: ''
         @ word_dec (pm_attempts_available mandate) @ '' Attempts are available, but the plan has ''
         @ nat_dec (length assignments) @ '' Assignments. Set max_attempts to at least ''
         @ nat_dec (length assignments) @ '', or '' @ nat_dec (length assignments * 2)
         @ '' to allow one retry each'')
      else if \<not> pm_all_deterministic mandate
      then invalid_request
        ''multi-Assignment plans currently require deterministic criterion Evidence''
      else
      and_then (scan_plan mandate assignments empty_scan) (\<lambda>scan.
      and_then (comparison_requirements (ps_competitions scan)
                  (ho_competitions ho (map fst (ps_competitions scan)))) (\<lambda>comparisons.
      if (case checked_add (len_u32 assignments) (len_u32 comparisons) of
            None \<Rightarrow> True | Some required \<Rightarrow> required > pm_attempts_available mandate)
      then invalid_request
        ''max_attempts must include one comparison Assignment per competition group''
      else if list_ex (\<lambda>(_, _, resources).
                storage resources > rc_max_storage_bytes (pm_resource_ceilings mandate)) comparisons
      then invalid_request
        ''each competition comparison working set must fit the Commission storage ceiling''
      else if set (ps_owned_criteria scan) \<noteq> set (pm_criterion_ids mandate)
      then invalid_request
        ''every Acceptance Criterion must be owned by exactly one planned Assignment''
      else
      and_then (try_each (check_dependencies (ps_assignment_ids scan)) assignments) (\<lambda>_.
      and_then (try_each (check_competition_frontier (ps_competition_assignments scan))
                  (ho_competition_assignments ho (map fst (ps_competition_assignments scan)))) (\<lambda>_.
      and_then (try_each (\<lambda>(grp, members, _).
          if members < 2
          then invalid_request (''competition group '' @ grp
                 @ '' must contain at least two planned Assignments'')
          else Ok ()) comparisons) (\<lambda>_.
      ensure_acyclic_plan (ho_assignments ho) plan))))))"

end
