(* ===== verification/Plan_Spec.thy ===== *)
theory Plan_Spec
  imports Plan_Validation
begin

text \<open>
  What the plan validator promises. \<open>wf_plan\<close> states, without loops, sets of visited nodes or hash
  maps, when a plan fits a mandate; \<open>validate_plan_against_iff\<close> shows that the validator accepts
  exactly these plans, whatever order its hash maps iterate in.
\<close>

section \<open>Worker requirements and merging\<close>

definition names_ok :: "string list \<Rightarrow> bool" where
  "names_ok vs \<longleftrightarrow> distinct vs \<and> (\<forall>v \<in> set vs. \<not> blank v \<and> NUL \<notin> set v)"

lemma check_named_value_iff:
  "check_named_value name v = Inr () \<longleftrightarrow> \<not> blank v \<and> NUL \<notin> set v"
  by (simp add: check_named_value_def contains_char_def)

definition requirements_ok :: "SkillSelectionProvenance \<Rightarrow> WorkerRequirements \<Rightarrow> bool" where
  "requirements_ok prov r \<longleftrightarrow>
     names_ok (wr_capabilities r) \<and> names_ok (wr_tools r) \<and> names_ok (wr_assignment_constraints r)
     \<and> names_ok (wr_require_configurations r) \<and> names_ok (wr_exclude_configurations r)
     \<and> list_all is_content_identified (wr_skills r)
     \<and> (\<forall>s \<in> set (wr_selected_skills r). is_content_identified (sel_version s) \<and> sel_provenance s = prov)
     \<and> distinct (map sv_name (wr_skills r) @ map (\<lambda>s. sel_name s) (wr_selected_skills r))
     \<and> (\<forall>s. wr_context_strategy r = Some s \<longrightarrow> \<not> blank s \<and> NUL \<notin> set s)
     \<and> set (wr_require_configurations r) \<inter> set (wr_exclude_configurations r) = {}"

lemma validate_worker_requirements_iff:
  "validate_worker_requirements r prov = Inr () \<longleftrightarrow> requirements_ok prov r"
  unfolding validate_worker_requirements_def Let_def requirements_ok_def names_ok_def
  by (simp add: outcome_simps check_named_value_iff list_ex_iff list_all_iff contains_char_def
      disjoint_iff split: option.split) (auto simp: disjoint_iff)

lemma merge_skills_Ok:
  "merge_skills skills planned = Inr merged \<Longrightarrow>
     set merged = set skills \<union> set planned
     \<and> (distinct (map sv_name skills) \<longrightarrow> distinct (map sv_name merged))"
proof (induction skills planned rule: merge_skills.induct)
  case (2 skills skill planned)
  show ?case
  proof (cases "List.find (\<lambda>existing. sv_name existing = sv_name skill) skills")
    case None
    with 2 show ?thesis by (auto simp: find_None_all)
  next
    case (Some existing)
    with 2 find_Some_mem [OF Some] show ?thesis by (auto split: if_splits)
  qed
qed simp

lemma merge_selected_Ok:
  "merge_selected sel planned = Inr merged \<Longrightarrow>
     set sel \<subseteq> set merged \<and> set merged \<subseteq> set sel \<union> set planned
     \<and> sel_version ` set merged = sel_version ` (set sel \<union> set planned)
     \<and> (distinct (map (\<lambda>s. sel_name s) sel) \<longrightarrow> distinct (map (\<lambda>s. sel_name s) merged))"
proof (induction sel planned rule: merge_selected.induct)
  case (2 sel s planned)
  show ?case
  proof (cases "List.find (\<lambda>existing. sel_name existing = sel_name s) sel")
    case None
    with 2 show ?thesis by (auto simp: find_None_all)
  next
    case (Some existing)
    then have ex: "existing \<in> set sel" "sel_name existing = sel_name s"
      using find_Some_mem [OF Some] by auto
    with 2 Some have eq: "sel_content_digest existing = sel_content_digest s"
      and rest: "merge_selected sel planned = Inr merged"
      by (auto split: if_splits)
    with ex have "sel_version s = sel_version existing" by simp
    with ex have "sel_version s \<in> sel_version ` set sel" by blast
    moreover have "sel_version ` (set sel \<union> set (s # planned))
                   = insert (sel_version s) (sel_version ` (set sel \<union> set planned))" by auto
    ultimately show ?thesis
      using "2.IH"(2) [OF Some _ rest] eq by (auto simp: insert_absorb)
  qed
qed simp

lemma merge_worker_requirements_Ok:
  assumes "merge_worker_requirements p q = Inr r"
  shows "set (wr_skills r) = set (wr_skills p) \<union> set (wr_skills q)"
    and "sel_version ` set (wr_selected_skills r)
         = sel_version ` (set (wr_selected_skills p) \<union> set (wr_selected_skills q))"
    and "sv_name ` set (wr_skills r) \<inter> (\<lambda>s. sel_name s) ` set (wr_selected_skills r) = {}"
    and "r = q\<lparr>wr_skills := wr_skills r, wr_selected_skills := wr_selected_skills r\<rparr>"
proof -
  from assms obtain skills sel
    where skills: "merge_skills (wr_skills p) (wr_skills q) = Inr skills"
      and sel: "merge_selected (wr_selected_skills p) (wr_selected_skills q) = Inr sel"
      and disj: "\<forall>skill \<in> set skills. \<not> list_ex (\<lambda>s. sel_name s = sv_name skill) sel"
      and r: "r = q\<lparr>wr_skills := skills, wr_selected_skills := sel\<rparr>"
    by (auto simp: merge_worker_requirements_def outcome_simps split: if_splits)
  show "set (wr_skills r) = set (wr_skills p) \<union> set (wr_skills q)"
    using merge_skills_Ok [OF skills] r by simp
  show "sel_version ` set (wr_selected_skills r)
        = sel_version ` (set (wr_selected_skills p) \<union> set (wr_selected_skills q))"
    using merge_selected_Ok [OF sel] r by simp
  show "sv_name ` set (wr_skills r) \<inter> (\<lambda>s. sel_name s) ` set (wr_selected_skills r) = {}"
    using disj r by (fastforce simp: list_ex_iff)
  show "r = q\<lparr>wr_skills := wr_skills r, wr_selected_skills := wr_selected_skills r\<rparr>"
    using r by simp
qed

section \<open>The comparison working set\<close>

definition storage_of :: "Resources list \<Rightarrow> nat" where
  "storage_of ms = sum_list (map (\<lambda>m. unat (storage m)) ms)"

lemma comparison_loop_Ok_iff:
  "comparison_loop c s ms = Inr (c', s') \<longleftrightarrow>
     unat s' = unat s + storage_of ms
     \<and> c' = c\<lparr>concurrency := fold max (map concurrency ms) (concurrency c),
              storage := fold max (map storage ms) (storage c)\<rparr>"
proof (induction ms arbitrary: c s)
  case Nil
  have "(s = s') = (unat s' = unat s)" by (auto simp: word_unat_eq_iff)
  then show ?case by (auto simp: storage_of_def)
next
  case (Cons m ms)
  show ?case
  proof (cases "checked_add s (storage m)")
    case None
    then have "2 ^ 64 \<le> unat s + unat (storage m)" by (simp add: checked_add_None_iff)
    moreover have "unat s' < 2 ^ 64" using unsigned_less [of s'] by simp
    ultimately have "unat s' \<noteq> unat s + storage_of (m # ms)"
      by (simp add: storage_of_def)
    with None show ?thesis by simp
  next
    case (Some s2)
    then have "unat s2 = unat s + unat (storage m)" by (simp add: checked_add_Some_iff)
    with Some Cons.IH show ?thesis
      by (auto simp: Let_def storage_of_def max.commute)
  qed
qed

definition comparison_storage :: "Resources list \<Rightarrow> nat" where
  "comparison_storage ms = storage_of ms + unat (fold max (map storage ms) 0)"

lemma comparison_resources_Ok_iff:
  "(\<exists>r. comparison_resources ms = Inr r \<and> storage r \<le> ceiling) \<longleftrightarrow>
     comparison_storage ms \<le> unat ceiling"
proof -
  let ?top = "fold max (map storage ms) 0"
  let ?c = "default_resources\<lparr>concurrency := fold max (map concurrency ms) 0, storage := ?top\<rparr>"
  have run: "comparison_resources ms = Inr r \<longleftrightarrow>
        (\<exists>(s :: u64) n. unat s = storage_of ms \<and> unat n = unat s + unat ?top \<and> r = ?c\<lparr>storage := n\<rparr>)" for r
    by (auto simp: comparison_resources_def outcome_simps comparison_loop_Ok_iff default_resources_def
        checked_add_Some_iff case_prod_beta)
  have "(\<exists>r. comparison_resources ms = Inr r \<and> storage r \<le> ceiling) \<longleftrightarrow>
        (\<exists>(s :: u64) n. unat s = storage_of ms \<and> unat n = unat s + unat ?top \<and> n \<le> ceiling)"
    unfolding run by fastforce
  also have "\<dots> \<longleftrightarrow> comparison_storage ms \<le> unat ceiling"
  proof
    assume le: "comparison_storage ms \<le> unat ceiling"
    then have "storage_of ms < 2 ^ 64" "comparison_storage ms < 2 ^ 64"
      using unsigned_less [of ceiling, where ?'a = nat] by (simp_all add: comparison_storage_def)
    then have "unat (of_nat (storage_of ms) :: u64) = storage_of ms"
      and "unat (of_nat (comparison_storage ms) :: u64) = comparison_storage ms"
      by (simp_all add: unat_of_nat)
    with le show "\<exists>(s :: u64) n. unat s = storage_of ms \<and> unat n = unat s + unat ?top \<and> n \<le> ceiling"
      by (intro exI [of _ "of_nat (storage_of ms)"] exI [of _ "of_nat (comparison_storage ms)"])
         (simp add: comparison_storage_def word_le_nat_alt)
  qed (auto simp: comparison_storage_def word_le_nat_alt)
  finally show ?thesis .
qed

section \<open>Scanning the Assignments\<close>

text \<open>The conditions on one Assignment that do not depend on the others.\<close>

definition assignment_ok :: "PlanMandate \<Rightarrow> PlannedAssignment \<Rightarrow> bool" where
  "assignment_ok m a \<longleftrightarrow>
     \<not> blank (pa_id a) \<and> \<not> blank (pa_goal a) \<and> pa_criterion_ids a \<noteq> []
     \<and> requirements_ok SkillSelectionProvenance.Plan (pa_worker_requirements a)
     \<and> (\<exists>r. merge_worker_requirements (pm_worker_requirements m) (pa_worker_requirements a) = Inr r)
     \<and> set (pa_criterion_ids a) \<subseteq> set (pm_criterion_ids m)
     \<and> validate_assignment_resources (pa_id a) (pa_resources a) (pm_resource_ceilings m) = Inr ()
     \<and> (\<forall>s \<in> set (pa_read_scopes a) \<union> set (pa_write_scopes a). validate_relative_scope s = Inr ())
     \<and> (\<forall>s \<in> set (pa_write_scopes a). \<exists>p \<in> set (auth_paths (pm_authority m)). path_is_within_scope s p)
     \<and> (\<forall>c. pa_competition a = Some c \<longrightarrow>
           \<not> blank (cp_group c) \<and> \<not> blank (cp_uncertainty c) \<and> \<not> blank (cp_comparison_rule c))"

definition in_group :: "string \<Rightarrow> PlannedAssignment \<Rightarrow> bool" where
  "in_group g a = (case pa_competition a of None \<Rightarrow> False | Some c \<Rightarrow> cp_group c = g)"

definition members_of :: "string \<Rightarrow> PlannedAssignment list \<Rightarrow> PlannedAssignment list" where
  "members_of g as = filter (in_group g) as"

definition groups_of :: "PlannedAssignment list \<Rightarrow> string set" where
  "groups_of as = {g. members_of g as \<noteq> []}"

definition terms_of :: "PlannedAssignment \<Rightarrow> string \<times> string" where
  "terms_of a = (case pa_competition a of None \<Rightarrow> ([], [])
                 | Some c \<Rightarrow> (cp_uncertainty c, cp_comparison_rule c))"

text \<open>The members of a group agree on its uncertainty and comparison rule.\<close>

definition one_rule :: "PlannedAssignment list \<Rightarrow> bool" where
  "one_rule as \<longleftrightarrow> (\<forall>g. \<forall>a \<in> set (members_of g as). \<forall>b \<in> set (members_of g as). terms_of a = terms_of b)"

definition scan_ok :: "PlanMandate \<Rightarrow> PlannedAssignment list \<Rightarrow> bool" where
  "scan_ok m as \<longleftrightarrow> (\<forall>a \<in> set as. assignment_ok m a) \<and> distinct (map pa_id as)
     \<and> distinct (concat (map pa_criterion_ids as)) \<and> one_rule as"

lemma members_of_simps [simp]:
  "members_of g [] = []"
  "members_of g (as @ bs) = members_of g as @ members_of g bs"
  "members_of g (a # as) = (if in_group g a then a # members_of g as else members_of g as)"
  by (simp_all add: members_of_def)

text \<open>What one Assignment adds to the scan.\<close>

definition absorb :: "PlannedAssignment \<Rightarrow> PlanScan \<Rightarrow> PlanScan" where
  "absorb a scan =
     (let scan1 = scan\<lparr>ps_assignment_ids := pa_id a # ps_assignment_ids scan,
                       ps_owned_criteria := rev (pa_criterion_ids a) @ ps_owned_criteria scan\<rparr>
      in case pa_competition a of
           None \<Rightarrow> scan1
         | Some c \<Rightarrow>
             let entry = entry_or (cp_uncertainty c, cp_comparison_rule c, []) (ps_competitions scan) (cp_group c)
             in scan1\<lparr>ps_competition_assignments :=
                  AList.update (cp_group c)
                    (entry_or [] (ps_competition_assignments scan) (cp_group c) @ [a])
                    (ps_competition_assignments scan),
                ps_competitions :=
                  AList.update (cp_group c)
                    (fst entry, fst (snd entry), snd (snd entry) @ [requested_resources a])
                    (ps_competitions scan)\<rparr>)"

lemma own_criteria_Ok_iff:
  "own_criteria known i owned cs = Inr owned' \<longleftrightarrow>
     set cs \<subseteq> set known \<and> distinct cs \<and> set cs \<inter> set owned = {} \<and> owned' = rev cs @ owned"
  by (induction cs arbitrary: owned) (auto simp: outcome_simps)

definition agrees_with :: "PlannedAssignment \<Rightarrow> PlanScan \<Rightarrow> bool" where
  "agrees_with a scan \<longleftrightarrow>
     (\<forall>c e. pa_competition a = Some c \<longrightarrow> map_of (ps_competitions scan) (cp_group c) = Some e \<longrightarrow>
            (fst e, fst (snd e)) = terms_of a)"

lemma scan_competition_Ok_iff:
  "scan_competition a scan = Inr scan' \<longleftrightarrow>
     (\<forall>c. pa_competition a = Some c \<longrightarrow>
        \<not> blank (cp_group c) \<and> \<not> blank (cp_uncertainty c) \<and> \<not> blank (cp_comparison_rule c))
     \<and> agrees_with a scan
     \<and> scan' = (case pa_competition a of None \<Rightarrow> scan | Some c \<Rightarrow>
          let entry = entry_or (cp_uncertainty c, cp_comparison_rule c, []) (ps_competitions scan) (cp_group c)
          in scan\<lparr>ps_competition_assignments :=
                  AList.update (cp_group c)
                    (entry_or [] (ps_competition_assignments scan) (cp_group c) @ [a])
                    (ps_competition_assignments scan),
                ps_competitions :=
                  AList.update (cp_group c)
                    (fst entry, fst (snd entry), snd (snd entry) @ [requested_resources a])
                    (ps_competitions scan)\<rparr>)"
proof (cases "pa_competition a")
  case None
  then show ?thesis by (auto simp: scan_competition_def agrees_with_def)
next
  case (Some c)
  then show ?thesis
    by (auto simp: scan_competition_def agrees_with_def terms_of_def Let_def entry_or_def
        outcome_simps split: option.splits)
qed

lemma scan_assignment_Ok_iff:
  "scan_assignment m a scan = Inr scan' \<longleftrightarrow>
     assignment_ok m a \<and> pa_id a \<notin> set (ps_assignment_ids scan)
     \<and> distinct (pa_criterion_ids a) \<and> set (pa_criterion_ids a) \<inter> set (ps_owned_criteria scan) = {}
     \<and> agrees_with a scan \<and> scan' = absorb a scan"
proof -
  have scopes: "list_ex (store_path_is_within_scope s) ps \<longleftrightarrow> (\<exists>p \<in> set ps. path_is_within_scope s p)" for s ps
    by (auto simp: list_ex_iff store_path_is_within_scope_eq)
  show ?thesis
    unfolding scan_assignment_def assignment_ok_def absorb_def
    by (simp add: outcome_simps own_criteria_Ok_iff scan_competition_Ok_iff scopes
        validate_worker_requirements_iff agrees_with_def Let_def) (auto split: option.splits)
qed

lemma fold_absorb_ids: "ps_assignment_ids (fold absorb as s) = rev (map pa_id as) @ ps_assignment_ids s"
  by (induction as arbitrary: s) (auto simp: absorb_def Let_def split: option.split)

lemma fold_absorb_owned:
  "ps_owned_criteria (fold absorb as s) = rev (concat (map pa_criterion_ids as)) @ ps_owned_criteria s"
  by (induction as arbitrary: s) (auto simp: absorb_def Let_def split: option.split)

lemma fold_absorb_competitions:
  "map_of (ps_competitions (fold absorb as empty_scan)) g =
     (case members_of g as of [] \<Rightarrow> None
      | b # _ \<Rightarrow> Some (fst (terms_of b), snd (terms_of b), map requested_resources (members_of g as)))"
proof (induction as rule: rev_induct)
  case Nil
  then show ?case by (simp add: empty_scan_def)
next
  case (snoc a as)
  then show ?case
    by (auto simp: absorb_def Let_def entry_or_def in_group_def terms_of_def update_conv
        split: option.splits list.splits)
qed

lemma fold_absorb_competition_assignments:
  "map_of (ps_competition_assignments (fold absorb as empty_scan)) g =
     (if members_of g as = [] then None else Some (members_of g as))"
proof (induction as rule: rev_induct)
  case Nil
  then show ?case by (simp add: empty_scan_def)
next
  case (snoc a as)
  then show ?case
    by (auto simp: absorb_def Let_def entry_or_def in_group_def update_conv split: option.splits)
qed

lemma fold_absorb_distinct:
  "distinct (map fst (ps_competitions (fold absorb as empty_scan)))"
  "distinct (map fst (ps_competition_assignments (fold absorb as empty_scan)))"
  by (induction as rule: rev_induct)
    (auto simp: empty_scan_def absorb_def Let_def distinct_update split: option.split)

lemma fold_absorb_keys:
  "set (map fst (ps_competitions (fold absorb as empty_scan))) = groups_of as"
  "set (map fst (ps_competition_assignments (fold absorb as empty_scan))) = groups_of as"
proof -
  have "g \<in> set (map fst (ps_competitions (fold absorb as empty_scan))) \<longleftrightarrow> g \<in> groups_of as"
    "g \<in> set (map fst (ps_competition_assignments (fold absorb as empty_scan))) \<longleftrightarrow> g \<in> groups_of as" for g
    using fold_absorb_competitions [of as g] fold_absorb_competition_assignments [of as g]
    by (auto simp: groups_of_def map_of_eq_None_iff split: list.splits if_splits)
      (metis (no_types, lifting) map_of_eq_None_iff option.distinct(1) list.set_map)+
  then show "set (map fst (ps_competitions (fold absorb as empty_scan))) = groups_of as"
    and "set (map fst (ps_competition_assignments (fold absorb as empty_scan))) = groups_of as"
    by blast+
qed

lemma agrees_with_fold:
  "agrees_with a (fold absorb as empty_scan) \<longleftrightarrow>
     (\<forall>g. in_group g a \<longrightarrow> members_of g as \<noteq> [] \<longrightarrow> terms_of (hd (members_of g as)) = terms_of a)"
proof -
  have first: "(case xs of [] \<Rightarrow> None | b # _ \<Rightarrow> Some (f b)) = Some e \<longleftrightarrow> xs \<noteq> [] \<and> e = f (hd xs)"
    for xs :: "PlannedAssignment list" and f and e :: competition_entry
    by (cases xs) auto
  show ?thesis
    unfolding agrees_with_def fold_absorb_competitions first
    by (auto simp: in_group_def split: option.splits)
qed

lemma one_rule_snoc:
  "one_rule (as @ [a]) \<longleftrightarrow> one_rule as \<and> agrees_with a (fold absorb as empty_scan)"
proof
  assume all: "one_rule (as @ [a])"
  then have "one_rule as" unfolding one_rule_def members_of_simps(2) set_append by blast
  moreover have "terms_of (hd (members_of g as)) = terms_of a"
    if "in_group g a" "members_of g as \<noteq> []" for g
  proof -
    from that have "hd (members_of g as) \<in> set (members_of g (as @ [a]))"
      and "a \<in> set (members_of g (as @ [a]))" by simp_all
    with all show ?thesis unfolding one_rule_def by blast
  qed
  ultimately show "one_rule as \<and> agrees_with a (fold absorb as empty_scan)"
    by (simp add: agrees_with_fold)
next
  assume *: "one_rule as \<and> agrees_with a (fold absorb as empty_scan)"
  have old: "terms_of x = terms_of a" if "in_group g a" "x \<in> set (members_of g as)" for g x
  proof -
    from that(2) have "hd (members_of g as) \<in> set (members_of g as)" and "members_of g as \<noteq> []"
      by (auto intro: list.set_sel(1))
    with * that show ?thesis unfolding one_rule_def agrees_with_fold by metis
  qed
  show "one_rule (as @ [a])"
    unfolding one_rule_def
  proof (intro allI ballI)
    fix g x y
    assume "x \<in> set (members_of g (as @ [a]))" "y \<in> set (members_of g (as @ [a]))"
    then have "x \<in> set (members_of g as) \<or> in_group g a \<and> x = a"
      and "y \<in> set (members_of g as) \<or> in_group g a \<and> y = a" by (auto split: if_splits)
    moreover from * have "terms_of x = terms_of y"
      if "x \<in> set (members_of g as)" "y \<in> set (members_of g as)"
      using that unfolding one_rule_def by blast
    ultimately show "terms_of x = terms_of y" by (metis old)
  qed
qed

lemma scan_plan_append: "scan_plan m (as @ bs) s = and_then (scan_plan m as s) (scan_plan m bs)"
proof (induction as arbitrary: s)
  case (Cons a as)
  then show ?case by (cases "scan_assignment m a s") simp_all
qed simp

theorem scan_plan_Ok_iff:
  "scan_plan m as empty_scan = Inr s \<longleftrightarrow> scan_ok m as \<and> s = fold absorb as empty_scan"
proof (induction as arbitrary: s rule: rev_induct)
  case Nil
  then show ?case by (auto simp: scan_ok_def one_rule_def)
next
  case (snoc a as)
  have "scan_plan m (as @ [a]) empty_scan = Inr s \<longleftrightarrow>
      scan_ok m as \<and> scan_assignment m a (fold absorb as empty_scan) = Inr s"
    by (simp add: scan_plan_append outcome_simps snoc)
  also have "\<dots> \<longleftrightarrow> scan_ok m (as @ [a]) \<and> s = fold absorb (as @ [a]) empty_scan"
    by (auto simp: scan_assignment_Ok_iff scan_ok_def one_rule_snoc fold_absorb_ids fold_absorb_owned
        empty_scan_def)
  finally show ?case .
qed

section \<open>Well-formed plans\<close>

definition group_ok :: "PlanMandate \<Rightarrow> PlannedAssignment list \<Rightarrow> string \<Rightarrow> bool" where
  "group_ok m as g \<longleftrightarrow>
     (let ms = members_of g as in
        2 \<le> length ms
        \<and> comparison_storage (map requested_resources ms) \<le> unat (rc_max_storage_bytes (pm_resource_ceilings m))
        \<and> (\<forall>a \<in> set ms. \<forall>b \<in> set ms. pa_id b \<notin> set (pa_dependencies a)
                                    \<and> set (pa_dependencies a) = set (pa_dependencies b)))"

definition wf_plan :: "PlanMandate \<Rightarrow> CommissionPlan \<Rightarrow> bool" where
  "wf_plan m plan \<longleftrightarrow>
     (let as = plan_assignments plan in
        pm_all_deterministic m
        \<and> length as + card (groups_of as) \<le> unat (pm_attempts_available m)
        \<and> scan_ok m as
        \<and> set (concat (map pa_criterion_ids as)) = set (pm_criterion_ids m)
        \<and> (\<forall>a \<in> set as. \<forall>d \<in> set (pa_dependencies a). d \<noteq> pa_id a \<and> d \<in> pa_id ` set as)
        \<and> (\<forall>g \<in> groups_of as. group_ok m as g)
        \<and> acyclic (depends (assignment_entries plan)))"

lemma comparison_requirements_Ok_iff:
  "comparison_requirements m gs = Inr cs \<longleftrightarrow>
     map fst cs = gs
     \<and> (\<forall>(g, n, r) \<in> set cs. n = length (snd (snd (entry_or ([], [], []) m g)))
          \<and> comparison_resources (snd (snd (entry_or ([], [], []) m g))) = Inr r)"
proof (induction gs arbitrary: cs)
  case (Cons g gs)
  then show ?case
    by (cases cs) (auto simp: outcome_simps Let_def)
qed auto

lemma check_dependencies_iff:
  "check_dependencies ids a = Inr () \<longleftrightarrow> (\<forall>d \<in> set (pa_dependencies a). d \<noteq> pa_id a \<and> d \<in> set ids)"
  by (auto simp: check_dependencies_def outcome_simps)

lemma check_competition_frontier_iff:
  assumes "map_of m g = Some ms" and "ms \<noteq> []"
  shows "check_competition_frontier m g = Inr () \<longleftrightarrow>
    (\<forall>a \<in> set ms. \<forall>b \<in> set ms. pa_id b \<notin> set (pa_dependencies a)
                              \<and> set (pa_dependencies a) = set (pa_dependencies b))"
  using assms
  by (cases ms) (auto simp: check_competition_frontier_def entry_or_def outcome_simps list_ex_iff)

lemma u32_length_le:
  assumes "length as < 2 ^ 32"
  shows "(of_nat (length as) :: u32) \<le> w \<longleftrightarrow> length as \<le> unat w"
proof -
  from assms have "unat (of_nat (length as) :: u32) = length as" by (simp add: unat_of_nat)
  then show ?thesis by (simp add: word_le_nat_alt)
qed

lemma u32_sum_check:
  assumes "length as < 2 ^ 32" and "length cs \<le> length as"
  shows "(case checked_add (of_nat (length as) :: u32) (of_nat (length cs)) of
            None \<Rightarrow> True | Some required \<Rightarrow> required > w) \<longleftrightarrow> \<not> length as + length cs \<le> unat w"
proof -
  from assms have "unat (of_nat (length as) :: u32) = length as"
    and "unat (of_nat (length cs) :: u32) = length cs" by (simp_all add: unat_of_nat)
  moreover have "(case checked_add (of_nat (length as) :: u32) (of_nat (length cs)) of
            None \<Rightarrow> True | Some required \<Rightarrow> required > w) \<longleftrightarrow>
        \<not> fits_within (of_nat (length as) :: u32) (of_nat (length cs)) w"
    by (auto simp: fits_within_def split: option.split)
  ultimately show ?thesis by (simp add: fits_within_iff)
qed

lemma comparison_requirements_all:
  "(\<exists>cs. comparison_requirements m gs = Inr cs \<and> Q (length cs)
        \<and> \<not> list_ex (\<lambda>(_, _, r). ceiling < storage r) cs
        \<and> (\<forall>(_, n, _) \<in> set cs. 2 \<le> n)) \<longleftrightarrow>
   Q (length gs)
   \<and> (\<forall>g \<in> set gs. 2 \<le> length (snd (snd (entry_or ([], [], []) m g)))
        \<and> comparison_storage (snd (snd (entry_or ([], [], []) m g))) \<le> unat ceiling)"
proof (induction gs arbitrary: Q)
  case (Cons g gs)
  let ?ms = "snd (snd (entry_or ([], [], []) m g))"
  have "(\<exists>cs. comparison_requirements m (g # gs) = Inr cs \<and> Q (length cs)
        \<and> \<not> list_ex (\<lambda>(_, _, r). ceiling < storage r) cs \<and> (\<forall>(_, n, _) \<in> set cs. 2 \<le> n)) \<longleftrightarrow>
    (\<exists>r. comparison_resources ?ms = Inr r \<and> storage r \<le> ceiling) \<and> 2 \<le> length ?ms
    \<and> (\<exists>cs. comparison_requirements m gs = Inr cs \<and> Q (Suc (length cs))
        \<and> \<not> list_ex (\<lambda>(_, _, r). ceiling < storage r) cs \<and> (\<forall>(_, n, _) \<in> set cs. 2 \<le> n))"
    by (auto simp: outcome_simps Let_def not_less)
  also have "\<dots> \<longleftrightarrow> comparison_storage ?ms \<le> unat ceiling \<and> 2 \<le> length ?ms \<and> Q (Suc (length gs))
      \<and> (\<forall>g \<in> set gs. 2 \<le> length (snd (snd (entry_or ([], [], []) m g)))
        \<and> comparison_storage (snd (snd (entry_or ([], [], []) m g))) \<le> unat ceiling)"
    using Cons.IH [of "\<lambda>n. Q (Suc n)"] by (simp only: comparison_resources_Ok_iff)
  finally show ?case by auto
qed simp

lemma groups_of_image: "groups_of as \<subseteq> (\<lambda>a. cp_group (the (pa_competition a))) ` set as"
  by (force simp: groups_of_def members_of_def filter_empty_conv in_group_def split: option.splits)

lemma card_groups_of: "card (groups_of as) \<le> length as"
  by (meson List.finite_set card_length card_image_le card_mono finite_imageI groups_of_image le_trans)

lemma finite_groups_of: "finite (groups_of as)"
  by (rule finite_subset [OF groups_of_image]) simp

lemma assignment_entries_SomeD:
  "map_of (assignment_entries plan) i = Some a \<Longrightarrow> a \<in> set (plan_assignments plan) \<and> pa_id a = i"
  by (drule map_of_SomeD) (auto simp: assignment_entries_def)

lemma assignment_entries_keys: "fst ` set (assignment_entries plan) = pa_id ` set (plan_assignments plan)"
  by (force simp: assignment_entries_def)

lemma closed_plan:
  assumes "\<forall>a \<in> set (plan_assignments plan). \<forall>d \<in> set (pa_dependencies a). d \<in> pa_id ` set (plan_assignments plan)"
  shows "closed_map (assignment_entries plan)"
  using assms assignment_entries_SomeD
  by (fastforce simp: closed_map_def depends_def map_of_eq_None_iff assignment_entries_keys)

theorem validate_plan_against_iff:
  assumes orders: "valid_orders ho" and small: "length (plan_assignments plan) < 2 ^ 32"
  shows "validate_plan_against ho m plan = Inr () \<longleftrightarrow> wf_plan m plan"
proof -
  let ?as = "plan_assignments plan"
  let ?s = "fold absorb ?as empty_scan"
  let ?max = "rc_max_storage_bytes (pm_resource_ceilings m)"
  let ?att = "pm_attempts_available m"
  define gs where "gs = ho_competitions ho (map fst (ps_competitions ?s))"
  define hs where "hs = ho_competition_assignments ho (map fst (ps_competition_assignments ?s))"
  have gs: "distinct gs" "set gs = groups_of ?as"
    using orders fold_absorb_distinct(1) [of ?as] fold_absorb_keys(1) [of ?as]
    by (auto simp: gs_def valid_orders_def iteration_order_def)
  have hs: "set hs = groups_of ?as"
    using orders fold_absorb_distinct(2) [of ?as] fold_absorb_keys(2) [of ?as]
    by (auto simp: hs_def valid_orders_def iteration_order_def)
  from gs have len: "length gs = card (groups_of ?as)" by (metis distinct_card)
  have cs_len: "length cs \<le> length ?as" if "comparison_requirements (ps_competitions ?s) gs = Inr cs" for cs
    using that len card_groups_of [of ?as] by (metis comparison_requirements_Ok_iff length_map)
  have members: "snd (snd (entry_or ([], [], []) (ps_competitions ?s) g))
      = map requested_resources (members_of g ?as)" for g
    by (auto simp: entry_or_def fold_absorb_competitions split: list.split)
  have deps: "(\<forall>a \<in> set ?as. check_dependencies (ps_assignment_ids ?s) a = Inr ()) \<longleftrightarrow>
      (\<forall>a \<in> set ?as. \<forall>d \<in> set (pa_dependencies a). d \<noteq> pa_id a \<and> d \<in> pa_id ` set ?as)"
    by (simp add: check_dependencies_iff fold_absorb_ids empty_scan_def)
  have frontier: "check_competition_frontier (ps_competition_assignments ?s) g = Inr () \<longleftrightarrow>
      (\<forall>a \<in> set (members_of g ?as). \<forall>b \<in> set (members_of g ?as). pa_id b \<notin> set (pa_dependencies a)
          \<and> set (pa_dependencies a) = set (pa_dependencies b))" if "g \<in> groups_of ?as" for g
    using that by (intro check_competition_frontier_iff)
      (simp_all add: fold_absorb_competition_assignments groups_of_def)
  have two: "(case x of (grp, members, _) \<Rightarrow>
      if members < 2 then invalid_request (msg grp) else Ok ()) = Inr () \<longleftrightarrow>
      (case x of (_, n, _) \<Rightarrow> 2 \<le> n)" for x :: "string \<times> nat \<times> Resources" and msg
    by (auto split: prod.split)
  have order_as: "iteration_order (ho_assignments ho)"
    using orders by (simp add: valid_orders_def)
  have "validate_plan_against ho m plan = Inr () \<longleftrightarrow>
      length ?as \<le> unat ?att \<and> pm_all_deterministic m \<and> scan_ok m ?as
      \<and> (\<exists>cs. comparison_requirements (ps_competitions ?s) gs = Inr cs
           \<and> length ?as + length cs \<le> unat ?att
           \<and> \<not> list_ex (\<lambda>(_, _, r). ?max < storage r) cs \<and> (\<forall>(_, n, _) \<in> set cs. 2 \<le> n))
      \<and> set (ps_owned_criteria ?s) = set (pm_criterion_ids m)
      \<and> (\<forall>a \<in> set ?as. check_dependencies (ps_assignment_ids ?s) a = Inr ())
      \<and> (\<forall>g \<in> set hs. check_competition_frontier (ps_competition_assignments ?s) g = Inr ())
      \<and> ensure_acyclic_plan (ho_assignments ho) plan = Inr ()"
    unfolding validate_plan_against_def Let_def
    by (simp add: outcome_simps not_less u32_length_le [OF small] scan_plan_Ok_iff
        gs_def [symmetric] hs_def [symmetric] two)
      (auto simp: u32_sum_check [OF small cs_len])
  also have "\<dots> \<longleftrightarrow> wf_plan m plan"
  proof (cases "\<forall>a \<in> set ?as. \<forall>d \<in> set (pa_dependencies a). d \<noteq> pa_id a \<and> d \<in> pa_id ` set ?as")
    case True
    then have acy: "ensure_acyclic_plan (ho_assignments ho) plan = Inr () \<longleftrightarrow>
        acyclic (depends (assignment_entries plan))"
      by (intro ensure_acyclic_plan_iff(1) [OF order_as] closed_plan) blast
    have owned: "set (ps_owned_criteria ?s) = set (concat (map pa_criterion_ids ?as))"
      by (simp add: fold_absorb_owned empty_scan_def)
    show ?thesis
      unfolding comparison_requirements_all [where Q = "\<lambda>n. length ?as + n \<le> unat ?att"]
        members gs(2) hs len deps acy owned wf_plan_def Let_def group_ok_def ball_conj_distrib
      by (simp only: True frontier length_map ball_conj_distrib cong: ball_cong) (use add_leD1 in blast)
  next
    case False
    then have "\<not> wf_plan m plan" unfolding wf_plan_def Let_def by blast
    with False show ?thesis unfolding deps by blast
  qed
  finally show ?thesis .
qed

section \<open>No panic\<close>

text \<open>The validator indexes a hash map (in the search for cycles) and a vector (the first member of a
  competition group). Neither can fail on any plan.\<close>

lemma validate_worker_requirements_no_panic: "\<not> panics (validate_worker_requirements r prov)"
  unfolding validate_worker_requirements_def Let_def
  by (auto simp: check_named_value_def split: if_splits dest!: panics_try_each panics_check_unique)

lemma merge_skills_no_panic: "\<not> panics (merge_skills a b)"
  by (induction a b rule: merge_skills.induct) (auto split: option.splits)

lemma merge_selected_no_panic: "\<not> panics (merge_selected a b)"
  by (induction a b rule: merge_selected.induct) (auto split: option.splits)

lemma merge_worker_requirements_no_panic: "\<not> panics (merge_worker_requirements a b)"
  unfolding merge_worker_requirements_def
  by (auto simp: merge_skills_no_panic merge_selected_no_panic dest!: panics_try_each split: if_splits)

lemma own_criteria_no_panic: "\<not> panics (own_criteria known i owned cs)"
  by (induction cs arbitrary: owned) auto

lemma scan_assignment_no_panic: "\<not> panics (scan_assignment m a s)"
  unfolding scan_assignment_def scan_competition_def validate_assignment_resources_def
    validate_relative_scope_def
  by (auto simp: validate_worker_requirements_no_panic merge_worker_requirements_no_panic
      own_criteria_no_panic Let_def dest!: panics_try_each split: if_splits option.splits)

lemma scan_plan_no_panic: "\<not> panics (scan_plan m as s)"
  by (induction as arbitrary: s) (auto simp: scan_assignment_no_panic)

lemma comparison_loop_no_panic: "\<not> panics (comparison_loop c s ms)"
  by (induction ms arbitrary: c s) (auto simp: Let_def split: option.split)

lemma comparison_requirements_no_panic: "\<not> panics (comparison_requirements m gs)"
  by (induction gs) (auto simp: Let_def comparison_resources_def comparison_loop_no_panic
      split: option.splits)

theorem validate_plan_against_no_panic:
  assumes orders: "valid_orders ho"
  shows "\<not> panics (validate_plan_against ho m plan)"
proof
  let ?as = "plan_assignments plan"
  let ?s = "fold absorb ?as empty_scan"
  assume "panics (validate_plan_against ho m plan)"
  then have "(\<exists>g \<in> set (ho_competition_assignments ho (map fst (ps_competition_assignments ?s))).
        panics (check_competition_frontier (ps_competition_assignments ?s) g))
      \<or> (\<forall>a \<in> set ?as. check_dependencies (ps_assignment_ids ?s) a = Inr ())
          \<and> panics (ensure_acyclic_plan (ho_assignments ho) plan)"
    unfolding validate_plan_against_def Let_def
    by (auto simp: scan_plan_no_panic comparison_requirements_no_panic scan_plan_Ok_iff outcome_simps
        check_dependencies_def split: if_splits dest!: panics_try_each)
  then show False
  proof (elim disjE bexE conjE)
    fix g
    assume "g \<in> set (ho_competition_assignments ho (map fst (ps_competition_assignments ?s)))"
    then have "g \<in> groups_of ?as"
      using orders fold_absorb_distinct(2) [of ?as] fold_absorb_keys(2) [of ?as]
      by (auto simp: valid_orders_def iteration_order_def)
    then have "map_of (ps_competition_assignments ?s) g = Some (members_of g ?as)" "members_of g ?as \<noteq> []"
      by (simp_all add: fold_absorb_competition_assignments groups_of_def)
    moreover assume "panics (check_competition_frontier (ps_competition_assignments ?s) g)"
    ultimately show False
      by (auto simp: check_competition_frontier_def entry_or_def Let_def neq_Nil_conv
          split: if_splits dest!: panics_try_each)
  next
    assume deps: "\<forall>a \<in> set ?as. check_dependencies (ps_assignment_ids ?s) a = Inr ()"
      and "panics (ensure_acyclic_plan (ho_assignments ho) plan)"
    moreover from deps have "closed_map (assignment_entries plan)"
      by (intro closed_plan) (auto simp: check_dependencies_iff fold_absorb_ids empty_scan_def)
    ultimately show False
      using ensure_acyclic_plan_iff(2) orders by (auto simp: valid_orders_def)
  qed
qed

section \<open>Reading a well-formed plan\<close>

lemma owned_once:
  assumes "distinct (concat (map f as))" and "c \<in> set (concat (map f as))"
  shows "\<exists>!a. a \<in> set as \<and> c \<in> set (f a)"
  using assms
proof (induction as)
  case (Cons a as)
  then show ?case
    by (cases "c \<in> set (f a)") (auto simp: disjoint_iff)
qed simp

lemma assignment_ok_resources:
  assumes "assignment_ok m a"
  shows "0 < ar_concurrency_slots (pa_resources a)
    \<and> ar_concurrency_slots (pa_resources a) \<le> rc_max_worker_concurrency (pm_resource_ceilings m)
    \<and> ar_max_storage_bytes (pa_resources a) \<le> rc_max_storage_bytes (pm_resource_ceilings m)
    \<and> ar_max_model_spend_cents (pa_resources a) \<le> rc_max_model_spend_cents (pm_resource_ceilings m)
    \<and> ar_max_paid_service_spend_cents (pa_resources a)
        \<le> rc_max_paid_service_spend_cents (pm_resource_ceilings m)"
proof -
  from assms have "validate_assignment_resources (pa_id a) (pa_resources a) (pm_resource_ceilings m) = Inr ()"
    by (simp add: assignment_ok_def)
  then show ?thesis
    by (auto simp: validate_assignment_resources_def not_less word_neq_0_conv split: if_splits)
qed

lemma assignment_ok_scopes:
  "assignment_ok m a \<Longrightarrow> s \<in> set (pa_write_scopes a) \<Longrightarrow>
     \<exists>p \<in> set (auth_paths (pm_authority m)). path_is_within_scope s p"
  by (simp add: assignment_ok_def)

lemma assignment_entries_lookup:
  assumes "distinct (map pa_id (plan_assignments plan))" and "a \<in> set (plan_assignments plan)"
  shows "map_of (assignment_entries plan) (pa_id a) = Some a"
proof -
  have "distinct (map fst (assignment_entries plan))"
    using assms(1) by (simp add: assignment_entries_def rev_map [symmetric] comp_def)
  moreover have "(pa_id a, a) \<in> set (assignment_entries plan)"
    using assms(2) by (auto simp: assignment_entries_def)
  ultimately show ?thesis by simp
qed

end
