(* ===== verification/Proposal.thy ===== *)
theory Proposal
  imports Plan_Spec
begin

text \<open>
  Proposal validation of \<^verbatim>\<open>src/src/store.rs\<close>: \<open>validate_proposal\<close>, the Acceptance Criteria, the
  effect envelope of a coding Commission and the plan a Principal supplies. The file system enters
  through one argument, \<open>canonicalize\<close>: the canonical path of an existing path, or the error text.
\<close>

type_synonym canonicalizer = "string \<Rightarrow> string + string"

section \<open>The model\<close>

definition DETERMINISTIC_ACTION :: string where
  "DETERMINISTIC_ACTION = ''deterministic.echo''"

definition CODEX_GIT_ACTION :: string where
  "CODEX_GIT_ACTION = ''codex.git_change''"

fun procedure_matches_type :: "VerifierType \<Rightarrow> Verifier \<Rightarrow> unit result" where
  "procedure_matches_type VerifierType.Deterministic (Prompt _) =
     invalid_request ''deterministic verifiers require an exact_match or command procedure''"
| "procedure_matches_type VerifierType.Deterministic _ = Ok ()"
| "procedure_matches_type _ (Prompt _) = Ok ()"
| "procedure_matches_type _ _ =
     invalid_request ''model and Principal verifiers require a prompt procedure''"

fun procedure_matches_execution :: "ExecutionSpec \<Rightarrow> VerifierType \<Rightarrow> Verifier \<Rightarrow> unit result" where
  "procedure_matches_execution ExecutionSpec.Deterministic VerifierType.Deterministic (ExactMatch _) = Ok ()"
| "procedure_matches_execution (CodexGit _ _) VerifierType.Deterministic (Verifier.Command _) = Ok ()"
| "procedure_matches_execution _ VerifierType.Model (Prompt _) = Ok ()"
| "procedure_matches_execution _ VerifierType.Principal (Prompt _) = Ok ()"
| "procedure_matches_execution ExecutionSpec.Deterministic VerifierType.Deterministic (Verifier.Command _) =
     invalid_request ''deterministic execution requires exact_match verifiers''"
| "procedure_matches_execution (CodexGit _ _) VerifierType.Deterministic (ExactMatch _) =
     invalid_request ''codex_git execution requires command verifiers''"
| "procedure_matches_execution _ _ _ = Panicked ''verifier type and procedure were validated''"

fun procedure_well_formed :: "Verifier \<Rightarrow> unit result" where
  "procedure_well_formed (Verifier.Command argv) =
     (if argv = [] \<or> list_ex (\<lambda>argument. argument = [] \<or> contains_char argument NUL) argv
      then invalid_request ''command verifier argv must contain only non-empty arguments''
      else Ok ())"
| "procedure_well_formed (Prompt p) =
     (if blank p then invalid_request ''prompt verifier procedure must not be empty'' else Ok ())"
| "procedure_well_formed (ExactMatch _) = Ok ()"

fun check_criteria ::
  "ExecutionSpec \<Rightarrow> string list \<Rightarrow> AcceptanceCriterion list \<Rightarrow> unit result" where
  "check_criteria execution criterion_ids [] = Ok ()"
| "check_criteria execution criterion_ids (c # cs) =
     (if blank (ac_id c) \<or> blank (ac_description c) \<or> blank (ac_required_evidence c)
         \<or> blank (ac_verification_environment c)
      then invalid_request
        ''criterion id, description, required Evidence, and verification environment must not be empty''
      else if ac_id c \<in> set criterion_ids
      then invalid_request (''criterion id '' @ ac_id c @ '' is duplicated'')
      else
      and_then (procedure_matches_type (ac_verifier_type c) (ac_verifier c)) (\<lambda>_.
      and_then (procedure_matches_execution execution (ac_verifier_type c) (ac_verifier c)) (\<lambda>_.
      and_then (procedure_well_formed (ac_verifier c)) (\<lambda>_.
      check_criteria execution (ac_id c # criterion_ids) cs))))"

definition validate_acceptance_criteria :: "ExecutionSpec \<Rightarrow> AcceptanceCriterion list \<Rightarrow> unit result" where
  "validate_acceptance_criteria execution criteria =
     (if criteria = [] then invalid_request ''at least one acceptance criterion is required''
      else check_criteria execution [] criteria)"

definition resolved_verifier_configuration :: "AcceptanceCriterion \<Rightarrow> string result" where
  "resolved_verifier_configuration c =
     (if \<not> blank (ac_verifier_configuration c) then Ok (ac_verifier_configuration c)
      else case ac_verifier c of
             ExactMatch _ \<Rightarrow> Ok ''deterministic-exact-match-v1''
           | Verifier.Command _ \<Rightarrow> Ok ''contained-command-v1''
           | Prompt _ \<Rightarrow>
               (case ac_verifier_type c of
                  VerifierType.Model \<Rightarrow> Ok ''model-verifier-v1''
                | VerifierType.Principal \<Rightarrow> Ok ''principal-verifier-v1''
                | VerifierType.Deterministic \<Rightarrow> Panicked ''validated verifier type''))"

definition ensure_result_fits_storage_ceiling :: "string \<Rightarrow> u64 \<Rightarrow> unit result" where
  "ensure_result_fits_storage_ceiling goal max_storage_bytes =
     (if (of_nat (length goal) :: u64) > max_storage_bytes
      then invalid_request (''max_storage_bytes is '' @ word_dec max_storage_bytes
             @ '', but the deterministic Result requires '' @ nat_dec (length goal) @ '' bytes'')
      else Ok ())"

fun check_effect_targets :: "canonicalizer \<Rightarrow> string \<Rightarrow> string list \<Rightarrow> unit result" where
  "check_effect_targets canonicalize checkout [] = Ok ()"
| "check_effect_targets canonicalize checkout (t # ts) =
     (case canonicalize t of
        Inl e \<Rightarrow> invalid_request (''filesystem.write target directory cannot be resolved: '' @ e)
      | Inr target \<Rightarrow>
          if path_starts_with target checkout \<or> path_starts_with checkout target
          then invalid_request
            ''a filesystem.write target directory must lie outside the Principal checkout''
          else check_effect_targets canonicalize checkout ts)"

definition validate_codex_git_effects ::
  "canonicalizer \<Rightarrow> CommissionProposal \<Rightarrow> string \<Rightarrow> unit result" where
  "validate_codex_git_effects canonicalize proposal repository =
     (let authority = prop_authority proposal in
      if auth_effects authority = [] \<and> auth_destinations authority = [] then Ok ()
      else if list_ex (\<lambda>effect. effect \<noteq> ''filesystem.write'') (auth_effects authority)
              \<or> list_ex (\<lambda>destination. destination \<noteq> ''local'') (auth_destinations authority)
              \<or> \<not> list_ex (\<lambda>action. action = ''filesystem.write'') (auth_actions authority)
      then invalid_request
        ''a codex_git Commission permits only the local filesystem.write effect, with the filesystem.write action and the local destination''
      else case canonicalize repository of
             Inl e \<Rightarrow> Err (Io e)
           | Inr checkout \<Rightarrow>
               check_effect_targets canonicalize checkout
                 (filter (\<lambda>v. v \<noteq> repository) (auth_repositories authority)))"

definition validate_commission_plan ::
  "HashOrders \<Rightarrow> CommissionProposal \<Rightarrow> CommissionPlan \<Rightarrow> unit result" where
  "validate_commission_plan ho proposal plan =
     (if length (plan_assignments plan) < 2
      then invalid_request ''an explicit Commission Plan must contain at least two Assignments''
      else validate_plan_against ho
        \<lparr>pm_criterion_ids = map ac_id (prop_criteria proposal),
         pm_all_deterministic =
           list_all (\<lambda>c. ac_verifier_type c = VerifierType.Deterministic) (prop_criteria proposal),
         pm_authority = prop_authority proposal,
         pm_resource_ceilings = prop_resource_ceilings proposal,
         pm_worker_requirements = prop_worker_requirements proposal,
         pm_attempts_available = rc_max_attempts (prop_resource_ceilings proposal)\<rparr> plan)"

definition bad_identifier :: "string \<Rightarrow> bool" where
  "bad_identifier s = (trim s \<noteq> s \<or> s = [] \<or> contains_char s NUL)"

definition validate_execution :: "canonicalizer \<Rightarrow> CommissionProposal \<Rightarrow> unit result" where
  "validate_execution canonicalize proposal =
     (case prop_execution proposal of
        ExecutionSpec.Deterministic \<Rightarrow>
          ensure_result_fits_storage_ceiling (prop_goal proposal)
            (rc_max_storage_bytes (prop_resource_ceilings proposal))
      | CodexGit repository base_revision \<Rightarrow>
          if \<not> is_absolute repository
          then invalid_request ''codex_git repository must be an absolute path''
          else case canonicalize repository of
            Inl e \<Rightarrow> invalid_request (''codex_git repository cannot be resolved: '' @ e)
          | Inr _ \<Rightarrow>
            if repository \<notin> set (auth_repositories (prop_authority proposal))
            then invalid_request ''codex_git repository must be named in the Authority Envelope''
            else if CODEX_GIT_ACTION \<notin> set (auth_actions (prop_authority proposal))
            then invalid_request ''the Authority Envelope does not permit codex.git_change''
            else if auth_paths (prop_authority proposal) = []
            then invalid_request ''codex_git execution requires at least one authorized changed path''
            else
            and_then (try_each (\<lambda>path.
                if is_absolute path
                   \<or> list_ex (\<lambda>component. \<not> is_normal component) (path_components path)
                then invalid_request ''authorized changed paths must be normalized relative paths''
                else Ok ()) (auth_paths (prop_authority proposal))) (\<lambda>_.
            if \<not> (40 \<le> length base_revision \<and> length base_revision \<le> 64)
               \<or> \<not> list_all is_ascii_hexdigit base_revision
            then invalid_request ''codex_git base_revision must be a full hexadecimal Git object id''
            else validate_codex_git_effects canonicalize proposal repository))"

definition validate_planning_request :: "CommissionProposal \<Rightarrow> unit result" where
  "validate_planning_request proposal =
     (if prop_planning proposal = None then Ok ()
      else if prop_plan proposal \<noteq> None
      then invalid_request ''ask Tyrion to plan or supply a plan, not both''
      else if (case prop_execution proposal of CodexGit _ _ \<Rightarrow> False | _ \<Rightarrow> True)
      then invalid_request ''planning needs a codex_git repository for the planning Worker to read''
      else if list_ex (\<lambda>c. ac_verifier_type c \<noteq> VerifierType.Deterministic) (prop_criteria proposal)
      then invalid_request ''a planned Commission requires deterministic criterion Evidence''
      else if rc_max_attempts (prop_resource_ceilings proposal) < 2
      then invalid_request
        ''planning needs max_attempts of at least 2: one to plan and one per Assignment it proposes''
      else Ok ())"

definition sqlite_integer_max :: u64 where
  "sqlite_integer_max = 9223372036854775807"

definition validate_proposal ::
  "canonicalizer \<Rightarrow> HashOrders \<Rightarrow> CommissionProposal \<Rightarrow> unit result" where
  "validate_proposal canonicalize ho proposal =
     (let ceilings = prop_resource_ceilings proposal in
      if blank (prop_goal proposal) then invalid_request ''goal must not be empty''
      else if (case prop_project_id proposal of None \<Rightarrow> False | Some p \<Rightarrow> bad_identifier p)
      then invalid_request ''project_id must be a non-empty trimmed identifier''
      else if prop_project_id proposal \<noteq> None \<and> auth_repositories (prop_authority proposal) = []
      then invalid_request
        ''a project-scoped Commission must name repository Evidence for identity verification''
      else if list_ex bad_identifier (prop_commission_constraints proposal)
      then invalid_request ''Commission constraints must be non-empty trimmed statements''
      else
      and_then (validate_worker_requirements (prop_worker_requirements proposal)
                  SkillSelectionProvenance.Principal) (\<lambda>_.
      and_then (validate_acceptance_criteria (prop_execution proposal) (prop_criteria proposal)) (\<lambda>_.
      if rc_max_attempts ceilings = 0 \<or> rc_max_elapsed_seconds ceilings = 0
         \<or> rc_max_worker_concurrency ceilings = 0 \<or> rc_max_storage_bytes ceilings = 0
      then invalid_request
        ''attempt, elapsed-time, concurrency, and storage ceilings must be positive''
      else
      and_then (validate_execution canonicalize proposal) (\<lambda>_.
      if rc_max_elapsed_seconds ceilings > sqlite_integer_max
         \<or> rc_max_storage_bytes ceilings > sqlite_integer_max
         \<or> rc_max_model_spend_cents ceilings > sqlite_integer_max
         \<or> rc_max_paid_service_spend_cents ceilings > sqlite_integer_max
      then invalid_request ''resource ceilings must fit in a signed 64-bit integer''
      else
      and_then (case prop_plan proposal of None \<Rightarrow> Ok ()
                | Some plan \<Rightarrow> validate_commission_plan ho proposal plan) (\<lambda>_.
      validate_planning_request proposal)))))"

section \<open>Acceptance Criteria\<close>

text \<open>What a criterion may ask for under an execution kind.\<close>

definition procedure_ok :: "ExecutionSpec \<Rightarrow> VerifierType \<Rightarrow> Verifier \<Rightarrow> bool" where
  "procedure_ok execution t v =
     (case v of
        ExactMatch _ \<Rightarrow> t = VerifierType.Deterministic \<and> execution = ExecutionSpec.Deterministic
      | Verifier.Command argv \<Rightarrow>
          t = VerifierType.Deterministic \<and> execution \<noteq> ExecutionSpec.Deterministic
          \<and> argv \<noteq> [] \<and> (\<forall>a \<in> set argv. a \<noteq> [] \<and> NUL \<notin> set a)
      | Prompt p \<Rightarrow> t \<noteq> VerifierType.Deterministic \<and> \<not> blank p)"

definition criterion_ok :: "ExecutionSpec \<Rightarrow> AcceptanceCriterion \<Rightarrow> bool" where
  "criterion_ok execution c \<longleftrightarrow>
     \<not> blank (ac_id c) \<and> \<not> blank (ac_description c) \<and> \<not> blank (ac_required_evidence c)
     \<and> \<not> blank (ac_verification_environment c)
     \<and> procedure_ok execution (ac_verifier_type c) (ac_verifier c)"

lemma procedure_checks_iff:
  "procedure_matches_type t v = Inr () \<and> procedure_matches_execution e t v = Inr ()
     \<and> procedure_well_formed v = Inr () \<longleftrightarrow> procedure_ok e t v"
  by (cases e; cases t; cases v) (auto simp: procedure_ok_def list_ex_iff contains_char_def)

lemma procedure_checks_no_panic:
  "procedure_matches_type t v = Inr () \<Longrightarrow> \<not> panics (procedure_matches_execution e t v)"
  "\<not> panics (procedure_matches_type t v)"
  "\<not> panics (procedure_well_formed v)"
  by (cases e; cases t; cases v; simp)+

lemma check_criteria_Ok_iff:
  "check_criteria e seen cs = Inr () \<longleftrightarrow>
     (\<forall>c \<in> set cs. criterion_ok e c) \<and> distinct (map ac_id cs) \<and> set (map ac_id cs) \<inter> set seen = {}"
proof (induction cs arbitrary: seen)
  case (Cons c cs)
  then show ?case
    by (auto simp: outcome_simps criterion_ok_def procedure_checks_iff [symmetric])
qed simp

lemma check_criteria_no_panic: "\<not> panics (check_criteria e seen cs)"
  by (induction cs arbitrary: seen) (auto simp: procedure_checks_no_panic)

lemma validate_acceptance_criteria_iff:
  "validate_acceptance_criteria e cs = Inr () \<longleftrightarrow>
     cs \<noteq> [] \<and> (\<forall>c \<in> set cs. criterion_ok e c) \<and> distinct (map ac_id cs)"
  by (auto simp: validate_acceptance_criteria_def check_criteria_Ok_iff)

lemma resolved_verifier_configuration_total:
  "criterion_ok e c \<Longrightarrow> \<exists>s. resolved_verifier_configuration c = Inr s \<and> \<not> blank s"
proof -
  have "\<not> blank ''deterministic-exact-match-v1''" "\<not> blank ''contained-command-v1''"
    "\<not> blank ''model-verifier-v1''" "\<not> blank ''principal-verifier-v1''"
    by code_simp+
  then show "criterion_ok e c \<Longrightarrow> \<exists>s. resolved_verifier_configuration c = Inr s \<and> \<not> blank s"
    by (auto simp: resolved_verifier_configuration_def criterion_ok_def procedure_ok_def
        split: Verifier.splits VerifierType.splits)
qed

section \<open>The effect envelope\<close>

lemma check_effect_targets_iff:
  "check_effect_targets canon checkout ts = Inr () \<longleftrightarrow>
     (\<forall>t \<in> set ts. \<exists>p. canon t = Inr p \<and> \<not> path_starts_with p checkout \<and> \<not> path_starts_with checkout p)"
  by (induction ts) (auto split: sum.splits)

lemma check_effect_targets_no_panic: "\<not> panics (check_effect_targets canon checkout ts)"
  by (induction ts) (auto split: sum.splits)

lemma validate_codex_git_effects_no_panic: "\<not> panics (validate_codex_git_effects canon p r)"
  by (auto simp: validate_codex_git_effects_def Let_def check_effect_targets_no_panic split: sum.splits)

lemma validate_codex_git_effects_Ok:
  assumes "validate_codex_git_effects canon p r = Inr ()"
    and "auth_effects (prop_authority p) \<noteq> [] \<or> auth_destinations (prop_authority p) \<noteq> []"
  shows "set (auth_effects (prop_authority p)) \<subseteq> {''filesystem.write''}"
    and "set (auth_destinations (prop_authority p)) \<subseteq> {''local''}"
    and "\<exists>checkout. canon r = Inr checkout
           \<and> (\<forall>t \<in> set (auth_repositories (prop_authority p)) - {r}. \<exists>q. canon t = Inr q
                \<and> \<not> path_starts_with q checkout \<and> \<not> path_starts_with checkout q)"
  using assms
  by (auto simp: validate_codex_git_effects_def Let_def list_ex_iff check_effect_targets_iff
      split: if_splits sum.splits)

section \<open>Accepted proposals\<close>

lemma validate_execution_no_panic: "\<not> panics (validate_execution canon p)"
  by (auto simp: validate_execution_def ensure_result_fits_storage_ceiling_def
      validate_codex_git_effects_no_panic dest!: panics_try_each
      split: ExecutionSpec.splits sum.splits if_splits)

lemma validate_planning_request_no_panic: "\<not> panics (validate_planning_request p)"
  by (simp add: validate_planning_request_def split: ExecutionSpec.split)

theorem validate_proposal_no_panic:
  assumes "valid_orders ho"
  shows "\<not> panics (validate_proposal canon ho p)"
  using validate_plan_against_no_panic [OF assms]
  by (auto simp: validate_proposal_def Let_def validate_worker_requirements_no_panic
      validate_acceptance_criteria_def check_criteria_no_panic validate_execution_no_panic
      validate_planning_request_no_panic validate_commission_plan_def split: option.splits if_splits)

lemma validate_proposal_parts:
  assumes "validate_proposal canon ho p = Inr ()"
  shows "\<not> blank (prop_goal p)"
    and "requirements_ok SkillSelectionProvenance.Principal (prop_worker_requirements p)"
    and "validate_acceptance_criteria (prop_execution p) (prop_criteria p) = Inr ()"
    and "validate_execution canon p = Inr ()"
    and "\<And>plan. prop_plan p = Some plan \<Longrightarrow> validate_commission_plan ho p plan = Inr ()"
    and "prop_planning p \<noteq> None \<Longrightarrow> prop_plan p = None"
    and "rc_max_attempts (prop_resource_ceilings p) \<noteq> 0"
    and "rc_max_storage_bytes (prop_resource_ceilings p) \<noteq> 0"
    and "rc_max_storage_bytes (prop_resource_ceilings p) \<le> sqlite_integer_max"
    and "rc_max_elapsed_seconds (prop_resource_ceilings p) \<le> sqlite_integer_max"
  using assms
  by (auto simp: validate_proposal_def Let_def outcome_simps validate_worker_requirements_iff not_less
      validate_planning_request_def split: if_splits)

end
