(* ===== verification/Planning.thy ===== *)
theory Planning
  imports Proposal
begin

text \<open>
  \<^verbatim>\<open>src/src/store/planning.rs\<close>: Tyrion-owned planning. The instruction a planning Worker receives,
  finding the proposed plan in its summary, completing it with resources from the mandate, and the
  rule that overlapping writers must be ordered. Deserialising the JSON text of a plan is the
  library's work and enters as the argument \<open>from_str\<close>.
\<close>

definition PLANNING_PREFIX :: string where
  "PLANNING_PREFIX = ''tyrion-plan-''"

definition MAX_PLANNING_ROUNDS :: u32 where
  "MAX_PLANNING_ROUNDS = 2"

definition PLANNING_STORAGE_BYTES :: u64 where
  "PLANNING_STORAGE_BYTES = 5 * 1024 * 1024"

definition is_planning :: "string \<Rightarrow> bool" where
  "is_planning logical_id = starts_with logical_id PLANNING_PREFIX"

section \<open>The instruction\<close>

record CriterionBrief =
  cb_id :: string
  cb_description :: string
  cb_check :: string

record PlanningBrief =
  pb_goal :: string
  pb_constraints :: "string list"
  pb_criteria :: "CriterionBrief list"
  pb_authorized_paths :: "string list"
  pb_max_worker_concurrency :: u32
  pb_rejection :: "string option"

abbreviation nl :: string where
  "nl \<equiv> [CHR 0x0A]"

definition planning_rules :: "u32 \<Rightarrow> string" where
  "planning_rules n =
     nl @ ''Rules:'' @ nl
     @ ''- Split only where the parts are genuinely independent. Useful parallelism is the aim, not a large number of Workers; at most ''
     @ word_dec n
     @ '' can run at once. One Assignment is right when the work cannot be split.'' @ nl
     @ ''- Each Assignment's goal must be complete instructions for a Worker that sees only that goal and the repository, including which files to create or change and how to check them.'' @ nl
     @ ''- Assignments whose write_scopes overlap must be ordered: one lists the other in dependencies.'' @ nl
     @ ''- dependencies name other Assignments' ids. Use them only when an Assignment needs another's result.'' @ nl
     @ ''- Ids are short lowercase words and may not start with \"tyrion-\".'' @ nl @ nl
     @ ''Put only this JSON in your Result summary, with no other text:'' @ nl
     @ ''{\"assignments\": [{\"id\": \"...\", \"goal\": \"...\", \"criterion_ids\": [\"...\"], ''
     @ ''\"write_scopes\": [\"...\"], \"read_scopes\": [], \"dependencies\": []}]}'' @ nl"

definition planning_goal :: "PlanningBrief \<Rightarrow> string" where
  "planning_goal brief =
     ''You are the planning Worker for a Tyrion Commission. Do not change any files. ''
     @ ''Read the repository, then decide how to split the work below into Assignments that ''
     @ ''other Workers will carry out in parallel.'' @ nl @ nl
     @ ''The Principal's goal:'' @ nl @ pb_goal brief @ nl @ nl
     @ (if pb_constraints brief \<noteq> []
        then ''Constraints every Assignment must respect:'' @ nl
             @ concat (map (\<lambda>c. ''- '' @ c @ nl) (pb_constraints brief)) @ nl
        else [])
     @ ''Acceptance Criteria. Each must be owned by exactly one Assignment:'' @ nl
     @ concat (map (\<lambda>c. ''- '' @ cb_id c @ '': '' @ cb_description c @ '' (checked by: ''
                        @ cb_check c @ '')'' @ nl) (pb_criteria brief))
     @ nl @ ''Paths Assignments may change (write_scopes must stay inside these):'' @ nl
     @ concat (map (\<lambda>p. ''- '' @ p @ nl) (pb_authorized_paths brief))
     @ planning_rules (pb_max_worker_concurrency brief)
     @ (case pb_rejection brief of None \<Rightarrow> []
        | Some rejection \<Rightarrow> nl @ ''Your previous plan was rejected: '' @ rejection @ nl
            @ ''Fix exactly that and propose the plan again.'' @ nl)"

section \<open>Reading the proposal\<close>

record ProposedAssignment =
  pp_id :: string
  pp_goal :: string
  pp_criterion_ids :: "string list"
  pp_write_scopes :: "string list"
  pp_read_scopes :: "string list"
  pp_dependencies :: "string list"

fun find_char :: "char \<Rightarrow> string \<Rightarrow> nat option" where
  "find_char c [] = None"
| "find_char c (x # xs) = (if x = c then Some 0 else map_option Suc (find_char c xs))"

fun rfind_char :: "char \<Rightarrow> string \<Rightarrow> nat option" where
  "rfind_char c [] = None"
| "rfind_char c (x # xs) =
     (case rfind_char c xs of Some i \<Rightarrow> Some (Suc i) | None \<Rightarrow> if x = c then Some 0 else None)"

text \<open>\<^verbatim>\<open>&s[a..=b]\<close> with \<open>b\<close> in range: a start beyond \<open>b + 1\<close> panics.\<close>

definition slice_inclusive :: "string \<Rightarrow> nat \<Rightarrow> nat \<Rightarrow> ('e, string) outcome" where
  "slice_inclusive s a b =
     (if a > Suc b then Panicked ''slice index starts after it ends''
      else Ok (take (Suc b - a) (drop a s)))"

definition parse_proposed_plan ::
  "(string \<Rightarrow> string + ProposedAssignment list) \<Rightarrow> string \<Rightarrow> (string, ProposedAssignment list) outcome" where
  "parse_proposed_plan from_str output =
     (case find_char (CHR ''{'') output of
        None \<Rightarrow> Err ''the summary contains no JSON object''
      | Some start \<Rightarrow>
      case rfind_char (CHR ''}'') output of
        None \<Rightarrow> Err ''the summary contains no complete JSON object''
      | Some end_index \<Rightarrow>
      and_then (slice_inclusive output start end_index) (\<lambda>text.
      case from_str text of
        Inl e \<Rightarrow> Err (''the plan is not valid JSON of the required shape: '' @ e)
      | Inr assignments \<Rightarrow>
          if assignments = [] then Err ''the plan has no Assignments''
          else case List.find (\<lambda>a. starts_with (pp_id a) ''tyrion-'') assignments of
                 Some reserved \<Rightarrow> Err (''Assignment id '' @ pp_id reserved
                   @ '' uses the reserved \"tyrion-\" prefix'')
               | None \<Rightarrow> Ok assignments))"

section \<open>Completing the plan\<close>

definition even_share :: "'a list \<Rightarrow> ResourceCeilings \<Rightarrow> u64" where
  "even_share proposed ceilings =
     max (rc_max_storage_bytes ceilings div max (of_nat (length proposed)) 1) 1"

definition complete_assignment :: "u64 \<Rightarrow> ProposedAssignment \<Rightarrow> PlannedAssignment" where
  "complete_assignment share a =
     \<lparr>pa_id = pp_id a, pa_goal = pp_goal a, pa_dependencies = pp_dependencies a,
      pa_criterion_ids = pp_criterion_ids a, pa_purpose = CriticalPath,
      pa_read_scopes = pp_read_scopes a, pa_write_scopes = pp_write_scopes a,
      pa_resources = \<lparr>ar_concurrency_slots = 1, ar_max_storage_bytes = share,
                      ar_max_model_spend_cents = 0, ar_max_paid_service_spend_cents = 0\<rparr>,
      pa_worker_requirements = default_worker_requirements, pa_competition = None\<rparr>"

definition complete_plan :: "ProposedAssignment list \<Rightarrow> ResourceCeilings \<Rightarrow> CommissionPlan" where
  "complete_plan proposed ceilings =
     \<lparr>plan_assignments = map (complete_assignment (even_share proposed ceilings)) proposed\<rparr>"

definition planning_plan ::
  "u32 \<Rightarrow> string \<Rightarrow> ResourceCeilings \<Rightarrow> WorkerRequirements \<Rightarrow> CommissionPlan" where
  "planning_plan round goal ceilings worker_requirements =
     \<lparr>plan_assignments =
        [\<lparr>pa_id = PLANNING_PREFIX @ word_dec round, pa_goal = goal, pa_dependencies = [],
          pa_criterion_ids = [], pa_purpose = UncertaintyReduction,
          pa_read_scopes = [], pa_write_scopes = [],
          pa_resources = \<lparr>ar_concurrency_slots = 1,
                          ar_max_storage_bytes = min PLANNING_STORAGE_BYTES (rc_max_storage_bytes ceilings),
                          ar_max_model_spend_cents = 0, ar_max_paid_service_spend_cents = 0\<rparr>,
          pa_worker_requirements = worker_requirements, pa_competition = None\<rparr>]\<rparr>"

section \<open>Ordering overlapping writers\<close>

type_synonym dependency_map = "(string \<times> string list) list"

definition dependency_entries :: "CommissionPlan \<Rightarrow> dependency_map" where
  "dependency_entries plan = rev (map (\<lambda>a. (pa_id a, pa_dependencies a)) (plan_assignments plan))"

definition nexts_of :: "dependency_map \<Rightarrow> string \<Rightarrow> string list" where
  "nexts_of m current = (case map_of m current of None \<Rightarrow> [] | Some ds \<Rightarrow> ds)"

text \<open>The inner loop over one node's dependencies; \<open>None\<close> is the early \<^verbatim>\<open>return true\<close>. The head of
  the stack list is the top of the vector.\<close>

fun push_unseen ::
  "string \<Rightarrow> string list \<Rightarrow> string list \<Rightarrow> string list \<Rightarrow> (string list \<times> string list) option" where
  "push_unseen target [] seen stack = Some (seen, stack)"
| "push_unseen target (next # nexts) seen stack =
     (if next = target then None
      else if next \<in> set seen then push_unseen target nexts seen stack
      else push_unseen target nexts (next # seen) (next # stack))"

definition named_dependencies :: "dependency_map \<Rightarrow> string set" where
  "named_dependencies m = (\<Union>(i, ds) \<in> set m. set ds)"

lemma finite_named_dependencies [simp]: "finite (named_dependencies m)"
  by (auto simp: named_dependencies_def)

lemma nexts_named: "set (nexts_of m i) \<subseteq> named_dependencies m"
proof (cases "map_of m i")
  case (Some ds)
  then have "(i, ds) \<in> set m" by (rule map_of_SomeD)
  with Some show ?thesis by (auto simp: nexts_of_def named_dependencies_def)
qed (simp add: nexts_of_def)

lemma push_unseen_Some:
  "push_unseen target nexts seen stack = Some (seen', stack') \<Longrightarrow>
     \<exists>new. seen' = new @ seen \<and> stack' = new @ stack \<and> set new = set nexts - set seen
           \<and> target \<notin> set nexts"
proof (induction nexts arbitrary: seen stack)
  case (Cons n nexts)
  then have "n \<noteq> target" by (auto split: if_splits)
  show ?case
  proof (cases "n \<in> set seen")
    case True
    with Cons.prems \<open>n \<noteq> target\<close> have "push_unseen target nexts seen stack = Some (seen', stack')"
      by simp
    from Cons.IH [OF this] True \<open>n \<noteq> target\<close> show ?thesis by auto
  next
    case False
    with Cons.prems \<open>n \<noteq> target\<close>
    have "push_unseen target nexts (n # seen) (n # stack) = Some (seen', stack')" by simp
    from Cons.IH [OF this] obtain new where
      "seen' = new @ n # seen" "stack' = new @ n # stack" "set new = set nexts - set (n # seen)"
      "target \<notin> set nexts" by blast
    with False \<open>n \<noteq> target\<close> show ?thesis by (intro exI [of _ "new @ [n]"]) auto
  qed
qed simp

lemma push_unseen_None: "push_unseen target nexts seen stack = None \<longleftrightarrow> target \<in> set nexts"
  by (induction nexts arbitrary: seen stack) auto

function depends_search ::
  "dependency_map \<Rightarrow> string \<Rightarrow> string list \<Rightarrow> string list \<Rightarrow> bool" where
  "depends_search m target [] seen = False"
| "depends_search m target (current # stack) seen =
     (case push_unseen target (nexts_of m current) seen stack of
        None \<Rightarrow> True
      | Some (seen', stack') \<Rightarrow> depends_search m target stack' seen')"
  by pat_completeness auto
termination
proof (relation "inv_image (finite_psubset <*lex*> less_than)
    (\<lambda>(m, target, stack, seen). (named_dependencies m - set seen, length stack))")
  fix m target current stack seen x seen' stack'
  assume "push_unseen target (nexts_of m current) seen stack = Some x" and "(seen', stack') = x"
  then obtain new where new: "seen' = new @ seen" "stack' = new @ stack"
      "set new = set (nexts_of m current) - set seen"
    using push_unseen_Some by blast
  show "((m, target, stack', seen'), m, target, current # stack, seen)
      \<in> inv_image (finite_psubset <*lex*> less_than)
          (\<lambda>(m, target, stack, seen). (named_dependencies m - set seen, length stack))"
  proof (cases "new = []")
    case True
    with new show ?thesis by simp
  next
    case False
    then obtain n where n: "n \<in> set new" by (cases new) auto
    with new nexts_named [of m current] have "n \<in> named_dependencies m - set seen" by blast
    with n new have "named_dependencies m - set seen' \<subset> named_dependencies m - set seen" by auto
    then show ?thesis by (simp add: finite_psubset_def)
  qed
qed auto

definition depends_on :: "dependency_map \<Rightarrow> string \<Rightarrow> string \<Rightarrow> bool" where
  "depends_on m from target = depends_search m target [from] []"

definition first_overlap :: "PlannedAssignment \<Rightarrow> PlannedAssignment \<Rightarrow> string option" where
  "first_overlap left right =
     List.find (\<lambda>left_scope. list_ex (\<lambda>right_scope. scopes_overlap [left_scope] [right_scope])
                               (pa_write_scopes right)) (pa_write_scopes left)"

fun check_against :: "dependency_map \<Rightarrow> PlannedAssignment \<Rightarrow> PlannedAssignment list \<Rightarrow> (string, unit) outcome" where
  "check_against m left [] = Ok ()"
| "check_against m left (right # rest) =
     (case first_overlap left right of
        None \<Rightarrow> check_against m left rest
      | Some scope \<Rightarrow>
          if \<not> depends_on m (pa_id left) (pa_id right) \<and> \<not> depends_on m (pa_id right) (pa_id left)
          then Err (''Assignments '' @ pa_id left @ '' and '' @ pa_id right @ '' both write '' @ scope
                 @ '' but neither depends on the other; order them or merge them'')
          else check_against m left rest)"

fun check_pairs :: "dependency_map \<Rightarrow> PlannedAssignment list \<Rightarrow> (string, unit) outcome" where
  "check_pairs m [] = Ok ()"
| "check_pairs m (left # rest) = and_then (check_against m left rest) (\<lambda>_. check_pairs m rest)"

definition ensure_overlaps_are_ordered :: "CommissionPlan \<Rightarrow> (string, unit) outcome" where
  "ensure_overlaps_are_ordered plan = check_pairs (dependency_entries plan) (plan_assignments plan)"

section \<open>The search decides reachability\<close>

definition reaches :: "dependency_map \<Rightarrow> (string \<times> string) set" where
  "reaches m = {(i, d). d \<in> set (nexts_of m i)}"

lemma depends_search_sound:
  "depends_search m target stack seen \<Longrightarrow> \<exists>s \<in> set stack. (s, target) \<in> (reaches m)\<^sup>+"
proof (induction m target stack seen rule: depends_search.induct)
  case (2 m target current stack seen)
  show ?case
  proof (cases "push_unseen target (nexts_of m current) seen stack")
    case None
    then have "(current, target) \<in> reaches m" by (simp add: push_unseen_None reaches_def)
    then show ?thesis by auto
  next
    case (Some p)
    obtain seen' stack' where p: "p = (seen', stack')" by (cases p)
    from push_unseen_Some [OF Some [unfolded p]] obtain new where
      new: "stack' = new @ stack" "set new \<subseteq> set (nexts_of m current)" by blast
    from "2.prems" Some p have "depends_search m target stack' seen'" by simp
    with "2.IH" [OF Some p [symmetric]] obtain s where
      s: "s \<in> set stack'" "(s, target) \<in> (reaches m)\<^sup>+" by blast
    show ?thesis
    proof (cases "s \<in> set stack")
      case True
      with s show ?thesis by auto
    next
      case False
      with s new have "(current, s) \<in> reaches m" by (auto simp: reaches_def)
      then have "(current, target) \<in> (reaches m)\<^sup>+" using s(2) by (rule trancl_into_trancl2)
      then show ?thesis by auto
    qed
  qed
qed simp

text \<open>The search explores everything it has seen: a node seen but not on the stack has all its
  dependencies seen.\<close>

lemma depends_search_complete:
  "\<not> depends_search m target stack seen \<Longrightarrow>
   \<forall>s \<in> explored. target \<notin> set (nexts_of m s) \<and> set (nexts_of m s) \<subseteq> set seen \<Longrightarrow>
   set seen \<subseteq> explored \<union> set stack \<Longrightarrow>
   \<exists>all. explored \<union> set stack \<subseteq> all \<and> (\<forall>s \<in> all. target \<notin> set (nexts_of m s) \<and> set (nexts_of m s) \<subseteq> all)"
proof (induction m target stack seen arbitrary: explored rule: depends_search.induct)
  case (1 m target seen)
  then have "explored \<union> set [] \<subseteq> explored
      \<and> (\<forall>s \<in> explored. target \<notin> set (nexts_of m s) \<and> set (nexts_of m s) \<subseteq> explored)" by auto
  then show ?case by blast
next
  case (2 m target current stack seen)
  then obtain seen' stack' where step: "push_unseen target (nexts_of m current) seen stack = Some (seen', stack')"
    and rest: "\<not> depends_search m target stack' seen'"
    by (auto split: option.splits)
  from push_unseen_Some [OF step] obtain new where
    new: "seen' = new @ seen" "stack' = new @ stack" "set new = set (nexts_of m current) - set seen"
      "target \<notin> set (nexts_of m current)" by blast
  have closed: "\<forall>s \<in> insert current explored. target \<notin> set (nexts_of m s) \<and> set (nexts_of m s) \<subseteq> set seen'"
    using "2.prems"(2) new by auto
  have covered: "set seen' \<subseteq> insert current explored \<union> set stack'"
    using "2.prems"(3) new by auto
  obtain all where "insert current explored \<union> set stack' \<subseteq> all"
    "\<forall>s \<in> all. target \<notin> set (nexts_of m s) \<and> set (nexts_of m s) \<subseteq> all"
    using "2.IH" [OF step refl rest closed covered] by (elim exE conjE)
  with new(2) show ?case by auto
qed

theorem depends_on_iff: "depends_on m i target \<longleftrightarrow> (i, target) \<in> (reaches m)\<^sup>+"
proof
  assume "depends_on m i target"
  then show "(i, target) \<in> (reaches m)\<^sup>+"
    using depends_search_sound [of m target "[i]" "[]"] by (simp add: depends_on_def)
next
  assume reach: "(i, target) \<in> (reaches m)\<^sup>+"
  show "depends_on m i target"
  proof (rule ccontr)
    assume "\<not> depends_on m i target"
    then obtain all where all: "i \<in> all"
      "\<forall>s \<in> all. target \<notin> set (nexts_of m s) \<and> set (nexts_of m s) \<subseteq> all"
      using depends_search_complete [of m target "[i]" "[]" "{}"] by (auto simp: depends_on_def)
    have "t \<in> all \<and> t \<noteq> target" if "(i, t) \<in> (reaches m)\<^sup>+" for t
      using that by (induction rule: trancl_induct) (use all in \<open>auto simp: reaches_def\<close>)
    with reach show False by blast
  qed
qed

section \<open>What an ordered plan guarantees\<close>

lemma first_overlap_None:
  "first_overlap a b = None \<longleftrightarrow> \<not> scopes_overlap (pa_write_scopes a) (pa_write_scopes b)"
  by (auto simp: first_overlap_def find_None_all scopes_overlap_iff list_ex_iff)

definition ordered_pair :: "dependency_map \<Rightarrow> PlannedAssignment \<Rightarrow> PlannedAssignment \<Rightarrow> bool" where
  "ordered_pair m a b \<longleftrightarrow>
     scopes_overlap (pa_write_scopes a) (pa_write_scopes b) \<longrightarrow>
       (pa_id a, pa_id b) \<in> (reaches m)\<^sup>+ \<or> (pa_id b, pa_id a) \<in> (reaches m)\<^sup>+"

lemma check_against_Ok_iff: "check_against m a bs = Inr () \<longleftrightarrow> (\<forall>b \<in> set bs. ordered_pair m a b)"
proof (induction bs)
  case (Cons b bs)
  show ?case
  proof (cases "first_overlap a b")
    case None
    then have "ordered_pair m a b" by (simp add: first_overlap_None ordered_pair_def)
    with None Cons.IH show ?thesis by simp
  next
    case (Some scope)
    then have "scopes_overlap (pa_write_scopes a) (pa_write_scopes b)"
      using first_overlap_None [of a b] by simp
    then have "ordered_pair m a b \<longleftrightarrow>
        depends_on m (pa_id a) (pa_id b) \<or> depends_on m (pa_id b) (pa_id a)"
      by (simp add: ordered_pair_def depends_on_iff)
    with Some Cons.IH show ?thesis by simp
  qed
qed simp

lemma check_pairs_Ok_iff: "check_pairs m as = Inr () \<longleftrightarrow> sorted_wrt (ordered_pair m) as"
  by (induction as) (auto simp: outcome_simps check_against_Ok_iff)

lemma ensure_overlaps_are_ordered_iff:
  "ensure_overlaps_are_ordered plan = Inr () \<longleftrightarrow>
     sorted_wrt (ordered_pair (dependency_entries plan)) (plan_assignments plan)"
  by (simp add: ensure_overlaps_are_ordered_def check_pairs_Ok_iff)

lemma ensure_overlaps_no_panic: "\<not> panics (ensure_overlaps_are_ordered plan)"
proof -
  have against: "\<not> panics (check_against m a bs)" for m a bs
    by (induction bs) (auto split: option.splits)
  have "\<not> panics (check_pairs m as)" for m as
    by (induction as) (auto simp: against)
  then show ?thesis by (simp add: ensure_overlaps_are_ordered_def)
qed

section \<open>Resources come from the mandate\<close>

lemma even_share_total:
  assumes "length proposed < 2 ^ 64" and "proposed \<noteq> []"
  shows "length proposed * unat (even_share proposed ceilings)
         \<le> max (unat (rc_max_storage_bytes ceilings)) (length proposed)"
proof -
  let ?n = "length proposed" and ?c = "rc_max_storage_bytes ceilings"
  from assms have n: "unat (of_nat ?n :: u64) = ?n" by (simp add: unat_of_nat)
  with assms have "(1 :: u64) \<le> of_nat ?n"
    by (simp add: word_le_nat_alt Suc_le_eq)
  then have "max (of_nat ?n) 1 = (of_nat ?n :: u64)" by (simp only: max.absorb1)
  then have share: "unat (even_share proposed ceilings) = max (unat ?c div ?n) 1"
    using n by (auto simp: even_share_def max_def word_le_nat_alt unat_div)
  have "?n * max (unat ?c div ?n) 1 = max (?n * (unat ?c div ?n)) ?n"
    by (simp only: nat_mult_max_right mult_1_right)
  moreover have "?n * (unat ?c div ?n) \<le> unat ?c"
    by (metis mult.commute div_times_less_eq_dividend)
  ultimately show ?thesis unfolding share by linarith
qed

end
