(* ===== verification/Routing.thy ===== *)
theory Routing
  imports Proposal "HOL-Library.List_Lexorder" "HOL-Library.Char_ord" "HOL-Library.Product_Lexorder"
    "HOL-Library.Multiset"
begin

text \<open>
  \<^verbatim>\<open>src/src/worker/routing.rs\<close>: the catalog of Worker Configurations, its validation, the binding of
  its structured adapters to the pinned container runtime, and the routing of one Assignment to one
  configuration. Reading files and their metadata is the operating system's and SHA-256 is a
  library's; both are arguments. The resource profile comes from
  \<^verbatim>\<open>src/src/worker/contained_codex.rs\<close>.
\<close>

section \<open>Parts of the Rust library\<close>

datatype Ordering = Less | Equal | Greater

definition cmp :: "'a::linorder \<Rightarrow> 'a \<Rightarrow> Ordering" where
  "cmp a b = (if a < b then Less else if a = b then Equal else Greater)"

fun then_with :: "Ordering \<Rightarrow> Ordering \<Rightarrow> Ordering" where
  "then_with Equal other = other"
| "then_with Less other = Less"
| "then_with Greater other = Greater"

text \<open>\<^verbatim>\<open>sort_by\<close>: a stable sort. Equal elements keep their order.\<close>

fun insert_by :: "('a \<Rightarrow> 'a \<Rightarrow> Ordering) \<Rightarrow> 'a \<Rightarrow> 'a list \<Rightarrow> 'a list" where
  "insert_by compare x [] = [x]"
| "insert_by compare x (y # ys) =
     (if compare x y = Greater then y # insert_by compare x ys else x # y # ys)"

definition sort_by :: "('a \<Rightarrow> 'a \<Rightarrow> Ordering) \<Rightarrow> 'a list \<Rightarrow> 'a list" where
  "sort_by compare xs = foldr (insert_by compare) xs []"

fun rsplit_once :: "char \<Rightarrow> string \<Rightarrow> (string \<times> string) option" where
  "rsplit_once c [] = None"
| "rsplit_once c (x # xs) =
     (case rsplit_once c xs of
        Some (a, b) \<Rightarrow> Some (x # a, b)
      | None \<Rightarrow> if x = c then Some ([], xs) else None)"

definition saturating_add :: "'a::len word \<Rightarrow> 'a word \<Rightarrow> 'a word" where
  "saturating_add a b = (case checked_add a b of Some c \<Rightarrow> c | None \<Rightarrow> - 1)"

definition within :: "'a::len word \<Rightarrow> 'a word \<Rightarrow> 'a word \<Rightarrow> bool" where
  "within lo hi x = (lo \<le> x \<and> x \<le> hi)"

record Metadata =
  md_is_file :: bool
  md_mode :: u32

record Host =
  fs_read :: "string \<Rightarrow> string + string"
  fs_metadata :: "string \<Rightarrow> string + Metadata"
  sha256_hex :: "string \<Rightarrow> string"

section \<open>Data\<close>

definition REQUIRED_ADAPTER_CAPABILITIES :: "string list" where
  "REQUIRED_ADAPTER_CAPABILITIES =
     [''structured_lifecycle'', ''semantic_interrupt'', ''terminal_state'', ''usage'', ''skills'',
      ''result_submission'', ''contained'']"

definition CONTAINMENT_PROFILE :: string where
  "CONTAINMENT_PROFILE = ''docker-hardened-v1''"

record ResourceProfile =
  prof_vcpus :: u32
  prof_memory_mib :: u64
  prof_writable_storage_mib :: u64
  prof_max_processes :: u32
  prof_memory_request_mib :: u64
  prof_cpu_request_millis :: u64

datatype WorkerAdapterKind =
    CodexAppServer | ClaudeAgentSdk | PiRpc | OpenCodeServer | DeterministicLocal | ContainedCodex

record WorkerAdapter =
  ad_kind :: WorkerAdapterKind
  ad_version :: string
  ad_sha256 :: string
  ad_command :: "string list"

record WorkerContext =
  ctx_strategy :: string
  ctx_capacity_tokens :: u64

record WorkerResourceLimits =
  lim_max_concurrency_slots :: u32
  lim_max_storage_bytes :: u64
  lim_max_model_spend_cents :: u64
  lim_max_paid_service_spend_cents :: u64

record WorkerMetrics =
  met_expected_verified_correctness :: u16
  met_preference_adherence :: u16
  met_first_pass_acceptance :: u16
  met_commission_elapsed_time_contribution_ms :: u64
  met_cost_cents :: u64
  met_continuity :: u16

record WorkerConfiguration =
  wc_id :: string
  wc_harness :: string
  wc_adapter :: WorkerAdapter
  wc_model :: string
  wc_settings :: "(string \<times> json) list"
  wc_tools :: "string list"
  wc_skills :: "SkillVersion list"
  wc_selected_skills :: "SkillVersion list"
  wc_context :: WorkerContext
  wc_resource_limits :: WorkerResourceLimits
  wc_capabilities :: "string list"
  wc_authority_actions :: "string list"
  wc_authority_scope_types :: "string list"
  wc_assignment_constraints :: "string list"
  wc_containment_profile :: string
  wc_containment_resources :: "ResourceProfile option"
  wc_replacement_class :: string
  wc_available :: bool
  wc_metrics :: WorkerMetrics

type_synonym WorkerCatalog = "WorkerConfiguration list"

record ContainedCodexDescriptor =
  cd_id :: string
  cd_version :: string
  cd_model :: string
  cd_settings :: "(string \<times> json) list"
  cd_max_storage_bytes :: u64
  cd_containment_profile :: string
  cd_supports_claude :: bool
  cd_supports_pi :: bool
  cd_supports_opencode :: bool
  cd_pi_model_provider :: "string option"
  cd_pi_model :: "string option"
  cd_resources :: ResourceProfile

record RouteRequest =
  rr_requirements :: WorkerRequirements
  rr_resources :: AssignmentResources
  rr_required_authority_action :: string
  rr_required_authority_scope_types :: "string list"
  rr_entry_harness :: string

datatype RouteStatus = Selected | AttentionRequired

record IneligibleConfiguration =
  ic_configuration_id :: string
  ic_failed_gates :: "string list"

record RoutingRationale =
  rt_entry_harness :: string
  rt_entry_harness_preference_applied :: bool
  rt_ordering :: "string list"
  rt_eligible :: "string list"
  rt_ineligible :: "IneligibleConfiguration list"
  rt_preferred_unavailable_configuration :: "string option"
  rt_automatic_replacement :: "string option"
  rt_attention_requirement :: "string option"

record RouteDecision =
  rd_status :: RouteStatus
  rd_selected_configuration :: "WorkerConfiguration option"
  rd_rationale :: RoutingRationale

abbreviation wc_kind :: "WorkerConfiguration \<Rightarrow> WorkerAdapterKind" where
  "wc_kind c \<equiv> ad_kind (wc_adapter c)"

section \<open>Gates\<close>

definition pi_is_production_qualified :: "WorkerConfiguration \<Rightarrow> bool" where
  "pi_is_production_qualified c = (map_of (wc_settings c) ''production_qualified'' = Some (JBool True))"

definition pi_base_model :: "string \<Rightarrow> string" where
  "pi_base_model model =
     (case rsplit_once (CHR '':'') model of
        None \<Rightarrow> model
      | Some (base, thinking) \<Rightarrow>
          if thinking \<in> {''off'', ''minimal'', ''low'', ''medium'', ''high'', ''xhigh''} then base else model)"

definition is_structured :: "WorkerAdapterKind \<Rightarrow> bool" where
  "is_structured k = (k \<in> {CodexAppServer, ClaudeAgentSdk, PiRpc, OpenCodeServer})"

definition configuration_is_available :: "Host \<Rightarrow> WorkerConfiguration \<Rightarrow> bool" where
  "configuration_is_available host c =
     (if \<not> wc_available c then False
      else if wc_kind c = PiRpc \<and> \<not> pi_is_production_qualified c then False
      else if \<not> is_structured (wc_kind c) then True
      else case ad_command (wc_adapter c) of
             [] \<Rightarrow> False
           | executable # _ \<Rightarrow>
               (case fs_read host executable of
                  Inl _ \<Rightarrow> False
                | Inr content \<Rightarrow> sha256_hex host content = to_ascii_lowercase (ad_sha256 (wc_adapter c))))"

definition contains_all :: "'a list \<Rightarrow> 'a list \<Rightarrow> bool" where
  "contains_all actual required = list_all (\<lambda>r. list_ex (\<lambda>candidate. candidate = r) actual) required"

text \<open>Two Skills of one name with different content.\<close>

definition skill_clash :: "SkillVersion \<Rightarrow> SkillVersion \<Rightarrow> bool" where
  "skill_clash existing selected =
     (sv_name existing = sv_name selected \<and> sv_content_digest existing \<noteq> sv_content_digest selected)"

definition skills_gate_fails :: "WorkerConfiguration \<Rightarrow> WorkerRequirements \<Rightarrow> bool" where
  "skills_gate_fails c w =
     (\<not> contains_all (wc_skills c) (wr_skills w)
      \<or> \<not> list_all (\<lambda>selected. list_ex (\<lambda>available. available = sel_version selected) (wc_skills c))
            (wr_selected_skills w)
      \<or> list_ex (\<lambda>selected.
            list_ex (\<lambda>existing. skill_clash existing selected) (wr_skills w)
            \<or> list_ex (\<lambda>existing. skill_clash (sel_version existing) selected) (wr_selected_skills w))
          (wc_selected_skills c))"

definition pi_skill_names :: "WorkerConfiguration \<Rightarrow> WorkerRequirements \<Rightarrow> string list" where
  "pi_skill_names c w =
     remdups (map sv_name (wr_skills w) @ map sel_name (wr_selected_skills w)
              @ map sv_name (wc_selected_skills c))"

definition failed_gates :: "WorkerConfiguration \<Rightarrow> RouteRequest \<Rightarrow> string list" where
  "failed_gates c request =
     (let w = rr_requirements request; limits = wc_resource_limits c; res = rr_resources request in
        (if wc_kind c = PiRpc \<and> \<not> pi_is_production_qualified c then [''production_qualification''] else [])
      @ (if wr_require_configurations w \<noteq> [] \<and> wc_id c \<notin> set (wr_require_configurations w)
         then [''required_configuration''] else [])
      @ (if wc_id c \<in> set (wr_exclude_configurations w) then [''excluded_configuration''] else [])
      @ (if \<not> contains_all (wc_capabilities c) (wr_capabilities w) then [''required_capabilities''] else [])
      @ (if \<not> contains_all (wc_tools c) (wr_tools w) then [''required_tools''] else [])
      @ (if skills_gate_fails c w then [''required_skills''] else [])
      @ (if wc_kind c = PiRpc \<and> pi_is_production_qualified c \<and> length (pi_skill_names c w) > 1
         then [''pi_single_native_skill''] else [])
      @ (if ctx_capacity_tokens (wc_context c) < wr_min_context_tokens w then [''context_capacity''] else [])
      @ (case wr_context_strategy w of
           None \<Rightarrow> []
         | Some required \<Rightarrow> if required \<noteq> ctx_strategy (wc_context c) then [''context_strategy''] else [])
      @ (if \<not> contains_all (wc_assignment_constraints c) (wr_assignment_constraints w)
         then [''assignment_constraints''] else [])
      @ (if rr_required_authority_action request \<notin> set (wc_authority_actions c)
         then [''authority_compatibility''] else [])
      @ (if list_ex (\<lambda>required. required \<notin> set (wc_authority_scope_types c))
              (rr_required_authority_scope_types request)
         then [''authority_scope_compatibility''] else [])
      @ (if ar_concurrency_slots res > lim_max_concurrency_slots limits
            \<or> ar_max_storage_bytes res > lim_max_storage_bytes limits
         then [''resource_limits''] else []))"

section \<open>Ranking\<close>

definition compare_configurations :: "WorkerConfiguration \<Rightarrow> WorkerConfiguration \<Rightarrow> Ordering" where
  "compare_configurations left right =
     (let l = wc_metrics left; r = wc_metrics right in
      then_with (then_with (then_with (then_with (then_with (then_with
        (cmp (met_expected_verified_correctness r) (met_expected_verified_correctness l))
        (cmp (met_preference_adherence r) (met_preference_adherence l)))
        (cmp (met_first_pass_acceptance r) (met_first_pass_acceptance l)))
        (cmp (met_commission_elapsed_time_contribution_ms l) (met_commission_elapsed_time_contribution_ms r)))
        (cmp (met_cost_cents l) (met_cost_cents r)))
        (cmp (met_continuity r) (met_continuity l)))
        (cmp (wc_id left) (wc_id right)))"

definition approximately_equal :: "WorkerConfiguration \<Rightarrow> WorkerConfiguration \<Rightarrow> bool" where
  "approximately_equal preferred candidate =
     (let p = wc_metrics preferred; c = wc_metrics candidate in
      wc_replacement_class preferred = wc_replacement_class candidate
      \<and> saturating_sub (met_expected_verified_correctness p) (met_expected_verified_correctness c) \<le> 100
      \<and> saturating_sub (met_preference_adherence p) (met_preference_adherence c) \<le> 100
      \<and> saturating_sub (met_first_pass_acceptance p) (met_first_pass_acceptance c) \<le> 100)"

section \<open>Routing\<close>

definition usable :: "Host \<Rightarrow> string set \<Rightarrow> WorkerConfiguration \<Rightarrow> bool" where
  "usable host unavailable c = (configuration_is_available host c \<and> wc_id c \<notin> unavailable)"

definition eligible_ranked :: "WorkerCatalog \<Rightarrow> RouteRequest \<Rightarrow> WorkerConfiguration list" where
  "eligible_ranked catalog request =
     sort_by compare_configurations (filter (\<lambda>c. failed_gates c request = []) catalog)"

definition choose_configuration ::
  "Host \<Rightarrow> string set \<Rightarrow> WorkerConfiguration list
   \<Rightarrow> WorkerConfiguration option \<times> string option \<times> string option" where
  "choose_configuration host unavailable eligible =
     (case eligible of
        [] \<Rightarrow> (None, None, None)
      | c # others \<Rightarrow>
          if usable host unavailable c then (Some c, None, None)
          else let replacement =
                 List.find (\<lambda>candidate. usable host unavailable candidate \<and> approximately_equal c candidate) others
               in (replacement, Some (wc_id c), map_option wc_id replacement))"

definition attention_text :: "WorkerConfiguration list \<Rightarrow> string" where
  "attention_text eligible =
     (case eligible of
        c # _ \<Rightarrow> ''Make Worker Configuration '' @ wc_id c
                 @ '' available or approve an eligible approximately equal replacement.''
      | [] \<Rightarrow> ''Provide a Worker Configuration that passes every capability, authority, tool, Skill, context, Assignment, and resource gate.'')"

definition route :: "Host \<Rightarrow> WorkerCatalog \<Rightarrow> RouteRequest \<Rightarrow> string set \<Rightarrow> RouteDecision" where
  "route host catalog request unavailable =
     (let ineligible = map (\<lambda>c. \<lparr>ic_configuration_id = wc_id c, ic_failed_gates = failed_gates c request\<rparr>)
                         (filter (\<lambda>c. failed_gates c request \<noteq> []) catalog);
          eligible = eligible_ranked catalog request;
          (selected, preferred_unavailable, replacement) = choose_configuration host unavailable eligible
      in \<lparr>rd_status = (if selected \<noteq> None then Selected else AttentionRequired),
          rd_selected_configuration = selected,
          rd_rationale =
            \<lparr>rt_entry_harness = rr_entry_harness request,
             rt_entry_harness_preference_applied = False,
             rt_ordering = [''expected_verified_correctness'', ''preference_adherence'',
               ''first_pass_acceptance'', ''commission_elapsed_time_contribution'', ''cost'', ''continuity''],
             rt_eligible = map wc_id eligible,
             rt_ineligible = ineligible,
             rt_preferred_unavailable_configuration = preferred_unavailable,
             rt_automatic_replacement = replacement,
             rt_attention_requirement =
               (if selected = None then Some (attention_text eligible) else None)\<rparr>\<rparr>)"

definition requires_structured_runtime :: "Host \<Rightarrow> WorkerCatalog \<Rightarrow> bool" where
  "requires_structured_runtime host catalog =
     list_ex (\<lambda>c. configuration_is_available host c \<and> is_structured (wc_kind c)) catalog"

section \<open>A comparison that follows a key\<close>

text \<open>What sorting relies on: the comparison function agrees with a linear order on a key. Sorting
  with it is then the library's stable sort by that key.\<close>

locale keyed_comparison =
  fixes compare :: "'a \<Rightarrow> 'a \<Rightarrow> Ordering" and key :: "'a \<Rightarrow> 'k::linorder"
  assumes compare_key: "compare x y = cmp (key x) (key y)"
begin

lemma compare_Greater_iff: "compare x y = Greater \<longleftrightarrow> key y < key x"
  by (auto simp: compare_key cmp_def)

lemma insert_by_insort: "insert_by compare x xs = insort_key key x xs"
  by (induction xs) (auto simp: compare_Greater_iff)

lemma sort_by_sort_key: "sort_by compare xs = sort_key key xs"
  unfolding sort_by_def sort_key_def by (intro arg_cong [where f = "\<lambda>f. foldr f xs []"] ext insert_by_insort)

lemma set_sort_by: "set (sort_by compare xs) = set xs"
  by (simp add: sort_by_sort_key)

lemma mset_sort_by: "mset (sort_by compare xs) = mset xs"
  by (simp add: sort_by_sort_key)

lemma sort_by_sorted: "sorted (map key (sort_by compare xs))"
  by (simp add: sort_by_sort_key)

lemma sort_by_order_irrelevant:
  assumes "mset xs = mset ys" and "inj_on key (set xs)"
  shows "sort_by compare xs = sort_by compare ys"
  unfolding sort_by_sort_key using assms by (intro sort_key_inj_key_eq) auto

end

text \<open>The key of the configuration ranking: best scores first, then least elapsed time and cost,
  then most continuity, then the smaller id.\<close>

type_synonym rank = "int \<times> int \<times> int \<times> int \<times> int \<times> int \<times> string"

definition rank_of :: "WorkerConfiguration \<Rightarrow> rank" where
  "rank_of c = (let m = wc_metrics c in
     (- uint (met_expected_verified_correctness m), - uint (met_preference_adherence m),
      - uint (met_first_pass_acceptance m), uint (met_commission_elapsed_time_contribution_ms m),
      uint (met_cost_cents m), - uint (met_continuity m), wc_id c))"

lemma cmp_uint: "cmp x y = cmp (uint x) (uint y)" for x y :: "'a::len word"
  by (simp add: cmp_def word_less_def word_uint_eq_iff)

lemma cmp_uint_flip: "cmp x y = cmp (- uint y) (- uint x)" for x y :: "'a::len word"
  by (simp add: cmp_def word_less_def word_uint_eq_iff)

lemma cmp_pair: "then_with (cmp a b) (cmp c d) = cmp (a, c) (b, d)"
  by (auto simp: cmp_def less_prod_simp)

lemma then_with_assoc: "then_with (then_with a b) c = then_with a (then_with b c)"
  by (cases a) auto

lemma compare_configurations_rank:
  "compare_configurations l r = cmp (rank_of l) (rank_of r)"
  unfolding compare_configurations_def rank_of_def Let_def then_with_assoc
  by (simp only: cmp_pair cmp_uint_flip [where 'a = 16] cmp_uint [where 'a = 64])

interpretation ranking: keyed_comparison compare_configurations rank_of
  by unfold_locales (rule compare_configurations_rank)

lemma rank_of_inj: "inj_on wc_id C \<Longrightarrow> inj_on rank_of C"
  by (auto simp: inj_on_def rank_of_def Let_def)

section \<open>What routing guarantees\<close>

lemmas route_unfold = route_def Let_def prod.case_eq_if

lemma route_selected: "rd_selected_configuration (route host catalog request unavailable) =
    fst (choose_configuration host unavailable (eligible_ranked catalog request))"
  by (simp add: route_unfold)

lemma set_eligible_ranked: "set (eligible_ranked catalog request) = {c \<in> set catalog. failed_gates c request = []}"
  by (auto simp: eligible_ranked_def ranking.set_sort_by)

lemma sorted_eligible_ranked: "sorted (map rank_of (eligible_ranked catalog request))"
  by (simp add: eligible_ranked_def ranking.sort_by_sorted)

lemma contains_all_iff: "contains_all actual required \<longleftrightarrow> set required \<subseteq> set actual"
  by (auto simp: contains_all_def list_all_iff list_ex_iff)

text \<open>What passing every gate means, as one predicate over sets.\<close>

definition eligible_for :: "WorkerConfiguration \<Rightarrow> RouteRequest \<Rightarrow> bool" where
  "eligible_for c request \<longleftrightarrow>
     (let w = rr_requirements request; res = rr_resources request; limits = wc_resource_limits c in
      (wc_kind c = PiRpc \<longrightarrow> pi_is_production_qualified c \<and> card (set (pi_skill_names c w)) \<le> 1)
      \<and> (wr_require_configurations w = [] \<or> wc_id c \<in> set (wr_require_configurations w))
      \<and> wc_id c \<notin> set (wr_exclude_configurations w)
      \<and> set (wr_capabilities w) \<subseteq> set (wc_capabilities c)
      \<and> set (wr_tools w) \<subseteq> set (wc_tools c)
      \<and> set (wr_skills w) \<union> sel_version ` set (wr_selected_skills w) \<subseteq> set (wc_skills c)
      \<and> (\<forall>s \<in> set (wc_selected_skills c).
           \<forall>e \<in> set (wr_skills w) \<union> sel_version ` set (wr_selected_skills w). \<not> skill_clash e s)
      \<and> wr_min_context_tokens w \<le> ctx_capacity_tokens (wc_context c)
      \<and> (\<forall>s. wr_context_strategy w = Some s \<longrightarrow> s = ctx_strategy (wc_context c))
      \<and> set (wr_assignment_constraints w) \<subseteq> set (wc_assignment_constraints c)
      \<and> rr_required_authority_action request \<in> set (wc_authority_actions c)
      \<and> set (rr_required_authority_scope_types request) \<subseteq> set (wc_authority_scope_types c)
      \<and> ar_concurrency_slots res \<le> lim_max_concurrency_slots limits
      \<and> ar_max_storage_bytes res \<le> lim_max_storage_bytes limits)"

lemma skills_gate_iff:
  "\<not> skills_gate_fails c w \<longleftrightarrow>
     set (wr_skills w) \<union> sel_version ` set (wr_selected_skills w) \<subseteq> set (wc_skills c)
     \<and> (\<forall>s \<in> set (wc_selected_skills c).
          \<forall>e \<in> set (wr_skills w) \<union> sel_version ` set (wr_selected_skills w). \<not> skill_clash e s)"
  by (auto simp: skills_gate_fails_def contains_all_iff list_all_iff list_ex_iff)

lemma pi_skill_count: "length (pi_skill_names c w) > 1 \<longleftrightarrow> \<not> card (set (pi_skill_names c w)) \<le> 1"
  by (simp add: pi_skill_names_def length_remdups_card_conv not_le)

lemma failed_gates_Nil_iff: "failed_gates c request = [] \<longleftrightarrow> eligible_for c request"
proof -
  have strategy: "(case s of None \<Rightarrow> [] | Some r \<Rightarrow> if r \<noteq> t then [g] else []) = []
      \<longleftrightarrow> (\<forall>r. s = Some r \<longrightarrow> r = t)" for s :: "string option" and t :: string and g :: string
    by (cases s) auto
  have single: "(if P then [g] else []) = [] \<longleftrightarrow> \<not> P" for P and g :: string by simp
  show ?thesis
    unfolding failed_gates_def eligible_for_def Let_def append_is_Nil_conv strategy single
      contains_all_iff pi_skill_count skills_gate_iff
    by (auto simp: list_ex_iff not_le not_less)
qed

text \<open>The preferred configuration is an eligible one that no eligible one outranks.\<close>

definition is_preferred :: "WorkerCatalog \<Rightarrow> RouteRequest \<Rightarrow> WorkerConfiguration \<Rightarrow> bool" where
  "is_preferred catalog request p \<longleftrightarrow>
     p \<in> set catalog \<and> eligible_for p request
     \<and> (\<forall>d \<in> set catalog. eligible_for d request \<longrightarrow> rank_of p \<le> rank_of d)"

lemma eligible_ranked_Cons:
  assumes "eligible_ranked catalog request = p # ps"
  shows "is_preferred catalog request p"
    and "sorted (map rank_of ps)"
    and "\<And>c. c \<in> set catalog \<and> eligible_for c request \<longleftrightarrow> c = p \<or> c \<in> set ps"
  using assms set_eligible_ranked [of catalog request] sorted_eligible_ranked [of catalog request]
  by (auto simp: is_preferred_def failed_gates_Nil_iff)

lemma find_first_sorted:
  assumes "List.find P xs = Some c" and "sorted (map f xs)" and "d \<in> set xs" and "P d"
  shows "f c \<le> f d"
  using assms by (induction xs) (auto split: if_splits)

lemma route_selected_cases:
  assumes "rd_selected_configuration (route host catalog request unavailable) = Some c"
  obtains (preferred) "is_preferred catalog request c" "usable host unavailable c"
  | (replacement) p where "is_preferred catalog request p" "\<not> usable host unavailable p"
      "c \<in> set catalog" "eligible_for c request" "usable host unavailable c" "approximately_equal p c"
      "\<And>d. d \<in> set catalog \<Longrightarrow> eligible_for d request \<Longrightarrow> usable host unavailable d
            \<Longrightarrow> approximately_equal p d \<Longrightarrow> rank_of c \<le> rank_of d"
proof (cases "eligible_ranked catalog request")
  case Nil
  with assms show ?thesis by (simp add: route_selected choose_configuration_def)
next
  case (Cons p ps)
  note facts = eligible_ranked_Cons [OF Cons]
  show ?thesis
  proof (cases "usable host unavailable p")
    case True
    with assms Cons have "c = p" by (simp add: route_selected choose_configuration_def)
    with True facts show ?thesis by (intro preferred) auto
  next
    case False
    with assms Cons have found: "List.find (\<lambda>d. usable host unavailable d \<and> approximately_equal p d) ps = Some c"
      by (simp add: route_selected choose_configuration_def Let_def)
    then have c: "c \<in> set ps" "usable host unavailable c" "approximately_equal p c"
      by (auto dest: find_Some_mem)
    have "rank_of c \<le> rank_of d"
      if "d \<in> set catalog" "eligible_for d request" "usable host unavailable d" "approximately_equal p d" for d
    proof -
      from that facts(3) [of d] False have "d \<in> set ps" by auto
      with found facts(2) that show ?thesis by (intro find_first_sorted [OF found]) auto
    qed
    with c facts False show ?thesis by (intro replacement [of p]) blast+
  qed
qed

text \<open>Routing returns nothing exactly when no configuration is eligible, or the preferred one and every
  approximately equal eligible one cannot be used.\<close>

lemma route_none_iff:
  "rd_selected_configuration (route host catalog request unavailable) = None \<longleftrightarrow>
     (\<forall>c \<in> set catalog. \<not> eligible_for c request)
     \<or> (\<exists>p. is_preferred catalog request p \<and> \<not> usable host unavailable p
            \<and> p = hd (eligible_ranked catalog request)
            \<and> (\<forall>c \<in> set catalog. eligible_for c request \<and> approximately_equal p c
                   \<longrightarrow> \<not> usable host unavailable c))"
proof (cases "eligible_ranked catalog request")
  case Nil
  with set_eligible_ranked [of catalog request] show ?thesis
    by (auto simp: route_selected choose_configuration_def failed_gates_Nil_iff)
next
  case (Cons p ps)
  note facts = eligible_ranked_Cons [OF Cons]
  then have some: "p \<in> set catalog" "eligible_for p request" by (auto simp: is_preferred_def)
  have "rd_selected_configuration (route host catalog request unavailable) = None \<longleftrightarrow>
      \<not> usable host unavailable p \<and> (\<forall>c \<in> set ps. approximately_equal p c \<longrightarrow> \<not> usable host unavailable c)"
    using Cons by (auto simp: route_selected choose_configuration_def Let_def find_None_all)
  also have "\<dots> \<longleftrightarrow> \<not> usable host unavailable p \<and> (\<forall>c \<in> set catalog. eligible_for c request \<and> approximately_equal p c
                   \<longrightarrow> \<not> usable host unavailable c)"
    using facts(3) by metis
  finally show ?thesis using facts(1) some Cons by auto
qed

lemma route_status:
  "rd_status (route host catalog request unavailable) = Selected \<longleftrightarrow>
     rd_selected_configuration (route host catalog request unavailable) \<noteq> None"
  by (auto simp: route_unfold)

lemma route_order_irrelevant:
  assumes "mset catalog = mset catalog'" and "inj_on wc_id (set catalog)"
  shows "eligible_ranked catalog request = eligible_ranked catalog' request"
  unfolding eligible_ranked_def
  using assms by (intro ranking.sort_by_order_irrelevant rank_of_inj) (auto simp: inj_on_def)

end
