(* ===== verification/Catalog.thy ===== *)
theory Catalog
  imports Routing
begin

text \<open>
  \<^verbatim>\<open>WorkerCatalog::load\<close>, \<^verbatim>\<open>validate\<close> and \<^verbatim>\<open>bind_structured_containment\<close> of
  \<^verbatim>\<open>src/src/worker/routing.rs\<close>, and \<^verbatim>\<open>ResourceProfile::validate_within\<close> of
  \<^verbatim>\<open>src/src/worker/contained_codex.rs\<close>. Validation is a sequence of checks per configuration, in the
  order of the source; each group of checks is a definition of its own.
\<close>

section \<open>Resource profiles\<close>

definition profile_error :: "ResourceProfile \<Rightarrow> string" where
  "profile_error ceiling =
     ''a Worker resource profile must stay within the pinned '' @ word_dec (prof_vcpus ceiling)
     @ '' vCPUs, '' @ word_dec (prof_memory_mib ceiling) @ '' MiB memory, ''
     @ word_dec (prof_writable_storage_mib ceiling) @ '' MiB writable storage, and ''
     @ word_dec (prof_max_processes ceiling)
     @ '' processes, with at least 1024 MiB memory, 256 MiB storage, 64 processes, 512 MiB of memory above storage, and requests of at least 256 MiB and 50 millicores that do not exceed the profile's own ceilings''"

definition validate_within :: "ResourceProfile \<Rightarrow> ResourceProfile \<Rightarrow> unit result" where
  "validate_within self ceiling =
     (if within 1 (prof_vcpus ceiling) (prof_vcpus self)
         \<and> within 1024 (prof_memory_mib ceiling) (prof_memory_mib self)
         \<and> within 256 (prof_writable_storage_mib ceiling) (prof_writable_storage_mib self)
         \<and> saturating_add (prof_writable_storage_mib self) 512 \<le> prof_memory_mib self
         \<and> within 64 (prof_max_processes ceiling) (prof_max_processes self)
         \<and> within 256 (prof_memory_mib self) (prof_memory_request_mib self)
         \<and> within 50 (ucast (prof_vcpus self) * 1000) (prof_cpu_request_millis self)
      then Ok () else invalid_request (profile_error ceiling))"

section \<open>The checks on one configuration\<close>

definition check_identity :: "WorkerConfiguration \<Rightarrow> unit result" where
  "check_identity c =
     (if blank (wc_id c) \<or> blank (wc_harness c) \<or> blank (ad_version (wc_adapter c)) \<or> blank (wc_model c)
         \<or> blank (ctx_strategy (wc_context c)) \<or> blank (wc_containment_profile c)
         \<or> blank (wc_replacement_class c)
      then invalid_request ''Worker Configuration identity, adapter, model, context, containment, and replacement class must not be empty''
      else Ok ())"

fun expected_harness :: "WorkerAdapterKind \<Rightarrow> string" where
  "expected_harness CodexAppServer = ''codex''"
| "expected_harness ContainedCodex = ''codex''"
| "expected_harness ClaudeAgentSdk = ''claude''"
| "expected_harness PiRpc = ''pi''"
| "expected_harness OpenCodeServer = ''opencode''"
| "expected_harness DeterministicLocal = ''tyrion''"

definition check_harness :: "WorkerConfiguration \<Rightarrow> unit result" where
  "check_harness c =
     (if wc_harness c \<noteq> expected_harness (wc_kind c)
      then invalid_request (''Worker Configuration '' @ wc_id c @ '' adapter kind requires harness ''
             @ expected_harness (wc_kind c))
      else Ok ())"

definition named_values :: "WorkerConfiguration \<Rightarrow> (string \<times> string list) list" where
  "named_values c =
     [(''tool'', wc_tools c), (''capability'', wc_capabilities c),
      (''authority action'', wc_authority_actions c),
      (''authority scope type'', wc_authority_scope_types c),
      (''Assignment constraint'', wc_assignment_constraints c)]"

definition check_names :: "WorkerConfiguration \<Rightarrow> string \<times> string list \<Rightarrow> unit result" where
  "check_names c nv =
     (let (name, vs) = nv in
      check_unique
        (\<lambda>v. if blank v \<or> contains_char v NUL
             then invalid_request (''Worker Configuration '' @ wc_id c @ '' '' @ name @ '' names must not be empty'')
             else Ok ())
        (\<lambda>v. v)
        (\<lambda>v. TyrionError.InvalidRequest (''Worker Configuration '' @ wc_id c @ '' '' @ name @ '' '' @ v @ '' is duplicated''))
        [] vs)"

definition check_inventory :: "WorkerConfiguration \<Rightarrow> unit result" where
  "check_inventory c =
     check_unique
       (\<lambda>skill. if \<not> is_content_identified skill
                then invalid_request (''Worker Configuration '' @ wc_id c @ '' Skill '' @ sv_name skill
                       @ '' requires a lowercase sha256 content digest'')
                else Ok ())
       sv_name
       (\<lambda>skill. TyrionError.InvalidRequest (''Worker Configuration '' @ wc_id c @ '' Skill '' @ sv_name skill @ '' is duplicated''))
       [] (wc_skills c)"

definition check_selected :: "WorkerConfiguration \<Rightarrow> unit result" where
  "check_selected c =
     check_unique
       (\<lambda>selected. if \<not> is_content_identified selected \<or> \<not> list_ex (\<lambda>skill. skill = selected) (wc_skills c)
                   then invalid_request (''Worker Configuration '' @ wc_id c @ '' selected Skill ''
                          @ sv_name selected @ '' must exactly match its native inventory'')
                   else Ok ())
       sv_name
       (\<lambda>selected. TyrionError.InvalidRequest (''Worker Configuration '' @ wc_id c @ '' selected Skill ''
          @ sv_name selected @ '' is duplicated''))
       [] (wc_selected_skills c)"

definition check_scope_types :: "WorkerConfiguration \<Rightarrow> unit result" where
  "check_scope_types c =
     (if list_ex (\<lambda>t. t \<notin> {''repository'', ''path'', ''action'', ''destination'', ''effect''})
           (wc_authority_scope_types c)
      then invalid_request (''Worker Configuration '' @ wc_id c @ '' has an unknown authority scope type'')
      else Ok ())"

definition check_limits :: "WorkerConfiguration \<Rightarrow> unit result" where
  "check_limits c =
     (if lim_max_concurrency_slots (wc_resource_limits c) = 0
         \<or> lim_max_storage_bytes (wc_resource_limits c) = 0 \<or> ctx_capacity_tokens (wc_context c) = 0
      then invalid_request (''Worker Configuration '' @ wc_id c
             @ '' requires positive concurrency, storage, and context limits'')
      else Ok ())"

definition supported_context_strategy :: "WorkerConfiguration \<Rightarrow> bool" where
  "supported_context_strategy c =
     (case wc_kind c of
        DeterministicLocal \<Rightarrow> ctx_strategy (wc_context c) = ''exact_assignment''
      | _ \<Rightarrow> ctx_strategy (wc_context c) \<in> {''fresh'', ''fresh_with_retrieval''})"

definition check_strategy :: "WorkerConfiguration \<Rightarrow> unit result" where
  "check_strategy c =
     (if \<not> supported_context_strategy c
      then invalid_request (''Worker Configuration '' @ wc_id c @ '' has unsupported context strategy ''
             @ ctx_strategy (wc_context c))
      else Ok ())"

definition check_scores :: "WorkerConfiguration \<Rightarrow> unit result" where
  "check_scores c =
     (let m = wc_metrics c in
      if list_ex (\<lambda>score. score > 10000)
           [met_expected_verified_correctness m, met_preference_adherence m,
            met_first_pass_acceptance m, met_continuity m]
      then invalid_request (''Worker Configuration '' @ wc_id c
             @ '' scores must be basis points between 0 and 10000'')
      else Ok ())"

text \<open>The configurations the structured contract governs.\<close>

definition governed :: "WorkerConfiguration \<Rightarrow> bool" where
  "governed c = (is_structured (wc_kind c) \<and> (wc_kind c \<noteq> PiRpc \<or> pi_is_production_qualified c))"

definition check_authority :: "WorkerConfiguration \<Rightarrow> unit result" where
  "check_authority c =
     (if ''action'' \<notin> set (wc_authority_scope_types c)
      then invalid_request (''Worker Configuration '' @ wc_id c @ '' must declare action authority compatibility'')
      else if list_ex (\<lambda>t. t \<in> {''destination'', ''effect''}) (wc_authority_scope_types c)
      then invalid_request (''Worker Configuration '' @ wc_id c
             @ '' cannot claim external destination or effect authority under the current structured contract'')
      else Ok ())"

definition check_command :: "WorkerConfiguration \<Rightarrow> unit result" where
  "check_command c =
     (let command = ad_command (wc_adapter c) in
      if command = [] \<or> \<not> is_absolute (hd command)
         \<or> list_ex (\<lambda>argument. argument = [] \<or> contains_char argument NUL) command
      then invalid_request (''available Worker Configuration '' @ wc_id c
             @ '' requires an absolute structured adapter command with safe argv'')
      else Ok ())"

text \<open>\<^verbatim>\<open>mode & 0o111 == 0\<close>: none of the three execute bits.\<close>

definition executable_mode :: "u32 \<Rightarrow> bool" where
  "executable_mode mode = (and mode 0x49 \<noteq> 0)"

definition check_executable :: "Host \<Rightarrow> WorkerConfiguration \<Rightarrow> unit result" where
  "check_executable host c =
     (case ad_command (wc_adapter c) of
        [] \<Rightarrow> Panicked ''index out of bounds''
      | executable # _ \<Rightarrow>
      case fs_metadata host executable of
        Inl error \<Rightarrow> invalid_request (''available Worker Configuration '' @ wc_id c @ '' adapter executable ''
                       @ executable @ '' is unavailable: '' @ error)
      | Inr metadata \<Rightarrow>
      if \<not> md_is_file metadata \<or> \<not> executable_mode (md_mode metadata)
      then invalid_request (''available Worker Configuration '' @ wc_id c @ '' adapter executable ''
             @ executable @ '' is not an executable file'')
      else if length (ad_sha256 (wc_adapter c)) \<noteq> 64
              \<or> \<not> list_all is_ascii_hexdigit (ad_sha256 (wc_adapter c))
      then invalid_request (''available Worker Configuration '' @ wc_id c @ '' requires a SHA-256 adapter digest'')
      else case fs_read host executable of
        Inl error \<Rightarrow> Err (Io error)
      | Inr content \<Rightarrow>
          if sha256_hex host content \<noteq> to_ascii_lowercase (ad_sha256 (wc_adapter c))
          then invalid_request (''available Worker Configuration '' @ wc_id c
                 @ '' adapter digest does not match '' @ executable)
          else Ok ())"

definition check_capability :: "WorkerConfiguration \<Rightarrow> string \<Rightarrow> unit result" where
  "check_capability c capability =
     (if capability = ''skills'' \<and> wc_kind c = OpenCodeServer then Ok ()
      else if capability \<notin> set (wc_capabilities c)
      then invalid_request (''Worker Configuration '' @ wc_id c @ '' adapter contract is missing capability ''
             @ capability)
      else Ok ())"

definition check_structured_contract :: "Host \<Rightarrow> WorkerConfiguration \<Rightarrow> unit result" where
  "check_structured_contract host c =
     and_then (check_authority c) (\<lambda>_.
     and_then (if wc_available c then check_command c else Ok ()) (\<lambda>_.
     and_then (if wc_available c then check_executable host c else Ok ()) (\<lambda>_.
     try_each (check_capability c) REQUIRED_ADAPTER_CAPABILITIES)))"

definition check_configuration :: "Host \<Rightarrow> WorkerConfiguration \<Rightarrow> unit result" where
  "check_configuration host c =
     and_then (check_harness c) (\<lambda>_.
     and_then (try_each (check_names c) (named_values c)) (\<lambda>_.
     and_then (check_inventory c) (\<lambda>_.
     and_then (check_selected c) (\<lambda>_.
     and_then (check_scope_types c) (\<lambda>_.
     and_then (check_limits c) (\<lambda>_.
     and_then (check_strategy c) (\<lambda>_.
     and_then (check_scores c) (\<lambda>_.
     if governed c then check_structured_contract host c else Ok ()))))))))"

fun check_configurations :: "Host \<Rightarrow> string list \<Rightarrow> WorkerCatalog \<Rightarrow> unit result" where
  "check_configurations host ids [] = Ok ()"
| "check_configurations host ids (c # cs) =
     and_then (check_identity c) (\<lambda>_.
     if wc_id c \<in> set ids
     then invalid_request (''Worker Configuration id '' @ wc_id c @ '' is duplicated'')
     else and_then (check_configuration host c) (\<lambda>_. check_configurations host (wc_id c # ids) cs))"

definition validate_catalog :: "Host \<Rightarrow> WorkerCatalog \<Rightarrow> unit result" where
  "validate_catalog host catalog =
     (if catalog = [] then invalid_request ''Worker catalog must contain at least one complete Worker Configuration''
      else check_configurations host [] catalog)"

section \<open>Binding to the pinned runtime\<close>

definition check_runtime_support :: "ContainedCodexDescriptor \<Rightarrow> WorkerConfiguration \<Rightarrow> unit result" where
  "check_runtime_support d c =
     (if wc_available c \<and> wc_kind c = ClaudeAgentSdk \<and> \<not> cd_supports_claude d
      then invalid_request (''available Worker Configuration '' @ wc_id c @ '' requires a pinned Claude runtime profile'')
      else if wc_available c \<and> wc_kind c = OpenCodeServer \<and> \<not> cd_supports_opencode d
      then invalid_request (''available Worker Configuration '' @ wc_id c @ '' requires a pinned OpenCode runtime profile'')
      else if wc_available c \<and> wc_kind c = PiRpc \<and> \<not> cd_supports_pi d
      then invalid_request (''available Worker Configuration '' @ wc_id c @ '' requires a pinned Pi runtime profile'')
      else if wc_available c \<and> wc_kind c = PiRpc
              \<and> (cd_pi_model d \<noteq> Some (pi_base_model (wc_model c))
                 \<or> (case cd_pi_model_provider d of
                      None \<Rightarrow> True
                    | Some provider \<Rightarrow> \<not> starts_with (pi_base_model (wc_model c)) (provider @ ''/'')))
      then invalid_request (''available Worker Configuration '' @ wc_id c @ '' model '' @ wc_model c
             @ '' does not match the pinned Pi provider/model runtime'')
      else Ok ())"

definition bind_configuration ::
  "ContainedCodexDescriptor \<Rightarrow> WorkerConfiguration \<Rightarrow> WorkerConfiguration result" where
  "bind_configuration d c =
     (if wc_kind c = PiRpc \<and> \<not> pi_is_production_qualified c then Ok c
      else if \<not> is_structured (wc_kind c) then Ok c
      else and_then (check_runtime_support d c) (\<lambda>_.
      if wc_containment_profile c \<noteq> CONTAINMENT_PROFILE
         \<and> wc_containment_profile c \<noteq> cd_containment_profile d
      then invalid_request (''Worker Configuration '' @ wc_id c @ '' requires containment profile ''
             @ wc_containment_profile c @ '', which the configured runtime does not provide'')
      else let c' = c\<lparr>wc_containment_profile := cd_containment_profile d\<rparr> in
        case wc_containment_resources c of
          Some declared \<Rightarrow>
            (case validate_within declared (cd_resources d) of
               Inl (Raised error) \<Rightarrow> invalid_request (''Worker Configuration '' @ wc_id c @ '': '' @ message error)
             | Inl (Panic m) \<Rightarrow> Panicked m
             | Inr _ \<Rightarrow> Ok c')
        | None \<Rightarrow> Ok (c'\<lparr>wc_containment_resources := Some (cd_resources d)\<rparr>)))"

fun bind_structured_containment ::
  "ContainedCodexDescriptor \<Rightarrow> WorkerCatalog \<Rightarrow> WorkerCatalog result" where
  "bind_structured_containment d [] = Ok []"
| "bind_structured_containment d (c # cs) =
     and_then (bind_configuration d c) (\<lambda>c'.
     and_then (bind_structured_containment d cs) (\<lambda>cs'. Ok (c' # cs')))"

section \<open>The built-in configurations and loading\<close>

definition deterministic_configuration :: WorkerConfiguration where
  "deterministic_configuration =
     \<lparr>wc_id = ''deterministic-local-v1'', wc_harness = ''tyrion'',
      wc_adapter = \<lparr>ad_kind = DeterministicLocal, ad_version = ''1'', ad_sha256 = [], ad_command = []\<rparr>,
      wc_model = ''deterministic-echo'', wc_settings = [], wc_tools = [], wc_skills = [],
      wc_selected_skills = [],
      wc_context = \<lparr>ctx_strategy = ''exact_assignment'', ctx_capacity_tokens = - 1\<rparr>,
      wc_resource_limits = \<lparr>lim_max_concurrency_slots = - 1, lim_max_storage_bytes = - 1,
        lim_max_model_spend_cents = - 1, lim_max_paid_service_spend_cents = - 1\<rparr>,
      wc_capabilities = [''structured_lifecycle'', ''terminal_state''],
      wc_authority_actions = [DETERMINISTIC_ACTION], wc_authority_scope_types = [''action''],
      wc_assignment_constraints = [], wc_containment_profile = ''in-process-deterministic'',
      wc_containment_resources = None, wc_replacement_class = ''deterministic'', wc_available = True,
      wc_metrics = \<lparr>met_expected_verified_correctness = 10000, met_preference_adherence = 10000,
        met_first_pass_acceptance = 10000, met_commission_elapsed_time_contribution_ms = 0,
        met_cost_cents = 0, met_continuity = 0\<rparr>\<rparr>"

definition contained_codex_configuration :: "ContainedCodexDescriptor \<Rightarrow> WorkerConfiguration" where
  "contained_codex_configuration d =
     deterministic_configuration\<lparr>
       wc_id := cd_id d, wc_harness := ''codex'',
       wc_adapter := (wc_adapter deterministic_configuration)\<lparr>ad_kind := ContainedCodex, ad_version := cd_version d\<rparr>,
       wc_model := cd_model d, wc_settings := cd_settings d, wc_tools := [''git''],
       wc_context := (wc_context deterministic_configuration)\<lparr>ctx_strategy := ''fresh''\<rparr>,
       wc_capabilities := [''structured_lifecycle'', ''terminal_state'', ''result_submission'', ''contained''],
       wc_authority_actions := [CODEX_GIT_ACTION],
       wc_authority_scope_types := [''repository'', ''path'', ''action''],
       wc_assignment_constraints := [''coding''],
       wc_resource_limits := (wc_resource_limits deterministic_configuration)
         \<lparr>lim_max_storage_bytes := cd_max_storage_bytes d\<rparr>,
       wc_containment_profile := cd_containment_profile d,
       wc_containment_resources := Some (cd_resources d),
       wc_replacement_class := ''contained-coding''\<rparr>"

definition load_catalog ::
  "Host \<Rightarrow> (string \<Rightarrow> string + WorkerCatalog) \<Rightarrow> string option \<Rightarrow> ContainedCodexDescriptor option
   \<Rightarrow> WorkerCatalog result" where
  "load_catalog host from_slice path contained_codex =
     and_then
       (case path of
          Some p \<Rightarrow>
            (case fs_read host p of
               Inl error \<Rightarrow> Err (Io error)
             | Inr content \<Rightarrow> (case from_slice content of Inl error \<Rightarrow> Err (Serialization error) | Inr cs \<Rightarrow> Ok cs))
        | None \<Rightarrow> Ok [case contained_codex of Some d \<Rightarrow> contained_codex_configuration d
                                       | None \<Rightarrow> deterministic_configuration])
       (\<lambda>catalog. and_then (validate_catalog host catalog) (\<lambda>_.
          case contained_codex of
            Some d \<Rightarrow> bind_structured_containment d catalog
          | None \<Rightarrow> Ok catalog))"

section \<open>What an accepted profile is\<close>

lemma saturating_add_le_iff:
  "saturating_add a b \<le> c \<longleftrightarrow> unat a + unat b \<le> unat c \<or> c = - 1"
  for a b c :: "'a::len word"
proof (cases "checked_add a b")
  case None
  then have "2 ^ LENGTH('a) \<le> unat a + unat b" by (simp add: checked_add_None_iff)
  moreover have "unat c < 2 ^ LENGTH('a)" by (rule unsigned_less)
  ultimately have "\<not> unat a + unat b \<le> unat c" by linarith
  with None show ?thesis by (auto simp: saturating_add_def word_order.extremum_unique)
next
  case (Some d)
  then have "unat d = unat a + unat b" by (simp add: checked_add_Some_iff)
  then have "d \<le> c \<longleftrightarrow> unat a + unat b \<le> unat c" by (simp add: word_le_nat_alt)
  moreover have "c = - 1 \<Longrightarrow> d \<le> c" by simp
  ultimately show ?thesis using Some by (auto simp: saturating_add_def)
qed

text \<open>A 32-bit count of CPUs times 1000 does not wrap in 64 bits.\<close>

lemma millis_no_wrap: "unat (ucast v * 1000 :: u64) = unat v * 1000" for v :: u32
proof -
  have "unat v < 2 ^ 32" using unsigned_less [of v, where ?'a = nat] by simp
  then have small: "unat v * 1000 < 2 ^ 64" by simp
  have "unat (ucast v :: u64) = unat v" 
    using \<open>unat v < 2 ^ 32\<close> by (simp add: unsigned_ucast_eq take_bit_nat_eq_self)
  with small show ?thesis by (simp add: unat_mult_lem [THEN iffD1])
qed

definition profile_within :: "ResourceProfile \<Rightarrow> ResourceProfile \<Rightarrow> bool" where
  "profile_within p ceiling \<longleftrightarrow>
     1 \<le> unat (prof_vcpus p) \<and> unat (prof_vcpus p) \<le> unat (prof_vcpus ceiling)
     \<and> 1024 \<le> unat (prof_memory_mib p) \<and> unat (prof_memory_mib p) \<le> unat (prof_memory_mib ceiling)
     \<and> 256 \<le> unat (prof_writable_storage_mib p)
     \<and> unat (prof_writable_storage_mib p) \<le> unat (prof_writable_storage_mib ceiling)
     \<and> (unat (prof_writable_storage_mib p) + 512 \<le> unat (prof_memory_mib p) \<or> prof_memory_mib p = - 1)
     \<and> 64 \<le> unat (prof_max_processes p) \<and> unat (prof_max_processes p) \<le> unat (prof_max_processes ceiling)
     \<and> 256 \<le> unat (prof_memory_request_mib p) \<and> unat (prof_memory_request_mib p) \<le> unat (prof_memory_mib p)
     \<and> 50 \<le> unat (prof_cpu_request_millis p)
     \<and> unat (prof_cpu_request_millis p) \<le> unat (prof_vcpus p) * 1000"

lemma validate_within_iff: "validate_within p ceiling = Inr () \<longleftrightarrow> profile_within p ceiling"
  unfolding validate_within_def profile_within_def within_def saturating_add_le_iff
  by (simp add: word_le_nat_alt millis_no_wrap conj_assoc)

lemma validate_within_no_panic: "\<not> panics (validate_within p ceiling)"
  by (simp add: validate_within_def)

section \<open>What an accepted catalog is\<close>

definition adapter_pinned :: "Host \<Rightarrow> WorkerConfiguration \<Rightarrow> bool" where
  "adapter_pinned host c \<longleftrightarrow>
     (\<exists>executable arguments metadata content.
        ad_command (wc_adapter c) = executable # arguments \<and> is_absolute executable
        \<and> (\<forall>a \<in> set (executable # arguments). a \<noteq> [] \<and> NUL \<notin> set a)
        \<and> fs_metadata host executable = Inr metadata \<and> md_is_file metadata
        \<and> executable_mode (md_mode metadata)
        \<and> length (ad_sha256 (wc_adapter c)) = 64 \<and> list_all is_ascii_hexdigit (ad_sha256 (wc_adapter c))
        \<and> fs_read host executable = Inr content
        \<and> sha256_hex host content = to_ascii_lowercase (ad_sha256 (wc_adapter c)))"

definition contract_ok :: "Host \<Rightarrow> WorkerConfiguration \<Rightarrow> bool" where
  "contract_ok host c \<longleftrightarrow>
     ''action'' \<in> set (wc_authority_scope_types c)
     \<and> set (wc_authority_scope_types c) \<subseteq> {''repository'', ''path'', ''action''}
     \<and> (wc_available c \<longrightarrow> adapter_pinned host c)
     \<and> set REQUIRED_ADAPTER_CAPABILITIES - (if wc_kind c = OpenCodeServer then {''skills''} else {})
        \<subseteq> set (wc_capabilities c)"

definition configuration_ok :: "Host \<Rightarrow> WorkerConfiguration \<Rightarrow> bool" where
  "configuration_ok host c \<longleftrightarrow>
     (\<forall>s \<in> {wc_id c, wc_harness c, ad_version (wc_adapter c), wc_model c, ctx_strategy (wc_context c),
            wc_containment_profile c, wc_replacement_class c}. \<not> blank s)
     \<and> wc_harness c = expected_harness (wc_kind c)
     \<and> (\<forall>vs \<in> {wc_tools c, wc_capabilities c, wc_authority_actions c, wc_authority_scope_types c,
              wc_assignment_constraints c}. names_ok vs)
     \<and> distinct (map sv_name (wc_skills c)) \<and> (\<forall>s \<in> set (wc_skills c). is_content_identified s)
     \<and> distinct (map sv_name (wc_selected_skills c)) \<and> set (wc_selected_skills c) \<subseteq> set (wc_skills c)
     \<and> set (wc_authority_scope_types c) \<subseteq> {''repository'', ''path'', ''action'', ''destination'', ''effect''}
     \<and> lim_max_concurrency_slots (wc_resource_limits c) \<noteq> 0
     \<and> lim_max_storage_bytes (wc_resource_limits c) \<noteq> 0 \<and> ctx_capacity_tokens (wc_context c) \<noteq> 0
     \<and> supported_context_strategy c
     \<and> met_expected_verified_correctness (wc_metrics c) \<le> 10000
     \<and> met_preference_adherence (wc_metrics c) \<le> 10000
     \<and> met_first_pass_acceptance (wc_metrics c) \<le> 10000 \<and> met_continuity (wc_metrics c) \<le> 10000
     \<and> (governed c \<longrightarrow> contract_ok host c)"

lemma check_names_iff: "check_names c (n, vs) = Inr () \<longleftrightarrow> names_ok vs"
  by (auto simp: check_names_def names_ok_def outcome_simps contains_char_def)

lemma check_inventory_iff:
  "check_inventory c = Inr () \<longleftrightarrow>
     distinct (map sv_name (wc_skills c)) \<and> (\<forall>s \<in> set (wc_skills c). is_content_identified s)"
  by (auto simp: check_inventory_def outcome_simps)

lemma check_selected_iff:
  "check_inventory c = Inr () \<Longrightarrow>
   check_selected c = Inr () \<longleftrightarrow>
     distinct (map sv_name (wc_selected_skills c)) \<and> set (wc_selected_skills c) \<subseteq> set (wc_skills c)"
  by (auto simp: check_inventory_iff check_selected_def outcome_simps list_ex_iff)

lemma check_executable_iff:
  "check_command c = Inr () \<Longrightarrow> check_executable host c = Inr () \<longleftrightarrow> adapter_pinned host c"
  by (auto simp: check_command_def Let_def check_executable_def adapter_pinned_def contains_char_def
      list_ex_iff outcome_simps split: list.splits sum.splits if_splits)

lemma adapter_pinned_command: "adapter_pinned host c \<Longrightarrow> check_command c = Inr ()"
  by (auto simp: adapter_pinned_def check_command_def contains_char_def list_ex_iff)

lemma check_authority_iff:
  "check_scope_types c = Inr () \<Longrightarrow>
   check_authority c = Inr () \<longleftrightarrow>
     ''action'' \<in> set (wc_authority_scope_types c)
     \<and> set (wc_authority_scope_types c) \<subseteq> {''repository'', ''path'', ''action''}"
  by (auto simp: check_scope_types_def check_authority_def list_ex_iff split: if_splits)

lemma check_capabilities_iff:
  "try_each (check_capability c) REQUIRED_ADAPTER_CAPABILITIES = Inr () \<longleftrightarrow>
     set REQUIRED_ADAPTER_CAPABILITIES - (if wc_kind c = OpenCodeServer then {''skills''} else {})
        \<subseteq> set (wc_capabilities c)"
  by (auto simp: outcome_simps check_capability_def split: if_splits)

lemma check_structured_contract_iff:
  assumes "check_scope_types c = Inr ()"
  shows "check_structured_contract host c = Inr () \<longleftrightarrow> contract_ok host c"
  unfolding check_structured_contract_def contract_ok_def and_then_unit_Inr check_authority_iff [OF assms]
    check_capabilities_iff
  using adapter_pinned_command check_executable_iff by (auto split: if_splits)

lemma all_in: "(if list_ex (\<lambda>x. x \<notin> S) xs then Inl e else Inr ()) = Inr () \<longleftrightarrow> set xs \<subseteq> S"
  by (auto simp: list_ex_iff)

lemma check_configuration_iff:
  "check_identity c = Inr () \<and> check_configuration host c = Inr () \<longleftrightarrow> configuration_ok host c"
proof -
  have identity: "check_identity c = Inr () \<longleftrightarrow>
      (\<forall>s \<in> {wc_id c, wc_harness c, ad_version (wc_adapter c), wc_model c, ctx_strategy (wc_context c),
            wc_containment_profile c, wc_replacement_class c}. \<not> blank s)"
    by (simp add: check_identity_def)
  have harness: "check_harness c = Inr () \<longleftrightarrow> wc_harness c = expected_harness (wc_kind c)"
    by (simp add: check_harness_def)
  have names: "try_each (check_names c) (named_values c) = Inr () \<longleftrightarrow>
      (\<forall>vs \<in> {wc_tools c, wc_capabilities c, wc_authority_actions c, wc_authority_scope_types c,
              wc_assignment_constraints c}. names_ok vs)"
    by (simp add: and_then_unit_Inr named_values_def check_names_iff)
  have types: "check_scope_types c = Inr () \<longleftrightarrow>
      set (wc_authority_scope_types c) \<subseteq> {''repository'', ''path'', ''action'', ''destination'', ''effect''}"
    unfolding check_scope_types_def by (rule all_in)
  have limits: "check_limits c = Inr () \<longleftrightarrow> lim_max_concurrency_slots (wc_resource_limits c) \<noteq> 0
      \<and> lim_max_storage_bytes (wc_resource_limits c) \<noteq> 0 \<and> ctx_capacity_tokens (wc_context c) \<noteq> 0"
    by (simp add: check_limits_def)
  have strategy: "check_strategy c = Inr () \<longleftrightarrow> supported_context_strategy c"
    by (simp add: check_strategy_def)
  have scores: "check_scores c = Inr () \<longleftrightarrow> met_expected_verified_correctness (wc_metrics c) \<le> 10000
      \<and> met_preference_adherence (wc_metrics c) \<le> 10000
      \<and> met_first_pass_acceptance (wc_metrics c) \<le> 10000 \<and> met_continuity (wc_metrics c) \<le> 10000"
    by (auto simp: check_scores_def Let_def not_less dest: leD)
  have contract: "(check_scope_types c = Inr () \<and> L \<and> S \<and> M
        \<and> (if governed c then check_structured_contract host c else Ok ()) = Inr ())
      \<longleftrightarrow> (check_scope_types c = Inr () \<and> L \<and> S \<and> M \<and> (governed c \<longrightarrow> contract_ok host c))" for L S M
    using check_structured_contract_iff [of c host] by auto
  have selected: "(check_inventory c = Inr () \<and> check_selected c = Inr () \<and> R)
      \<longleftrightarrow> (check_inventory c = Inr () \<and> (distinct (map sv_name (wc_selected_skills c))
            \<and> set (wc_selected_skills c) \<subseteq> set (wc_skills c)) \<and> R)" for R
    using check_selected_iff [of c] by auto
  show ?thesis
    unfolding check_configuration_def configuration_ok_def and_then_unit_Inr contract selected
    unfolding identity harness names types limits strategy scores check_inventory_iff conj_assoc ..
qed

lemma check_configurations_iff:
  "check_configurations host ids cs = Inr () \<longleftrightarrow>
     (\<forall>c \<in> set cs. configuration_ok host c) \<and> distinct (map wc_id cs) \<and> set (map wc_id cs) \<inter> set ids = {}"
  by (induction cs arbitrary: ids)
    (auto simp: and_then_unit_Inr check_configuration_iff [symmetric] simp del: set_map)

lemma validate_catalog_iff:
  "validate_catalog host cs = Inr () \<longleftrightarrow>
     cs \<noteq> [] \<and> distinct (map wc_id cs) \<and> (\<forall>c \<in> set cs. configuration_ok host c)"
  by (auto simp: validate_catalog_def check_configurations_iff)

lemma check_executable_no_panic: "check_command c = Inr () \<Longrightarrow> \<not> panics (check_executable host c)"
  by (auto simp: check_command_def Let_def check_executable_def split: list.splits sum.splits if_splits)

lemma check_structured_contract_no_panic: "\<not> panics (check_structured_contract host c)"
proof -
  have "\<not> panics (try_each (check_capability c) cs)" for cs
    using panics_try_each [of "check_capability c" cs] by (auto simp: check_capability_def split: if_splits)
  then show ?thesis
    by (auto simp: check_structured_contract_def check_authority_def check_executable_no_panic check_command_def Let_def
        split: if_splits)
qed

lemma validate_catalog_no_panic: "\<not> panics (validate_catalog host cs)"
proof -
  have names: "\<not> panics (try_each (check_names c) nvs)" for c nvs
  proof
    assume "panics (try_each (check_names c) nvs)"
    then obtain nv where "panics (check_names c nv)" by (auto dest: panics_try_each)
    then show False
      by (auto simp: check_names_def Let_def split: prod.splits if_splits dest!: panics_check_unique)
  qed
  have skills: "\<not> panics (check_inventory c)" "\<not> panics (check_selected c)" for c
    by (auto simp: check_inventory_def check_selected_def split: if_splits dest!: panics_check_unique)
  have one: "\<not> panics (check_configuration host c)" for c
    unfolding check_configuration_def panics_and_then
    using names skills check_structured_contract_no_panic
    by (auto simp: check_harness_def check_scope_types_def check_limits_def check_strategy_def
        check_scores_def Let_def split: if_splits)
  have "\<not> panics (check_configurations host ids cs)" for ids
    by (induction cs arbitrary: ids) (auto simp: one check_identity_def split: if_splits)
  then show ?thesis by (simp add: validate_catalog_def)
qed

section \<open>Availability and binding\<close>

text \<open>On the machine it was validated on, a catalog's availability flags are true.\<close>

lemma validated_available:
  assumes "validate_catalog host cs = Inr ()" and "c \<in> set cs" and "wc_available c"
    and "wc_kind c = PiRpc \<longrightarrow> pi_is_production_qualified c"
  shows "configuration_is_available host c"
proof (cases "is_structured (wc_kind c)")
  case True
  with assms have "governed c" "configuration_ok host c"
    by (auto simp: governed_def validate_catalog_iff)
  with assms have "adapter_pinned host c" by (simp add: configuration_ok_def contract_ok_def)
  with assms True show ?thesis by (auto simp: adapter_pinned_def configuration_is_available_def)
next
  case False
  with assms show ?thesis by (simp add: configuration_is_available_def)
qed

definition bound_to :: "ContainedCodexDescriptor \<Rightarrow> WorkerConfiguration \<Rightarrow> bool" where
  "bound_to d c \<longleftrightarrow>
     wc_containment_profile c = cd_containment_profile d
     \<and> (\<exists>r. wc_containment_resources c = Some r \<and> (r = cd_resources d \<or> profile_within r (cd_resources d)))"

text \<open>Binding changes only the containment of the governed configurations.\<close>

definition same_but_containment :: "WorkerConfiguration \<Rightarrow> WorkerConfiguration \<Rightarrow> bool" where
  "same_but_containment c c' \<longleftrightarrow>
     c' = c\<lparr>wc_containment_profile := wc_containment_profile c',
           wc_containment_resources := wc_containment_resources c'\<rparr>
     \<and> (\<not> governed c \<longrightarrow> c' = c)"

lemma bind_configuration_Ok:
  assumes "bind_configuration d c = Inr c'"
  shows "same_but_containment c c'" and "governed c' \<longleftrightarrow> governed c" and "governed c \<Longrightarrow> bound_to d c'"
proof -
  show same: "same_but_containment c c'"
    using assms
    by (auto simp: bind_configuration_def same_but_containment_def governed_def Let_def outcome_simps
        split: if_splits option.splits sum.splits failure.splits)
  have "wc_adapter c' = wc_adapter c \<and> wc_settings c' = wc_settings c"
    using assms
    by (auto simp: bind_configuration_def Let_def outcome_simps
        split: if_splits option.splits sum.splits failure.splits)
  then show "governed c' \<longleftrightarrow> governed c"
    by (simp add: governed_def pi_is_production_qualified_def)
  show "bound_to d c'" if "governed c"
    using assms that
    by (auto simp: bind_configuration_def bound_to_def governed_def Let_def outcome_simps
        validate_within_iff [symmetric] split: if_splits option.splits sum.splits failure.splits)
qed

lemma bind_structured_containment_Ok:
  "bind_structured_containment d cs = Inr cs' \<Longrightarrow>
     list_all2 same_but_containment cs cs' \<and> (\<forall>c \<in> set cs'. governed c \<longrightarrow> bound_to d c)"
proof (induction cs arbitrary: cs')
  case (Cons c cs)
  then obtain c' cs'' where "bind_configuration d c = Inr c'" "cs' = c' # cs''"
    "bind_structured_containment d cs = Inr cs''"
    by (auto simp: outcome_simps)
  with Cons.IH [of cs''] bind_configuration_Ok [of d c c'] show ?case by auto
qed simp

end
