(* ===== verification/Domain.thy ===== *)
theory Domain
  imports Tyrion_Prelude
begin

text \<open>
  \<^verbatim>\<open>src/src/domain.rs\<close>: the status enumerations of the control plane and the text each is
  stored and reported as. The database keeps these texts, and the code tests a status by comparing
  texts, so two statuses of one enumeration must never share a text: the injectivity lemmas below.
\<close>

datatype CommissionStatus =
    Proposed | Active | Paused | Cancelled | VerifiedComplete

datatype CriterionStatus =
    Uncertain | Passed | Failed

datatype AssignmentStatus =
    Ready | Running | Accepted | Superseded | VerificationPending | VerificationFailed
    | ResourceBlocked | AttentionRequired | Cancelled

datatype AttemptStatus =
    Running | Succeeded | Failed | Interrupted | TimedOut | Cancelled

datatype ResultStatus =
    Candidate | Accepted | Superseded

datatype ProfileClaimOutcome =
    Accepted | Edited | Rejected | Contradicted

datatype EvidenceOutcome =
    Passed | Failed | Uncertain

datatype EventKind =
    CommissionProposed | CommissionAccepted | CommissionAmended | PlanRevised
    | AssignmentReady | AttemptStarted | ResourcesReserved | ResultSubmitted | ResultAccepted
    | ResultIntegrated | ReconciliationRequired | UsefulConcurrencyObserved
    | EvidenceRecorded | CommissionVerifiedComplete | AssignmentBlocked | AttachmentJoined
    | ActiveAttachmentChanged | AttachmentCapabilitiesChanged | WorkerSteered
    | WorkerInterrupted | WorkerActivity | CommissionPaused | CommissionResumed
    | CommissionCancelled | RecoveryDecided | AttemptContained | RestartReconciled
    | OperationClassified | OperationNotification | ApprovalGateOpened
    | ApprovalGateAuthorized | OperationStarted | OperationConfirmed | OperationFailed
    | OperationUncertain | CommissionAmendmentProposed | ResourceCeilingApproaching
    | CredentialGrantIssued | CredentialGrantConsumed | CredentialExposureAuthorized

datatype OperationClassification =
    SilentJournaled | NonBlockingNotification | ApprovalGate | Prohibited

datatype OperationStatus =
    Completed | ApprovalRequired | Authorized | Started | Confirmed | Failed | Uncertain
    | Prohibited | Revoked

datatype ApprovalGateStatus =
    Open | Authorized | Consumed | Invalidated | Revoked

datatype WorkerLeaseStatus =
    Active | Released | Revoked | Expired

datatype AuthorityScopeType =
    Repository | Path | Action | Destination | Effect

fun CommissionStatus_as_str :: "CommissionStatus \<Rightarrow> string" where
  "CommissionStatus_as_str CommissionStatus.Proposed = ''proposed''"
| "CommissionStatus_as_str CommissionStatus.Active = ''active''"
| "CommissionStatus_as_str CommissionStatus.Paused = ''paused''"
| "CommissionStatus_as_str CommissionStatus.Cancelled = ''cancelled''"
| "CommissionStatus_as_str CommissionStatus.VerifiedComplete = ''verified_complete''"

fun CriterionStatus_as_str :: "CriterionStatus \<Rightarrow> string" where
  "CriterionStatus_as_str CriterionStatus.Uncertain = ''uncertain''"
| "CriterionStatus_as_str CriterionStatus.Passed = ''passed''"
| "CriterionStatus_as_str CriterionStatus.Failed = ''failed''"

fun AssignmentStatus_as_str :: "AssignmentStatus \<Rightarrow> string" where
  "AssignmentStatus_as_str AssignmentStatus.Ready = ''ready''"
| "AssignmentStatus_as_str AssignmentStatus.Running = ''running''"
| "AssignmentStatus_as_str AssignmentStatus.Accepted = ''accepted''"
| "AssignmentStatus_as_str AssignmentStatus.Superseded = ''superseded''"
| "AssignmentStatus_as_str AssignmentStatus.VerificationPending = ''verification_pending''"
| "AssignmentStatus_as_str AssignmentStatus.VerificationFailed = ''verification_failed''"
| "AssignmentStatus_as_str AssignmentStatus.ResourceBlocked = ''resource_blocked''"
| "AssignmentStatus_as_str AssignmentStatus.AttentionRequired = ''attention_required''"
| "AssignmentStatus_as_str AssignmentStatus.Cancelled = ''cancelled''"

fun AttemptStatus_as_str :: "AttemptStatus \<Rightarrow> string" where
  "AttemptStatus_as_str AttemptStatus.Running = ''running''"
| "AttemptStatus_as_str AttemptStatus.Succeeded = ''succeeded''"
| "AttemptStatus_as_str AttemptStatus.Failed = ''failed''"
| "AttemptStatus_as_str AttemptStatus.Interrupted = ''interrupted''"
| "AttemptStatus_as_str AttemptStatus.TimedOut = ''timed_out''"
| "AttemptStatus_as_str AttemptStatus.Cancelled = ''cancelled''"

fun ResultStatus_as_str :: "ResultStatus \<Rightarrow> string" where
  "ResultStatus_as_str ResultStatus.Candidate = ''candidate''"
| "ResultStatus_as_str ResultStatus.Accepted = ''accepted''"
| "ResultStatus_as_str ResultStatus.Superseded = ''superseded''"

fun ProfileClaimOutcome_as_str :: "ProfileClaimOutcome \<Rightarrow> string" where
  "ProfileClaimOutcome_as_str ProfileClaimOutcome.Accepted = ''accepted''"
| "ProfileClaimOutcome_as_str ProfileClaimOutcome.Edited = ''edited''"
| "ProfileClaimOutcome_as_str ProfileClaimOutcome.Rejected = ''rejected''"
| "ProfileClaimOutcome_as_str ProfileClaimOutcome.Contradicted = ''contradicted''"

fun EvidenceOutcome_as_str :: "EvidenceOutcome \<Rightarrow> string" where
  "EvidenceOutcome_as_str EvidenceOutcome.Passed = ''passed''"
| "EvidenceOutcome_as_str EvidenceOutcome.Failed = ''failed''"
| "EvidenceOutcome_as_str EvidenceOutcome.Uncertain = ''uncertain''"

fun EventKind_as_str :: "EventKind \<Rightarrow> string" where
  "EventKind_as_str EventKind.CommissionProposed = ''commission_proposed''"
| "EventKind_as_str EventKind.CommissionAccepted = ''commission_accepted''"
| "EventKind_as_str EventKind.CommissionAmended = ''commission_amended''"
| "EventKind_as_str EventKind.PlanRevised = ''plan_revised''"
| "EventKind_as_str EventKind.AssignmentReady = ''assignment_ready''"
| "EventKind_as_str EventKind.AttemptStarted = ''attempt_started''"
| "EventKind_as_str EventKind.ResourcesReserved = ''resources_reserved''"
| "EventKind_as_str EventKind.ResultSubmitted = ''result_submitted''"
| "EventKind_as_str EventKind.ResultAccepted = ''result_accepted''"
| "EventKind_as_str EventKind.ResultIntegrated = ''result_integrated''"
| "EventKind_as_str EventKind.ReconciliationRequired = ''reconciliation_required''"
| "EventKind_as_str EventKind.UsefulConcurrencyObserved = ''useful_concurrency_observed''"
| "EventKind_as_str EventKind.EvidenceRecorded = ''evidence_recorded''"
| "EventKind_as_str EventKind.CommissionVerifiedComplete = ''commission_verified_complete''"
| "EventKind_as_str EventKind.AssignmentBlocked = ''assignment_blocked''"
| "EventKind_as_str EventKind.AttachmentJoined = ''attachment_joined''"
| "EventKind_as_str EventKind.ActiveAttachmentChanged = ''active_attachment_changed''"
| "EventKind_as_str EventKind.AttachmentCapabilitiesChanged = ''attachment_capabilities_changed''"
| "EventKind_as_str EventKind.WorkerSteered = ''worker_steered''"
| "EventKind_as_str EventKind.WorkerInterrupted = ''worker_interrupted''"
| "EventKind_as_str EventKind.WorkerActivity = ''worker_activity''"
| "EventKind_as_str EventKind.CommissionPaused = ''commission_paused''"
| "EventKind_as_str EventKind.CommissionResumed = ''commission_resumed''"
| "EventKind_as_str EventKind.CommissionCancelled = ''commission_cancelled''"
| "EventKind_as_str EventKind.RecoveryDecided = ''recovery_decided''"
| "EventKind_as_str EventKind.AttemptContained = ''attempt_contained''"
| "EventKind_as_str EventKind.RestartReconciled = ''restart_reconciled''"
| "EventKind_as_str EventKind.OperationClassified = ''operation_classified''"
| "EventKind_as_str EventKind.OperationNotification = ''operation_notification''"
| "EventKind_as_str EventKind.ApprovalGateOpened = ''approval_gate_opened''"
| "EventKind_as_str EventKind.ApprovalGateAuthorized = ''approval_gate_authorized''"
| "EventKind_as_str EventKind.OperationStarted = ''operation_started''"
| "EventKind_as_str EventKind.OperationConfirmed = ''operation_confirmed''"
| "EventKind_as_str EventKind.OperationFailed = ''operation_failed''"
| "EventKind_as_str EventKind.OperationUncertain = ''operation_uncertain''"
| "EventKind_as_str EventKind.CommissionAmendmentProposed = ''commission_amendment_proposed''"
| "EventKind_as_str EventKind.ResourceCeilingApproaching = ''resource_ceiling_approaching''"
| "EventKind_as_str EventKind.CredentialGrantIssued = ''credential_grant_issued''"
| "EventKind_as_str EventKind.CredentialGrantConsumed = ''credential_grant_consumed''"
| "EventKind_as_str EventKind.CredentialExposureAuthorized = ''credential_exposure_authorized''"

fun OperationClassification_as_str :: "OperationClassification \<Rightarrow> string" where
  "OperationClassification_as_str OperationClassification.SilentJournaled = ''silent_journaled''"
| "OperationClassification_as_str OperationClassification.NonBlockingNotification = ''non_blocking_notification''"
| "OperationClassification_as_str OperationClassification.ApprovalGate = ''approval_gate''"
| "OperationClassification_as_str OperationClassification.Prohibited = ''prohibited''"

fun OperationStatus_as_str :: "OperationStatus \<Rightarrow> string" where
  "OperationStatus_as_str OperationStatus.Completed = ''completed''"
| "OperationStatus_as_str OperationStatus.ApprovalRequired = ''approval_required''"
| "OperationStatus_as_str OperationStatus.Authorized = ''authorized''"
| "OperationStatus_as_str OperationStatus.Started = ''started''"
| "OperationStatus_as_str OperationStatus.Confirmed = ''confirmed''"
| "OperationStatus_as_str OperationStatus.Failed = ''failed''"
| "OperationStatus_as_str OperationStatus.Uncertain = ''uncertain''"
| "OperationStatus_as_str OperationStatus.Prohibited = ''prohibited''"
| "OperationStatus_as_str OperationStatus.Revoked = ''revoked''"

fun ApprovalGateStatus_as_str :: "ApprovalGateStatus \<Rightarrow> string" where
  "ApprovalGateStatus_as_str ApprovalGateStatus.Open = ''open''"
| "ApprovalGateStatus_as_str ApprovalGateStatus.Authorized = ''authorized''"
| "ApprovalGateStatus_as_str ApprovalGateStatus.Consumed = ''consumed''"
| "ApprovalGateStatus_as_str ApprovalGateStatus.Invalidated = ''invalidated''"
| "ApprovalGateStatus_as_str ApprovalGateStatus.Revoked = ''revoked''"

fun WorkerLeaseStatus_as_str :: "WorkerLeaseStatus \<Rightarrow> string" where
  "WorkerLeaseStatus_as_str WorkerLeaseStatus.Active = ''active''"
| "WorkerLeaseStatus_as_str WorkerLeaseStatus.Released = ''released''"
| "WorkerLeaseStatus_as_str WorkerLeaseStatus.Revoked = ''revoked''"
| "WorkerLeaseStatus_as_str WorkerLeaseStatus.Expired = ''expired''"

fun AuthorityScopeType_as_str :: "AuthorityScopeType \<Rightarrow> string" where
  "AuthorityScopeType_as_str AuthorityScopeType.Repository = ''repository''"
| "AuthorityScopeType_as_str AuthorityScopeType.Path = ''path''"
| "AuthorityScopeType_as_str AuthorityScopeType.Action = ''action''"
| "AuthorityScopeType_as_str AuthorityScopeType.Destination = ''destination''"
| "AuthorityScopeType_as_str AuthorityScopeType.Effect = ''effect''"

fun criterion_status :: "EvidenceOutcome \<Rightarrow> CriterionStatus" where
  "criterion_status EvidenceOutcome.Passed = CriterionStatus.Passed"
| "criterion_status EvidenceOutcome.Failed = CriterionStatus.Failed"
| "criterion_status EvidenceOutcome.Uncertain = CriterionStatus.Uncertain"

section \<open>The stored text determines the status\<close>

lemma CommissionStatus_as_str_inj [simp]: "CommissionStatus_as_str a = CommissionStatus_as_str b \<longleftrightarrow> a = b"
  by (cases a; cases b) simp_all

lemma CriterionStatus_as_str_inj [simp]: "CriterionStatus_as_str a = CriterionStatus_as_str b \<longleftrightarrow> a = b"
  by (cases a; cases b) simp_all

lemma AssignmentStatus_as_str_inj [simp]: "AssignmentStatus_as_str a = AssignmentStatus_as_str b \<longleftrightarrow> a = b"
  by (cases a; cases b) simp_all

lemma AttemptStatus_as_str_inj [simp]: "AttemptStatus_as_str a = AttemptStatus_as_str b \<longleftrightarrow> a = b"
  by (cases a; cases b) simp_all

lemma ResultStatus_as_str_inj [simp]: "ResultStatus_as_str a = ResultStatus_as_str b \<longleftrightarrow> a = b"
  by (cases a; cases b) simp_all

lemma ProfileClaimOutcome_as_str_inj [simp]: "ProfileClaimOutcome_as_str a = ProfileClaimOutcome_as_str b \<longleftrightarrow> a = b"
  by (cases a; cases b) simp_all

lemma EvidenceOutcome_as_str_inj [simp]: "EvidenceOutcome_as_str a = EvidenceOutcome_as_str b \<longleftrightarrow> a = b"
  by (cases a; cases b) simp_all

lemma OperationClassification_as_str_inj [simp]: "OperationClassification_as_str a = OperationClassification_as_str b \<longleftrightarrow> a = b"
  by (cases a; cases b) simp_all

lemma OperationStatus_as_str_inj [simp]: "OperationStatus_as_str a = OperationStatus_as_str b \<longleftrightarrow> a = b"
  by (cases a; cases b) simp_all

lemma ApprovalGateStatus_as_str_inj [simp]: "ApprovalGateStatus_as_str a = ApprovalGateStatus_as_str b \<longleftrightarrow> a = b"
  by (cases a; cases b) simp_all

lemma WorkerLeaseStatus_as_str_inj [simp]: "WorkerLeaseStatus_as_str a = WorkerLeaseStatus_as_str b \<longleftrightarrow> a = b"
  by (cases a; cases b) simp_all

lemma AuthorityScopeType_as_str_inj [simp]: "AuthorityScopeType_as_str a = AuthorityScopeType_as_str b \<longleftrightarrow> a = b"
  by (cases a; cases b) simp_all

text \<open>With forty event kinds a split of both sides would be sixteen hundred cases, so the inverse is
  given instead.\<close>

definition event_kinds :: "EventKind list" where
  "event_kinds =
     [EventKind.CommissionProposed,
      EventKind.CommissionAccepted,
      EventKind.CommissionAmended,
      EventKind.PlanRevised,
      EventKind.AssignmentReady,
      EventKind.AttemptStarted,
      EventKind.ResourcesReserved,
      EventKind.ResultSubmitted,
      EventKind.ResultAccepted,
      EventKind.ResultIntegrated,
      EventKind.ReconciliationRequired,
      EventKind.UsefulConcurrencyObserved,
      EventKind.EvidenceRecorded,
      EventKind.CommissionVerifiedComplete,
      EventKind.AssignmentBlocked,
      EventKind.AttachmentJoined,
      EventKind.ActiveAttachmentChanged,
      EventKind.AttachmentCapabilitiesChanged,
      EventKind.WorkerSteered,
      EventKind.WorkerInterrupted,
      EventKind.WorkerActivity,
      EventKind.CommissionPaused,
      EventKind.CommissionResumed,
      EventKind.CommissionCancelled,
      EventKind.RecoveryDecided,
      EventKind.AttemptContained,
      EventKind.RestartReconciled,
      EventKind.OperationClassified,
      EventKind.OperationNotification,
      EventKind.ApprovalGateOpened,
      EventKind.ApprovalGateAuthorized,
      EventKind.OperationStarted,
      EventKind.OperationConfirmed,
      EventKind.OperationFailed,
      EventKind.OperationUncertain,
      EventKind.CommissionAmendmentProposed,
      EventKind.ResourceCeilingApproaching,
      EventKind.CredentialGrantIssued,
      EventKind.CredentialGrantConsumed,
      EventKind.CredentialExposureAuthorized]"

lemma event_kinds_complete: "k \<in> set event_kinds"
  by (cases k) (simp_all add: event_kinds_def)

lemma event_texts_distinct: "distinct (map EventKind_as_str event_kinds)"
  by (simp add: event_kinds_def)

lemma EventKind_as_str_inj [simp]: "EventKind_as_str a = EventKind_as_str b \<longleftrightarrow> a = b"
proof -
  have "inj_on EventKind_as_str (set event_kinds)"
    using event_texts_distinct by (simp only: distinct_map)
  then show ?thesis
    using event_kinds_complete by (auto dest: inj_onD)
qed

text \<open>An Evidence outcome and the criterion status it induces are reported with the same text.\<close>

lemma criterion_status_text:
  "CriterionStatus_as_str (criterion_status e) = EvidenceOutcome_as_str e"
  by (cases e) simp_all

end
