(* ===== verification/Operations.thy ===== *)
theory Operations
  imports Plan_Validation Domain
begin

text \<open>
  The policy on consequential operations of \<^verbatim>\<open>src/src/store.rs\<close>: the shape an operation request
  must have, how it is classified against the Authority Envelope, and when a Credential Grant permits
  it. These functions read no state; the checks against the current Assignment, Attempt and Worker
  Lease are in \<open>Store_Operations\<close>.
\<close>

section \<open>Shape\<close>

definition bad_text :: "string \<Rightarrow> bool" where
  "bad_text s = (blank s \<or> contains_char s NUL)"

definition is_some_and :: "'a option \<Rightarrow> ('a \<Rightarrow> bool) \<Rightarrow> bool" where
  "is_some_and x p = (case x of None \<Rightarrow> False | Some y \<Rightarrow> p y)"

definition validate_operation_shape :: "OperationRequest \<Rightarrow> unit result" where
  "validate_operation_shape operation =
     (if blank (op_operation operation) \<or> blank (op_assignment_id operation)
         \<or> blank (op_attempt_id operation) \<or> blank (op_worker_lease_id operation)
         \<or> op_consequences operation = [] \<or> list_ex blank (op_consequences operation)
         \<or> ol_max_output_bytes (op_limits operation) = 0
         \<or> ol_max_duration_seconds (op_limits operation) = 0
      then invalid_request ''operation identity, consequences, and positive limits are required''
      else if starts_with (op_operation operation) ''credential.'' \<noteq> (op_credential operation \<noteq> None)
      then invalid_request ''credentialed operations require one explicit Credential Grant use''
      else and_then (validate_relative_scope (op_target operation)) (\<lambda>_.
      if list_ex (\<lambda>(name, v). blank name \<or> contains_char name NUL \<or> contains_char v NUL)
           (op_parameters operation)
         \<or> is_some_and (op_repository operation) bad_text
         \<or> is_some_and (op_destination operation) bad_text
         \<or> is_some_and (op_effect operation) bad_text
      then invalid_request ''operation fields must not be empty or contain NUL bytes''
      else Ok ()))"

definition validate_sha256 :: "string \<Rightarrow> unit result" where
  "validate_sha256 v =
     (if length v \<noteq> 64 \<or> \<not> list_all is_ascii_hexdigit v
      then invalid_request ''observed_sha256 must be an exact 64-character hexadecimal digest''
      else Ok ())"

section \<open>Classification\<close>

definition repository_scoped :: "OperationRequest \<Rightarrow> bool" where
  "repository_scoped operation =
     (op_operation operation \<in> {''repository.read'', ''repository.edit'', ''filesystem.write''})"

definition within_envelope :: "OperationRequest \<Rightarrow> AuthorityEnvelope \<Rightarrow> bool" where
  "within_envelope operation authority =
     (let repository_authorized = (\<not> repository_scoped operation
            \<or> is_some_and (op_repository operation) (\<lambda>r. list_ex ((=) r) (auth_repositories authority)));
          target_authorized = (\<not> repository_scoped operation
            \<or> list_ex (store_path_is_within_scope (op_target operation)) (auth_paths authority));
          action_authorized = list_ex ((=) (op_operation operation)) (auth_actions authority);
          destination_authorized = (case op_destination operation of None \<Rightarrow> True
            | Some d \<Rightarrow> list_ex ((=) d) (auth_destinations authority));
          effect_authorized = (case op_effect operation of None \<Rightarrow> True
            | Some e \<Rightarrow> list_ex ((=) e) (auth_effects authority))
      in repository_authorized \<and> target_authorized \<and> action_authorized
         \<and> destination_authorized \<and> effect_authorized)"

definition classify_operation ::
  "OperationRequest \<Rightarrow> AuthorityEnvelope \<Rightarrow> OperationClassification \<times> string" where
  "classify_operation operation authority =
     (if \<not> within_envelope operation authority
      then (OperationClassification.Prohibited, ''the exact repository, target, action, destination, or effect is outside the current Authority Envelope'')
      else if op_operation operation = ''repository.read'' \<and> op_destination operation = None
              \<and> op_effect operation = None
      then (SilentJournaled, ''authorized read-only repository work is routine and journaled'')
      else if op_operation operation = ''repository.edit'' \<and> op_destination operation = None
              \<and> op_effect operation = None
      then (NonBlockingNotification, ''authorized reversible repository edits remain visible without blocking work'')
      else if op_operation operation = ''filesystem.write'' \<and> op_destination operation = Some ''local''
              \<and> op_effect operation = Some ''filesystem.write''
      then (ApprovalGate, ''the requested file replacement is a consequential effect requiring exact Principal approval'')
      else if op_operation operation = ''credential.http.request'' \<and> op_repository operation = None
              \<and> op_destination operation \<noteq> None \<and> op_effect operation = Some ''external.write''
              \<and> op_credential operation \<noteq> None
      then (ApprovalGate, ''the credentialed external request requires exact Principal approval'')
      else if op_operation operation = ''credential.command.request'' \<and> op_repository operation = None
              \<and> op_destination operation \<noteq> None \<and> op_effect operation = Some ''external.write''
              \<and> is_some_and (op_credential operation) (\<lambda>c. cu_mode c = OneShotExposure)
      then (ApprovalGate, ''the exceptional one-shot credential exposure requires exact Principal approval'')
      else (OperationClassification.Prohibited, ''the canonical operation is unsupported or its effect fields are inconsistent''))"

section \<open>Credential Grants\<close>

record StoredCredentialGrant =
  scg_id :: string
  scg_credential_reference :: string
  scg_capability :: string
  scg_destination :: string
  scg_exposure :: string
  scg_expires_at :: int
  scg_status :: string

definition validate_credential_grant_shape :: "CredentialGrantRequest \<Rightarrow> unit result" where
  "validate_credential_grant_shape grant =
     (if blank (cg_assignment_id grant) \<or> blank (cg_attempt_id grant) \<or> blank (cg_worker_lease_id grant)
         \<or> blank (cg_credential_reference grant) \<or> blank (cg_capability grant) \<or> blank (cg_destination grant)
         \<or> contains_char (cg_credential_reference grant) NUL \<or> contains_char (cg_capability grant) NUL
         \<or> contains_char (cg_destination grant) NUL
      then invalid_request ''Credential Grant identity, capability, and destination are required''
      else Ok ())"

fun mode_exposure :: "CredentialUseMode \<Rightarrow> CredentialExposure" where
  "mode_exposure Brokered = BrokeredOnly"
| "mode_exposure OneShotExposure = OneShot"

text \<open>The clock is an argument. It is read only when the conditions before it hold, as in the source.\<close>

definition validate_credential_operation_grant ::
  "int result \<Rightarrow> OperationRequest \<Rightarrow> StoredCredentialGrant \<Rightarrow> unit result" where
  "validate_credential_operation_grant unix_timestamp operation grant =
     (case op_credential operation of
        None \<Rightarrow> control_denied ''credentialed operation has no Credential Grant''
      | Some credential_use \<Rightarrow>
          let mode_allowed = (scg_exposure grant = CredentialExposure_as_str (mode_exposure (cu_mode credential_use)));
              denied = control_denied ''the Credential Grant is stale, consumed, mismatched, or does not permit this delivery mode''
          in if scg_id grant \<noteq> cu_grant_id credential_use \<or> scg_status grant \<noteq> ''active'' then denied
             else and_then unix_timestamp (\<lambda>now.
               if scg_expires_at grant \<le> now \<or> scg_capability grant \<noteq> ''http_bearer''
                  \<or> op_destination operation \<noteq> Some (scg_destination grant) \<or> \<not> mode_allowed
               then denied else Ok ()))"

section \<open>What the policy guarantees\<close>

lemma is_some_and_iff [simp]: "is_some_and x p \<longleftrightarrow> (\<exists>y. x = Some y \<and> p y)"
  by (cases x) (auto simp: is_some_and_def)

text \<open>The envelope as membership.\<close>

lemma within_envelope_iff:
  "within_envelope operation authority \<longleftrightarrow>
     (repository_scoped operation \<longrightarrow>
        (\<exists>r \<in> set (auth_repositories authority). op_repository operation = Some r)
        \<and> (\<exists>p \<in> set (auth_paths authority). path_is_within_scope (op_target operation) p))
     \<and> op_operation operation \<in> set (auth_actions authority)
     \<and> (\<forall>d. op_destination operation = Some d \<longrightarrow> d \<in> set (auth_destinations authority))
     \<and> (\<forall>e. op_effect operation = Some e \<longrightarrow> e \<in> set (auth_effects authority))"
  by (auto simp: within_envelope_def Let_def list_ex_iff store_path_is_within_scope_eq split: option.splits)

lemma classify_operation_cases:
  obtains (outside) "\<not> within_envelope operation authority"
      "fst (classify_operation operation authority) = OperationClassification.Prohibited"
  | (read) "within_envelope operation authority" "op_operation operation = ''repository.read''"
      "op_destination operation = None" "op_effect operation = None"
      "fst (classify_operation operation authority) = SilentJournaled"
  | (edit) "within_envelope operation authority" "op_operation operation = ''repository.edit''"
      "op_destination operation = None" "op_effect operation = None"
      "fst (classify_operation operation authority) = NonBlockingNotification"
  | (gated) "within_envelope operation authority"
      "op_operation operation \<in> {''filesystem.write'', ''credential.http.request'', ''credential.command.request''}"
      "op_destination operation \<noteq> None" "op_effect operation \<noteq> None"
      "fst (classify_operation operation authority) = ApprovalGate"
  | (unsupported) "within_envelope operation authority"
      "fst (classify_operation operation authority) = OperationClassification.Prohibited"
proof -
  let ?op = "op_operation operation"
  define quiet where "quiet \<longleftrightarrow> op_destination operation = None \<and> op_effect operation = None"
  define local where "local \<longleftrightarrow> op_destination operation = Some ''local''
      \<and> op_effect operation = Some ''filesystem.write''"
  define brokered where "brokered \<longleftrightarrow> op_repository operation = None \<and> op_destination operation \<noteq> None
      \<and> op_effect operation = Some ''external.write'' \<and> op_credential operation \<noteq> None"
  define exposed where "exposed \<longleftrightarrow> op_repository operation = None \<and> op_destination operation \<noteq> None
      \<and> op_effect operation = Some ''external.write''
      \<and> is_some_and (op_credential operation) (\<lambda>c. cu_mode c = OneShotExposure)"
  have result: "fst (classify_operation operation authority) =
      (if \<not> within_envelope operation authority then OperationClassification.Prohibited
       else if ?op = ''repository.read'' \<and> quiet then SilentJournaled
       else if ?op = ''repository.edit'' \<and> quiet then NonBlockingNotification
       else if ?op = ''filesystem.write'' \<and> local then ApprovalGate
       else if ?op = ''credential.http.request'' \<and> brokered then ApprovalGate
       else if ?op = ''credential.command.request'' \<and> exposed then ApprovalGate
       else OperationClassification.Prohibited)"
    unfolding classify_operation_def quiet_def local_def brokered_def exposed_def
    by (simp only: if_distrib [of fst] fst_conv)
  show ?thesis
  proof (cases "within_envelope operation authority")
    case False
    with result show ?thesis by (intro outside) simp_all
  next
    case within: True
    consider (quietRead) "?op = ''repository.read'' \<and> quiet" | (quietEdit) "?op = ''repository.edit'' \<and> quiet"
      | (fileWrite) "?op = ''filesystem.write'' \<and> local" | (http) "?op = ''credential.http.request'' \<and> brokered"
      | (command) "?op = ''credential.command.request'' \<and> exposed"
      | (none) "fst (classify_operation operation authority) = OperationClassification.Prohibited"
      using result by argo
    then show ?thesis
    proof cases
      case quietRead
      with within result show ?thesis by (intro read) (simp_all add: quiet_def)
    next
      case quietEdit
      with within result show ?thesis by (intro edit) (simp_all add: quiet_def)
    next
      case fileWrite
      with within result show ?thesis by (intro gated) (simp_all add: local_def)
    next
      case http
      with within result show ?thesis by (intro gated) (simp_all add: brokered_def)
    next
      case command
      with within result show ?thesis by (intro gated) (simp_all add: exposed_def)
    next
      case none
      with within show ?thesis by (rule unsupported)
    qed
  qed
qed

lemma classify_operation_sound:
  assumes "fst (classify_operation operation authority) \<noteq> OperationClassification.Prohibited"
  shows "within_envelope operation authority"
  using assms by (cases operation authority rule: classify_operation_cases) auto

lemma classify_operation_effects_gated:
  assumes "op_destination operation \<noteq> None \<or> op_effect operation \<noteq> None \<or> op_credential operation \<noteq> None"
    and "validate_operation_shape operation = Inr ()"
  shows "fst (classify_operation operation authority) \<in> {ApprovalGate, OperationClassification.Prohibited}"
proof (cases "op_destination operation = None \<and> op_effect operation = None")
  case True
  with assms have "starts_with (op_operation operation) ''credential.''"
    by (auto simp: validate_operation_shape_def split: if_splits)
  then have "op_operation operation \<noteq> ''repository.read''" "op_operation operation \<noteq> ''repository.edit''"
    by (auto simp: starts_with_def)
  then show ?thesis by (cases operation authority rule: classify_operation_cases) auto
next
  case False
  then show ?thesis by (cases operation authority rule: classify_operation_cases) auto
qed

lemma validate_credential_operation_grant_Ok_iff:
  "validate_credential_operation_grant clock operation grant = Inr () \<longleftrightarrow>
     (\<exists>u now. op_credential operation = Some u \<and> clock = Inr now
        \<and> scg_id grant = cu_grant_id u \<and> scg_status grant = ''active'' \<and> now < scg_expires_at grant
        \<and> scg_capability grant = ''http_bearer'' \<and> op_destination operation = Some (scg_destination grant)
        \<and> scg_exposure grant = CredentialExposure_as_str (mode_exposure (cu_mode u)))"
  by (auto simp: validate_credential_operation_grant_def Let_def outcome_simps not_le split: option.splits if_splits)

end
