(* ===== verification/Attachment.thy ===== *)
theory Attachment
  imports Protocol
begin

text \<open>
  \<^verbatim>\<open>src/src/attachment.rs\<close>: what an Entry Session may do. The capability table, the three
  Attachment Modes, and \<open>negotiate\<close>, which turns the capabilities an adapter advertises into the
  effective ones, the missing ones and the mode. The lemmas characterise the mode exactly and show
  that negotiation depends only on the set of advertised names and never grants a name outside the
  table.
\<close>

definition PROPOSAL_CREATION :: string where
  "PROPOSAL_CREATION = ''proposal_creation''"
definition COMMISSION_ACCEPTANCE :: string where
  "COMMISSION_ACCEPTANCE = ''commission_acceptance''"
definition COMMISSION_INSPECTION :: string where
  "COMMISSION_INSPECTION = ''commission_inspection''"
definition EVENT_REPLAY :: string where
  "EVENT_REPLAY = ''event_replay''"
definition CONTROL_TAKEOVER :: string where
  "CONTROL_TAKEOVER = ''control_takeover''"
definition MATERIAL_NOTIFICATIONS :: string where
  "MATERIAL_NOTIFICATIONS = ''material_notifications''"
definition PERSISTENT_MODE_DISPLAY :: string where
  "PERSISTENT_MODE_DISPLAY = ''persistent_mode_display''"
definition WORKER_STEERING :: string where
  "WORKER_STEERING = ''worker_steering''"
definition WORKER_INTERRUPTION :: string where
  "WORKER_INTERRUPTION = ''worker_interruption''"

lemmas capability_name_defs =
  PROPOSAL_CREATION_def COMMISSION_ACCEPTANCE_def COMMISSION_INSPECTION_def EVENT_REPLAY_def
  CONTROL_TAKEOVER_def MATERIAL_NOTIFICATIONS_def PERSISTENT_MODE_DISPLAY_def WORKER_STEERING_def
  WORKER_INTERRUPTION_def

record Capability =
  cap_name :: string
  cap_affected_actions :: "string list"
  cap_missing_effect :: string

definition CAPABILITIES :: "Capability list" where
  "CAPABILITIES =
     [\<lparr>cap_name = PROPOSAL_CREATION,
       cap_affected_actions = [''create_proposal''],
       cap_missing_effect = ''This Entry Session cannot create Commission Proposals.''\<rparr>,
      \<lparr>cap_name = COMMISSION_ACCEPTANCE,
       cap_affected_actions =
         [''accept_commission'', ''pause_commission'', ''resume_commission'', ''cancel_commission'',
          ''propose_operation'', ''execute_operation'', ''propose_commission_amendment'',
          ''amend_verification'', ''record_verification_evidence''],
       cap_missing_effect = ''This Entry Session cannot accept Commission Proposals.''\<rparr>,
      \<lparr>cap_name = COMMISSION_INSPECTION,
       cap_affected_actions =
         [''connect_attachment'', ''inspect_commission'', ''update_attachment_capabilities'',
          ''create_profile_claim'', ''revise_profile_claim'', ''observe_profile_preference'',
          ''confirm_profile_claim'', ''suppress_profile_claim'', ''forget_profile_claim'',
          ''create_learning_boundary'', ''import_memory'', ''pin_memory_material''],
       cap_missing_effect = ''This Entry Session cannot inspect a Commission.''\<rparr>,
      \<lparr>cap_name = EVENT_REPLAY,
       cap_affected_actions =
         [''connect_attachment_with_replay'', ''resume_attachment'', ''replay_events''],
       cap_missing_effect =
         ''This Entry Session cannot replay unseen durable Commission events.''\<rparr>,
      \<lparr>cap_name = CONTROL_TAKEOVER,
       cap_affected_actions = [''take_control''],
       cap_missing_effect = ''This Entry Session cannot take active control of a Commission.''\<rparr>,
      \<lparr>cap_name = MATERIAL_NOTIFICATIONS,
       cap_affected_actions = [''receive_material_notifications''],
       cap_missing_effect = ''This Entry Session must inspect for material Commission updates.''\<rparr>,
      \<lparr>cap_name = PERSISTENT_MODE_DISPLAY,
       cap_affected_actions = [''display_attachment_mode_persistently''],
       cap_missing_effect =
         ''Every Commission summary must repeat the Attachment Mode warning.''\<rparr>,
      \<lparr>cap_name = WORKER_STEERING,
       cap_affected_actions = [''steer_worker''],
       cap_missing_effect = ''This Entry Session cannot steer an active Worker.''\<rparr>,
      \<lparr>cap_name = WORKER_INTERRUPTION,
       cap_affected_actions = [''interrupt_worker'', ''retry_worker''],
       cap_missing_effect = ''This Entry Session cannot interrupt an active Worker.''\<rparr>]"

definition FULL_CONTROL_HARNESS :: string where
  "FULL_CONTROL_HARNESS = ''pi''"

definition missing_capability :: "Capability \<Rightarrow> json" where
  "missing_capability c =
     JObject
       [(''affected_actions'', JArray (map JString (cap_affected_actions c))),
        (''alternative'', JString ''Reconnect through a Full Pi Entry Session.''),
        (''capability'', JString (cap_name c)),
        (''effect'', JString (cap_missing_effect c)),
        (''supported_harness'', JString FULL_CONTROL_HARNESS)]"

datatype AttachmentMode = Full | Limited | Observer

fun AttachmentMode_as_str :: "AttachmentMode \<Rightarrow> string" where
  "AttachmentMode_as_str Full = ''full''"
| "AttachmentMode_as_str Limited = ''limited''"
| "AttachmentMode_as_str Observer = ''observer''"

fun AttachmentMode_tag :: "AttachmentMode \<Rightarrow> string" where
  "AttachmentMode_tag Full = ''Tyrion: Full''"
| "AttachmentMode_tag Limited = ''Tyrion: Limited''"
| "AttachmentMode_tag Observer = ''Tyrion: Observer''"

definition AttachmentMode_parse :: "string \<Rightarrow> AttachmentMode result" where
  "AttachmentMode_parse v =
     (if v = ''full'' then Ok Full
      else if v = ''limited'' then Ok Limited
      else if v = ''observer'' then Ok Observer
      else invalid_request (''stored Attachment Mode '' @ v @ '' is invalid''))"

record NegotiatedCapabilities =
  nc_effective :: "string list"
  nc_missing :: "json list"
  nc_mode :: AttachmentMode

definition negotiate :: "string list \<Rightarrow> NegotiatedCapabilities result" where
  "negotiate advertised =
     (if COMMISSION_INSPECTION \<notin> set advertised
      then (case List.find (\<lambda>c. cap_name c = COMMISSION_INSPECTION) CAPABILITIES of
              None \<Rightarrow> Panicked ''commission_inspection must remain a known capability''
            | Some inspection \<Rightarrow>
                Err (AttachmentRejectedWithDetails
                  ''the adapter is incompatible because commission_inspection is required''
                  (JObject [(''missing_capabilities'', JArray [missing_capability inspection])])))
      else
        let effective = map cap_name (filter (\<lambda>c. cap_name c \<in> set advertised) CAPABILITIES);
            missing = map missing_capability (filter (\<lambda>c. cap_name c \<notin> set advertised) CAPABILITIES);
            can_mutate = PROPOSAL_CREATION \<in> set advertised \<or> COMMISSION_ACCEPTANCE \<in> set advertised
                         \<or> CONTROL_TAKEOVER \<in> set advertised;
            mode = (if \<not> can_mutate then Observer else if missing = [] then Full else Limited)
        in Ok \<lparr>nc_effective = effective, nc_missing = missing, nc_mode = mode\<rparr>)"

section \<open>Correctness\<close>

definition capability_names :: "string set" where
  "capability_names = set (map cap_name CAPABILITIES)"

definition mutating_names :: "string set" where
  "mutating_names = {PROPOSAL_CREATION, COMMISSION_ACCEPTANCE, CONTROL_TAKEOVER}"

lemma capability_names_distinct: "distinct (map cap_name CAPABILITIES)"
  by (simp add: CAPABILITIES_def capability_name_defs)

lemma mutating_names_known: "mutating_names \<subseteq> capability_names"
  by (simp add: mutating_names_def capability_names_def CAPABILITIES_def)

lemma inspection_known: "List.find (\<lambda>c. cap_name c = COMMISSION_INSPECTION) CAPABILITIES \<noteq> None"
  by (simp add: CAPABILITIES_def capability_name_defs)

lemma AttachmentMode_parse_as_str: "AttachmentMode_parse (AttachmentMode_as_str m) = Ok m"
  by (cases m) (simp_all add: AttachmentMode_parse_def)

lemma AttachmentMode_parse_Ok:
  "AttachmentMode_parse v = Inr m \<longleftrightarrow> v = AttachmentMode_as_str m"
  by (cases m) (auto simp: AttachmentMode_parse_def split: if_splits)

lemma negotiate_Ok_iff: "(\<exists>n. negotiate adv = Inr n) \<longleftrightarrow> COMMISSION_INSPECTION \<in> set adv"
  by (auto simp: negotiate_def Let_def split: option.splits)

lemma negotiate_never_panics: "\<not> panics (negotiate adv)"
  using inspection_known by (auto simp: negotiate_def Let_def split: option.splits)

lemma negotiate_effective:
  assumes "negotiate adv = Inr n"
  shows "set (nc_effective n) = capability_names \<inter> set adv"
    and "distinct (nc_effective n)"
  using assms capability_names_distinct
  by (auto simp: negotiate_def Let_def capability_names_def distinct_map_filter
      split: if_splits option.splits)

lemma negotiate_missing_length:
  assumes "negotiate adv = Inr n"
  shows "length (nc_effective n) + length (nc_missing n) = length CAPABILITIES"
  using assms sum_length_filter_compl [of "\<lambda>c. cap_name c \<in> set adv" CAPABILITIES]
  by (auto simp: negotiate_def Let_def split: if_splits option.splits)

lemma negotiate_mode:
  assumes "negotiate adv = Inr n"
  shows "nc_mode n = Observer \<longleftrightarrow> mutating_names \<inter> set adv = {}"
    and "nc_mode n = Full \<longleftrightarrow> capability_names \<subseteq> set adv"
proof -
  from assms have n: "n = \<lparr>nc_effective = map cap_name (filter (\<lambda>c. cap_name c \<in> set adv) CAPABILITIES),
      nc_missing = map missing_capability (filter (\<lambda>c. cap_name c \<notin> set adv) CAPABILITIES),
      nc_mode = (if mutating_names \<inter> set adv = {} then Observer
                 else if filter (\<lambda>c. cap_name c \<notin> set adv) CAPABILITIES = [] then Full
                 else Limited)\<rparr>"
    by (auto simp: negotiate_def Let_def mutating_names_def split: if_splits option.splits)
  have full: "filter (\<lambda>c. cap_name c \<notin> set adv) CAPABILITIES = [] \<longleftrightarrow> capability_names \<subseteq> set adv"
    by (auto simp: filter_empty_conv capability_names_def)
  have "mutating_names \<inter> set adv \<noteq> {}" if "capability_names \<subseteq> set adv"
    using that mutating_names_known by (auto simp: mutating_names_def)
  with full show "nc_mode n = Full \<longleftrightarrow> capability_names \<subseteq> set adv"
    by (simp add: n)
  show "nc_mode n = Observer \<longleftrightarrow> mutating_names \<inter> set adv = {}"
    by (simp add: n)
qed

lemma negotiate_set_only: "set a = set b \<Longrightarrow> negotiate a = negotiate b"
  by (simp add: negotiate_def)

end
