(* ===== verification/Store_Db.thy ===== *)
theory Store_Db
  imports Attachment Operations Proposal Routing
begin

text \<open>
  The durable state behind \<^verbatim>\<open>src/src/store.rs\<close>: the tables of \<^verbatim>\<open>src/src/store/schema.rs\<close> the
  modelled operations use, as lists of rows in insertion order, with the constraints the schema
  declares, and the transactions that read and write them.

  \<^item> A column of text that a Rust enumeration was printed into stays text. A column that holds the
    JSON text of a value holds the value: what is written with \<^verbatim>\<open>serde_json::to_string\<close> is read back
    with \<^verbatim>\<open>from_str\<close>.
  \<^item> An \<^verbatim>\<open>INSERT\<close> fails with the database error of the constraint it violates; a \<^verbatim>\<open>query_row\<close> that finds
    no row fails too. An \<^verbatim>\<open>UPDATE\<close> changes the rows its \<^verbatim>\<open>WHERE\<close> selects.
  \<^item> A transaction either returns its value and the new tables, or fails and leaves the tables as they
    were: a Rust \<^verbatim>\<open>Transaction\<close> dropped before \<^verbatim>\<open>commit\<close> rolls back.
  \<^item> The clock, the UUID generator, SHA-256, the JSON encoder of a request, the file system and the
    read-only projection of a Commission are arguments (\<open>Sys\<close> and \<open>Readings\<close>). Every reading of the
    clock and every UUID of a request may differ from the one before.
\<close>

named_theorems tx_simps \<open>when a transaction step succeeds, and with what\<close>

section \<open>Rows\<close>

record IdentityRow =
  pi_project_id :: string
  pi_repository_device :: int
  pi_repository_inode :: int
  pi_created_at :: int

record AliasRow =
  pl_project_id :: string
  pl_repository_device :: int
  pl_repository_inode :: int
  pl_canonical_repository :: string
  pl_observed_at :: int

record CommissionRow =
  cm_id :: string
  cm_goal :: string
  cm_status :: string
  cm_revision :: int
  cm_control_revision :: int
  cm_created_at :: int
  cm_accepted_at :: "int option"
  cm_completed_at :: "int option"
  cm_execution :: ExecutionSpec
  cm_worker_requirements :: WorkerRequirements
  cm_plan :: "CommissionPlan option"
  cm_project_id :: "string option"
  cm_constraints :: "string list"
  cm_planning :: "string option"

record CriterionRow =
  cr_commission_id :: string
  cr_criterion_id :: string
  cr_position :: int
  cr_description :: string
  cr_required_evidence :: string
  cr_verifier_type :: string
  cr_verification_depth :: string
  cr_verifier_configuration :: string
  cr_verification_environment :: string
  cr_verifier :: Verifier

record AuthorityRow =
  as_commission_id :: string
  as_scope_type :: string
  as_position :: int
  as_value :: string

record LaunchTokenRow =
  lt_token_hash :: string
  lt_expected_harness :: string
  lt_expected_adapter_identity :: string
  lt_expected_adapter_version :: string
  lt_created_at :: int
  lt_expires_at :: int
  lt_consumed_at :: "int option"

record AttachmentRow =
  at_id :: string
  at_session_token_hash :: string
  at_harness :: string
  at_adapter_identity :: string
  at_adapter_version :: string
  at_protocol_version :: u16
  at_native_session_id :: string
  at_mode :: string
  at_capabilities :: "string list"
  at_missing_capabilities :: "json list"
  at_created_at :: int

record LinkRow =
  ca_commission_id :: string
  ca_attachment_id :: string
  ca_role :: string
  ca_joined_at :: int

record EventRow =
  ev_sequence :: int
  ev_commission_id :: string
  ev_event_type :: string
  ev_commission_revision :: int
  ev_payload :: json
  ev_created_at :: int

record IdempotencyRow =
  ik_key :: string
  ik_request_hash :: string
  ik_response :: json
  ik_created_at :: int

text \<open>Work in progress: Assignments, their Attempts, and the grants that let an Attempt act.\<close>

record AssignmentRow =
  asg_id :: string
  asg_commission_id :: string
  asg_plan_revision :: int
  asg_status :: string
  asg_created_at :: int

record AttemptRow =
  atm_id :: string
  atm_assignment_id :: string
  atm_worker_configuration :: string
  atm_status :: string
  atm_started_at :: int
  atm_completed_at :: "int option"
  atm_execution_completed_at_ms :: "int option"
  atm_completed_at_ms :: "int option"
  atm_revision_disposition :: string

record LeaseRow =
  wl_id :: string
  wl_attempt_id :: string
  wl_expires_at :: int
  wl_mandate_revision :: int
  wl_released_at :: "int option"
  wl_status :: string

record ReservationRow =
  rsv_attempt_id :: string
  rsv_commission_id :: string
  rsv_concurrency_slots :: u32
  rsv_storage_bytes :: u64
  rsv_model_spend_cents :: u64
  rsv_paid_service_spend_cents :: u64
  rsv_status :: string
  rsv_released_at :: "int option"

record OperationRow =
  or_id :: string
  or_commission_id :: string
  or_operation :: OperationRequest
  or_canonical :: json
  or_digest :: string
  or_classification :: string
  or_status :: string
  or_classification_reason :: string
  or_proposed_at :: int
  or_authorized_at :: "int option"
  or_started_at :: "int option"
  or_completed_at :: "int option"
  or_receipt :: "json option"

record GateRow =
  ag_id :: string
  ag_commission_id :: string
  ag_operation_request_id :: string
  ag_operation_digest :: string
  ag_status :: string
  ag_opened_at :: int
  ag_authorized_at :: "int option"
  ag_consumed_at :: "int option"
  ag_invalidated_at :: "int option"

record GrantRow =
  gr_id :: string
  gr_commission_id :: string
  gr_assignment_id :: string
  gr_attempt_id :: string
  gr_worker_lease_id :: string
  gr_mandate_revision :: int
  gr_plan_revision :: int
  gr_credential_reference :: string
  gr_capability :: string
  gr_destination :: string
  gr_exposure :: string
  gr_credential_expires_at :: int
  gr_revocation :: string
  gr_status :: string
  gr_created_at :: int
  gr_consumed_at :: "int option"
  gr_revoked_at :: "int option"

record ExposureRow =
  eg_id :: string
  eg_credential_grant_id :: string
  eg_operation_request_id :: string
  eg_operation_digest :: string
  eg_status :: string
  eg_authorized_at :: int
  eg_consumed_at :: "int option"
  eg_revoked_at :: "int option"

record ResultRow =
  rs_id :: string
  rs_attempt_id :: string
  rs_status :: string
  rs_changed_paths :: "string list"
  rs_known_effects :: "string list"
  rs_created_at :: int
  rs_revision_disposition :: string

record ClaimUseRow =
  apc_attempt_id :: string
  apc_claim_id :: string
  apc_result_id :: "string option"
  apc_outcome :: "string option"
  apc_recorded_at :: "int option"

record WorkerRow =
  wk_id :: string
  wk_commission_id :: string
  wk_attempt_id :: string
  wk_handle :: string
  wk_status :: string
  wk_latest_activity :: string
  wk_activity_at_ms :: int

record WorkerCommandRow =
  wcm_id :: string
  wcm_commission_id :: string
  wcm_status :: string

record MaterialRow =
  tm_id :: string
  tm_commission_id :: string
  tm_result_id :: "string option"
  tm_kind :: string
  tm_retained_by_evidence :: bool
  tm_retained_by_claim :: bool
  tm_retained_for_uncertain_effect :: bool
  tm_expires_at :: "int option"
  tm_expired_at :: "int option"

record RecoveryRow =
  rcv_id :: string
  rcv_commission_id :: string
  rcv_assignment_id :: string
  rcv_attempt_id :: string
  rcv_cause :: string
  rcv_classification :: string
  rcv_equivalence_key :: string
  rcv_action :: string
  rcv_requirement :: string
  rcv_created_at :: int

record AmendmentRow =
  amr_id :: string
  amr_commission_id :: string
  amr_base_revision :: int
  amr_authority :: AuthorityEnvelope
  amr_resource_ceilings :: ResourceCeilings
  amr_reason :: string
  amr_diff :: json
  amr_digest :: string
  amr_impact :: json
  amr_revalidation :: "json option"
  amr_status :: string
  amr_proposed_at :: int
  amr_accepted_at :: "int option"

text \<open>The plan of a Commission. \<^verbatim>\<open>assignment_metadata\<close> repeats the columns of \<^verbatim>\<open>planned_assignments\<close> for the
  Assignments that entered the frontier.\<close>

record PlanRow =
  plr_commission_id :: string
  plr_revision :: int
  plr_source :: string
  plr_reason :: string
  plr_snapshot :: CommissionPlan
  plr_created_at :: int

record PlannedColumns =
  pc_logical_id :: string
  pc_position :: int
  pc_goal :: string
  pc_purpose :: string
  pc_read_scopes :: "string list"
  pc_write_scopes :: "string list"
  pc_resources :: AssignmentResources
  pc_competition :: "CompetitionPlan option"

record PlannedRow =
  pn_commission_id :: string
  pn_columns :: PlannedColumns
  pn_worker_requirements :: WorkerRequirements
  pn_created_plan_revision :: int

record MetadataRow =
  md_assignment_id :: string
  md_commission_id :: string
  md_columns :: PlannedColumns
  md_legacy :: bool

record PlannedLinkRow =
  pk_commission_id :: string
  pk_assignment :: string
  pk_target :: string
  pk_position :: int

record SkillDefaultRow =
  sd_assignment_id :: string
  sd_skill_name :: string
  sd_content_digest :: string
  sd_requirement :: string
  sd_provenance :: string
  sd_plan_revision :: int
  sd_selected_at :: int

record RouteRow =
  ro_assignment_id :: string
  ro_status :: string
  ro_selected_configuration :: "WorkerConfiguration option"
  ro_rationale :: RoutingRationale
  ro_decided_at :: int

record AttentionRow =
  att_id :: string
  att_commission_id :: string
  att_assignment_id :: string
  att_code :: string
  att_requirement :: string
  att_status :: string
  att_created_at :: int
  att_resolved_at :: "int option"

record VerificationGateRow =
  vg_commission_id :: string
  vg_criterion_id :: string
  vg_mandate_revision :: int
  vg_status :: string
  vg_opened_at :: int
  vg_closed_at :: "int option"

record PlanTables =
  pt_plans :: "PlanRow list"
  pt_planned :: "PlannedRow list"
  pt_dependencies :: "PlannedLinkRow list"
  pt_criteria :: "PlannedLinkRow list"
  pt_metadata :: "MetadataRow list"
  pt_skill_defaults :: "SkillDefaultRow list"
  pt_routes :: "RouteRow list"
  pt_attention :: "AttentionRow list"
  pt_configuration_failures :: "(string \<times> string) list"
  pt_verification_gates :: "VerificationGateRow list"

section \<open>The tables\<close>

record Db =
  db_projects :: "(string \<times> int) list"
  db_project_identities :: "IdentityRow list"
  db_project_aliases :: "AliasRow list"
  db_commissions :: "CommissionRow list"
  db_criteria :: "(CriterionRow \<times> string) list"
  db_criterion_versions :: "(CriterionRow \<times> int) list"
  db_authority_scopes :: "AuthorityRow list"
  db_resource_ceilings :: "(string \<times> ResourceCeilings) list"
  db_known_uncertainties :: "(string \<times> int \<times> string) list"
  db_launch_tokens :: "LaunchTokenRow list"
  db_attachments :: "AttachmentRow list"
  db_links :: "LinkRow list"
  db_events :: "EventRow list"
  db_event_sequence :: int
  db_idempotency_keys :: "IdempotencyRow list"
  db_assignments :: "AssignmentRow list"
  db_attempts :: "AttemptRow list"
  db_leases :: "LeaseRow list"
  db_reservations :: "ReservationRow list"
  db_operations :: "OperationRow list"
  db_gates :: "GateRow list"
  db_execution_identities :: "(string \<times> string \<times> string) list"
  db_grants :: "GrantRow list"
  db_exposures :: "ExposureRow list"
  db_results :: "ResultRow list"
  db_claim_uses :: "ClaimUseRow list"
  db_workers :: "WorkerRow list"
  db_worker_commands :: "WorkerCommandRow list"
  db_materials :: "MaterialRow list"
  db_recoveries :: "RecoveryRow list"
  db_evidence_results :: "string list"
  db_learning_observations :: "(string \<times> string) list"
  db_claim_observations :: "string list"
  db_amendments :: "AmendmentRow list"
  db_plan :: PlanTables

definition empty_plan :: PlanTables where
  "empty_plan =
     \<lparr>pt_plans = [], pt_planned = [], pt_dependencies = [], pt_criteria = [], pt_metadata = [],
      pt_skill_defaults = [], pt_routes = [], pt_attention = [], pt_configuration_failures = [],
      pt_verification_gates = []\<rparr>"

definition empty_db :: Db where
  "empty_db =
     \<lparr>db_projects = [], db_project_identities = [], db_project_aliases = [], db_commissions = [],
      db_criteria = [], db_criterion_versions = [], db_authority_scopes = [], db_resource_ceilings = [],
      db_known_uncertainties = [], db_launch_tokens = [], db_attachments = [], db_links = [],
      db_events = [], db_event_sequence = 0, db_idempotency_keys = [], db_assignments = [],
      db_attempts = [], db_leases = [], db_reservations = [], db_operations = [], db_gates = [],
      db_execution_identities = [], db_grants = [], db_exposures = [],
      db_results = [], db_claim_uses = [], db_workers = [], db_worker_commands = [], db_materials = [],
      db_recoveries = [], db_evidence_results = [], db_learning_observations = [], db_claim_observations = [],
      db_amendments = [], db_plan = empty_plan\<rparr>"

section \<open>Constraints of the schema\<close>

text \<open>The texts the \<^verbatim>\<open>CHECK\<close> constraints admit.\<close>

definition commission_status_check :: "string list" where
  "commission_status_check = [''proposed'', ''active'', ''paused'', ''cancelled'', ''verified_complete'']"

definition criterion_status_check :: "string list" where
  "criterion_status_check = [''uncertain'', ''passed'', ''failed'']"

definition assignment_status_check :: "string list" where
  "assignment_status_check =
     [''ready'', ''running'', ''accepted'', ''superseded'', ''verification_pending'', ''verification_failed'',
      ''resource_blocked'', ''attention_required'', ''cancelled'']"

definition attempt_status_check :: "string list" where
  "attempt_status_check = [''running'', ''succeeded'', ''failed'', ''interrupted'', ''timed_out'', ''cancelled'']"

definition lease_status_check :: "string list" where
  "lease_status_check = [''active'', ''released'', ''revoked'', ''expired'']"

definition operation_status_check :: "string list" where
  "operation_status_check =
     [''completed'', ''approval_required'', ''authorized'', ''started'', ''confirmed'',
      ''failed'', ''uncertain'', ''prohibited'', ''revoked'']"

definition classification_check :: "string list" where
  "classification_check = [''silent_journaled'', ''non_blocking_notification'', ''approval_gate'', ''prohibited'']"

definition gate_status_check :: "string list" where
  "gate_status_check = [''open'', ''authorized'', ''consumed'', ''invalidated'', ''revoked'']"

definition purpose_check :: "string list" where
  "purpose_check = [''critical_path'', ''uncertainty_reduction'', ''independent_verification'', ''reconciliation'']"

definition exposure_check :: "string list" where
  "exposure_check = [''brokered_only'', ''one_shot'']"

definition scope_type_check :: "string list" where
  "scope_type_check = [''repository'', ''path'', ''action'', ''destination'', ''effect'']"

definition mode_check :: "string list" where
  "mode_check = [''full'', ''limited'', ''observer'']"

definition role_check :: "string list" where
  "role_check = [''active'', ''observer'']"

definition verifier_type_check :: "string list" where
  "verifier_type_check = [''deterministic'', ''model'', ''principal'']"

definition verification_depth_check :: "string list" where
  "verification_depth_check = [''standard'', ''independent'']"

definition event_type_check :: "string list" where
  "event_type_check =
     [''commission_proposed'', ''commission_accepted'', ''commission_amended'', ''assignment_ready'',
      ''plan_revised'', ''attempt_started'', ''resources_reserved'', ''result_submitted'',
      ''result_accepted'', ''result_integrated'', ''reconciliation_required'',
      ''useful_concurrency_observed'', ''evidence_recorded'',
      ''commission_verified_complete'', ''assignment_blocked'',
      ''attachment_joined'', ''active_attachment_changed'', ''attachment_capabilities_changed'',
      ''worker_steered'', ''worker_interrupted'', ''worker_activity'',
      ''commission_paused'', ''commission_resumed'', ''commission_cancelled'',
      ''recovery_decided'', ''attempt_contained'', ''restart_reconciled'',
      ''operation_classified'', ''operation_notification'', ''approval_gate_opened'',
      ''approval_gate_authorized'', ''operation_started'', ''operation_confirmed'',
      ''operation_failed'', ''operation_uncertain'', ''commission_amendment_proposed'',
      ''resource_ceiling_approaching'', ''credential_grant_issued'',
      ''credential_grant_consumed'', ''credential_exposure_authorized'']"

abbreviation database :: "string \<Rightarrow> 'a result" where
  "database m \<equiv> Err (Database m)"

abbreviation foreign_key_failed :: "'a result" where
  "foreign_key_failed \<equiv> database ''FOREIGN KEY constraint failed''"

definition no_rows :: string where
  "no_rows = ''Query returned no rows''"

text \<open>\<^verbatim>\<open>query_row\<close> with and without \<^verbatim>\<open>optional()\<close>: the first row that satisfies the condition.\<close>

definition query_row :: "('r \<Rightarrow> bool) \<Rightarrow> 'r list \<Rightarrow> 'r result" where
  "query_row p rows = (case List.find p rows of None \<Rightarrow> database no_rows | Some r \<Rightarrow> Ok r)"

definition first_row :: "'r list \<Rightarrow> 'r result" where
  "first_row rows = (case rows of [] \<Rightarrow> database no_rows | r # _ \<Rightarrow> Ok r)"

definition update_where :: "('r \<Rightarrow> bool) \<Rightarrow> ('r \<Rightarrow> 'r) \<Rightarrow> 'r list \<Rightarrow> 'r list" where
  "update_where p f rows = map (\<lambda>r. if p r then f r else r) rows"

definition has_commission :: "Db \<Rightarrow> string \<Rightarrow> bool" where
  "has_commission db c = list_ex (\<lambda>r. cm_id r = c) (db_commissions db)"

definition has_attachment :: "Db \<Rightarrow> string \<Rightarrow> bool" where
  "has_attachment db a = list_ex (\<lambda>r. at_id r = a) (db_attachments db)"

section \<open>Inserting rows\<close>

definition insert_commission :: "CommissionRow \<Rightarrow> Db \<Rightarrow> Db result" where
  "insert_commission r db =
     (if cm_status r \<notin> set commission_status_check then database ''CHECK constraint failed: commissions''
      else if has_commission db (cm_id r) then database ''UNIQUE constraint failed: commissions.id''
      else Ok (db\<lparr>db_commissions := db_commissions db @ [r]\<rparr>))"

definition insert_criterion :: "CriterionRow \<Rightarrow> string \<Rightarrow> Db \<Rightarrow> Db result" where
  "insert_criterion r status db =
     (if cr_verifier_type r \<notin> set verifier_type_check \<or> cr_verification_depth r \<notin> set verification_depth_check
         \<or> status \<notin> set criterion_status_check
      then database ''CHECK constraint failed: criteria''
      else if list_ex (\<lambda>(q, _). cr_commission_id q = cr_commission_id r \<and> cr_criterion_id q = cr_criterion_id r)
                (db_criteria db)
      then database ''UNIQUE constraint failed: criteria.commission_id, criteria.criterion_id''
      else if \<not> has_commission db (cr_commission_id r) then foreign_key_failed
      else Ok (db\<lparr>db_criteria := db_criteria db @ [(r, status)]\<rparr>))"

definition insert_criterion_version_row :: "CriterionRow \<Rightarrow> int \<Rightarrow> Db \<Rightarrow> Db result" where
  "insert_criterion_version_row r revision db =
     (if cr_verifier_type r \<notin> set verifier_type_check \<or> cr_verification_depth r \<notin> set verification_depth_check
      then database ''CHECK constraint failed: criterion_versions''
      else if list_ex (\<lambda>(q, v). v = revision \<and> cr_commission_id q = cr_commission_id r
                          \<and> cr_criterion_id q = cr_criterion_id r) (db_criterion_versions db)
      then database ''UNIQUE constraint failed: criterion_versions.commission_id, criterion_versions.mandate_revision, criterion_versions.criterion_id''
      else if \<not> has_commission db (cr_commission_id r) then foreign_key_failed
      else Ok (db\<lparr>db_criterion_versions := db_criterion_versions db @ [(r, revision)]\<rparr>))"

definition insert_authority_scope :: "AuthorityRow \<Rightarrow> Db \<Rightarrow> Db result" where
  "insert_authority_scope r db =
     (if as_scope_type r \<notin> set scope_type_check then database ''CHECK constraint failed: authority_scopes''
      else if list_ex (\<lambda>q. as_commission_id q = as_commission_id r \<and> as_scope_type q = as_scope_type r
                        \<and> as_position q = as_position r) (db_authority_scopes db)
      then database ''UNIQUE constraint failed: authority_scopes.commission_id, authority_scopes.scope_type, authority_scopes.position''
      else if \<not> has_commission db (as_commission_id r) then foreign_key_failed
      else Ok (db\<lparr>db_authority_scopes := db_authority_scopes db @ [r]\<rparr>))"

text \<open>A \<^verbatim>\<open>u64\<close> is bound as a 64-bit signed integer; a larger value is refused by the driver.\<close>

definition storable_u64 :: "u64 \<Rightarrow> bool" where
  "storable_u64 n = (n < 2 ^ 63)"

definition conversion_failed :: string where
  "conversion_failed = ''out of range integral type conversion attempted''"

definition insert_ceilings :: "string \<Rightarrow> ResourceCeilings \<Rightarrow> Db \<Rightarrow> Db result" where
  "insert_ceilings c ceilings db =
     (if \<not> (storable_u64 (rc_max_elapsed_seconds ceilings) \<and> storable_u64 (rc_max_storage_bytes ceilings)
            \<and> storable_u64 (rc_max_model_spend_cents ceilings)
            \<and> storable_u64 (rc_max_paid_service_spend_cents ceilings))
      then database conversion_failed
      else if map_of (db_resource_ceilings db) c \<noteq> None
      then database ''UNIQUE constraint failed: resource_ceilings.commission_id''
      else if \<not> has_commission db c then foreign_key_failed
      else Ok (db\<lparr>db_resource_ceilings := db_resource_ceilings db @ [(c, ceilings)]\<rparr>))"

definition insert_known_uncertainty :: "string \<Rightarrow> int \<Rightarrow> string \<Rightarrow> Db \<Rightarrow> Db result" where
  "insert_known_uncertainty c position description db =
     (if list_ex (\<lambda>(c', p, _). c' = c \<and> p = position) (db_known_uncertainties db)
      then database ''UNIQUE constraint failed: known_uncertainties.commission_id, known_uncertainties.position''
      else if \<not> has_commission db c then foreign_key_failed
      else Ok (db\<lparr>db_known_uncertainties := db_known_uncertainties db @ [(c, position, description)]\<rparr>))"

definition insert_launch_token :: "LaunchTokenRow \<Rightarrow> Db \<Rightarrow> Db result" where
  "insert_launch_token r db =
     (if list_ex (\<lambda>q. lt_token_hash q = lt_token_hash r) (db_launch_tokens db)
      then database ''UNIQUE constraint failed: attachment_launch_tokens.token_hash''
      else Ok (db\<lparr>db_launch_tokens := db_launch_tokens db @ [r]\<rparr>))"

definition insert_attachment :: "AttachmentRow \<Rightarrow> Db \<Rightarrow> Db result" where
  "insert_attachment r db =
     (if at_mode r \<notin> set mode_check then database ''CHECK constraint failed: attachments''
      else if has_attachment db (at_id r) then database ''UNIQUE constraint failed: attachments.id''
      else if list_ex (\<lambda>q. at_session_token_hash q = at_session_token_hash r) (db_attachments db)
      then database ''UNIQUE constraint failed: attachments.session_token_hash''
      else Ok (db\<lparr>db_attachments := db_attachments db @ [r]\<rparr>))"

definition insert_link :: "LinkRow \<Rightarrow> Db \<Rightarrow> Db result" where
  "insert_link r db =
     (if ca_role r \<notin> set role_check then database ''CHECK constraint failed: commission_attachments''
      else if list_ex (\<lambda>q. ca_commission_id q = ca_commission_id r \<and> ca_attachment_id q = ca_attachment_id r)
                (db_links db)
      then database ''UNIQUE constraint failed: commission_attachments.commission_id, commission_attachments.attachment_id''
      else if ca_role r = ''active''
              \<and> list_ex (\<lambda>q. ca_commission_id q = ca_commission_id r \<and> ca_role q = ''active'') (db_links db)
      then database ''UNIQUE constraint failed: commission_attachments.commission_id''
      else if \<not> has_commission db (ca_commission_id r) \<or> \<not> has_attachment db (ca_attachment_id r)
      then foreign_key_failed
      else Ok (db\<lparr>db_links := db_links db @ [r]\<rparr>))"

text \<open>The sequence number of an event comes from \<^verbatim>\<open>AUTOINCREMENT\<close>: one more than the largest ever used,
  and no insertion when that is the largest 64-bit integer.\<close>

definition insert_event :: "string \<Rightarrow> string \<Rightarrow> int \<Rightarrow> json \<Rightarrow> int \<Rightarrow> Db \<Rightarrow> Db result" where
  "insert_event c event_type revision payload created_at db =
     (if event_type \<notin> set event_type_check then database ''CHECK constraint failed: events''
      else if db_event_sequence db \<ge> 2 ^ 63 - 1 then database ''database or disk is full''
      else if \<not> has_commission db c then foreign_key_failed
      else Ok (db\<lparr>db_event_sequence := db_event_sequence db + 1,
                  db_events := db_events db @
                    [\<lparr>ev_sequence = db_event_sequence db + 1, ev_commission_id = c,
                      ev_event_type = event_type, ev_commission_revision = revision,
                      ev_payload = payload, ev_created_at = created_at\<rparr>]\<rparr>))"

definition insert_idempotency_key :: "IdempotencyRow \<Rightarrow> Db \<Rightarrow> Db result" where
  "insert_idempotency_key r db =
     (if list_ex (\<lambda>q. ik_key q = ik_key r) (db_idempotency_keys db)
      then database ''UNIQUE constraint failed: idempotency_keys.key''
      else Ok (db\<lparr>db_idempotency_keys := db_idempotency_keys db @ [r]\<rparr>))"

definition insert_operation :: "OperationRow \<Rightarrow> Db \<Rightarrow> Db result" where
  "insert_operation r db =
     (if or_classification r \<notin> set classification_check \<or> or_status r \<notin> set operation_status_check
      then database ''CHECK constraint failed: operation_requests''
      else if list_ex (\<lambda>q. or_id q = or_id r) (db_operations db)
      then database ''UNIQUE constraint failed: operation_requests.id''
      else if \<not> has_commission db (or_commission_id r)
         \<or> \<not> list_ex (\<lambda>a. asg_id a = op_assignment_id (or_operation r)) (db_assignments db)
         \<or> \<not> list_ex (\<lambda>a. atm_id a = op_attempt_id (or_operation r)) (db_attempts db)
         \<or> \<not> list_ex (\<lambda>l. wl_id l = op_worker_lease_id (or_operation r)) (db_leases db)
      then foreign_key_failed
      else Ok (db\<lparr>db_operations := db_operations db @ [r]\<rparr>))"

definition insert_gate :: "GateRow \<Rightarrow> Db \<Rightarrow> Db result" where
  "insert_gate r db =
     (if ag_status r \<notin> set gate_status_check then database ''CHECK constraint failed: approval_gates''
      else if list_ex (\<lambda>q. ag_id q = ag_id r) (db_gates db)
      then database ''UNIQUE constraint failed: approval_gates.id''
      else if list_ex (\<lambda>q. ag_operation_request_id q = ag_operation_request_id r) (db_gates db)
      then database ''UNIQUE constraint failed: approval_gates.operation_request_id''
      else if \<not> has_commission db (ag_commission_id r)
         \<or> \<not> list_ex (\<lambda>q. or_id q = ag_operation_request_id r) (db_operations db)
      then foreign_key_failed
      else Ok (db\<lparr>db_gates := db_gates db @ [r]\<rparr>))"

definition insert_grant :: "GrantRow \<Rightarrow> Db \<Rightarrow> Db result" where
  "insert_grant r db =
     (if gr_exposure r \<notin> set exposure_check \<or> gr_status r \<notin> {''active'', ''consumed'', ''revoked'', ''expired''}
         \<or> gr_revocation r \<noteq> ''delete_from_keychain''
      then database ''CHECK constraint failed: credential_grants''
      else if list_ex (\<lambda>q. gr_id q = gr_id r) (db_grants db)
      then database ''UNIQUE constraint failed: credential_grants.id''
      else if \<not> has_commission db (gr_commission_id r)
         \<or> \<not> list_ex (\<lambda>a. asg_id a = gr_assignment_id r) (db_assignments db)
         \<or> \<not> list_ex (\<lambda>a. atm_id a = gr_attempt_id r) (db_attempts db)
         \<or> \<not> list_ex (\<lambda>l. wl_id l = gr_worker_lease_id r) (db_leases db)
      then foreign_key_failed
      else Ok (db\<lparr>db_grants := db_grants db @ [r]\<rparr>))"

definition insert_exposure :: "ExposureRow \<Rightarrow> Db \<Rightarrow> Db result" where
  "insert_exposure r db =
     (if eg_status r \<notin> {''authorized'', ''consumed'', ''revoked''}
      then database ''CHECK constraint failed: credential_exposure_grants''
      else if list_ex (\<lambda>q. eg_id q = eg_id r) (db_exposures db)
      then database ''UNIQUE constraint failed: credential_exposure_grants.id''
      else if list_ex (\<lambda>q. eg_operation_request_id q = eg_operation_request_id r) (db_exposures db)
      then database ''UNIQUE constraint failed: credential_exposure_grants.operation_request_id''
      else if \<not> list_ex (\<lambda>q. gr_id q = eg_credential_grant_id r) (db_grants db)
         \<or> \<not> list_ex (\<lambda>q. or_id q = eg_operation_request_id r) (db_operations db)
      then foreign_key_failed
      else Ok (db\<lparr>db_exposures := db_exposures db @ [r]\<rparr>))"

definition insert_recovery_or_ignore :: "RecoveryRow \<Rightarrow> Db \<Rightarrow> Db result" where
  "insert_recovery_or_ignore r db =
     (if list_ex (\<lambda>q. rcv_id q = rcv_id r \<or> rcv_attempt_id q = rcv_attempt_id r) (db_recoveries db) then Ok db
      else if \<not> has_commission db (rcv_commission_id r)
         \<or> \<not> list_ex (\<lambda>a. asg_id a = rcv_assignment_id r) (db_assignments db)
         \<or> \<not> list_ex (\<lambda>a. atm_id a = rcv_attempt_id r) (db_attempts db)
      then foreign_key_failed
      else Ok (db\<lparr>db_recoveries := db_recoveries db @ [r]\<rparr>))"

section \<open>What the store is given\<close>

record Sys =
  sys_sha256_hex :: "string \<Rightarrow> string"
  sys_encode_request :: "Request \<Rightarrow> string result"
  sys_project_commission :: "Db \<Rightarrow> string \<Rightarrow> json result"
  sys_canonicalize :: canonicalizer
  sys_is_dir :: "string \<Rightarrow> bool"
  sys_device_inode :: "string \<Rightarrow> string + u64 \<times> u64"
  sys_to_str :: "string \<Rightarrow> string option"
  sys_hash_orders :: HashOrders
  sys_encode_json :: "json \<Rightarrow> string"
  sys_operation_value :: "OperationRequest \<Rightarrow> json result"
  sys_operation_from_value :: "json \<Rightarrow> OperationRequest result"
  sys_bind_file_effect :: "OperationRequest \<Rightarrow> json result"

record Readings =
  rd_unix_timestamp :: "nat \<Rightarrow> int result"
  rd_unix_timestamp_millis :: "nat \<Rightarrow> int result"
  rd_uuid :: "nat \<Rightarrow> string"

section \<open>Transactions\<close>

record Session =
  ses_db :: Db
  ses_clock :: nat
  ses_millis :: nat
  ses_uuid :: nat

type_synonym 'a tx = "Session \<Rightarrow> (TyrionError, 'a \<times> Session) outcome"

definition tx_return :: "'a \<Rightarrow> 'a tx" where
  "tx_return x s = Ok (x, s)"

definition tx_bind :: "'a tx \<Rightarrow> ('a \<Rightarrow> 'b tx) \<Rightarrow> 'b tx" where
  "tx_bind m f s = and_then (m s) (\<lambda>(x, t). f x t)"

definition tx_lift :: "'a result \<Rightarrow> 'a tx" where
  "tx_lift r s = and_then r (\<lambda>x. Ok (x, s))"

definition tx_query :: "(Db \<Rightarrow> 'a result) \<Rightarrow> 'a tx" where
  "tx_query q s = and_then (q (ses_db s)) (\<lambda>x. Ok (x, s))"

definition tx_execute :: "(Db \<Rightarrow> Db result) \<Rightarrow> unit tx" where
  "tx_execute u s = and_then (u (ses_db s)) (\<lambda>db. Ok ((), s\<lparr>ses_db := db\<rparr>))"

definition tx_update :: "(Db \<Rightarrow> Db) \<Rightarrow> unit tx" where
  "tx_update u = tx_execute (\<lambda>db. Ok (u db))"

fun tx_for :: "('a \<Rightarrow> unit tx) \<Rightarrow> 'a list \<Rightarrow> unit tx" where
  "tx_for f [] = tx_return ()"
| "tx_for f (x # xs) = tx_bind (f x) (\<lambda>_. tx_for f xs)"

fun tx_collect :: "('a \<Rightarrow> 'b tx) \<Rightarrow> 'a list \<Rightarrow> 'b list tx" where
  "tx_collect f [] = tx_return []"
| "tx_collect f (x # xs) = tx_bind (f x) (\<lambda>y. tx_bind (tx_collect f xs) (\<lambda>ys. tx_return (y # ys)))"

definition unix_timestamp :: "Readings \<Rightarrow> int tx" where
  "unix_timestamp rd s =
     and_then (rd_unix_timestamp rd (ses_clock s)) (\<lambda>t. Ok (t, s\<lparr>ses_clock := Suc (ses_clock s)\<rparr>))"

definition unix_timestamp_millis :: "Readings \<Rightarrow> int tx" where
  "unix_timestamp_millis rd s =
     and_then (rd_unix_timestamp_millis rd (ses_millis s)) (\<lambda>t. Ok (t, s\<lparr>ses_millis := Suc (ses_millis s)\<rparr>))"

text \<open>A check that reads the clock on some of its paths.\<close>

definition tx_with_clock :: "Readings \<Rightarrow> (int result \<Rightarrow> 'a result) \<Rightarrow> 'a tx" where
  "tx_with_clock rd f s =
     and_then (f (rd_unix_timestamp rd (ses_clock s))) (\<lambda>x. Ok (x, s\<lparr>ses_clock := Suc (ses_clock s)\<rparr>))"

definition new_uuid :: "Readings \<Rightarrow> string tx" where
  "new_uuid rd s = Ok (rd_uuid rd (ses_uuid s), s\<lparr>ses_uuid := Suc (ses_uuid s)\<rparr>)"

definition transaction :: "'a tx \<Rightarrow> Db \<Rightarrow> ('a \<times> Db) result" where
  "transaction m db =
     and_then (m \<lparr>ses_db = db, ses_clock = 0, ses_millis = 0, ses_uuid = 0\<rparr>) (\<lambda>(x, s). Ok (x, ses_db s))"

lemma tx_return_Inr [tx_simps]: "tx_return x s = Inr (v, s') \<longleftrightarrow> v = x \<and> s' = s"
  by (auto simp: tx_return_def)

lemma tx_bind_Inr [tx_simps]:
  "tx_bind m f s = Inr (v, s') \<longleftrightarrow> (\<exists>x t. m s = Inr (x, t) \<and> f x t = Inr (v, s'))"
  by (auto simp: tx_bind_def outcome_simps)

lemma tx_lift_Inr [tx_simps]: "tx_lift r s = Inr (v, s') \<longleftrightarrow> r = Inr v \<and> s' = s"
  by (auto simp: tx_lift_def outcome_simps)

lemma tx_query_Inr [tx_simps]: "tx_query q s = Inr (v, s') \<longleftrightarrow> q (ses_db s) = Inr v \<and> s' = s"
  by (auto simp: tx_query_def outcome_simps)

lemma tx_execute_Inr [tx_simps]:
  "tx_execute u s = Inr (v, s') \<longleftrightarrow> (\<exists>db. u (ses_db s) = Inr db \<and> s' = s\<lparr>ses_db := db\<rparr>)"
  by (auto simp: tx_execute_def outcome_simps)

lemma tx_update_Inr [tx_simps]: "tx_update u s = Inr (v, s') \<longleftrightarrow> s' = s\<lparr>ses_db := u (ses_db s)\<rparr>"
  by (auto simp: tx_update_def tx_execute_def)

lemma unix_timestamp_Inr [tx_simps]:
  "unix_timestamp rd s = Inr (v, s') \<longleftrightarrow>
     rd_unix_timestamp rd (ses_clock s) = Inr v \<and> s' = s\<lparr>ses_clock := Suc (ses_clock s)\<rparr>"
  by (auto simp: unix_timestamp_def outcome_simps)

lemma unix_timestamp_millis_Inr [tx_simps]:
  "unix_timestamp_millis rd s = Inr (v, s') \<longleftrightarrow>
     rd_unix_timestamp_millis rd (ses_millis s) = Inr v \<and> s' = s\<lparr>ses_millis := Suc (ses_millis s)\<rparr>"
  by (auto simp: unix_timestamp_millis_def outcome_simps)

lemma new_uuid_Inr [tx_simps]:
  "new_uuid rd s = Inr (v, s') \<longleftrightarrow> v = rd_uuid rd (ses_uuid s) \<and> s' = s\<lparr>ses_uuid := Suc (ses_uuid s)\<rparr>"
  by (auto simp: new_uuid_def)

lemma tx_with_clock_Inr [tx_simps]:
  "tx_with_clock rd f s = Inr (v, s') \<longleftrightarrow>
     f (rd_unix_timestamp rd (ses_clock s)) = Inr v \<and> s' = s\<lparr>ses_clock := Suc (ses_clock s)\<rparr>"
  by (auto simp: tx_with_clock_def outcome_simps)

lemma transaction_Inr:
  "transaction m db = Inr (v, db') \<longleftrightarrow>
     (\<exists>s. m \<lparr>ses_db = db, ses_clock = 0, ses_millis = 0, ses_uuid = 0\<rparr> = Inr (v, s) \<and> db' = ses_db s)"
  by (auto simp: transaction_def outcome_simps)

text \<open>A relation between the tables before and after that every step of a transaction keeps is kept
  by the transaction. The interface of a relation: it is reflexive and transitive.\<close>

locale table_relation =
  fixes rel :: "Db \<Rightarrow> Db \<Rightarrow> bool"
  assumes rel_refl: "rel db db"
    and rel_trans: "rel db db' \<Longrightarrow> rel db' db'' \<Longrightarrow> rel db db''"
begin

definition keeps :: "'a tx \<Rightarrow> bool" where
  "keeps m \<longleftrightarrow> (\<forall>s v s'. m s = Inr (v, s') \<longrightarrow> rel (ses_db s) (ses_db s'))"

lemma keeps_return [simp, intro]: "keeps (tx_return x)"
  by (simp add: keeps_def tx_simps rel_refl)

lemma keeps_lift [simp, intro]: "keeps (tx_lift r)"
  by (simp add: keeps_def tx_simps rel_refl)

lemma keeps_query [simp, intro]: "keeps (tx_query q)"
  by (simp add: keeps_def tx_simps rel_refl)

lemma keeps_timestamp [simp, intro]: "keeps (unix_timestamp rd)"
  by (simp add: keeps_def tx_simps rel_refl)

lemma keeps_millis [simp, intro]: "keeps (unix_timestamp_millis rd)"
  by (simp add: keeps_def tx_simps rel_refl)

lemma keeps_with_clock [simp, intro]: "keeps (tx_with_clock rd f)"
  by (simp add: keeps_def tx_simps rel_refl)

lemma keeps_uuid [simp, intro]: "keeps (new_uuid rd)"
  by (simp add: keeps_def tx_simps rel_refl)

lemma keeps_execute: "(\<And>db db'. u db = Inr db' \<Longrightarrow> rel db db') \<Longrightarrow> keeps (tx_execute u)"
  by (auto simp: keeps_def tx_simps)

lemma keeps_update: "(\<And>db. rel db (u db)) \<Longrightarrow> keeps (tx_update u)"
  by (simp add: keeps_def tx_simps)

lemma keeps_bind [intro!]:
  assumes "keeps m" and "\<And>x. keeps (f x)"
  shows "keeps (tx_bind m f)"
  using assms rel_trans unfolding keeps_def tx_simps by blast

lemma keeps_for [intro!]: "(\<And>x. keeps (f x)) \<Longrightarrow> keeps (tx_for f xs)"
  by (induction xs) auto

lemma keeps_collect [intro!]: "(\<And>x. keeps (f x)) \<Longrightarrow> keeps (tx_collect f xs)"
  by (induction xs) auto

lemma keeps_if [intro!]: "(b \<Longrightarrow> keeps m) \<Longrightarrow> (\<not> b \<Longrightarrow> keeps n) \<Longrightarrow> keeps (if b then m else n)"
  by simp

lemma keeps_case_prod [intro!]: "(\<And>x y. keeps (f x y)) \<Longrightarrow> keeps (case p of (x, y) \<Rightarrow> f x y)"
  by (cases p) simp

lemma keeps_case_option [intro!]:
  "keeps m \<Longrightarrow> (\<And>x. keeps (f x)) \<Longrightarrow> keeps (case p of None \<Rightarrow> m | Some x \<Rightarrow> f x)"
  by (cases p) simp_all

lemma keeps_transaction:
  assumes "keeps m" and "transaction m db = Inr (v, db')"
  shows "rel db db'"
  using assms unfolding keeps_def transaction_Inr by (metis Session.select_convs(1))

end

section \<open>Requests, idempotency and events\<close>

definition mutation_key :: "Request \<Rightarrow> string result" where
  "mutation_key request =
     (case req_idempotency_key request of
        Some key \<Rightarrow> if blank key then invalid_request ''mutating requests require an idempotency key'' else Ok key
      | None \<Rightarrow> invalid_request ''mutating requests require an idempotency key'')"

definition request_hash :: "Sys \<Rightarrow> Request \<Rightarrow> string result" where
  "request_hash sys request =
     and_then (sys_encode_request sys request) (\<lambda>encoded. Ok (sys_sha256_hex sys encoded))"

definition prior_result :: "string \<Rightarrow> string \<Rightarrow> Db \<Rightarrow> json option result" where
  "prior_result key expected_hash db =
     (case List.find (\<lambda>r. ik_key r = key) (db_idempotency_keys db) of
        Some r \<Rightarrow> if ik_request_hash r = expected_hash then Ok (Some (ik_response r))
                  else Err TyrionError.IdempotencyConflict
      | None \<Rightarrow> Ok None)"

definition save_idempotent_result :: "Readings \<Rightarrow> string \<Rightarrow> string \<Rightarrow> json \<Rightarrow> unit tx" where
  "save_idempotent_result rd key hash result =
     tx_bind (unix_timestamp rd) (\<lambda>now.
       tx_execute (insert_idempotency_key
         \<lparr>ik_key = key, ik_request_hash = hash, ik_response = result, ik_created_at = now\<rparr>))"

definition record_event_with_payload ::
  "Readings \<Rightarrow> string \<Rightarrow> EventKind \<Rightarrow> int \<Rightarrow> json \<Rightarrow> unit tx" where
  "record_event_with_payload rd commission_id event_kind revision payload =
     tx_bind (unix_timestamp rd) (\<lambda>now.
       tx_execute (insert_event commission_id (EventKind_as_str event_kind) revision payload now))"

definition record_event :: "Readings \<Rightarrow> string \<Rightarrow> EventKind \<Rightarrow> int \<Rightarrow> unit tx" where
  "record_event rd commission_id event_kind revision =
     record_event_with_payload rd commission_id event_kind revision (JObject [])"

text \<open>The frame every mutating handler repeats: answer a request seen before with its recorded result,
  otherwise do the work, record the result under the key, and commit.\<close>

definition idempotent_transaction ::
  "Readings \<Rightarrow> string \<Rightarrow> string \<Rightarrow> json tx \<Rightarrow> Db \<Rightarrow> (json \<times> Db) result" where
  "idempotent_transaction rd key hash work =
     transaction
       (tx_bind (tx_query (prior_result key hash)) (\<lambda>prior.
          case prior of
            Some v \<Rightarrow> tx_return v
          | None \<Rightarrow>
              tx_bind work (\<lambda>result.
              tx_bind (save_idempotent_result rd key hash result) (\<lambda>_.
              tx_return result))))"

definition project_commission :: "Sys \<Rightarrow> string \<Rightarrow> json tx" where
  "project_commission sys commission_id = tx_query (\<lambda>db. sys_project_commission sys db commission_id)"

section \<open>Who is asking\<close>

definition attachment_token_hash :: "Sys \<Rightarrow> string \<Rightarrow> string" where
  "attachment_token_hash sys launch_token = sys_sha256_hex sys launch_token"

definition authenticated_attachment_id :: "Sys \<Rightarrow> Request \<Rightarrow> Db \<Rightarrow> string result" where
  "authenticated_attachment_id sys request db =
     (let missing = control_denied ''an authenticated Attachment is required for this Commission operation''
      in case req_attachment_token request of
           None \<Rightarrow> missing
         | Some token \<Rightarrow>
             if blank token then missing
             else (case List.find (\<lambda>r. at_session_token_hash r = attachment_token_hash sys token) (db_attachments db) of
                     None \<Rightarrow> control_denied ''Attachment credential is invalid''
                   | Some r \<Rightarrow> Ok (at_id r)))"

definition authenticate_principal :: "Sys \<Rightarrow> Request \<Rightarrow> string \<Rightarrow> unit result" where
  "authenticate_principal sys request expected_token_hash =
     (let missing = control_denied ''the independent Principal control credential is required''
      in case req_principal_token request of
           None \<Rightarrow> missing
         | Some token \<Rightarrow>
             if blank token then missing
             else if sys_sha256_hex sys token \<noteq> expected_token_hash
             then control_denied ''the Principal control credential is invalid''
             else Ok ())"

definition ensure_commission_exists :: "string \<Rightarrow> Db \<Rightarrow> unit result" where
  "ensure_commission_exists commission_id db =
     (if has_commission db commission_id then Ok () else Err (TyrionError.NotFound commission_id))"

definition ensure_attachment_capability :: "string \<Rightarrow> string \<Rightarrow> Db \<Rightarrow> unit result" where
  "ensure_attachment_capability attachment_id required_capability db =
     (case List.find (\<lambda>r. at_id r = attachment_id) (db_attachments db) of
        None \<Rightarrow> control_denied (''Attachment '' @ attachment_id @ '' was not found'')
      | Some r \<Rightarrow>
          if \<not> list_ex ((=) required_capability) (at_capabilities r)
          then control_denied (''Attachment '' @ attachment_id @ '' lacks the '' @ required_capability @ '' capability'')
          else Ok ())"

definition ensure_commission_attachment :: "string \<Rightarrow> string \<Rightarrow> string \<Rightarrow> Db \<Rightarrow> unit result" where
  "ensure_commission_attachment attachment_id commission_id required_capability db =
     and_then (ensure_commission_exists commission_id db) (\<lambda>_.
     and_then (ensure_attachment_capability attachment_id required_capability db) (\<lambda>_.
     if \<not> list_ex (\<lambda>l. ca_commission_id l = commission_id \<and> ca_attachment_id l = attachment_id) (db_links db)
     then control_denied (''Attachment '' @ attachment_id @ '' does not observe Commission '' @ commission_id)
     else Ok ()))"

definition ensure_active_attachment :: "string \<Rightarrow> string \<Rightarrow> string \<Rightarrow> Db \<Rightarrow> unit result" where
  "ensure_active_attachment attachment_id commission_id required_capability db =
     and_then (ensure_commission_attachment attachment_id commission_id required_capability db) (\<lambda>_.
     and_then (query_row (\<lambda>l. ca_commission_id l = commission_id \<and> ca_attachment_id l = attachment_id) (db_links db))
       (\<lambda>l. if ca_role l \<noteq> ''active''
            then control_denied (''Attachment '' @ attachment_id
                   @ '' is not the Active Attachment for Commission '' @ commission_id)
            else Ok ()))"

end
