(* ===== verification/Store_Attachments.thy ===== *)
theory Store_Attachments
  imports Store_Db "HOL-Library.List_Lexorder" "HOL-Library.Char_ord"
begin

text \<open>
  The control plane of \<^verbatim>\<open>src/src/store.rs\<close>: launch tokens, connecting and resuming an Attachment,
  downgrading its capabilities, replaying events, taking control of a Commission, and pausing and
  resuming its dispatch. Every handler is the whole Rust method: its guards in order, its writes, the
  events it records and the result it returns. Objects are written in the key order of
  \<^verbatim>\<open>serde_json::Map\<close>.
\<close>

section \<open>Replaying events\<close>

definition event_value :: "EventRow \<Rightarrow> json" where
  "event_value r =
     JObject [(''commission_revision'', json_of_int (ev_commission_revision r)),
              (''created_at'', json_of_int (ev_created_at r)),
              (''payload'', ev_payload r),
              (''sequence'', json_of_int (ev_sequence r)),
              (''type'', JString (ev_event_type r))]"

definition material_event_types :: "string list" where
  "material_event_types =
     [''commission_verified_complete'', ''assignment_blocked'', ''operation_notification'',
      ''approval_gate_opened'', ''operation_confirmed'', ''operation_failed'', ''operation_uncertain'',
      ''commission_amendment_proposed'', ''resource_ceiling_approaching'']"

definition is_material :: "json \<Rightarrow> bool" where
  "is_material event =
     (case json_as_str (json_index event ''type'') of None \<Rightarrow> False | Some t \<Rightarrow> t \<in> set material_event_types)"

definition events_after :: "string \<Rightarrow> int \<Rightarrow> Db \<Rightarrow> EventRow list" where
  "events_after commission_id after_sequence db =
     sort_key ev_sequence
       (filter (\<lambda>r. ev_commission_id r = commission_id \<and> after_sequence < ev_sequence r) (db_events db))"

definition replay_events :: "string \<Rightarrow> string \<Rightarrow> int \<Rightarrow> Db \<Rightarrow> json result" where
  "replay_events attachment_id commission_id after_sequence db =
     and_then (first_row
         [(ca_role l, at_mode a, at_capabilities a, at_missing_capabilities a).
            l \<leftarrow> db_links db, ca_commission_id l = commission_id \<and> ca_attachment_id l = attachment_id,
            a \<leftarrow> db_attachments db, at_id a = ca_attachment_id l])
       (\<lambda>(role, mode, capabilities, missing_capabilities).
        let events = map event_value (events_after commission_id after_sequence db);
            next_event_sequence =
              (if events = [] then after_sequence
               else case json_as_i64 (json_index (last events) ''sequence'') of
                      None \<Rightarrow> after_sequence | Some n \<Rightarrow> n);
            may_receive = (role = ''active'' \<and> list_ex ((=) MATERIAL_NOTIFICATIONS) capabilities);
            material = (if may_receive then filter is_material events else [])
        in and_then (AttachmentMode_parse mode) (\<lambda>parsed.
           Ok (JObject
             [(''attachment_id'', JString attachment_id),
              (''attachment_mode'', JString (AttachmentMode_as_str parsed)),
              (''commission_id'', JString commission_id),
              (''commission_role'', JString role),
              (''events'', JArray events),
              (''material_notifications'', JArray material),
              (''missing_capabilities'', JArray missing_capabilities),
              (''mode_tag'', JString (AttachmentMode_tag parsed)),
              (''next_event_sequence'', json_of_int next_event_sequence)])))"

definition Store_replay_events :: "Sys \<Rightarrow> Request \<Rightarrow> string \<Rightarrow> int \<Rightarrow> Db \<Rightarrow> json result" where
  "Store_replay_events sys request commission_id after_sequence db =
     (if after_sequence < 0 then invalid_request ''event replay cursor must not be negative''
      else
      and_then (authenticated_attachment_id sys request db) (\<lambda>attachment_id.
      and_then (ensure_commission_attachment attachment_id commission_id EVENT_REPLAY db) (\<lambda>_.
      replay_events attachment_id commission_id after_sequence db)))"

section \<open>Launch tokens\<close>

definition validate_attachment_identity :: "AdapterIdentity \<Rightarrow> unit result" where
  "validate_attachment_identity identity =
     (if blank (ai_harness identity) \<or> blank (ai_adapter_identity identity) \<or> blank (ai_adapter_version identity)
      then invalid_request ''harness, adapter identity, and adapter version must not be empty''
      else Ok ())"

definition i64_saturating_add :: "int \<Rightarrow> int \<Rightarrow> int" where
  "i64_saturating_add a b = max (- (2 ^ 63)) (min (2 ^ 63 - 1) (a + b))"

definition issue_attachment_token_work ::
  "Sys \<Rightarrow> Readings \<Rightarrow> AdapterIdentity \<Rightarrow> u64 \<Rightarrow> json tx" where
  "issue_attachment_token_work sys rd expected_adapter ttl_seconds =
     tx_bind (new_uuid rd) (\<lambda>first.
     tx_bind (new_uuid rd) (\<lambda>second.
     let launch_token = ''tlt_'' @ first @ ''_'' @ second
     in
     tx_bind (unix_timestamp rd) (\<lambda>created_at.
     let expires_at = i64_saturating_add created_at (uint ttl_seconds)
     in
     tx_bind (tx_execute (insert_launch_token
         \<lparr>lt_token_hash = attachment_token_hash sys launch_token,
          lt_expected_harness = ai_harness expected_adapter,
          lt_expected_adapter_identity = ai_adapter_identity expected_adapter,
          lt_expected_adapter_version = ai_adapter_version expected_adapter,
          lt_created_at = created_at, lt_expires_at = expires_at, lt_consumed_at = None\<rparr>)) (\<lambda>_.
     tx_return (JObject
       [(''created_at'', json_of_int created_at),
        (''expected_adapter_identity'', JString (ai_adapter_identity expected_adapter)),
        (''expected_adapter_version'', JString (ai_adapter_version expected_adapter)),
        (''expected_harness'', JString (ai_harness expected_adapter)),
        (''expires_at'', json_of_int expires_at),
        (''launch_token'', JString launch_token)])))))"

definition issue_attachment_token ::
  "Sys \<Rightarrow> Readings \<Rightarrow> Request \<Rightarrow> AdapterIdentity \<Rightarrow> u64 \<Rightarrow> Db \<Rightarrow> (json \<times> Db) result" where
  "issue_attachment_token sys rd request expected_adapter ttl_seconds db =
     and_then (validate_attachment_identity expected_adapter) (\<lambda>_.
     if ttl_seconds = 0 \<or> 300 < ttl_seconds
     then invalid_request ''attachment token TTL must be between 1 and 300 seconds''
     else
     and_then (mutation_key request) (\<lambda>key.
     and_then (request_hash sys request) (\<lambda>hash.
     idempotent_transaction rd key hash (issue_attachment_token_work sys rd expected_adapter ttl_seconds) db)))"

section \<open>Connecting and resuming\<close>

abbreviation attachment_rejected :: "string \<Rightarrow> 'a result" where
  "attachment_rejected m \<equiv> Err (TyrionError.AttachmentRejected m)"

definition is_negative_cursor :: "CommissionReplayCursor option \<Rightarrow> bool" where
  "is_negative_cursor cursor = is_some_and cursor (\<lambda>c. crc_last_event_sequence c < 0)"

text \<open>The checks on a handshake that need no state, in the order both operations make them.\<close>

definition check_handshake ::
  "AttachmentHandshake \<Rightarrow> CommissionReplayCursor option \<Rightarrow> NegotiatedCapabilities result" where
  "check_handshake handshake replay_cursor =
     and_then (validate_attachment_identity (ah_adapter handshake)) (\<lambda>_.
     if blank (ah_native_session_id handshake)
     then attachment_rejected ''native session identity must not be empty''
     else if is_negative_cursor replay_cursor
     then attachment_rejected ''last durable event cursor must not be negative''
     else if ah_adapter_protocol_version handshake \<noteq> PROTOCOL_VERSION
     then attachment_rejected (''adapter protocol version '' @ word_dec (ah_adapter_protocol_version handshake)
            @ '' is incompatible with '' @ word_dec PROTOCOL_VERSION)
     else negotiate (ah_capabilities handshake))"

definition token_matches :: "AdapterIdentity \<Rightarrow> LaunchTokenRow \<Rightarrow> int \<Rightarrow> unit result" where
  "token_matches adapter token now =
     (if lt_expires_at token \<le> now then attachment_rejected ''launch token has expired''
      else if ai_harness adapter \<noteq> lt_expected_harness token
      then attachment_rejected (''harness identity mismatch: expected '' @ lt_expected_harness token)
      else if ai_adapter_identity adapter \<noteq> lt_expected_adapter_identity token
      then attachment_rejected (''adapter identity mismatch: expected '' @ lt_expected_adapter_identity token)
      else if ai_adapter_version adapter \<noteq> lt_expected_adapter_version token
      then attachment_rejected (''adapter version mismatch: expected '' @ lt_expected_adapter_version token)
      else Ok ())"

definition attachment_value ::
  "string \<Rightarrow> AttachmentHandshake \<Rightarrow> NegotiatedCapabilities \<Rightarrow> json" where
  "attachment_value attachment_id handshake negotiated =
     JObject [(''adapter_identity'', JString (ai_adapter_identity (ah_adapter handshake))),
              (''adapter_version'', JString (ai_adapter_version (ah_adapter handshake))),
              (''capabilities'', JArray (map JString (nc_effective negotiated))),
              (''harness'', JString (ai_harness (ah_adapter handshake))),
              (''id'', JString attachment_id),
              (''missing_capabilities'', JArray (nc_missing negotiated)),
              (''mode'', JString (AttachmentMode_as_str (nc_mode negotiated))),
              (''mode_tag'', JString (AttachmentMode_tag (nc_mode negotiated))),
              (''native_session_id'', JString (ah_native_session_id handshake)),
              (''protocol_version'', JPosInt (ucast (ah_adapter_protocol_version handshake)))]"

text \<open>Joining the Commission of the cursor as an observer.\<close>

definition join_as_observer :: "Readings \<Rightarrow> string \<Rightarrow> int \<Rightarrow> CommissionReplayCursor option \<Rightarrow> unit tx" where
  "join_as_observer rd attachment_id now replay_cursor =
     (case replay_cursor of
        None \<Rightarrow> tx_return ()
      | Some cursor \<Rightarrow>
          tx_bind (tx_execute (insert_link
            \<lparr>ca_commission_id = crc_commission_id cursor, ca_attachment_id = attachment_id,
             ca_role = ''observer'', ca_joined_at = now\<rparr>)) (\<lambda>_.
          tx_bind (tx_query (\<lambda>db. query_row (\<lambda>c. cm_id c = crc_commission_id cursor) (db_commissions db))) (\<lambda>c.
          record_event_with_payload rd (crc_commission_id cursor) EventKind.AttachmentJoined (cm_revision c)
            (JObject [(''attachment_id'', JString attachment_id), (''role'', JString ''observer'')]))))"

definition initial_replay ::
  "string \<Rightarrow> NegotiatedCapabilities \<Rightarrow> CommissionReplayCursor option \<Rightarrow> Db \<Rightarrow> json option result" where
  "initial_replay attachment_id negotiated replay_cursor db =
     (if EVENT_REPLAY \<in> set (nc_effective negotiated)
      then (case replay_cursor of
              None \<Rightarrow> Ok None
            | Some cursor \<Rightarrow>
                and_then (replay_events attachment_id (crc_commission_id cursor) (crc_last_event_sequence cursor) db)
                  (\<lambda>v. Ok (Some v)))
      else Ok None)"

definition option_json :: "('a \<Rightarrow> json) \<Rightarrow> 'a option \<Rightarrow> json" where
  "option_json f x = (case x of None \<Rightarrow> JNull | Some y \<Rightarrow> f y)"

definition consume_token :: "string \<Rightarrow> int \<Rightarrow> Db \<Rightarrow> Db" where
  "consume_token token_hash now db =
     db\<lparr>db_launch_tokens :=
          update_where (\<lambda>t. lt_token_hash t = token_hash) (\<lambda>t. t\<lparr>lt_consumed_at := Some now\<rparr>) (db_launch_tokens db)\<rparr>"

definition connect_attachment_work ::
  "Sys \<Rightarrow> Readings \<Rightarrow> string \<Rightarrow> string \<Rightarrow> string \<Rightarrow> AttachmentHandshake \<Rightarrow> CommissionReplayCursor option
     \<Rightarrow> NegotiatedCapabilities \<Rightarrow> json tx" where
  "connect_attachment_work sys rd key hash launch_token handshake replay_cursor negotiated =
     (let token_hash = attachment_token_hash sys launch_token
      in
      tx_bind (tx_query (\<lambda>db. case replay_cursor of None \<Rightarrow> Ok ()
                         | Some cursor \<Rightarrow> ensure_commission_exists (crc_commission_id cursor) db)) (\<lambda>_.
      tx_bind (tx_query (\<lambda>db. case List.find (\<lambda>t. lt_token_hash t = token_hash) (db_launch_tokens db) of
                           None \<Rightarrow> attachment_rejected ''launch token is invalid''
                         | Some t \<Rightarrow> Ok t)) (\<lambda>token.
      if lt_consumed_at token \<noteq> None then tx_lift (attachment_rejected ''launch token was already used'')
      else
      tx_bind (unix_timestamp rd) (\<lambda>now.
      tx_bind (tx_lift (token_matches (ah_adapter handshake) token now)) (\<lambda>_.
      tx_bind (tx_query (prior_result key hash)) (\<lambda>prior.
      if prior \<noteq> None then tx_lift (attachment_rejected ''launch token was already used'')
      else
      tx_bind (new_uuid rd) (\<lambda>attachment_id.
      tx_bind (new_uuid rd) (\<lambda>first.
      tx_bind (new_uuid rd) (\<lambda>second.
      let attachment_session_token = ''tat_'' @ first @ ''_'' @ second
      in
      tx_bind (tx_execute (insert_attachment
          \<lparr>at_id = attachment_id, at_session_token_hash = attachment_token_hash sys attachment_session_token,
           at_harness = ai_harness (ah_adapter handshake),
           at_adapter_identity = ai_adapter_identity (ah_adapter handshake),
           at_adapter_version = ai_adapter_version (ah_adapter handshake),
           at_protocol_version = ah_adapter_protocol_version handshake,
           at_native_session_id = ah_native_session_id handshake,
           at_mode = AttachmentMode_as_str (nc_mode negotiated),
           at_capabilities = nc_effective negotiated,
           at_missing_capabilities = nc_missing negotiated, at_created_at = now\<rparr>)) (\<lambda>_.
      tx_bind (tx_update (consume_token token_hash now)) (\<lambda>_.
      tx_bind (join_as_observer rd attachment_id now replay_cursor) (\<lambda>_.
      tx_bind (tx_query (initial_replay attachment_id negotiated replay_cursor)) (\<lambda>replay.
      tx_bind (save_idempotent_result rd key hash
          (JObject [(''attachment_handshake'', JString ''consumed''), (''attachment_id'', JString attachment_id)])) (\<lambda>_.
      tx_return (JObject
        [(''attachment'', attachment_value attachment_id handshake negotiated),
         (''attachment_session_token'', JString attachment_session_token),
         (''commission_id'', option_json (\<lambda>c. JString (crc_commission_id c)) replay_cursor),
         (''commission_role'', option_json (\<lambda>_. JString ''observer'') replay_cursor),
         (''replay'', option_json (\<lambda>v. v) replay)])))))))))))))))"

definition connect_attachment ::
  "Sys \<Rightarrow> Readings \<Rightarrow> Request \<Rightarrow> string \<Rightarrow> AttachmentHandshake \<Rightarrow> CommissionReplayCursor option \<Rightarrow> Db
     \<Rightarrow> (json \<times> Db) result" where
  "connect_attachment sys rd request launch_token handshake replay_cursor db =
     and_then (check_handshake handshake replay_cursor) (\<lambda>negotiated.
     and_then (mutation_key request) (\<lambda>key.
     and_then (request_hash sys request) (\<lambda>hash.
     transaction (connect_attachment_work sys rd key hash launch_token handshake replay_cursor negotiated) db)))"

definition same_attachment :: "AttachmentRow \<Rightarrow> AttachmentHandshake \<Rightarrow> NegotiatedCapabilities \<Rightarrow> bool" where
  "same_attachment stored handshake negotiated \<longleftrightarrow>
     at_harness stored = ai_harness (ah_adapter handshake)
     \<and> at_adapter_identity stored = ai_adapter_identity (ah_adapter handshake)
     \<and> at_adapter_version stored = ai_adapter_version (ah_adapter handshake)
     \<and> at_protocol_version stored = ah_adapter_protocol_version handshake
     \<and> at_native_session_id stored = ah_native_session_id handshake
     \<and> at_mode stored = AttachmentMode_as_str (nc_mode negotiated)
     \<and> at_capabilities stored = nc_effective negotiated"

definition resume_attachment ::
  "Sys \<Rightarrow> Request \<Rightarrow> AttachmentHandshake \<Rightarrow> CommissionReplayCursor \<Rightarrow> Db \<Rightarrow> json result" where
  "resume_attachment sys request handshake replay_cursor db =
     and_then (check_handshake handshake (Some replay_cursor)) (\<lambda>negotiated.
     and_then (authenticated_attachment_id sys request db) (\<lambda>attachment_id.
     and_then (query_row (\<lambda>a. at_id a = attachment_id) (db_attachments db)) (\<lambda>stored.
     if \<not> same_attachment stored handshake negotiated
     then attachment_rejected ''resume handshake does not match the authenticated Attachment''
     else
     and_then (ensure_commission_attachment attachment_id (crc_commission_id replay_cursor) EVENT_REPLAY db) (\<lambda>_.
     and_then (replay_events attachment_id (crc_commission_id replay_cursor)
                 (crc_last_event_sequence replay_cursor) db) (\<lambda>replay.
     Ok (JObject [(''attachment_id'', JString attachment_id),
                  (''replay'', replay),
                  (''resumed'', JBool True)]))))))"

section \<open>Downgrading capabilities\<close>

definition linked_commissions :: "string \<Rightarrow> Db \<Rightarrow> (string \<times> int) list" where
  "linked_commissions attachment_id db =
     sort_key fst
       [(cm_id c, cm_revision c).
          l \<leftarrow> db_links db, ca_attachment_id l = attachment_id,
          c \<leftarrow> db_commissions db, cm_id c = ca_commission_id l]"

definition set_capabilities :: "string \<Rightarrow> NegotiatedCapabilities \<Rightarrow> Db \<Rightarrow> Db" where
  "set_capabilities attachment_id negotiated db =
     db\<lparr>db_attachments :=
          update_where (\<lambda>a. at_id a = attachment_id)
            (\<lambda>a. a\<lparr>at_mode := AttachmentMode_as_str (nc_mode negotiated),
                   at_capabilities := nc_effective negotiated,
                   at_missing_capabilities := nc_missing negotiated\<rparr>) (db_attachments db)\<rparr>"

definition update_attachment_capabilities_work ::
  "Sys \<Rightarrow> Readings \<Rightarrow> Request \<Rightarrow> string \<Rightarrow> int \<Rightarrow> NegotiatedCapabilities \<Rightarrow> json tx" where
  "update_attachment_capabilities_work sys rd request commission_id expected_revision negotiated =
     tx_bind (tx_query (authenticated_attachment_id sys request)) (\<lambda>attachment_id.
     tx_bind (tx_query (ensure_commission_attachment attachment_id commission_id COMMISSION_INSPECTION)) (\<lambda>_.
     tx_bind (tx_query (\<lambda>db. first_row
         [(cm_revision c, at_mode a, at_capabilities a, ca_role l).
            l \<leftarrow> db_links db, ca_commission_id l = commission_id \<and> ca_attachment_id l = attachment_id,
            c \<leftarrow> db_commissions db, cm_id c = ca_commission_id l,
            a \<leftarrow> db_attachments db, at_id a = ca_attachment_id l]))
       (\<lambda>(current_revision, current_mode, current_capabilities, role).
     if current_revision \<noteq> expected_revision
     then tx_lift (Err (TyrionError.StaleRevision expected_revision current_revision))
     else if list_ex (\<lambda>capability. \<not> list_ex ((=) capability) current_capabilities) (nc_effective negotiated)
     then tx_lift (attachment_rejected ''Attachment capabilities may be downgraded but never expanded'')
     else
     tx_bind (tx_query (\<lambda>db. Ok (linked_commissions attachment_id db))) (\<lambda>linked.
     tx_bind (tx_update (set_capabilities attachment_id negotiated)) (\<lambda>_.
     let event_payload = JObject
           [(''attachment_id'', JString attachment_id),
            (''capabilities'', JArray (map JString (nc_effective negotiated))),
            (''missing_capabilities'', JArray (nc_missing negotiated)),
            (''mode'', JString (AttachmentMode_as_str (nc_mode negotiated))),
            (''previous_mode'', JString current_mode)]
     in
     tx_bind (tx_for (\<lambda>(linked_commission_id, linked_revision).
         record_event_with_payload rd linked_commission_id EventKind.AttachmentCapabilitiesChanged
           linked_revision event_payload) linked) (\<lambda>_.
     tx_bind (project_commission sys commission_id) (\<lambda>commission.
     tx_return (JObject
       [(''attachment'', JObject
          [(''capabilities'', JArray (map JString (nc_effective negotiated))),
           (''id'', JString attachment_id),
           (''missing_capabilities'', JArray (nc_missing negotiated)),
           (''mode'', JString (AttachmentMode_as_str (nc_mode negotiated))),
           (''mode_tag'', JString (AttachmentMode_tag (nc_mode negotiated))),
           (''role'', JString role)]),
        (''commission'', commission)]))))))))"

definition update_attachment_capabilities ::
  "Sys \<Rightarrow> Readings \<Rightarrow> Request \<Rightarrow> string \<Rightarrow> string list \<Rightarrow> Db \<Rightarrow> (json \<times> Db) result" where
  "update_attachment_capabilities sys rd request commission_id capabilities db =
     and_then (mutation_key request) (\<lambda>key.
     and_then (request_hash sys request) (\<lambda>hash.
     case req_expected_revision request of
       None \<Rightarrow> invalid_request ''Attachment capability changes require an expected Commission revision''
     | Some expected_revision \<Rightarrow>
         and_then (negotiate capabilities) (\<lambda>negotiated.
         if length (nc_effective negotiated) \<noteq> length capabilities
         then attachment_rejected ''Attachment capability changes must contain only unique supported capabilities''
         else idempotent_transaction rd key hash
                (update_attachment_capabilities_work sys rd request commission_id expected_revision negotiated) db)))"

section \<open>Taking control\<close>

definition active_link :: "string \<Rightarrow> LinkRow \<Rightarrow> bool" where
  "active_link commission_id l \<longleftrightarrow> ca_commission_id l = commission_id \<and> ca_role l = ''active''"

definition demote_active :: "string \<Rightarrow> Db \<Rightarrow> Db" where
  "demote_active commission_id db =
     db\<lparr>db_links := update_where (active_link commission_id) (\<lambda>l. l\<lparr>ca_role := ''observer''\<rparr>) (db_links db)\<rparr>"

definition promote :: "string \<Rightarrow> string \<Rightarrow> Db \<Rightarrow> Db" where
  "promote commission_id attachment_id db =
     db\<lparr>db_links :=
          update_where (\<lambda>l. ca_commission_id l = commission_id \<and> ca_attachment_id l = attachment_id)
            (\<lambda>l. l\<lparr>ca_role := ''active''\<rparr>) (db_links db)\<rparr>"

definition set_control_revision :: "string \<Rightarrow> int \<Rightarrow> Db \<Rightarrow> Db" where
  "set_control_revision commission_id n db =
     db\<lparr>db_commissions :=
          update_where (\<lambda>c. cm_id c = commission_id) (\<lambda>c. c\<lparr>cm_control_revision := n\<rparr>) (db_commissions db)\<rparr>"

definition find_commission :: "string \<Rightarrow> Db \<Rightarrow> CommissionRow result" where
  "find_commission commission_id db =
     (case List.find (\<lambda>c. cm_id c = commission_id) (db_commissions db) of
        None \<Rightarrow> Err (TyrionError.NotFound commission_id)
      | Some c \<Rightarrow> Ok c)"

definition take_control_work ::
  "Sys \<Rightarrow> Readings \<Rightarrow> Request \<Rightarrow> string \<Rightarrow> int \<Rightarrow> int \<Rightarrow> json tx" where
  "take_control_work sys rd request commission_id expected_revision expected_control_revision =
     tx_bind (tx_query (authenticated_attachment_id sys request)) (\<lambda>attachment_id.
     tx_bind (tx_query (ensure_commission_attachment attachment_id commission_id CONTROL_TAKEOVER)) (\<lambda>_.
     tx_bind (tx_query (find_commission commission_id)) (\<lambda>c.
     if cm_revision c \<noteq> expected_revision
     then tx_lift (Err (TyrionError.StaleRevision expected_revision (cm_revision c)))
     else if cm_control_revision c \<noteq> expected_control_revision
     then tx_lift (Err (TyrionError.StaleControlRevision expected_control_revision (cm_control_revision c)))
     else
     tx_bind (tx_query (\<lambda>db. query_row (active_link commission_id) (db_links db))) (\<lambda>previous.
     tx_bind (tx_update (demote_active commission_id)) (\<lambda>_.
     tx_bind (tx_update (promote commission_id attachment_id)) (\<lambda>_.
     let next_control_revision = cm_control_revision c + 1
     in
     tx_bind (tx_update (set_control_revision commission_id next_control_revision)) (\<lambda>_.
     tx_bind (record_event_with_payload rd commission_id EventKind.ActiveAttachmentChanged (cm_revision c)
         (JObject [(''active_attachment_id'', JString attachment_id),
                   (''control_revision'', json_of_int next_control_revision),
                   (''previous_active_attachment_id'', JString (ca_attachment_id previous))])) (\<lambda>_.
     tx_bind (project_commission sys commission_id) (\<lambda>projected.
     tx_return (JObject
       [(''active_attachment_id'', JString attachment_id),
        (''attachments'', json_index projected ''attachments''),
        (''commission_id'', JString commission_id),
        (''commission_revision'', json_of_int (cm_revision c)),
        (''control_revision'', json_of_int next_control_revision)]))))))))))"

definition take_control ::
  "Sys \<Rightarrow> Readings \<Rightarrow> Request \<Rightarrow> string \<Rightarrow> Db \<Rightarrow> (json \<times> Db) result" where
  "take_control sys rd request commission_id db =
     and_then (mutation_key request) (\<lambda>key.
     and_then (request_hash sys request) (\<lambda>hash.
     case req_expected_revision request of
       None \<Rightarrow> invalid_request ''control takeover requires an expected revision''
     | Some expected_revision \<Rightarrow>
         (case req_expected_control_revision request of
            None \<Rightarrow> invalid_request ''control takeover requires an expected control revision''
          | Some expected_control_revision \<Rightarrow>
              idempotent_transaction rd key hash
                (take_control_work sys rd request commission_id expected_revision expected_control_revision) db)))"

section \<open>Pausing and resuming dispatch\<close>

definition set_status :: "string \<Rightarrow> CommissionStatus \<Rightarrow> Db \<Rightarrow> Db" where
  "set_status commission_id status db =
     db\<lparr>db_commissions :=
          update_where (\<lambda>c. cm_id c = commission_id)
            (\<lambda>c. c\<lparr>cm_status := CommissionStatus_as_str status\<rparr>) (db_commissions db)\<rparr>"

definition uncertain_effects :: "string \<Rightarrow> Db \<Rightarrow> bool" where
  "uncertain_effects commission_id db =
     list_ex (\<lambda>r. or_commission_id r = commission_id \<and> or_status r = ''uncertain'') (db_operations db)"

definition change_commission_dispatch_state_work ::
  "Sys \<Rightarrow> Readings \<Rightarrow> Request \<Rightarrow> string \<Rightarrow> CommissionStatus \<Rightarrow> CommissionStatus \<Rightarrow> EventKind \<Rightarrow> int \<Rightarrow> json tx" where
  "change_commission_dispatch_state_work sys rd request commission_id expected_status next_status event
       expected_revision =
     tx_bind (tx_query (authenticated_attachment_id sys request)) (\<lambda>attachment_id.
     tx_bind (tx_query (ensure_active_attachment attachment_id commission_id COMMISSION_ACCEPTANCE)) (\<lambda>_.
     tx_bind (tx_query (find_commission commission_id)) (\<lambda>c.
     if cm_revision c \<noteq> expected_revision
     then tx_lift (Err (TyrionError.StaleRevision expected_revision (cm_revision c)))
     else if cm_status c \<noteq> CommissionStatus_as_str expected_status
     then tx_lift (invalid_request (''Commission '' @ commission_id @ '' is '' @ cm_status c @ ''; expected ''
            @ CommissionStatus_as_str expected_status))
     else
     tx_bind (tx_query (\<lambda>db.
         if next_status = CommissionStatus.Active \<and> uncertain_effects commission_id db
         then control_denied ''the Commission cannot resume until every uncertain consequential effect is explicitly reconciled by the Principal''
         else Ok ())) (\<lambda>_.
     tx_bind (tx_update (set_status commission_id next_status)) (\<lambda>_.
     tx_bind (record_event_with_payload rd commission_id event (cm_revision c)
         (JObject [(''attachment_id'', JString attachment_id),
                   (''dispatch_enabled'', JBool (next_status = CommissionStatus.Active)),
                   (''resumable'', JBool (next_status = CommissionStatus.Paused))])) (\<lambda>_.
     project_commission sys commission_id))))))"

definition change_commission_dispatch_state ::
  "Sys \<Rightarrow> Readings \<Rightarrow> Request \<Rightarrow> string \<Rightarrow> CommissionStatus \<Rightarrow> CommissionStatus \<Rightarrow> EventKind \<Rightarrow> Db
     \<Rightarrow> (json \<times> Db) result" where
  "change_commission_dispatch_state sys rd request commission_id expected_status next_status event db =
     and_then (mutation_key request) (\<lambda>key.
     and_then (request_hash sys request) (\<lambda>hash.
     case req_expected_revision request of
       None \<Rightarrow> invalid_request (''Commission '' @ CommissionStatus_as_str next_status
                 @ '' requires an expected Commission revision'')
     | Some expected_revision \<Rightarrow>
         idempotent_transaction rd key hash
           (change_commission_dispatch_state_work sys rd request commission_id expected_status next_status event
              expected_revision) db))"

definition pause_commission ::
  "Sys \<Rightarrow> Readings \<Rightarrow> Request \<Rightarrow> string \<Rightarrow> Db \<Rightarrow> (json \<times> Db) result" where
  "pause_commission sys rd request commission_id =
     change_commission_dispatch_state sys rd request commission_id
       CommissionStatus.Active CommissionStatus.Paused EventKind.CommissionPaused"

definition resume_commission ::
  "Sys \<Rightarrow> Readings \<Rightarrow> Request \<Rightarrow> string \<Rightarrow> Db \<Rightarrow> (json \<times> Db) result" where
  "resume_commission sys rd request commission_id =
     change_commission_dispatch_state sys rd request commission_id
       CommissionStatus.Paused CommissionStatus.Active EventKind.CommissionResumed"

end
