(* ===== verification/Store_Proposals.thy ===== *)
theory Store_Proposals
  imports Store_Attachments
begin

text \<open>
  Creating a Commission Proposal (\<open>create_proposal\<close> of \<^verbatim>\<open>src/src/store.rs\<close>): validation, the identity
  of the Project the repositories belong to, the rows of the Commission, its criteria, authority,
  ceilings and uncertainties, and the link that makes the proposing Attachment the active one. With it,
  how authority and ceilings are read back.
\<close>

section \<open>Project identity\<close>

definition path_string :: "Sys \<Rightarrow> string \<Rightarrow> string result" where
  "path_string sys path =
     (case sys_to_str sys path of
        None \<Rightarrow> invalid_request ''effect paths must contain valid UTF-8''
      | Some s \<Rightarrow> Ok s)"

fun resolve_repositories ::
  "Sys \<Rightarrow> Db \<Rightarrow> string \<Rightarrow> string list \<Rightarrow> (bool \<times> (string \<times> int \<times> int) list) result" where
  "resolve_repositories sys db project_id [] = Ok (False, [])"
| "resolve_repositories sys db project_id (repository # rest) =
     (case sys_canonicalize sys repository of
        Inl e \<Rightarrow> invalid_request (''project repository Evidence cannot be resolved: '' @ e)
      | Inr canonical \<Rightarrow>
          if \<not> sys_is_dir sys canonical
          then invalid_request ''project repository Evidence must identify a directory''
          else (case sys_device_inode sys canonical of
                  Inl e \<Rightarrow> Err (Io e)
                | Inr (device, inode) \<Rightarrow>
                    if \<not> storable_u64 device
                    then invalid_request ''project repository device identity is out of range''
                    else if \<not> storable_u64 inode
                    then invalid_request ''project repository inode identity is out of range''
                    else
                      let bound_project = List.find (\<lambda>r. pi_repository_device r = uint device
                            \<and> pi_repository_inode r = uint inode) (db_project_identities db)
                      in (case bound_project of
                            Some r \<Rightarrow>
                              if pi_project_id r \<noteq> project_id
                              then invalid_request (''repository identity is already bound to Project '' @ pi_project_id r)
                              else
                                and_then (path_string sys canonical) (\<lambda>path.
                                and_then (resolve_repositories sys db project_id rest) (\<lambda>(_, repositories).
                                Ok (True, (path, uint device, uint inode) # repositories)))
                          | None \<Rightarrow>
                              and_then (path_string sys canonical) (\<lambda>path.
                              and_then (resolve_repositories sys db project_id rest) (\<lambda>(verified, repositories).
                              Ok (verified, (path, uint device, uint inode) # repositories))))))"

definition insert_project_or_ignore :: "string \<Rightarrow> int \<Rightarrow> Db \<Rightarrow> Db" where
  "insert_project_or_ignore project_id now db =
     (if map_of (db_projects db) project_id \<noteq> None then db
      else db\<lparr>db_projects := db_projects db @ [(project_id, now)]\<rparr>)"

definition insert_identity_or_ignore :: "IdentityRow \<Rightarrow> Db \<Rightarrow> Db result" where
  "insert_identity_or_ignore r db =
     (if list_ex (\<lambda>q. pi_repository_device q = pi_repository_device r
            \<and> pi_repository_inode q = pi_repository_inode r) (db_project_identities db)
      then Ok db
      else if map_of (db_projects db) (pi_project_id r) = None then foreign_key_failed
      else Ok (db\<lparr>db_project_identities := db_project_identities db @ [r]\<rparr>))"

definition upsert_alias :: "AliasRow \<Rightarrow> Db \<Rightarrow> Db result" where
  "upsert_alias r db =
     (let same = (\<lambda>q. pl_project_id q = pl_project_id r \<and> pl_canonical_repository q = pl_canonical_repository r)
      in if list_ex same (db_project_aliases db)
         then Ok (db\<lparr>db_project_aliases :=
                update_where same (\<lambda>q. q\<lparr>pl_observed_at := pl_observed_at r\<rparr>) (db_project_aliases db)\<rparr>)
         else if list_ex (\<lambda>q. pl_canonical_repository q = pl_canonical_repository r) (db_project_aliases db)
         then database ''UNIQUE constraint failed: project_aliases.canonical_repository''
         else if \<not> list_ex (\<lambda>q. pi_project_id q = pl_project_id r \<and> pi_repository_device q = pl_repository_device r
                    \<and> pi_repository_inode q = pl_repository_inode r) (db_project_identities db)
         then foreign_key_failed
         else Ok (db\<lparr>db_project_aliases := db_project_aliases db @ [r]\<rparr>))"

definition bind_project_identity :: "Sys \<Rightarrow> Readings \<Rightarrow> CommissionProposal \<Rightarrow> unit tx" where
  "bind_project_identity sys rd proposal =
     (case prop_project_id proposal of
        None \<Rightarrow> tx_return ()
      | Some project_id \<Rightarrow>
          tx_bind (tx_query (\<lambda>db. Ok (map_of (db_projects db) project_id \<noteq> None))) (\<lambda>project_exists.
          tx_bind (tx_query (\<lambda>db. resolve_repositories sys db project_id
                               (auth_repositories (prop_authority proposal)))) (\<lambda>(verified_anchor, repositories).
          if project_exists \<and> \<not> verified_anchor
          then tx_lift (invalid_request (''Project '' @ project_id @ '' is bound to a different repository identity set''))
          else
          tx_bind (unix_timestamp rd) (\<lambda>now.
          tx_bind (tx_update (insert_project_or_ignore project_id now)) (\<lambda>_.
          tx_for (\<lambda>(canonical_repository, device, inode).
            tx_bind (tx_execute (insert_identity_or_ignore
              \<lparr>pi_project_id = project_id, pi_repository_device = device, pi_repository_inode = inode,
               pi_created_at = now\<rparr>)) (\<lambda>_.
            tx_execute (upsert_alias
              \<lparr>pl_project_id = project_id, pl_repository_device = device, pl_repository_inode = inode,
               pl_canonical_repository = canonical_repository, pl_observed_at = now\<rparr>))) repositories)))))"

section \<open>Storing the mandate\<close>

definition criterion_row :: "string \<Rightarrow> nat \<Rightarrow> AcceptanceCriterion \<Rightarrow> CriterionRow result" where
  "criterion_row commission_id position criterion =
     and_then (resolved_verifier_configuration criterion) (\<lambda>verifier_configuration.
     Ok \<lparr>cr_commission_id = commission_id, cr_criterion_id = ac_id criterion, cr_position = int position,
         cr_description = ac_description criterion, cr_required_evidence = ac_required_evidence criterion,
         cr_verifier_type = VerifierType_as_str (ac_verifier_type criterion),
         cr_verification_depth = VerificationDepth_as_str (ac_verification_depth criterion),
         cr_verifier_configuration = verifier_configuration,
         cr_verification_environment = ac_verification_environment criterion,
         cr_verifier = ac_verifier criterion\<rparr>)"

definition insert_criterion_version :: "string \<Rightarrow> int \<Rightarrow> nat \<Rightarrow> AcceptanceCriterion \<Rightarrow> unit tx" where
  "insert_criterion_version commission_id mandate_revision position criterion =
     tx_bind (tx_lift (criterion_row commission_id position criterion)) (\<lambda>r.
     tx_execute (insert_criterion_version_row r mandate_revision))"

definition insert_authority :: "string \<Rightarrow> AuthorityEnvelope \<Rightarrow> unit tx" where
  "insert_authority commission_id authority =
     tx_for (\<lambda>(scope_type, values).
         tx_for (\<lambda>(position, v). tx_execute (insert_authority_scope
             \<lparr>as_commission_id = commission_id, as_scope_type = AuthorityScopeType_as_str scope_type,
              as_position = int position, as_value = v\<rparr>)) (enumerate 0 values))
       [(AuthorityScopeType.Repository, auth_repositories authority),
        (AuthorityScopeType.Path, auth_paths authority),
        (AuthorityScopeType.Action, auth_actions authority),
        (AuthorityScopeType.Destination, auth_destinations authority),
        (AuthorityScopeType.Effect, auth_effects authority)]"

definition insert_resource_ceilings :: "string \<Rightarrow> ResourceCeilings \<Rightarrow> unit tx" where
  "insert_resource_ceilings commission_id ceilings = tx_execute (insert_ceilings commission_id ceilings)"

definition load_authority_scope :: "string \<Rightarrow> AuthorityScopeType \<Rightarrow> Db \<Rightarrow> string list" where
  "load_authority_scope commission_id scope_type db =
     map as_value (sort_key as_position
       (filter (\<lambda>r. as_commission_id r = commission_id \<and> as_scope_type r = AuthorityScopeType_as_str scope_type)
          (db_authority_scopes db)))"

definition load_authority :: "string \<Rightarrow> Db \<Rightarrow> AuthorityEnvelope" where
  "load_authority commission_id db =
     \<lparr>auth_repositories = load_authority_scope commission_id AuthorityScopeType.Repository db,
      auth_paths = load_authority_scope commission_id AuthorityScopeType.Path db,
      auth_actions = load_authority_scope commission_id AuthorityScopeType.Action db,
      auth_destinations = load_authority_scope commission_id AuthorityScopeType.Destination db,
      auth_effects = load_authority_scope commission_id AuthorityScopeType.Effect db\<rparr>"

definition load_resource_ceilings :: "string \<Rightarrow> Db \<Rightarrow> ResourceCeilings result" where
  "load_resource_ceilings commission_id db =
     and_then (query_row (\<lambda>r. fst r = commission_id) (db_resource_ceilings db)) (\<lambda>r. Ok (snd r))"

section \<open>Creating a proposal\<close>

definition store_mandate :: "string \<Rightarrow> CommissionProposal \<Rightarrow> unit tx" where
  "store_mandate commission_id proposal =
     tx_bind (tx_for (\<lambda>(position, criterion).
         tx_bind (tx_lift (criterion_row commission_id position criterion)) (\<lambda>r.
         tx_bind (tx_execute (insert_criterion r (CriterionStatus_as_str CriterionStatus.Uncertain))) (\<lambda>_.
         insert_criterion_version commission_id 0 position criterion))) (enumerate 0 (prop_criteria proposal))) (\<lambda>_.
     tx_bind (insert_authority commission_id (prop_authority proposal)) (\<lambda>_.
     tx_bind (insert_resource_ceilings commission_id (prop_resource_ceilings proposal)) (\<lambda>_.
     tx_for (\<lambda>(position, uncertainty). tx_execute (insert_known_uncertainty commission_id (int position) uncertainty))
       (enumerate 0 (prop_known_uncertainties proposal)))))"

definition attach_proposer :: "Readings \<Rightarrow> string \<Rightarrow> string \<Rightarrow> unit tx" where
  "attach_proposer rd commission_id attachment_id =
     tx_bind (unix_timestamp rd) (\<lambda>joined_at.
     tx_bind (tx_execute (insert_link
         \<lparr>ca_commission_id = commission_id, ca_attachment_id = attachment_id, ca_role = ''active'',
          ca_joined_at = joined_at\<rparr>)) (\<lambda>_.
     tx_bind (record_event_with_payload rd commission_id EventKind.AttachmentJoined 0
         (JObject [(''attachment_id'', JString attachment_id), (''role'', JString ''active'')])) (\<lambda>_.
     record_event_with_payload rd commission_id EventKind.ActiveAttachmentChanged 0
         (JObject [(''active_attachment_id'', JString attachment_id),
                   (''previous_active_attachment_id'', JNull)]))))"

definition create_proposal_work :: "Sys \<Rightarrow> Readings \<Rightarrow> Request \<Rightarrow> CommissionProposal \<Rightarrow> json tx" where
  "create_proposal_work sys rd request proposal =
     tx_bind (tx_query (authenticated_attachment_id sys request)) (\<lambda>attachment_id.
     tx_bind (tx_query (ensure_attachment_capability attachment_id PROPOSAL_CREATION)) (\<lambda>_.
     tx_bind (bind_project_identity sys rd proposal) (\<lambda>_.
     tx_bind (new_uuid rd) (\<lambda>commission_id.
     tx_bind (unix_timestamp rd) (\<lambda>created_at.
     tx_bind (tx_execute (insert_commission
         \<lparr>cm_id = commission_id, cm_goal = prop_goal proposal,
          cm_status = CommissionStatus_as_str CommissionStatus.Proposed, cm_revision = 0, cm_control_revision = 0,
          cm_created_at = created_at, cm_accepted_at = None, cm_completed_at = None,
          cm_execution = prop_execution proposal, cm_worker_requirements = prop_worker_requirements proposal,
          cm_plan = prop_plan proposal, cm_project_id = prop_project_id proposal,
          cm_constraints = prop_commission_constraints proposal,
          cm_planning = map_option (\<lambda>_. ''worker'') (prop_planning proposal)\<rparr>)) (\<lambda>_.
     tx_bind (store_mandate commission_id proposal) (\<lambda>_.
     tx_bind (record_event rd commission_id EventKind.CommissionProposed 0) (\<lambda>_.
     tx_bind (attach_proposer rd commission_id attachment_id) (\<lambda>_.
     project_commission sys commission_id)))))))))"

definition create_proposal ::
  "Sys \<Rightarrow> Readings \<Rightarrow> Request \<Rightarrow> CommissionProposal \<Rightarrow> Db \<Rightarrow> (json \<times> Db) result" where
  "create_proposal sys rd request proposal db =
     and_then (validate_proposal (sys_canonicalize sys) (sys_hash_orders sys) proposal) (\<lambda>_.
     and_then (mutation_key request) (\<lambda>key.
     and_then (request_hash sys request) (\<lambda>hash.
     idempotent_transaction rd key hash (create_proposal_work sys rd request proposal) db)))"

end
