(* ===== verification/Store_Operations.thy ===== *)
theory Store_Operations
  imports Store_Proposals Store_Attachments Routing
begin

text \<open>
  Consequential operations in \<^verbatim>\<open>src/src/store.rs\<close>: proposing one, approving it at its Approval Gate,
  and granting a credential. The credential runtime (\<^verbatim>\<open>src/src/credential.rs\<close>)
  and the file system enter as arguments.
\<close>

record CredentialRuntime =
  crt_supports_grant :: "string \<Rightarrow> string \<Rightarrow> string \<Rightarrow> unit result"
  crt_supports_exposure :: "string \<Rightarrow> unit result"
  crt_validate_operation :: "OperationRequest \<Rightarrow> unit result"
  crt_bind :: "OperationRequest \<Rightarrow> json result"

section \<open>The current context of an operation\<close>

definition operation_context ::
  "string \<Rightarrow> string \<Rightarrow> string \<Rightarrow> string \<Rightarrow> Db \<Rightarrow> (string \<times> int \<times> int \<times> string \<times> string \<times> int \<times> int) list" where
  "operation_context commission_id assignment_id attempt_id lease_id db =
     [(cm_status c, cm_revision c, asg_plan_revision g, atm_status t, wl_status l, wl_expires_at l, wl_mandate_revision l).
        c \<leftarrow> db_commissions db, cm_id c = commission_id,
        g \<leftarrow> db_assignments db, asg_commission_id g = cm_id c \<and> asg_id g = assignment_id,
        t \<leftarrow> db_attempts db, atm_assignment_id t = asg_id g \<and> atm_id t = attempt_id,
        l \<leftarrow> db_leases db, wl_attempt_id l = atm_id t \<and> wl_id l = lease_id]"

definition context_is_current ::
  "string \<times> int \<times> int \<times> string \<times> string \<times> int \<times> int \<Rightarrow> int \<Rightarrow> int \<Rightarrow> bool" where
  "context_is_current context mandate_revision plan_revision =
     (case context of (commission_status, current_revision, current_plan, attempt_status, lease_status, _, lease_mandate) \<Rightarrow>
        commission_status = CommissionStatus_as_str CommissionStatus.Active
        \<and> mandate_revision = current_revision \<and> plan_revision = current_plan
        \<and> attempt_status = AttemptStatus_as_str AttemptStatus.Running
        \<and> lease_status = WorkerLeaseStatus_as_str WorkerLeaseStatus.Active
        \<and> lease_mandate = current_revision)"

definition ensure_context ::
  "Readings \<Rightarrow> string \<Rightarrow> (string \<times> string \<times> string) \<Rightarrow> int \<Rightarrow> int \<Rightarrow> int \<Rightarrow> string \<Rightarrow> string \<Rightarrow> unit tx" where
  "ensure_context rd commission_id ids mandate_revision plan_revision expected_revision missing stale =
     (case ids of (assignment_id, attempt_id, lease_id) \<Rightarrow>
      tx_bind (tx_query (\<lambda>db. case operation_context commission_id assignment_id attempt_id lease_id db of
                           [] \<Rightarrow> control_denied missing | context # _ \<Rightarrow> Ok context)) (\<lambda>context.
      case context of (_, current_revision, _, _, _, expires_at, _) \<Rightarrow>
      if current_revision \<noteq> expected_revision
      then tx_lift (Err (TyrionError.StaleRevision expected_revision current_revision))
      else if \<not> context_is_current context mandate_revision plan_revision
      then tx_lift (control_denied stale)
      else
      tx_bind (unix_timestamp rd) (\<lambda>now.
      if expires_at \<le> now then tx_lift (control_denied stale) else tx_return ())))"

definition ensure_current_operation_context :: "Readings \<Rightarrow> string \<Rightarrow> OperationRequest \<Rightarrow> int \<Rightarrow> unit tx" where
  "ensure_current_operation_context rd commission_id operation expected_revision =
     ensure_context rd commission_id
       (op_assignment_id operation, op_attempt_id operation, op_worker_lease_id operation)
       (op_mandate_revision operation) (op_plan_revision operation) expected_revision
       ''operation does not identify a current Assignment, Attempt, and Worker Lease''
       ''operation authority is stale or no longer active''"

definition ensure_current_credential_grant_context ::
  "Readings \<Rightarrow> string \<Rightarrow> CredentialGrantRequest \<Rightarrow> int \<Rightarrow> unit tx" where
  "ensure_current_credential_grant_context rd commission_id grant expected_revision =
     ensure_context rd commission_id
       (cg_assignment_id grant, cg_attempt_id grant, cg_worker_lease_id grant)
       (cg_mandate_revision grant) (cg_plan_revision grant) expected_revision
       ''Credential Grant does not identify a current Assignment, Attempt, and Worker Lease''
       ''Credential Grant authority is stale or no longer active''"

definition stored_grant :: "GrantRow \<Rightarrow> StoredCredentialGrant" where
  "stored_grant r =
     \<lparr>scg_id = gr_id r, scg_credential_reference = gr_credential_reference r, scg_capability = gr_capability r,
      scg_destination = gr_destination r, scg_exposure = gr_exposure r,
      scg_expires_at = gr_credential_expires_at r, scg_status = gr_status r\<rparr>"

definition load_current_credential_grant :: "string \<Rightarrow> OperationRequest \<Rightarrow> Db \<Rightarrow> StoredCredentialGrant result" where
  "load_current_credential_grant commission_id operation db =
     (case op_credential operation of
        None \<Rightarrow> control_denied ''credentialed operation has no Credential Grant''
      | Some credential_use \<Rightarrow>
          (let unbound = control_denied ''the Credential Grant is not bound to the exact current Assignment grant''
           in case List.find (\<lambda>r. gr_id r = cu_grant_id credential_use \<and> gr_commission_id r = commission_id) (db_grants db) of
                None \<Rightarrow> unbound
              | Some r \<Rightarrow>
                  if gr_assignment_id r \<noteq> op_assignment_id operation \<or> gr_attempt_id r \<noteq> op_attempt_id operation
                     \<or> gr_worker_lease_id r \<noteq> op_worker_lease_id operation
                     \<or> gr_mandate_revision r \<noteq> op_mandate_revision operation
                     \<or> gr_plan_revision r \<noteq> op_plan_revision operation
                  then unbound else Ok (stored_grant r)))"

text \<open>The checks on the grant a credentialed operation names.\<close>

definition check_credential_grant :: "Readings \<Rightarrow> string \<Rightarrow> OperationRequest \<Rightarrow> unit tx" where
  "check_credential_grant rd commission_id operation =
     (if op_credential operation = None then tx_return ()
      else
      tx_bind (tx_query (load_current_credential_grant commission_id operation)) (\<lambda>grant.
      tx_with_clock rd (\<lambda>clock. validate_credential_operation_grant clock operation grant)))"

section \<open>Granting a credential\<close>

definition required_action :: "CredentialExposure \<Rightarrow> string" where
  "required_action exposure =
     (case exposure of BrokeredOnly \<Rightarrow> ''credential.http.request'' | OneShot \<Rightarrow> ''credential.command.request'')"

definition grant_credential_work ::
  "Sys \<Rightarrow> Readings \<Rightarrow> string \<Rightarrow> CredentialGrantRequest \<Rightarrow> int \<Rightarrow> json tx" where
  "grant_credential_work sys rd commission_id grant expected_revision =
     tx_bind (ensure_current_credential_grant_context rd commission_id grant expected_revision) (\<lambda>_.
     tx_bind (tx_query (\<lambda>db. Ok (load_authority commission_id db))) (\<lambda>authority.
     if \<not> list_ex ((=) (cg_destination grant)) (auth_destinations authority)
        \<or> \<not> list_ex ((=) (required_action (cg_exposure grant))) (auth_actions authority)
        \<or> \<not> list_ex ((=) ''external.write'') (auth_effects authority)
     then tx_lift (control_denied ''the Credential Grant is outside the current Authority Envelope'')
     else
     tx_bind (unix_timestamp rd) (\<lambda>now.
     if cg_credential_expires_at grant \<le> now \<or> i64_saturating_add now 900 < cg_credential_expires_at grant
     then tx_lift (control_denied ''a credential must be current and expire within fifteen minutes'')
     else
     tx_bind (new_uuid rd) (\<lambda>grant_id.
     tx_bind (tx_execute (insert_grant
         \<lparr>gr_id = grant_id, gr_commission_id = commission_id, gr_assignment_id = cg_assignment_id grant,
          gr_attempt_id = cg_attempt_id grant, gr_worker_lease_id = cg_worker_lease_id grant,
          gr_mandate_revision = cg_mandate_revision grant, gr_plan_revision = cg_plan_revision grant,
          gr_credential_reference = cg_credential_reference grant, gr_capability = cg_capability grant,
          gr_destination = cg_destination grant, gr_exposure = CredentialExposure_as_str (cg_exposure grant),
          gr_credential_expires_at = cg_credential_expires_at grant,
          gr_revocation = CredentialRevocation_as_str (cg_revocation grant), gr_status = ''active'',
          gr_created_at = now, gr_consumed_at = None, gr_revoked_at = None\<rparr>)) (\<lambda>_.
     tx_bind (record_event_with_payload rd commission_id EventKind.CredentialGrantIssued expected_revision
         (JObject
           [(''assignment_id'', JString (cg_assignment_id grant)),
            (''attempt_id'', JString (cg_attempt_id grant)),
            (''capability'', JString (cg_capability grant)),
            (''credential_expires_at'', json_of_int (cg_credential_expires_at grant)),
            (''credential_grant_id'', JString grant_id),
            (''credential_reference'', JString ''redacted''),
            (''destination'', JString (cg_destination grant)),
            (''exposure'', JString (CredentialExposure_as_str (cg_exposure grant))),
            (''mandate_revision'', json_of_int (cg_mandate_revision grant)),
            (''plan_revision'', json_of_int (cg_plan_revision grant)),
            (''worker_lease_id'', JString (cg_worker_lease_id grant))])) (\<lambda>_.
     project_commission sys commission_id))))))"

definition runtime_supports :: "CredentialRuntime \<Rightarrow> CredentialGrantRequest \<Rightarrow> unit result" where
  "runtime_supports runtime grant =
     and_then (crt_supports_grant runtime (cg_credential_reference grant) (cg_capability grant) (cg_destination grant))
       (\<lambda>_. if cg_exposure grant = OneShot then crt_supports_exposure runtime (cg_destination grant) else Ok ())"

definition grant_credential ::
  "Sys \<Rightarrow> Readings \<Rightarrow> string \<Rightarrow> CredentialRuntime option \<Rightarrow> Request \<Rightarrow> string \<Rightarrow> CredentialGrantRequest \<Rightarrow> Db
     \<Rightarrow> (json \<times> Db) result" where
  "grant_credential sys rd principal_token_hash credential_runtime request commission_id grant db =
     and_then (authenticate_principal sys request principal_token_hash) (\<lambda>_.
     case credential_runtime of
       None \<Rightarrow> control_denied ''credential brokering is not configured''
     | Some runtime \<Rightarrow>
         and_then (mutation_key request) (\<lambda>key.
         and_then (request_hash sys request) (\<lambda>hash.
         case req_expected_revision request of
           None \<Rightarrow> invalid_request ''Credential Grant issuance requires an expected Commission revision''
         | Some expected_revision \<Rightarrow>
             and_then (validate_credential_grant_shape grant) (\<lambda>_.
             and_then (prior_result key hash db) (\<lambda>prior.
             case prior of
               Some v \<Rightarrow> Ok (v, db)
             | None \<Rightarrow>
                 and_then (runtime_supports runtime grant) (\<lambda>_.
                 idempotent_transaction rd key hash
                   (grant_credential_work sys rd commission_id grant expected_revision) db))))))"

section \<open>Proposing an operation\<close>

text \<open>The elapsed time is a difference of clock readings cast to an unsigned integer: a clock that moved back
  before the acceptance makes it huge, and nothing remains.\<close>

definition i64_saturating_sub :: "int \<Rightarrow> int \<Rightarrow> int" where
  "i64_saturating_sub a b = max (- (2 ^ 63)) (min (2 ^ 63 - 1) (a - b))"

definition elapsed_seconds :: "int \<Rightarrow> int \<Rightarrow> u64" where
  "elapsed_seconds now accepted_at = word_of_int (i64_saturating_sub now accepted_at)"

definition storing_operation :: "OperationRequest \<Rightarrow> bool" where
  "storing_operation operation \<longleftrightarrow>
     op_operation operation \<in> {''filesystem.write'', ''credential.http.request'', ''credential.command.request''}"

definition projected_storage :: "OperationClassification \<Rightarrow> OperationRequest \<Rightarrow> u64 option" where
  "projected_storage classification operation =
     (if classification = OperationClassification.ApprovalGate \<and> storing_operation operation
      then map_option (\<lambda>content.
             if op_credential operation \<noteq> None
             then saturating_add (of_nat (length content)) (ol_max_output_bytes (op_limits operation))
             else of_nat (length content))
           (map_of (op_parameters operation)
             (if op_operation operation = ''filesystem.write'' then ''content'' else ''body''))
      else None)"

type_synonym classified = "OperationClassification \<times> string"

definition limit_duration :: "OperationRequest \<Rightarrow> u64 \<Rightarrow> classified \<Rightarrow> classified" where
  "limit_duration operation remaining_seconds current =
     (if remaining_seconds < ol_max_duration_seconds (op_limits operation)
      then (OperationClassification.Prohibited,
        ''the exact max_duration_seconds limit is '' @ word_dec (ol_max_duration_seconds (op_limits operation))
        @ '' but only '' @ word_dec remaining_seconds
        @ '' Commission seconds remain; accept a Commission Amendment before retrying'')
      else current)"

definition limit_storage :: "OperationRequest \<Rightarrow> u64 \<Rightarrow> u64 option \<Rightarrow> classified \<Rightarrow> classified" where
  "limit_storage operation storage_ceiling projected current =
     (case projected of
        None \<Rightarrow> current
      | Some required \<Rightarrow>
          if op_operation operation = ''filesystem.write'' \<and> ol_max_output_bytes (op_limits operation) < required
          then (OperationClassification.Prohibited,
            ''filesystem.write requires '' @ word_dec required
            @ '' bytes but the exact approved max_output_bytes limit is ''
            @ word_dec (ol_max_output_bytes (op_limits operation)))
          else if storage_ceiling < required
          then (OperationClassification.Prohibited,
            ''the exact operation requires '' @ word_dec required @ '' bytes but max_storage_bytes is ''
            @ word_dec storage_ceiling @ ''; accept a Commission Amendment before retrying'')
          else current)"

definition limit_spend :: "OperationRequest \<Rightarrow> ResourceCeilings \<Rightarrow> classified \<Rightarrow> classified" where
  "limit_spend operation ceilings current =
     (if rc_max_paid_service_spend_cents ceilings < ol_max_paid_service_spend_cents (op_limits operation)
      then (OperationClassification.Prohibited,
        ''the exact operation permits '' @ word_dec (ol_max_paid_service_spend_cents (op_limits operation))
        @ '' paid-service cents but the Commission ceiling is '' @ word_dec (rc_max_paid_service_spend_cents ceilings))
      else current)"

definition limit_reservation :: "OperationRequest \<Rightarrow> u64 option \<Rightarrow> Db \<Rightarrow> classified \<Rightarrow> classified result" where
  "limit_reservation operation projected db current =
     (if op_credential operation = None then Ok current
      else
      and_then (query_row (\<lambda>r. rsv_attempt_id r = op_attempt_id operation \<and> rsv_status r = ''active'') (db_reservations db))
        (\<lambda>reserved.
        if (case projected of None \<Rightarrow> False | Some required \<Rightarrow> rsv_storage_bytes reserved < required)
           \<or> rsv_paid_service_spend_cents reserved < ol_max_paid_service_spend_cents (op_limits operation)
        then Ok (OperationClassification.Prohibited, ''the credentialed effect exceeds its Assignment resource grant'')
        else Ok current))"

fun proposed_status :: "OperationClassification \<Rightarrow> OperationStatus" where
  "proposed_status OperationClassification.SilentJournaled = OperationStatus.Completed"
| "proposed_status OperationClassification.NonBlockingNotification = OperationStatus.Completed"
| "proposed_status OperationClassification.ApprovalGate = OperationStatus.ApprovalRequired"
| "proposed_status OperationClassification.Prohibited = OperationStatus.Prohibited"

text \<open>\<^verbatim>\<open>object.insert("target_revision", binding)\<close> on the canonical operation.\<close>

definition with_target_revision :: "json \<Rightarrow> json \<Rightarrow> json result" where
  "with_target_revision binding canonical =
     (case canonical of
        JObject entries \<Rightarrow> Ok (JObject (filter (\<lambda>(k, _). k < ''target_revision'') entries
            @ (''target_revision'', binding) # filter (\<lambda>(k, _). ''target_revision'' < k) entries))
      | _ \<Rightarrow> invalid_request ''canonical operation must be an object'')"

definition canonical_operation :: "Sys \<Rightarrow> CredentialRuntime option \<Rightarrow> OperationRequest \<Rightarrow> (json \<times> json option) result" where
  "canonical_operation sys credential_runtime operation =
     and_then (sys_operation_value sys operation) (\<lambda>canonical.
     and_then
       (if op_operation operation = ''filesystem.write'' \<and> op_effect operation = Some ''filesystem.write''
           \<and> op_destination operation = Some ''local''
        then and_then (sys_bind_file_effect sys operation) (\<lambda>binding. Ok (Some binding))
        else if op_operation operation \<in> {''credential.http.request'', ''credential.command.request''}
           \<and> op_effect operation = Some ''external.write''
        then (case credential_runtime of
                None \<Rightarrow> control_denied ''credential brokering is not configured''
              | Some runtime \<Rightarrow> and_then (crt_bind runtime operation) (\<lambda>binding. Ok (Some binding)))
        else Ok None)
       (\<lambda>binding.
        case binding of
          None \<Rightarrow> Ok (canonical, None)
        | Some b \<Rightarrow> and_then (with_target_revision b canonical) (\<lambda>c. Ok (c, Some b))))"

definition limits_value :: "OperationLimits \<Rightarrow> json" where
  "limits_value limits = JObject
     ([(''max_duration_seconds'', JPosInt (ol_max_duration_seconds limits)),
       (''max_output_bytes'', JPosInt (ol_max_output_bytes limits))]
      @ (if ol_max_paid_service_spend_cents limits = 0 then []
         else [(''max_paid_service_spend_cents'', JPosInt (ol_max_paid_service_spend_cents limits))]))"

definition operation_row ::
  "string \<Rightarrow> string \<Rightarrow> OperationRequest \<Rightarrow> json \<Rightarrow> string \<Rightarrow> classified \<Rightarrow> int \<Rightarrow> OperationRow" where
  "operation_row operation_id commission_id operation canonical digest result now =
     (let status = proposed_status (fst result)
      in \<lparr>or_id = operation_id, or_commission_id = commission_id, or_operation = operation, or_canonical = canonical,
          or_digest = digest, or_classification = OperationClassification_as_str (fst result),
          or_status = OperationStatus_as_str status, or_classification_reason = snd result, or_proposed_at = now,
          or_authorized_at = None, or_started_at = None,
          or_completed_at = (if status = OperationStatus.Completed then Some now else None), or_receipt = None\<rparr>)"

definition open_gate ::
  "Readings \<Rightarrow> string \<Rightarrow> OperationRequest \<Rightarrow> string \<Rightarrow> string \<Rightarrow> json \<Rightarrow> int \<Rightarrow> int \<Rightarrow> unit tx" where
  "open_gate rd commission_id operation operation_id digest canonical expected_revision now =
     tx_bind (new_uuid rd) (\<lambda>approval_gate_id.
     tx_bind (tx_execute (insert_gate
         \<lparr>ag_id = approval_gate_id, ag_commission_id = commission_id, ag_operation_request_id = operation_id,
          ag_operation_digest = digest, ag_status = ''open'', ag_opened_at = now, ag_authorized_at = None,
          ag_consumed_at = None, ag_invalidated_at = None\<rparr>)) (\<lambda>_.
     record_event_with_payload rd commission_id EventKind.ApprovalGateOpened expected_revision
       (JObject
         [(''approval_gate_id'', JString approval_gate_id), (''canonical_operation'', canonical),
          (''consequences'', JArray (map JString (op_consequences operation))),
          (''exact_target'', JString (op_target operation)),
          (''governing_revision'', JObject
             [(''mandate'', json_of_int (op_mandate_revision operation)), (''plan'', json_of_int (op_plan_revision operation))]),
          (''limits'', limits_value (op_limits operation)),
          (''operation_digest'', JString digest), (''operation_request_id'', JString operation_id)])))"

definition ceiling_event :: "Readings \<Rightarrow> string \<Rightarrow> int \<Rightarrow> string \<Rightarrow> string \<Rightarrow> u64 \<Rightarrow> u64 \<Rightarrow> unit tx" where
  "ceiling_event rd commission_id expected_revision operation_id resource projected ceiling =
     record_event_with_payload rd commission_id EventKind.ResourceCeilingApproaching expected_revision
       (JObject
         [(''blocking'', JBool False), (''ceiling'', JPosInt ceiling),
          (''operation_request_id'', JString operation_id), (''projected'', JPosInt projected),
          (''resource'', JString resource)])"

definition four_fifths :: "u64 \<Rightarrow> u64" where
  "four_fifths n = saturating_sub n (n div 5)"

definition classify_proposed ::
  "Readings \<Rightarrow> CredentialRuntime option \<Rightarrow> string \<Rightarrow> OperationRequest
     \<Rightarrow> (classified \<times> u64 option \<times> ResourceCeilings \<times> u64 \<times> u64 \<times> int) tx" where
  "classify_proposed rd credential_runtime commission_id operation =
     tx_bind (tx_query (\<lambda>db. Ok (load_authority commission_id db))) (\<lambda>authority.
     tx_bind (tx_query (load_resource_ceilings commission_id)) (\<lambda>ceilings.
     tx_bind (tx_query (\<lambda>db. and_then (query_row (\<lambda>c. cm_id c = commission_id) (db_commissions db)) (\<lambda>c.
         case cm_accepted_at c of None \<Rightarrow> database ''Invalid column type Null'' | Some t \<Rightarrow> Ok t))) (\<lambda>accepted_at.
     tx_bind (unix_timestamp rd) (\<lambda>now.
     let elapsed = elapsed_seconds now accepted_at;
         remaining = saturating_sub (rc_max_elapsed_seconds ceilings) elapsed;
         timed = limit_duration operation remaining (classify_operation operation authority)
     in
     tx_bind (if op_credential operation = None then tx_return ()
              else (case credential_runtime of
                      None \<Rightarrow> tx_lift (control_denied ''credential brokering is not configured'')
                    | Some runtime \<Rightarrow>
                        tx_bind (tx_lift (crt_validate_operation runtime operation)) (\<lambda>_.
                        check_credential_grant rd commission_id operation))) (\<lambda>_.
     let projected = projected_storage (fst timed) operation;
         limited = limit_spend operation ceilings
                     (limit_storage operation (rc_max_storage_bytes ceilings) projected timed)
     in
     tx_bind (tx_query (\<lambda>db. limit_reservation operation projected db limited)) (\<lambda>final.
     tx_return (final, projected, ceilings, elapsed, remaining, now)))))))"

definition announce_operation ::
  "Readings \<Rightarrow> string \<Rightarrow> OperationRequest \<Rightarrow> string \<Rightarrow> string \<Rightarrow> OperationClassification \<Rightarrow> int \<Rightarrow> unit tx" where
  "announce_operation rd commission_id operation operation_id digest classification expected_revision =
     (if classification = OperationClassification.NonBlockingNotification
      then record_event_with_payload rd commission_id EventKind.OperationNotification expected_revision
        (JObject
          [(''classification'', JString (OperationClassification_as_str classification)),
           (''consequences'', JArray (map JString (op_consequences operation))),
           (''limits'', limits_value (op_limits operation)),
           (''operation_digest'', JString digest), (''operation_request_id'', JString operation_id)])
      else tx_return ())"

definition propose_operation_work ::
  "Sys \<Rightarrow> Readings \<Rightarrow> CredentialRuntime option \<Rightarrow> Request \<Rightarrow> string \<Rightarrow> OperationRequest \<Rightarrow> int \<Rightarrow> json tx" where
  "propose_operation_work sys rd credential_runtime request commission_id operation expected_revision =
     tx_bind (tx_query (authenticated_attachment_id sys request)) (\<lambda>attachment_id.
     tx_bind (tx_query (ensure_active_attachment attachment_id commission_id COMMISSION_ACCEPTANCE)) (\<lambda>_.
     tx_bind (ensure_current_operation_context rd commission_id operation expected_revision) (\<lambda>_.
     tx_bind (classify_proposed rd credential_runtime commission_id operation)
       (\<lambda>(result, projected, ceilings, elapsed, remaining, now).
     tx_bind (tx_lift (if fst result = OperationClassification.ApprovalGate
         then and_then (canonical_operation sys credential_runtime operation) (\<lambda>(canonical, _). Ok canonical)
         else sys_operation_value sys operation)) (\<lambda>canonical.
     let digest = sys_sha256_hex sys (sys_encode_json sys canonical)
     in
     tx_bind (new_uuid rd) (\<lambda>operation_id.
     tx_bind (tx_execute (insert_operation
         (operation_row operation_id commission_id operation canonical digest result now))) (\<lambda>_.
     tx_bind (record_event_with_payload rd commission_id EventKind.OperationClassified expected_revision
         (JObject
           [(''classification'', JString (OperationClassification_as_str (fst result))),
            (''operation_digest'', JString digest), (''operation_request_id'', JString operation_id),
            (''reason'', JString (snd result)),
            (''status'', JString (OperationStatus_as_str (proposed_status (fst result))))])) (\<lambda>_.
     tx_bind (if fst result = OperationClassification.ApprovalGate
              then open_gate rd commission_id operation operation_id digest canonical expected_revision now
              else tx_return ()) (\<lambda>_.
     tx_bind (announce_operation rd commission_id operation operation_id digest (fst result) expected_revision) (\<lambda>_.
     tx_bind (case projected of
                None \<Rightarrow> tx_return ()
              | Some required \<Rightarrow>
                  if fst result = OperationClassification.ApprovalGate
                     \<and> four_fifths (rc_max_storage_bytes ceilings) \<le> required
                  then ceiling_event rd commission_id expected_revision operation_id ''max_storage_bytes'' required
                         (rc_max_storage_bytes ceilings)
                  else tx_return ()) (\<lambda>_.
     tx_bind (if fst result \<noteq> OperationClassification.Prohibited
                 \<and> four_fifths remaining \<le> ol_max_duration_seconds (op_limits operation)
              then ceiling_event rd commission_id expected_revision operation_id ''max_elapsed_seconds''
                     (saturating_add elapsed (ol_max_duration_seconds (op_limits operation)))
                     (rc_max_elapsed_seconds ceilings)
              else tx_return ()) (\<lambda>_.
     project_commission sys commission_id))))))))))))"

definition propose_operation ::
  "Sys \<Rightarrow> Readings \<Rightarrow> CredentialRuntime option \<Rightarrow> Request \<Rightarrow> string \<Rightarrow> OperationRequest \<Rightarrow> Db \<Rightarrow> (json \<times> Db) result" where
  "propose_operation sys rd credential_runtime request commission_id operation db =
     and_then (mutation_key request) (\<lambda>key.
     and_then (request_hash sys request) (\<lambda>hash.
     case req_expected_revision request of
       None \<Rightarrow> invalid_request ''operation proposal requires an expected Commission revision''
     | Some expected_revision \<Rightarrow>
         and_then (validate_operation_shape operation) (\<lambda>_.
         idempotent_transaction rd key hash
           (propose_operation_work sys rd credential_runtime request commission_id operation expected_revision) db)))"

section \<open>Approval\<close>

definition inspect_approval_gate :: "Sys \<Rightarrow> Request \<Rightarrow> string \<Rightarrow> string \<Rightarrow> Db \<Rightarrow> json result" where
  "inspect_approval_gate sys request approval_gate_id principal_token_hash db =
     and_then (authenticate_principal sys request principal_token_hash) (\<lambda>_.
     case List.find (\<lambda>g. ag_id g = approval_gate_id) (db_gates db) of
       None \<Rightarrow> Err (TyrionError.NotFound approval_gate_id)
     | Some g \<Rightarrow>
         and_then (sys_project_commission sys db (ag_commission_id g)) (\<lambda>projection.
         case json_as_array (json_index projection ''approval_gates'') of
           None \<Rightarrow> Err (TyrionError.NotFound approval_gate_id)
         | Some gates \<Rightarrow>
             (case List.find (\<lambda>gate. json_as_str (json_index gate ''id'') = Some approval_gate_id) gates of
                None \<Rightarrow> Err (TyrionError.NotFound approval_gate_id)
              | Some gate \<Rightarrow> Ok (JObject [(''approval_gate'', gate)]))))"

definition authorize_gate :: "string \<Rightarrow> int \<Rightarrow> Db \<Rightarrow> Db" where
  "authorize_gate approval_gate_id now db =
     db\<lparr>db_gates :=
          update_where (\<lambda>g. ag_id g = approval_gate_id \<and> ag_status g = ''open'')
            (\<lambda>g. g\<lparr>ag_status := ''authorized'', ag_authorized_at := Some now\<rparr>) (db_gates db)\<rparr>"

definition authorize_operation :: "string \<Rightarrow> int \<Rightarrow> Db \<Rightarrow> Db" where
  "authorize_operation approval_gate_id now db =
     db\<lparr>db_operations :=
          update_where (\<lambda>r. map_option ag_operation_request_id (List.find (\<lambda>g. ag_id g = approval_gate_id) (db_gates db))
                = Some (or_id r) \<and> or_status r = ''approval_required'')
            (\<lambda>r. r\<lparr>or_status := ''authorized'', or_authorized_at := Some now\<rparr>) (db_operations db)\<rparr>"

definition authorize_exposure ::
  "Readings \<Rightarrow> string \<Rightarrow> OperationRequest \<Rightarrow> string \<Rightarrow> string \<Rightarrow> int \<Rightarrow> int \<Rightarrow> unit tx" where
  "authorize_exposure rd commission_id operation operation_id digest expected_revision now =
     (case op_credential operation of
        Some credential \<Rightarrow>
          if cu_mode credential = OneShotExposure
          then
            tx_bind (new_uuid rd) (\<lambda>exposure_grant_id.
            tx_bind (tx_execute (insert_exposure
                \<lparr>eg_id = exposure_grant_id, eg_credential_grant_id = cu_grant_id credential,
                 eg_operation_request_id = operation_id, eg_operation_digest = digest, eg_status = ''authorized'',
                 eg_authorized_at = now, eg_consumed_at = None, eg_revoked_at = None\<rparr>)) (\<lambda>_.
            record_event_with_payload rd commission_id EventKind.CredentialExposureAuthorized expected_revision
              (JObject
                [(''credential_exposure_grant_id'', JString exposure_grant_id),
                 (''credential_grant_id'', JString (cu_grant_id credential)),
                 (''credential_reference'', JString ''redacted''),
                 (''operation_digest'', JString digest), (''operation_request_id'', JString operation_id),
                 (''single_use'', JBool True)])))
          else tx_return ()
      | None \<Rightarrow> tx_return ())"

definition without_target_revision :: "json \<Rightarrow> json result" where
  "without_target_revision canonical =
     (case canonical of
        JObject entries \<Rightarrow> Ok (JObject (filter (\<lambda>(k, _). k \<noteq> ''target_revision'') entries))
      | _ \<Rightarrow> invalid_request ''stored canonical operation is not an object'')"

definition gate_and_operation :: "string \<Rightarrow> string \<Rightarrow> Db \<Rightarrow> (GateRow \<times> OperationRow) result" where
  "gate_and_operation approval_gate_id commission_id db =
     (case [(g, r). g \<leftarrow> db_gates db, ag_id g = approval_gate_id \<and> ag_commission_id g = commission_id,
                    r \<leftarrow> db_operations db, or_id r = ag_operation_request_id g] of
        [] \<Rightarrow> Err (TyrionError.NotFound approval_gate_id)
      | p # _ \<Rightarrow> Ok p)"

definition approve_operation_work ::
  "Sys \<Rightarrow> Readings \<Rightarrow> string \<Rightarrow> string \<Rightarrow> string \<Rightarrow> int \<Rightarrow> json tx" where
  "approve_operation_work sys rd commission_id approval_gate_id expected_operation_digest expected_revision =
     tx_bind (tx_query (gate_and_operation approval_gate_id commission_id)) (\<lambda>(g, r).
     if ag_status g \<noteq> ApprovalGateStatus_as_str ApprovalGateStatus.Open
        \<or> or_status r \<noteq> OperationStatus_as_str OperationStatus.ApprovalRequired
     then tx_lift (control_denied ''Approval Gate is no longer open'')
     else if ag_operation_digest g \<noteq> expected_operation_digest
     then tx_lift (control_denied ''confirmation does not match the presented canonical operation'')
     else
     tx_bind (tx_lift (and_then (without_target_revision (or_canonical r)) (sys_operation_from_value sys))) (\<lambda>operation.
     tx_bind (ensure_current_operation_context rd commission_id operation expected_revision) (\<lambda>_.
     tx_bind (check_credential_grant rd commission_id operation) (\<lambda>_.
     tx_bind (tx_query (\<lambda>db. Ok (load_authority commission_id db))) (\<lambda>authority.
     if fst (classify_operation operation authority) \<noteq> OperationClassification.ApprovalGate
     then tx_lift (control_denied ''the operation is no longer permitted by current authority'')
     else
     tx_bind (unix_timestamp rd) (\<lambda>now.
     tx_bind (tx_update (authorize_gate approval_gate_id now)) (\<lambda>_.
     tx_bind (authorize_exposure rd commission_id operation (or_id r) (ag_operation_digest g) expected_revision now) (\<lambda>_.
     tx_bind (tx_update (authorize_operation approval_gate_id now)) (\<lambda>_.
     tx_bind (record_event_with_payload rd commission_id EventKind.ApprovalGateAuthorized expected_revision
         (JObject
           [(''approval_gate_id'', JString approval_gate_id),
            (''operation_digest'', JString (ag_operation_digest g)),
            (''principal_confirmation'', JString ''independent_control_credential'')])) (\<lambda>_.
     project_commission sys commission_id))))))))))"

definition approve_operation ::
  "Sys \<Rightarrow> Readings \<Rightarrow> string \<Rightarrow> Request \<Rightarrow> string \<Rightarrow> string \<Rightarrow> string \<Rightarrow> Db \<Rightarrow> (json \<times> Db) result" where
  "approve_operation sys rd principal_token_hash request commission_id approval_gate_id expected_operation_digest db =
     and_then (authenticate_principal sys request principal_token_hash) (\<lambda>_.
     and_then (mutation_key request) (\<lambda>key.
     and_then (request_hash sys request) (\<lambda>hash.
     case req_expected_revision request of
       None \<Rightarrow> invalid_request ''Approval Gate confirmation requires an expected Commission revision''
     | Some expected_revision \<Rightarrow>
         idempotent_transaction rd key hash
           (approve_operation_work sys rd commission_id approval_gate_id expected_operation_digest expected_revision) db)))"

end
