(* ===== verification/Store_Cancellation.thy ===== *)
theory Store_Cancellation
  imports Store_Operations
begin

text \<open>
  Cancelling a Commission (\<^verbatim>\<open>cancel_commission\<close> of \<^verbatim>\<open>src/src/store.rs\<close>): every Assignment, Attempt, lease,
  reservation, gate, operation and grant of the Commission is closed in one transaction. Stopping the
  Worker processes (\<^verbatim>\<open>runtime.cancel_attempt\<close>) has no effect on the database and its result is ignored;
  taking the integration lock may fail and enters as an argument. One definition per SQL statement.
\<close>

section \<open>What belongs to a Commission\<close>

definition owned_assignment :: "string \<Rightarrow> Db \<Rightarrow> string \<Rightarrow> bool" where
  "owned_assignment commission_id db assignment_id =
     list_ex (\<lambda>a. asg_id a = assignment_id \<and> asg_commission_id a = commission_id) (db_assignments db)"

definition owned_attempt :: "string \<Rightarrow> Db \<Rightarrow> string \<Rightarrow> bool" where
  "owned_attempt commission_id db attempt_id =
     list_ex (\<lambda>t. atm_id t = attempt_id \<and> owned_assignment commission_id db (atm_assignment_id t)) (db_attempts db)"

definition owned_grant :: "string \<Rightarrow> Db \<Rightarrow> string \<Rightarrow> bool" where
  "owned_grant commission_id db grant_id =
     list_ex (\<lambda>g. gr_id g = grant_id \<and> gr_commission_id g = commission_id) (db_grants db)"

definition running_attempts :: "string \<Rightarrow> Db \<Rightarrow> (string \<times> string) list" where
  "running_attempts commission_id db =
     [(atm_id t, atm_assignment_id t).
        t \<leftarrow> db_attempts db, atm_status t = ''running'',
        a \<leftarrow> db_assignments db, asg_id a = atm_assignment_id t \<and> asg_commission_id a = commission_id]"

definition operations_with :: "string \<Rightarrow> string set \<Rightarrow> Db \<Rightarrow> OperationRow list" where
  "operations_with commission_id statuses db =
     sort_key or_proposed_at (sort_key or_id
       (filter (\<lambda>r. or_commission_id r = commission_id \<and> or_status r \<in> statuses) (db_operations db)))"

definition in_flight_operations :: "string \<Rightarrow> Db \<Rightarrow> (string \<times> (string \<times> string) option) list" where
  "in_flight_operations commission_id db =
     map (\<lambda>r. (or_id r, map_option snd (List.find (\<lambda>(i, _). i = or_id r) (db_execution_identities db))))
       (operations_with commission_id {''started''} db)"

definition irreversible_effects :: "string \<Rightarrow> Db \<Rightarrow> json list result" where
  "irreversible_effects commission_id db =
     (let confirmed = operations_with commission_id {''confirmed''} db
      in if list_ex (\<lambda>r. or_receipt r = None) confirmed then database ''Invalid column type Null''
         else Ok (map (\<lambda>r. JObject
                [(''operation_digest'', JString (or_digest r)), (''operation_request_id'', JString (or_id r)),
                 (''receipt'', the (or_receipt r))]) confirmed))"

section \<open>The statements\<close>

definition cancel_commission_row :: "string \<Rightarrow> int \<Rightarrow> Db \<Rightarrow> Db" where
  "cancel_commission_row commission_id now db =
     db\<lparr>db_commissions :=
          update_where (\<lambda>c. cm_id c = commission_id)
            (\<lambda>c. c\<lparr>cm_status := CommissionStatus_as_str CommissionStatus.Cancelled, cm_completed_at := Some now\<rparr>)
            (db_commissions db)\<rparr>"

definition cancel_assignments :: "string \<Rightarrow> Db \<Rightarrow> Db" where
  "cancel_assignments commission_id db =
     db\<lparr>db_assignments :=
          update_where (\<lambda>a. asg_commission_id a = commission_id \<and> asg_status a \<notin> {''accepted'', ''superseded''})
            (\<lambda>a. a\<lparr>asg_status := AssignmentStatus_as_str AssignmentStatus.Cancelled\<rparr>) (db_assignments db)\<rparr>"

definition cancel_attempts :: "string \<Rightarrow> int \<Rightarrow> int \<Rightarrow> Db \<Rightarrow> Db" where
  "cancel_attempts commission_id now now_ms db =
     db\<lparr>db_attempts :=
          update_where (\<lambda>t. owned_assignment commission_id db (atm_assignment_id t) \<and> atm_status t = ''running'')
            (\<lambda>t. t\<lparr>atm_status := AttemptStatus_as_str AttemptStatus.Cancelled, atm_completed_at := Some now,
                    atm_completed_at_ms := Some now_ms,
                    atm_execution_completed_at_ms :=
                      (case atm_execution_completed_at_ms t of None \<Rightarrow> Some now_ms | Some ms \<Rightarrow> Some ms),
                    atm_revision_disposition := ''retained''\<rparr>) (db_attempts db)\<rparr>"

text \<open>\<^verbatim>\<open>ORDER BY created_at DESC, rowid DESC LIMIT 1\<close>: the last inserted of the newest.\<close>

definition latest_result :: "string \<Rightarrow> Db \<Rightarrow> string option" where
  "latest_result attempt_id db =
     (case sort_key rs_created_at (filter (\<lambda>r. rs_attempt_id r = attempt_id) (db_results db)) of
        [] \<Rightarrow> None | rows \<Rightarrow> Some (rs_id (last rows)))"

definition reject_claim_uses :: "string \<Rightarrow> int \<Rightarrow> Db \<Rightarrow> Db" where
  "reject_claim_uses commission_id now db =
     db\<lparr>db_claim_uses :=
          update_where (\<lambda>u. owned_attempt commission_id db (apc_attempt_id u) \<and> apc_outcome u = None)
            (\<lambda>u. u\<lparr>apc_result_id := latest_result (apc_attempt_id u) db, apc_outcome := Some ''rejected'',
                    apc_recorded_at := Some now\<rparr>) (db_claim_uses db)\<rparr>"

definition cancel_workers :: "string \<Rightarrow> int \<Rightarrow> Db \<Rightarrow> Db" where
  "cancel_workers commission_id now_ms db =
     db\<lparr>db_workers :=
          update_where (\<lambda>w. wk_commission_id w = commission_id \<and> wk_status w = ''running'')
            (\<lambda>w. w\<lparr>wk_status := AttemptStatus_as_str AttemptStatus.Cancelled,
                    wk_latest_activity := ''Commission cancelled by the Principal'', wk_activity_at_ms := now_ms\<rparr>)
            (db_workers db)\<rparr>"

definition fail_worker_commands :: "string \<Rightarrow> Db \<Rightarrow> Db" where
  "fail_worker_commands commission_id db =
     db\<lparr>db_worker_commands :=
          update_where (\<lambda>w. wcm_commission_id w = commission_id \<and> wcm_status w = ''pending'')
            (\<lambda>w. w\<lparr>wcm_status := ''failed''\<rparr>) (db_worker_commands db)\<rparr>"

definition revoke_leases :: "string \<Rightarrow> int \<Rightarrow> Db \<Rightarrow> Db" where
  "revoke_leases commission_id now db =
     db\<lparr>db_leases :=
          update_where (\<lambda>l. owned_attempt commission_id db (wl_attempt_id l) \<and> wl_status l = ''active'')
            (\<lambda>l. l\<lparr>wl_status := ''revoked'', wl_released_at := Some now\<rparr>) (db_leases db)\<rparr>"

definition revoke_reservations :: "string \<Rightarrow> int \<Rightarrow> Db \<Rightarrow> Db" where
  "revoke_reservations commission_id now_ms db =
     db\<lparr>db_reservations :=
          update_where (\<lambda>r. rsv_commission_id r = commission_id \<and> rsv_status r = ''active'')
            (\<lambda>r. r\<lparr>rsv_status := ''revoked'', rsv_released_at := Some now_ms\<rparr>) (db_reservations db)\<rparr>"

definition close_gates :: "string \<Rightarrow> ApprovalGateStatus \<Rightarrow> int \<Rightarrow> Db \<Rightarrow> Db" where
  "close_gates commission_id status now db =
     db\<lparr>db_gates :=
          update_where (\<lambda>g. ag_commission_id g = commission_id \<and> ag_status g \<in> {''open'', ''authorized''})
            (\<lambda>g. g\<lparr>ag_status := ApprovalGateStatus_as_str status, ag_invalidated_at := Some now\<rparr>) (db_gates db)\<rparr>"

definition revoke_operations :: "string \<Rightarrow> int \<Rightarrow> Db \<Rightarrow> Db" where
  "revoke_operations commission_id now db =
     db\<lparr>db_operations :=
          update_where (\<lambda>r. or_commission_id r = commission_id \<and> or_status r \<in> {''approval_required'', ''authorized''})
            (\<lambda>r. r\<lparr>or_status := OperationStatus_as_str OperationStatus.Revoked, or_completed_at := Some now\<rparr>)
            (db_operations db)\<rparr>"

definition revoke_grants :: "string \<Rightarrow> int \<Rightarrow> Db \<Rightarrow> Db" where
  "revoke_grants commission_id now db =
     db\<lparr>db_grants :=
          update_where (\<lambda>g. gr_commission_id g = commission_id \<and> gr_status g = ''active'')
            (\<lambda>g. g\<lparr>gr_status := ''revoked'', gr_revoked_at := Some now\<rparr>) (db_grants db)\<rparr>"

definition revoke_exposures :: "string \<Rightarrow> int \<Rightarrow> Db \<Rightarrow> Db" where
  "revoke_exposures commission_id now db =
     db\<lparr>db_exposures :=
          update_where (\<lambda>e. owned_grant commission_id db (eg_credential_grant_id e) \<and> eg_status e = ''authorized'')
            (\<lambda>e. e\<lparr>eg_status := ''revoked'', eg_revoked_at := Some now\<rparr>) (db_exposures db)\<rparr>"

definition uncertain_receipt :: json where
  "uncertain_receipt = JObject
     [(''requirement'', JString ''Reconcile the exact effect before any linked Commission retries it.''),
      (''rollback_claimed'', JBool False), (''status'', JString ''uncertain'')]"

definition strand_operations :: "string \<Rightarrow> int \<Rightarrow> Db \<Rightarrow> Db" where
  "strand_operations commission_id now db =
     db\<lparr>db_operations :=
          update_where (\<lambda>r. or_commission_id r = commission_id \<and> or_status r = ''started'')
            (\<lambda>r. r\<lparr>or_status := ''uncertain'', or_completed_at := Some now, or_receipt := Some uncertain_receipt\<rparr>)
            (db_operations db)\<rparr>"

definition retain_results :: "string \<Rightarrow> Db \<Rightarrow> Db" where
  "retain_results commission_id db =
     db\<lparr>db_results :=
          update_where (\<lambda>r. owned_attempt commission_id db (rs_attempt_id r) \<and> rs_status r \<noteq> ''accepted'')
            (\<lambda>r. r\<lparr>rs_revision_disposition := ''retained''\<rparr>) (db_results db)\<rparr>"

section \<open>Retention of temporary material\<close>

definition refresh_temporary_material_retention_links :: "string option \<Rightarrow> Db \<Rightarrow> Db" where
  "refresh_temporary_material_retention_links commission_id db =
     db\<lparr>db_materials :=
          update_where (\<lambda>m. (case commission_id of None \<Rightarrow> True | Some c \<Rightarrow> tm_commission_id m = c) \<and> tm_expired_at m = None)
            (\<lambda>m. m\<lparr>tm_retained_by_evidence :=
                      (tm_kind m = ''unaccepted_artifact''
                       \<and> (case tm_result_id m of None \<Rightarrow> False | Some r \<Rightarrow> r \<in> set (db_evidence_results db))),
                    tm_retained_by_claim :=
                      list_ex (\<lambda>(observation, c). c = tm_commission_id m \<and> observation \<in> set (db_claim_observations db))
                        (db_learning_observations db),
                    tm_retained_for_uncertain_effect := uncertain_effects (tm_commission_id m) db\<rparr>)
            (db_materials db)\<rparr>"

definition drop_accepted_artifacts :: "string \<Rightarrow> Db \<Rightarrow> Db" where
  "drop_accepted_artifacts commission_id db =
     db\<lparr>db_materials :=
          filter (\<lambda>m. \<not> (tm_commission_id m = commission_id \<and> tm_kind m = ''unaccepted_artifact''
             \<and> (case tm_result_id m of None \<Rightarrow> False
                | Some i \<Rightarrow> list_ex (\<lambda>r. rs_id r = i \<and> rs_status r = ''accepted'') (db_results db)))) (db_materials db)\<rparr>"

definition expire_materials :: "string \<Rightarrow> int \<Rightarrow> Db \<Rightarrow> Db" where
  "expire_materials commission_id expires_at db =
     db\<lparr>db_materials :=
          update_where (\<lambda>m. tm_commission_id m = commission_id \<and> tm_expired_at m = None)
            (\<lambda>m. m\<lparr>tm_expires_at := Some expires_at\<rparr>) (db_materials db)\<rparr>"

definition finalize_temporary_material_retention :: "string \<Rightarrow> int \<Rightarrow> unit tx" where
  "finalize_temporary_material_retention commission_id completed_at =
     tx_bind (tx_update (drop_accepted_artifacts commission_id)) (\<lambda>_.
     tx_bind (tx_update (refresh_temporary_material_retention_links (Some commission_id))) (\<lambda>_.
     tx_update (expire_materials commission_id (i64_saturating_add completed_at (30 * 24 * 60 * 60)))))"

section \<open>Recovery records\<close>

record AttemptRecovery =
  rec_commission_id :: string
  rec_assignment_id :: string
  rec_attempt_id :: string
  rec_cause :: string
  rec_classification :: string
  rec_equivalence_key :: string
  rec_action :: string
  rec_requirement :: string

definition record_attempt_recovery :: "Readings \<Rightarrow> AttemptRecovery \<Rightarrow> unit tx" where
  "record_attempt_recovery rd recovery =
     tx_bind (new_uuid rd) (\<lambda>id.
     tx_bind (unix_timestamp rd) (\<lambda>now.
     tx_bind (tx_execute (insert_recovery_or_ignore
         \<lparr>rcv_id = id, rcv_commission_id = rec_commission_id recovery, rcv_assignment_id = rec_assignment_id recovery,
          rcv_attempt_id = rec_attempt_id recovery, rcv_cause = rec_cause recovery,
          rcv_classification = rec_classification recovery, rcv_equivalence_key = rec_equivalence_key recovery,
          rcv_action = rec_action recovery, rcv_requirement = rec_requirement recovery, rcv_created_at = now\<rparr>)) (\<lambda>_.
     tx_bind (tx_query (\<lambda>db. query_row (\<lambda>c. cm_id c = rec_commission_id recovery) (db_commissions db))) (\<lambda>c.
     record_event_with_payload rd (rec_commission_id recovery) EventKind.RecoveryDecided (cm_revision c)
       (JObject
         [(''action'', JString (rec_action recovery)), (''assignment_id'', JString (rec_assignment_id recovery)),
          (''attempt_id'', JString (rec_attempt_id recovery)), (''cause'', JString (rec_cause recovery)),
          (''classification'', JString (rec_classification recovery)),
          (''equivalence_key'', JString (rec_equivalence_key recovery)),
          (''requirement'', JString (rec_requirement recovery))])))))"

definition cancellation_recovery :: "string \<Rightarrow> string \<times> string \<Rightarrow> AttemptRecovery" where
  "cancellation_recovery commission_id =
     (\<lambda>(attempt_id, assignment_id).
      \<lparr>rec_commission_id = commission_id, rec_assignment_id = assignment_id, rec_attempt_id = attempt_id,
       rec_cause = ''principal_cancellation'', rec_classification = ''cancelled'',
       rec_equivalence_key = ''principal_cancellation'', rec_action = ''cancel'',
       rec_requirement = ''Create a linked Commission to continue cancelled work.''\<rparr>)"

section \<open>The handler\<close>

definition close_commission :: "string \<Rightarrow> int \<Rightarrow> int \<Rightarrow> unit tx" where
  "close_commission commission_id now now_ms =
     tx_for tx_update
       [cancel_commission_row commission_id now, cancel_assignments commission_id,
        cancel_attempts commission_id now now_ms, reject_claim_uses commission_id now,
        cancel_workers commission_id now_ms, fail_worker_commands commission_id,
        revoke_leases commission_id now, revoke_reservations commission_id now_ms,
        close_gates commission_id ApprovalGateStatus.Revoked now, revoke_operations commission_id now,
        revoke_grants commission_id now, revoke_exposures commission_id now,
        strand_operations commission_id now, retain_results commission_id]"

definition cancel_commission_work :: "Sys \<Rightarrow> Readings \<Rightarrow> Request \<Rightarrow> string \<Rightarrow> int \<Rightarrow> json tx" where
  "cancel_commission_work sys rd request commission_id expected_revision =
     tx_bind (tx_query (authenticated_attachment_id sys request)) (\<lambda>attachment_id.
     tx_bind (tx_query (ensure_active_attachment attachment_id commission_id COMMISSION_ACCEPTANCE)) (\<lambda>_.
     tx_bind (tx_query (find_commission commission_id)) (\<lambda>c.
     if cm_revision c \<noteq> expected_revision
     then tx_lift (Err (TyrionError.StaleRevision expected_revision (cm_revision c)))
     else if cm_status c \<noteq> CommissionStatus_as_str CommissionStatus.Active
             \<and> cm_status c \<noteq> CommissionStatus_as_str CommissionStatus.Paused
     then tx_lift (invalid_request (''Commission '' @ commission_id @ '' is '' @ cm_status c
            @ ''; only active or paused work can be cancelled''))
     else
     tx_bind (tx_query (\<lambda>db. Ok (running_attempts commission_id db))) (\<lambda>running.
     tx_bind (unix_timestamp rd) (\<lambda>now.
     tx_bind (unix_timestamp_millis rd) (\<lambda>now_ms.
     tx_bind (tx_query (\<lambda>db. Ok (map or_id (operations_with commission_id {''approval_required'', ''authorized''} db))))
       (\<lambda>revoked.
     tx_bind (tx_query (\<lambda>db. Ok (in_flight_operations commission_id db))) (\<lambda>in_flight.
     tx_bind (tx_query (irreversible_effects commission_id)) (\<lambda>irreversible.
     tx_bind (close_commission commission_id now now_ms) (\<lambda>_.
     tx_bind (finalize_temporary_material_retention commission_id now) (\<lambda>_.
     tx_bind (tx_for (\<lambda>p. record_attempt_recovery rd (cancellation_recovery commission_id p)) running) (\<lambda>_.
     tx_bind (record_event_with_payload rd commission_id EventKind.CommissionCancelled (cm_revision c)
         (JObject
           [(''affected_in_flight_operation_ids'', JArray (map (\<lambda>o'. JString (fst o')) in_flight)),
            (''attachment_id'', JString attachment_id), (''authority_grants_revoked'', JBool True),
            (''irreversible_effects'', JArray irreversible),
            (''revoked_attempt_ids'', JArray (map (\<lambda>p. JString (fst p)) running)),
            (''revoked_operation_request_ids'', JArray (map JString revoked)),
            (''rollback_claimed'', JBool False)])) (\<lambda>_.
     tx_bind (project_commission sys commission_id) (\<lambda>result.
     tx_bind (tx_for (\<lambda>(_, identity). case identity of
                        Some (key, hash) \<Rightarrow> save_idempotent_result rd key hash result
                      | None \<Rightarrow> tx_return ()) in_flight) (\<lambda>_.
     tx_return result)))))))))))))))"

definition cancel_commission ::
  "Sys \<Rightarrow> Readings \<Rightarrow> unit result \<Rightarrow> Request \<Rightarrow> string \<Rightarrow> Db \<Rightarrow> (json \<times> Db) result" where
  "cancel_commission sys rd integration_lock request commission_id db =
     and_then (mutation_key request) (\<lambda>key.
     and_then (request_hash sys request) (\<lambda>hash.
     case req_expected_revision request of
       None \<Rightarrow> invalid_request ''Commission cancellation requires an expected Commission revision''
     | Some expected_revision \<Rightarrow>
         and_then integration_lock (\<lambda>_.
         idempotent_transaction rd key hash
           (cancel_commission_work sys rd request commission_id expected_revision) db)))"

end
