(* ===== verification/Store_Plans.thy ===== *)
theory Store_Plans
  imports Store_Proposals Store_Attachments Planning
begin

text \<open>
  Accepting a Commission (\<^verbatim>\<open>accept_commission\<close> of \<^verbatim>\<open>src/src/store.rs\<close>): the mandate becomes active, the plan
  is written to the plan tables, the Assignments without dependencies become ready and are routed to a
  Worker Configuration. The constraints are those of \<^verbatim>\<open>src/src/store/schema.rs\<close>; SQLite checks the
  foreign keys at the end of every statement.
\<close>

section \<open>The plan tables\<close>

definition on_plan :: "(PlanTables \<Rightarrow> PlanTables) \<Rightarrow> Db \<Rightarrow> Db" where
  "on_plan f db = db\<lparr>db_plan := f (db_plan db)\<rparr>"

definition has_planned :: "Db \<Rightarrow> string \<Rightarrow> string \<Rightarrow> bool" where
  "has_planned db c logical_id =
     list_ex (\<lambda>r. pn_commission_id r = c \<and> pc_logical_id (pn_columns r) = logical_id) (pt_planned (db_plan db))"

definition has_assignment :: "Db \<Rightarrow> string \<Rightarrow> bool" where
  "has_assignment db assignment_id = list_ex (\<lambda>r. asg_id r = assignment_id) (db_assignments db)"

definition insert_plan :: "PlanRow \<Rightarrow> Db \<Rightarrow> Db result" where
  "insert_plan r db =
     (if plr_source r \<notin> {''entry_model'', ''control_plane''} then database ''CHECK constraint failed: commission_plans''
      else if list_ex (\<lambda>q. plr_commission_id q = plr_commission_id r \<and> plr_revision q = plr_revision r) (pt_plans (db_plan db))
      then database ''UNIQUE constraint failed: commission_plans.commission_id, commission_plans.revision''
      else if \<not> has_commission db (plr_commission_id r) then foreign_key_failed
      else Ok (on_plan (\<lambda>t. t\<lparr>pt_plans := pt_plans t @ [r]\<rparr>) db))"

definition insert_planned :: "PlannedRow \<Rightarrow> Db \<Rightarrow> Db result" where
  "insert_planned r db =
     (let resources = pc_resources (pn_columns r)
      in if \<not> (storable_u64 (ar_max_storage_bytes resources) \<and> storable_u64 (ar_max_model_spend_cents resources)
               \<and> storable_u64 (ar_max_paid_service_spend_cents resources))
      then database conversion_failed
      else if pc_purpose (pn_columns r) \<notin> set purpose_check then database ''CHECK constraint failed: planned_assignments''
      else if has_planned db (pn_commission_id r) (pc_logical_id (pn_columns r))
      then database ''UNIQUE constraint failed: planned_assignments.commission_id, planned_assignments.logical_id''
      else if \<not> has_commission db (pn_commission_id r) then foreign_key_failed
      else Ok (on_plan (\<lambda>t. t\<lparr>pt_planned := pt_planned t @ [r]\<rparr>) db))"

definition same_planned_link :: "PlannedLinkRow \<Rightarrow> PlannedLinkRow \<Rightarrow> bool" where
  "same_planned_link r q \<longleftrightarrow>
     pk_commission_id q = pk_commission_id r \<and> pk_assignment q = pk_assignment r \<and> pk_target q = pk_target r"

definition insert_planned_dependency :: "PlannedLinkRow \<Rightarrow> Db \<Rightarrow> Db result" where
  "insert_planned_dependency r db =
     (if list_ex (same_planned_link r) (pt_dependencies (db_plan db))
      then database ''UNIQUE constraint failed: planned_assignment_dependencies''
      else if \<not> has_commission db (pk_commission_id r) \<or> \<not> has_planned db (pk_commission_id r) (pk_assignment r)
         \<or> \<not> has_planned db (pk_commission_id r) (pk_target r)
      then foreign_key_failed
      else Ok (on_plan (\<lambda>t. t\<lparr>pt_dependencies := pt_dependencies t @ [r]\<rparr>) db))"

definition insert_planned_criterion :: "PlannedLinkRow \<Rightarrow> Db \<Rightarrow> Db result" where
  "insert_planned_criterion r db =
     (if list_ex (same_planned_link r) (pt_criteria (db_plan db))
      then database ''UNIQUE constraint failed: planned_assignment_criteria''
      else if \<not> has_commission db (pk_commission_id r) \<or> \<not> has_planned db (pk_commission_id r) (pk_assignment r)
         \<or> \<not> list_ex (\<lambda>(q, _). cr_commission_id q = pk_commission_id r \<and> cr_criterion_id q = pk_target r) (db_criteria db)
      then foreign_key_failed
      else Ok (on_plan (\<lambda>t. t\<lparr>pt_criteria := pt_criteria t @ [r]\<rparr>) db))"

definition insert_assignment :: "AssignmentRow \<Rightarrow> Db \<Rightarrow> Db result" where
  "insert_assignment r db =
     (if asg_status r \<notin> set assignment_status_check then database ''CHECK constraint failed: assignments''
      else if has_assignment db (asg_id r) then database ''UNIQUE constraint failed: assignments.id''
      else if \<not> has_commission db (asg_commission_id r) then foreign_key_failed
      else Ok (db\<lparr>db_assignments := db_assignments db @ [r]\<rparr>))"

definition insert_metadata :: "MetadataRow \<Rightarrow> Db \<Rightarrow> Db result" where
  "insert_metadata r db =
     (if list_ex (\<lambda>q. md_assignment_id q = md_assignment_id r) (pt_metadata (db_plan db))
      then database ''UNIQUE constraint failed: assignment_metadata.assignment_id''
      else if \<not> list_ex (\<lambda>a. asg_id a = md_assignment_id r \<and> asg_commission_id a = md_commission_id r) (db_assignments db)
         \<or> \<not> has_planned db (md_commission_id r) (pc_logical_id (md_columns r))
      then foreign_key_failed
      else Ok (on_plan (\<lambda>t. t\<lparr>pt_metadata := pt_metadata t @ [r]\<rparr>) db))"

definition insert_skill_default :: "SkillDefaultRow \<Rightarrow> Db \<Rightarrow> Db result" where
  "insert_skill_default r db =
     (if sd_requirement r \<notin> {''required'', ''selected''} \<or> sd_provenance r \<notin> {''principal'', ''plan'', ''worker''}
      then database ''CHECK constraint failed: assignment_skill_defaults''
      else if list_ex (\<lambda>q. sd_assignment_id q = sd_assignment_id r \<and> sd_skill_name q = sd_skill_name r)
                (pt_skill_defaults (db_plan db))
      then database ''UNIQUE constraint failed: assignment_skill_defaults.assignment_id, assignment_skill_defaults.skill_name''
      else if \<not> has_assignment db (sd_assignment_id r) then foreign_key_failed
      else Ok (on_plan (\<lambda>t. t\<lparr>pt_skill_defaults := pt_skill_defaults t @ [r]\<rparr>) db))"

definition replace_route :: "RouteRow \<Rightarrow> Db \<Rightarrow> Db result" where
  "replace_route r db =
     (if ro_status r \<notin> {''selected'', ''attention_required''} then database ''CHECK constraint failed: assignment_routes''
      else if \<not> has_assignment db (ro_assignment_id r) then foreign_key_failed
      else Ok (on_plan (\<lambda>t. t\<lparr>pt_routes :=
             filter (\<lambda>q. ro_assignment_id q \<noteq> ro_assignment_id r) (pt_routes t) @ [r]\<rparr>) db))"

definition insert_attention :: "AttentionRow \<Rightarrow> Db \<Rightarrow> Db result" where
  "insert_attention r db =
     (if att_status r \<notin> {''open'', ''resolved''} then database ''CHECK constraint failed: attention_conditions''
      else if list_ex (\<lambda>q. att_id q = att_id r) (pt_attention (db_plan db))
      then database ''UNIQUE constraint failed: attention_conditions.id''
      else if \<not> has_commission db (att_commission_id r) \<or> \<not> has_assignment db (att_assignment_id r)
      then foreign_key_failed
      else Ok (on_plan (\<lambda>t. t\<lparr>pt_attention := pt_attention t @ [r]\<rparr>) db))"

definition insert_verification_gate :: "VerificationGateRow \<Rightarrow> Db \<Rightarrow> Db result" where
  "insert_verification_gate r db =
     (if vg_status r \<notin> {''open'', ''closed''} then database ''CHECK constraint failed: verification_gates''
      else if list_ex (\<lambda>q. vg_commission_id q = vg_commission_id r \<and> vg_criterion_id q = vg_criterion_id r
                \<and> vg_mandate_revision q = vg_mandate_revision r) (pt_verification_gates (db_plan db))
      then database ''UNIQUE constraint failed: verification_gates''
      else if \<not> has_commission db (vg_commission_id r)
         \<or> \<not> list_ex (\<lambda>(q, _). cr_commission_id q = vg_commission_id r \<and> cr_criterion_id q = vg_criterion_id r)
              (db_criteria db)
      then foreign_key_failed
      else Ok (on_plan (\<lambda>t. t\<lparr>pt_verification_gates := pt_verification_gates t @ [r]\<rparr>) db))"

section \<open>Ready Assignments\<close>

definition insert_assignment_skill_default ::
  "string \<Rightarrow> SkillVersion \<Rightarrow> string \<Rightarrow> string \<Rightarrow> int \<Rightarrow> int \<Rightarrow> unit tx" where
  "insert_assignment_skill_default assignment_id skill requirement provenance plan_revision selected_at =
     tx_execute (insert_skill_default
       \<lparr>sd_assignment_id = assignment_id, sd_skill_name = sv_name skill, sd_content_digest = sv_content_digest skill,
        sd_requirement = requirement, sd_provenance = provenance, sd_plan_revision = plan_revision,
        sd_selected_at = selected_at\<rparr>)"

text \<open>\<^verbatim>\<open>INSERT ... SELECT\<close>: the row of the planned Assignment, of which the primary key allows one.\<close>

definition copy_metadata :: "string \<Rightarrow> string \<Rightarrow> string \<Rightarrow> bool \<Rightarrow> Db \<Rightarrow> Db result" where
  "copy_metadata assignment_id commission_id logical_id legacy db =
     (case List.find (\<lambda>r. pn_commission_id r = commission_id \<and> pc_logical_id (pn_columns r) = logical_id)
             (pt_planned (db_plan db)) of
        None \<Rightarrow> Ok db
      | Some p \<Rightarrow> insert_metadata \<lparr>md_assignment_id = assignment_id, md_commission_id = commission_id,
                    md_columns = pn_columns p, md_legacy = legacy\<rparr> db)"

definition insert_ready_assignment ::
  "Readings \<Rightarrow> string \<Rightarrow> string \<Rightarrow> int \<Rightarrow> int \<Rightarrow> bool \<Rightarrow> int \<Rightarrow> string tx" where
  "insert_ready_assignment rd commission_id logical_id plan_revision mandate_revision legacy created_at =
     tx_bind (new_uuid rd) (\<lambda>assignment_id.
     tx_bind (tx_execute (insert_assignment
         \<lparr>asg_id = assignment_id, asg_commission_id = commission_id, asg_plan_revision = plan_revision,
          asg_status = AssignmentStatus_as_str AssignmentStatus.Ready, asg_created_at = created_at\<rparr>)) (\<lambda>_.
     tx_bind (tx_execute (copy_metadata assignment_id commission_id logical_id legacy)) (\<lambda>_.
     tx_bind (tx_query (\<lambda>db. query_row
         (\<lambda>r. pn_commission_id r = commission_id \<and> pc_logical_id (pn_columns r) = logical_id)
         (pt_planned (db_plan db)))) (\<lambda>planned.
     tx_bind (tx_query (\<lambda>db. query_row (\<lambda>r. cm_id r = commission_id) (db_commissions db))) (\<lambda>commission.
     tx_bind (tx_for (\<lambda>skill.
         insert_assignment_skill_default assignment_id skill ''required''
           (if list_ex ((=) skill) (wr_skills (cm_worker_requirements commission)) then ''principal'' else ''plan'')
           plan_revision created_at) (wr_skills (pn_worker_requirements planned))) (\<lambda>_.
     tx_bind (record_event_with_payload rd commission_id EventKind.AssignmentReady mandate_revision
         (JObject [(''assignment_id'', JString assignment_id),
                   (''logical_id'', JString logical_id),
                   (''plan_revision'', json_of_int plan_revision)])) (\<lambda>_.
     tx_return assignment_id)))))))"

section \<open>Recording a plan\<close>

record PlanRecord =
  pre_revision :: int
  pre_source :: string
  pre_reason :: string
  pre_provenance :: "(string \<times> json) list"
  pre_legacy :: bool

text \<open>\<^verbatim>\<open>payload["plan_revision"] = ...\<close> on an object with ordered keys.\<close>

definition object_insert :: "string \<Rightarrow> json \<Rightarrow> (string \<times> json) list \<Rightarrow> (string \<times> json) list" where
  "object_insert k v entries =
     filter (\<lambda>(k', _). k' < k) entries @ (k, v) # filter (\<lambda>(k', _). k < k') entries"

definition planned_row :: "string \<Rightarrow> int \<Rightarrow> int \<Rightarrow> PlannedAssignment \<Rightarrow> PlannedRow" where
  "planned_row commission_id position plan_revision assignment =
     \<lparr>pn_commission_id = commission_id,
      pn_columns =
        \<lparr>pc_logical_id = pa_id assignment, pc_position = position, pc_goal = pa_goal assignment,
         pc_purpose = AssignmentPurpose_as_str (pa_purpose assignment),
         pc_read_scopes = pa_read_scopes assignment, pc_write_scopes = pa_write_scopes assignment,
         pc_resources = pa_resources assignment, pc_competition = pa_competition assignment\<rparr>,
      pn_worker_requirements = pa_worker_requirements assignment,
      pn_created_plan_revision = plan_revision\<rparr>"

definition first_position :: "string \<Rightarrow> Db \<Rightarrow> int" where
  "first_position commission_id db =
     (case filter (\<lambda>r. pn_commission_id r = commission_id) (pt_planned (db_plan db)) of
        [] \<Rightarrow> 0
      | r # rs \<Rightarrow> foldl max (pc_position (pn_columns r)) (map (\<lambda>r. pc_position (pn_columns r)) rs) + 1)"

definition store_planned_assignment :: "string \<Rightarrow> int \<Rightarrow> int \<Rightarrow> nat \<times> PlannedAssignment \<Rightarrow> unit tx" where
  "store_planned_assignment commission_id first plan_revision =
     (\<lambda>(offset, assignment).
      tx_bind (tx_execute (insert_planned
        (planned_row commission_id (first + int offset) plan_revision assignment))) (\<lambda>_.
      tx_bind (tx_for (\<lambda>(position, dependency). tx_execute (insert_planned_dependency
          \<lparr>pk_commission_id = commission_id, pk_assignment = pa_id assignment, pk_target = dependency,
           pk_position = int position\<rparr>)) (enumerate 0 (pa_dependencies assignment))) (\<lambda>_.
      tx_for (\<lambda>(position, criterion). tx_execute (insert_planned_criterion
          \<lparr>pk_commission_id = commission_id, pk_assignment = pa_id assignment, pk_target = criterion,
           pk_position = int position\<rparr>)) (enumerate 0 (pa_criterion_ids assignment)))))"

definition record_plan_revision ::
  "Readings \<Rightarrow> string \<Rightarrow> int \<Rightarrow> CommissionPlan \<Rightarrow> PlanRecord \<Rightarrow> int \<Rightarrow> unit tx" where
  "record_plan_revision rd commission_id mandate_revision plan rec created_at =
     tx_bind (tx_execute (insert_plan
         \<lparr>plr_commission_id = commission_id, plr_revision = pre_revision rec, plr_source = pre_source rec,
          plr_reason = pre_reason rec, plr_snapshot = plan, plr_created_at = created_at\<rparr>)) (\<lambda>_.
     tx_bind (record_event_with_payload rd commission_id EventKind.PlanRevised mandate_revision
         (JObject (object_insert ''plan_revision'' (json_of_int (pre_revision rec)) (pre_provenance rec)))) (\<lambda>_.
     tx_bind (tx_query (\<lambda>db. Ok (first_position commission_id db))) (\<lambda>first.
     tx_bind (tx_for (store_planned_assignment commission_id first (pre_revision rec))
         (enumerate 0 (plan_assignments plan))) (\<lambda>_.
     tx_for (\<lambda>assignment.
         tx_bind (insert_ready_assignment rd commission_id (pa_id assignment) (pre_revision rec) mandate_revision
           (pre_legacy rec) created_at) (\<lambda>_. tx_return ()))
       (filter (\<lambda>assignment. pa_dependencies assignment = []) (plan_assignments plan))))))"

definition initialize_commission_plan ::
  "Readings \<Rightarrow> string \<Rightarrow> int \<Rightarrow> CommissionPlan \<Rightarrow> bool \<Rightarrow> int \<Rightarrow> unit tx" where
  "initialize_commission_plan rd commission_id mandate_revision plan legacy created_at =
     (let source = (if legacy then ''control_plane'' else ''entry_model'')
      in record_plan_revision rd commission_id mandate_revision plan
           \<lparr>pre_revision = 1, pre_source = source,
            pre_reason = ''initial decomposition exposed the first safe Execution Frontier'',
            pre_provenance = [(''reason'', JString ''initial_decomposition''), (''source'', JString source)],
            pre_legacy = legacy\<rparr> created_at)"

section \<open>The plan of a proposal\<close>

fun merge_assignments :: "WorkerRequirements \<Rightarrow> PlannedAssignment list \<Rightarrow> PlannedAssignment list result" where
  "merge_assignments principal_requirements [] = Ok []"
| "merge_assignments principal_requirements (assignment # rest) =
     and_then (merge_worker_requirements principal_requirements (pa_worker_requirements assignment)) (\<lambda>merged.
     and_then (merge_assignments principal_requirements rest) (\<lambda>merged_rest.
     Ok (assignment\<lparr>pa_worker_requirements := merged\<rparr> # merged_rest)))"

definition load_authorized_paths :: "string \<Rightarrow> Db \<Rightarrow> string list" where
  "load_authorized_paths commission_id db = load_authority_scope commission_id AuthorityScopeType.Path db"

definition load_criteria_rows :: "string \<Rightarrow> Db \<Rightarrow> CriterionRow list" where
  "load_criteria_rows commission_id db =
     sort_key cr_position (filter (\<lambda>r. cr_commission_id r = commission_id) (map fst (db_criteria db)))"

definition legacy_plan :: "CommissionRow \<Rightarrow> ResourceCeilings \<Rightarrow> Db \<Rightarrow> CommissionPlan" where
  "legacy_plan commission ceilings db =
     \<lparr>plan_assignments =
        [\<lparr>pa_id = ''legacy-assignment'', pa_goal = cm_goal commission, pa_dependencies = [],
          pa_criterion_ids = map cr_criterion_id (load_criteria_rows (cm_id commission) db),
          pa_purpose = CriticalPath, pa_read_scopes = [],
          pa_write_scopes = load_authorized_paths (cm_id commission) db,
          pa_resources = \<lparr>ar_concurrency_slots = 1, ar_max_storage_bytes = rc_max_storage_bytes ceilings,
                          ar_max_model_spend_cents = rc_max_model_spend_cents ceilings,
                          ar_max_paid_service_spend_cents = rc_max_paid_service_spend_cents ceilings\<rparr>,
          pa_worker_requirements = cm_worker_requirements commission, pa_competition = None\<rparr>]\<rparr>"

definition proposal_plan_or_legacy :: "CommissionPlan option \<Rightarrow> string \<Rightarrow> Db \<Rightarrow> CommissionPlan result" where
  "proposal_plan_or_legacy plan commission_id db =
     and_then (first_row
         [(commission, ceilings).
            commission \<leftarrow> db_commissions db, cm_id commission = commission_id,
            (c, ceilings) \<leftarrow> db_resource_ceilings db, c = cm_id commission]) (\<lambda>(commission, ceilings).
     case plan of
       Some p \<Rightarrow>
         and_then (merge_assignments (cm_worker_requirements commission) (plan_assignments p)) (\<lambda>assignments.
         Ok (p\<lparr>plan_assignments := assignments\<rparr>))
     | None \<Rightarrow> Ok (legacy_plan commission ceilings db))"

section \<open>The goal of a planning Worker\<close>

fun join_with :: "string \<Rightarrow> string list \<Rightarrow> string" where
  "join_with sep [] = []"
| "join_with sep [x] = x"
| "join_with sep (x # y # xs) = x @ sep @ join_with sep (y # xs)"

fun criterion_check :: "Verifier \<Rightarrow> string" where
  "criterion_check (Verifier.Command argv) = join_with '' '' argv"
| "criterion_check (ExactMatch expected) = ''exact_match: '' @ expected"
| "criterion_check (Prompt prompt) = ''prompt: '' @ prompt"

definition load_planning_goal :: "string \<Rightarrow> string option \<Rightarrow> Db \<Rightarrow> string result" where
  "load_planning_goal commission_id rejection db =
     and_then (query_row (\<lambda>r. cm_id r = commission_id) (db_commissions db)) (\<lambda>commission.
     and_then (load_resource_ceilings commission_id db) (\<lambda>ceilings.
     Ok (planning_goal
       \<lparr>pb_goal = cm_goal commission, pb_constraints = cm_constraints commission,
        pb_criteria = map (\<lambda>r. \<lparr>cb_id = cr_criterion_id r, cb_description = cr_description r,
                                  cb_check = criterion_check (cr_verifier r)\<rparr>) (load_criteria_rows commission_id db),
        pb_authorized_paths = auth_paths (load_authority commission_id db),
        pb_max_worker_concurrency = rc_max_worker_concurrency ceilings,
        pb_rejection = rejection\<rparr>)))"

definition load_principal_requirements :: "string \<Rightarrow> Db \<Rightarrow> WorkerRequirements result" where
  "load_principal_requirements commission_id db =
     and_then (query_row (\<lambda>r. cm_id r = commission_id) (db_commissions db)) (\<lambda>commission.
     Ok (cm_worker_requirements commission))"

end
