(* ===== verification/Store_Acceptance.thy ===== *)
theory Store_Acceptance
  imports Store_Plans
begin

text \<open>
  Routing the ready Assignments of a Commission and the handler \<^verbatim>\<open>accept_commission\<close> itself
  (\<^verbatim>\<open>src/src/store.rs\<close>).
\<close>

section \<open>Routing ready Assignments\<close>

record WorkerRuntime =
  wrt_host :: Host
  wrt_catalog :: WorkerCatalog

fun RouteStatus_as_str :: "RouteStatus \<Rightarrow> string" where
  "RouteStatus_as_str RouteStatus.Selected = ''selected''"
| "RouteStatus_as_str RouteStatus.AttentionRequired = ''attention_required''"

fun required_authority_action :: "ExecutionSpec \<Rightarrow> string" where
  "required_authority_action ExecutionSpec.Deterministic = DETERMINISTIC_ACTION"
| "required_authority_action (CodexGit _ _) = CODEX_GIT_ACTION"

text \<open>The Assignments to route: ready ones and those that wait for attention, in plan order.\<close>

definition assignments_to_route :: "string \<Rightarrow> Db \<Rightarrow> (AssignmentRow \<times> MetadataRow \<times> PlannedRow) list" where
  "assignments_to_route commission_id db =
     sort_key (\<lambda>(_, m, _). pc_position (md_columns m)) (sort_key (\<lambda>(a, _, _). asg_id a)
       [(a, m, p).
          a \<leftarrow> db_assignments db,
          asg_commission_id a = commission_id
            \<and> asg_status a \<in> {AssignmentStatus_as_str AssignmentStatus.Ready,
                               AssignmentStatus_as_str AssignmentStatus.AttentionRequired},
          m \<leftarrow> pt_metadata (db_plan db), md_assignment_id m = asg_id a,
          p \<leftarrow> pt_planned (db_plan db),
          pn_commission_id p = asg_commission_id a \<and> pc_logical_id (pn_columns p) = pc_logical_id (md_columns m)])"

text \<open>Skills a Worker selected earlier for the Assignment join the requirements, unless one of that name is
  already selected.\<close>

definition worker_selected_skills :: "string \<Rightarrow> Db \<Rightarrow> SelectedSkillVersion list" where
  "worker_selected_skills assignment_id db =
     map (\<lambda>r. \<lparr>sel_version = \<lparr>sv_name = sd_skill_name r, sv_content_digest = sd_content_digest r\<rparr>,
                 sel_provenance = SkillSelectionProvenance.Worker\<rparr>)
       (sort_key sd_skill_name
         (filter (\<lambda>r. sd_assignment_id r = assignment_id \<and> sd_provenance r = ''worker'') (pt_skill_defaults (db_plan db))))"

definition add_selected_skills :: "SelectedSkillVersion list \<Rightarrow> WorkerRequirements \<Rightarrow> WorkerRequirements" where
  "add_selected_skills skills requirements =
     foldl (\<lambda>r selected.
         if list_ex (\<lambda>existing. sel_name existing = sel_name selected) (wr_selected_skills r) then r
         else r\<lparr>wr_selected_skills := wr_selected_skills r @ [selected]\<rparr>) requirements skills"

fun required_authority_scope_types :: "ExecutionSpec \<Rightarrow> bool \<Rightarrow> string list" where
  "required_authority_scope_types (CodexGit _ _) _ = [''repository'', ''path'', ''action'']"
| "required_authority_scope_types ExecutionSpec.Deterministic has_artifact_scopes =
     (if has_artifact_scopes then [''path'', ''action''] else [''action''])"

definition unavailable_configuration_ids :: "string \<Rightarrow> Db \<Rightarrow> string set" where
  "unavailable_configuration_ids assignment_id db =
     set (map snd (filter (\<lambda>(a, _). a = assignment_id) (pt_configuration_failures (db_plan db)))
       @ [atm_worker_configuration t.
            t \<leftarrow> db_attempts db, atm_assignment_id t = assignment_id,
            r \<leftarrow> db_recoveries db, rcv_attempt_id r = atm_id t \<and> rcv_action r = ''replan''])"

definition route_request ::
  "ExecutionSpec \<Rightarrow> string \<Rightarrow> Db \<Rightarrow> AssignmentRow \<Rightarrow> MetadataRow \<Rightarrow> PlannedRow \<Rightarrow> RouteRequest" where
  "route_request execution entry_harness db a m p =
     \<lparr>rr_requirements = add_selected_skills (worker_selected_skills (asg_id a) db) (pn_worker_requirements p),
      rr_resources = pc_resources (md_columns m),
      rr_required_authority_action = required_authority_action execution,
      rr_required_authority_scope_types =
        required_authority_scope_types execution
          (pc_read_scopes (pn_columns p) \<noteq> [] \<or> pc_write_scopes (pn_columns p) \<noteq> []),
      rr_entry_harness = entry_harness\<rparr>"

definition open_condition :: "string \<Rightarrow> AttentionRow \<Rightarrow> bool" where
  "open_condition assignment_id r \<longleftrightarrow> att_assignment_id r = assignment_id \<and> att_status r = ''open''"

definition non_routing_attention :: "string \<Rightarrow> Db \<Rightarrow> bool" where
  "non_routing_attention assignment_id db =
     list_ex (\<lambda>r. open_condition assignment_id r
        \<and> att_code r \<notin> {''worker_configuration_ineligible'', ''worker_configuration_unavailable''})
       (pt_attention (db_plan db))"

definition set_assignment_status :: "string \<Rightarrow> AssignmentStatus \<Rightarrow> Db \<Rightarrow> Db" where
  "set_assignment_status assignment_id status db =
     db\<lparr>db_assignments :=
          update_where (\<lambda>a. asg_id a = assignment_id) (\<lambda>a. a\<lparr>asg_status := AssignmentStatus_as_str status\<rparr>)
            (db_assignments db)\<rparr>"

definition resolve_conditions :: "string \<Rightarrow> int \<Rightarrow> Db \<Rightarrow> Db" where
  "resolve_conditions assignment_id now =
     on_plan (\<lambda>t. t\<lparr>pt_attention :=
       update_where (open_condition assignment_id) (\<lambda>r. r\<lparr>att_status := ''resolved'', att_resolved_at := Some now\<rparr>)
         (pt_attention t)\<rparr>)"

definition restate_conditions :: "string \<Rightarrow> string \<Rightarrow> string \<Rightarrow> Db \<Rightarrow> Db" where
  "restate_conditions assignment_id condition_code requirement =
     on_plan (\<lambda>t. t\<lparr>pt_attention :=
       update_where (open_condition assignment_id) (\<lambda>r. r\<lparr>att_code := condition_code, att_requirement := requirement\<rparr>)
         (pt_attention t)\<rparr>)"

definition require_attention :: "Readings \<Rightarrow> string \<Rightarrow> string \<Rightarrow> RouteDecision \<Rightarrow> unit tx" where
  "require_attention rd commission_id assignment_id decision =
     (case rt_attention_requirement (rd_rationale decision) of
        None \<Rightarrow> tx_lift (invalid_request ''attention-required Worker route is missing its requirement'')
      | Some requirement \<Rightarrow>
          (let condition_code = (if rt_preferred_unavailable_configuration (rd_rationale decision) = None
                       then ''worker_configuration_ineligible'' else ''worker_configuration_unavailable'')
           in
           tx_bind (tx_update (set_assignment_status assignment_id AssignmentStatus.AttentionRequired)) (\<lambda>_.
           tx_bind (tx_query (\<lambda>db. Ok (list_ex (open_condition assignment_id) (pt_attention (db_plan db))))) (\<lambda>updated.
           tx_bind (tx_update (restate_conditions assignment_id condition_code requirement)) (\<lambda>_.
           if updated then tx_return ()
           else
           tx_bind (new_uuid rd) (\<lambda>id.
           tx_bind (unix_timestamp rd) (\<lambda>now.
           tx_execute (insert_attention
             \<lparr>att_id = id, att_commission_id = commission_id, att_assignment_id = assignment_id, att_code = condition_code,
              att_requirement = requirement, att_status = ''open'', att_created_at = now,
              att_resolved_at = None\<rparr>))))))))"

definition route_assignment ::
  "WorkerRuntime \<Rightarrow> Readings \<Rightarrow> string \<Rightarrow> ExecutionSpec \<Rightarrow> string \<Rightarrow> AssignmentRow \<times> MetadataRow \<times> PlannedRow \<Rightarrow> unit tx" where
  "route_assignment runtime rd commission_id execution entry_harness =
     (\<lambda>(a, m, p).
      tx_bind (tx_query (\<lambda>db. Ok (route (wrt_host runtime) (wrt_catalog runtime)
          (route_request execution entry_harness db a m p) (unavailable_configuration_ids (asg_id a) db)))) (\<lambda>decision.
      tx_bind (unix_timestamp rd) (\<lambda>now.
      tx_bind (tx_execute (replace_route
          \<lparr>ro_assignment_id = asg_id a, ro_status = RouteStatus_as_str (rd_status decision),
           ro_selected_configuration = rd_selected_configuration decision,
           ro_rationale = rd_rationale decision, ro_decided_at = now\<rparr>)) (\<lambda>_.
      tx_bind (tx_query (\<lambda>db. Ok (asg_status a = AssignmentStatus_as_str AssignmentStatus.AttentionRequired
          \<and> non_routing_attention (asg_id a) db))) (\<lambda>has_non_routing_attention.
      if has_non_routing_attention then tx_return ()
      else if rd_status decision = RouteStatus.Selected
              \<and> asg_status a = AssignmentStatus_as_str AssignmentStatus.AttentionRequired
      then
        tx_bind (tx_update (set_assignment_status (asg_id a) AssignmentStatus.Ready)) (\<lambda>_.
        tx_bind (unix_timestamp rd) (\<lambda>resolved_at.
        tx_update (resolve_conditions (asg_id a) resolved_at)))
      else if rd_status decision = RouteStatus.AttentionRequired
      then require_attention rd commission_id (asg_id a) decision
      else tx_return ())))))"

definition route_ready_assignments :: "WorkerRuntime \<Rightarrow> Readings \<Rightarrow> string \<Rightarrow> unit tx" where
  "route_ready_assignments runtime rd commission_id =
     tx_bind (tx_query (\<lambda>db. first_row
         [(cm_execution c, at_harness a).
            c \<leftarrow> db_commissions db, cm_id c = commission_id,
            l \<leftarrow> db_links db, ca_commission_id l = cm_id c \<and> ca_role l = ''active'',
            a \<leftarrow> db_attachments db, at_id a = ca_attachment_id l])) (\<lambda>(execution, entry_harness).
     tx_bind (tx_query (\<lambda>db. Ok (assignments_to_route commission_id db))) (\<lambda>assignments.
     tx_for (route_assignment runtime rd commission_id execution entry_harness) assignments))"

section \<open>Accepting a Commission\<close>

definition activate :: "string \<Rightarrow> int \<Rightarrow> int \<Rightarrow> Db \<Rightarrow> Db" where
  "activate commission_id mandate_revision accepted_at db =
     db\<lparr>db_commissions :=
          update_where (\<lambda>c. cm_id c = commission_id)
            (\<lambda>c. c\<lparr>cm_status := CommissionStatus_as_str CommissionStatus.Active, cm_revision := mandate_revision,
                    cm_accepted_at := Some accepted_at\<rparr>) (db_commissions db)\<rparr>"

definition bind_criterion_versions :: "string \<Rightarrow> int \<Rightarrow> Db \<Rightarrow> Db result" where
  "bind_criterion_versions commission_id mandate_revision db =
     (let bound = (\<lambda>(r, n). cr_commission_id r = commission_id \<and> n = 0)
      in if mandate_revision \<noteq> 0 \<and> list_ex (\<lambda>v. bound v \<and> list_ex (\<lambda>(q, n). cr_commission_id q = commission_id
                \<and> n = mandate_revision \<and> cr_criterion_id q = cr_criterion_id (fst v)) (db_criterion_versions db))
              (db_criterion_versions db)
         then database ''UNIQUE constraint failed: criterion_versions''
         else Ok (db\<lparr>db_criterion_versions :=
                update_where bound (\<lambda>(r, _). (r, mandate_revision)) (db_criterion_versions db)\<rparr>))"

definition open_principal_verification_gates :: "string \<Rightarrow> int \<Rightarrow> int \<Rightarrow> unit tx" where
  "open_principal_verification_gates commission_id mandate_revision opened_at =
     tx_bind (tx_query (\<lambda>db. Ok (filter (\<lambda>r. cr_commission_id r = commission_id
         \<and> cr_verifier_type r = VerifierType_as_str VerifierType.Principal) (map fst (db_criteria db))))) (\<lambda>criteria.
     tx_for (\<lambda>r. tx_execute (insert_verification_gate
         \<lparr>vg_commission_id = cr_commission_id r, vg_criterion_id = cr_criterion_id r,
          vg_mandate_revision = mandate_revision, vg_status = ''open'', vg_opened_at = opened_at,
          vg_closed_at = None\<rparr>)) criteria)"

definition plan_by_worker :: "Readings \<Rightarrow> string \<Rightarrow> int \<Rightarrow> int \<Rightarrow> unit tx" where
  "plan_by_worker rd commission_id mandate_revision accepted_at =
     tx_bind (tx_query (load_planning_goal commission_id None)) (\<lambda>goal.
     tx_bind (tx_query (load_resource_ceilings commission_id)) (\<lambda>ceilings.
     tx_bind (tx_query (load_principal_requirements commission_id)) (\<lambda>requirements.
     record_plan_revision rd commission_id mandate_revision (planning_plan 1 goal ceilings requirements)
       \<lparr>pre_revision = 1, pre_source = ''control_plane'',
        pre_reason = ''a planning Worker will propose the decomposition'',
        pre_provenance = [(''reason'', JString ''planning_requested''), (''source'', JString ''control_plane'')],
        pre_legacy = False\<rparr> accepted_at)))"

definition plan_of_proposal :: "Readings \<Rightarrow> string \<Rightarrow> CommissionPlan option \<Rightarrow> int \<Rightarrow> int \<Rightarrow> unit tx" where
  "plan_of_proposal rd commission_id proposed mandate_revision accepted_at =
     tx_bind (tx_query (proposal_plan_or_legacy proposed commission_id)) (\<lambda>plan.
     initialize_commission_plan rd commission_id mandate_revision plan (proposed = None) accepted_at)"

definition may_execute :: "string \<Rightarrow> string \<Rightarrow> Db \<Rightarrow> bool" where
  "may_execute commission_id action db =
     list_ex (\<lambda>r. as_commission_id r = commission_id \<and> as_scope_type r = AuthorityScopeType_as_str AuthorityScopeType.Action
        \<and> as_value r = action) (db_authority_scopes db)"

definition accept_commission_work ::
  "Sys \<Rightarrow> WorkerRuntime \<Rightarrow> Readings \<Rightarrow> Request \<Rightarrow> string \<Rightarrow> int \<Rightarrow> json tx" where
  "accept_commission_work sys runtime rd request commission_id expected_revision =
     tx_bind (tx_query (authenticated_attachment_id sys request)) (\<lambda>attachment_id.
     tx_bind (tx_query (ensure_active_attachment attachment_id commission_id COMMISSION_ACCEPTANCE)) (\<lambda>_.
     tx_bind (tx_query (find_commission commission_id)) (\<lambda>c.
     if cm_revision c \<noteq> expected_revision
     then tx_lift (Err (TyrionError.StaleRevision expected_revision (cm_revision c)))
     else if cm_status c \<noteq> CommissionStatus_as_str CommissionStatus.Proposed
     then tx_lift (invalid_request (''commission '' @ commission_id @ '' is already '' @ cm_status c))
     else
     let required_action = required_authority_action (cm_execution c)
     in
     tx_bind (tx_query (\<lambda>db. Ok (may_execute commission_id required_action db))) (\<lambda>permitted.
     if \<not> permitted
     then tx_lift (invalid_request (''the Authority Envelope does not permit '' @ required_action))
     else
     tx_bind (unix_timestamp rd) (\<lambda>accepted_at.
     let mandate_revision = cm_revision c + 1
     in
     tx_bind (tx_update (activate commission_id mandate_revision accepted_at)) (\<lambda>_.
     tx_bind (tx_execute (bind_criterion_versions commission_id mandate_revision)) (\<lambda>_.
     tx_bind (open_principal_verification_gates commission_id mandate_revision accepted_at) (\<lambda>_.
     tx_bind (record_event rd commission_id EventKind.CommissionAccepted mandate_revision) (\<lambda>_.
     tx_bind (if cm_planning c \<noteq> None then plan_by_worker rd commission_id mandate_revision accepted_at
              else plan_of_proposal rd commission_id (cm_plan c) mandate_revision accepted_at) (\<lambda>_.
     tx_bind (route_ready_assignments runtime rd commission_id) (\<lambda>_.
     project_commission sys commission_id)))))))))))"

definition accept_commission ::
  "Sys \<Rightarrow> WorkerRuntime \<Rightarrow> Readings \<Rightarrow> Request \<Rightarrow> string \<Rightarrow> Db \<Rightarrow> (json \<times> Db) result" where
  "accept_commission sys runtime rd request commission_id db =
     and_then (mutation_key request) (\<lambda>key.
     and_then (request_hash sys request) (\<lambda>hash.
     case req_expected_revision request of
       None \<Rightarrow> invalid_request ''commission acceptance requires an expected revision''
     | Some expected_revision \<Rightarrow>
         idempotent_transaction rd key hash
           (accept_commission_work sys runtime rd request commission_id expected_revision) db))"

end
