(* ===== verification/Store_Amendments.thy ===== *)
theory Store_Amendments
  imports Store_Cancellation Store_Acceptance
begin

text \<open>
  Commission Amendments (\<^verbatim>\<open>src/src/store.rs\<close>): proposing a change of authority and ceilings, the exact diff and
  digest the Principal confirms, and accepting it, which replaces the mandate, counts the revision up and
  revokes every lease, gate, operation and grant issued under the old one.
\<close>

section \<open>Validation\<close>

definition named_scopes :: "AuthorityEnvelope \<Rightarrow> (string \<times> string list) list" where
  "named_scopes authority =
     [(''repository'', auth_repositories authority), (''path'', auth_paths authority),
      (''action'', auth_actions authority), (''destination'', auth_destinations authority),
      (''effect'', auth_effects authority)]"

fun scope_values_ok :: "string list \<Rightarrow> string list \<Rightarrow> bool" where
  "scope_values_ok unique [] = True"
| "scope_values_ok unique (v # vs) \<longleftrightarrow>
     \<not> blank v \<and> \<not> contains_char v NUL \<and> v \<notin> set unique \<and> scope_values_ok (v # unique) vs"

definition positive_ceilings :: "ResourceCeilings \<Rightarrow> bool" where
  "positive_ceilings ceilings \<longleftrightarrow>
     rc_max_attempts ceilings \<noteq> 0 \<and> rc_max_elapsed_seconds ceilings \<noteq> 0
     \<and> rc_max_worker_concurrency ceilings \<noteq> 0 \<and> rc_max_storage_bytes ceilings \<noteq> 0
     \<and> rc_max_elapsed_seconds ceilings \<le> sqlite_integer_max \<and> rc_max_storage_bytes ceilings \<le> sqlite_integer_max
     \<and> rc_max_model_spend_cents ceilings \<le> sqlite_integer_max
     \<and> rc_max_paid_service_spend_cents ceilings \<le> sqlite_integer_max"

definition validate_commission_amendment :: "Sys \<Rightarrow> CommissionAmendment \<Rightarrow> unit result" where
  "validate_commission_amendment sys amendment =
     (let authority = am_authority amendment
      in
      if blank (am_reason amendment) then invalid_request ''Commission Amendment reason must not be empty''
      else
      and_then (try_each (\<lambda>(name, vs).
          if scope_values_ok [] vs then Ok ()
          else invalid_request (''Commission Amendment '' @ name @ '' scopes must be non-empty and unique''))
        (named_scopes authority)) (\<lambda>_.
      and_then (try_each (\<lambda>repository.
          if \<not> is_absolute repository \<or> isl (sys_canonicalize sys repository)
          then invalid_request ''Commission Amendment repositories must be resolvable absolute paths''
          else Ok ()) (auth_repositories authority)) (\<lambda>_.
      and_then (try_each validate_relative_scope (auth_paths authority)) (\<lambda>_.
      if list_ex ((=) ''filesystem.write'') (auth_effects authority)
         \<and> (\<not> list_ex ((=) ''filesystem.write'') (auth_actions authority)
            \<or> \<not> list_ex ((=) ''local'') (auth_destinations authority))
      then invalid_request ''filesystem.write effect authority requires its exact action and local destination''
      else if \<not> positive_ceilings (am_resource_ceilings amendment)
      then invalid_request ''Commission Amendment resource ceilings must be positive and fit SQLite integers''
      else Ok ()))))"

section \<open>The difference shown to the Principal\<close>

definition authority_list_diff :: "string list \<Rightarrow> string list \<Rightarrow> json" where
  "authority_list_diff current proposed = JObject
     [(''added'', JArray (map JString (filter (\<lambda>v. v \<notin> set current) proposed))),
      (''removed'', JArray (map JString (filter (\<lambda>v. v \<notin> set proposed) current)))]"

definition resource_change :: "string \<Rightarrow> 'a::len word \<Rightarrow> 'a word \<Rightarrow> (string \<times> json) list" where
  "resource_change name old new =
     (if old = new then []
      else [(name, JObject [(''after'', JPosInt (ucast new)), (''before'', JPosInt (ucast old))])])"

definition resource_changes :: "ResourceCeilings \<Rightarrow> ResourceCeilings \<Rightarrow> (string \<times> json) list" where
  "resource_changes current proposed =
     resource_change ''max_attempts'' (rc_max_attempts current) (rc_max_attempts proposed)
     @ resource_change ''max_elapsed_seconds'' (rc_max_elapsed_seconds current) (rc_max_elapsed_seconds proposed)
     @ resource_change ''max_model_spend_cents'' (rc_max_model_spend_cents current) (rc_max_model_spend_cents proposed)
     @ resource_change ''max_paid_service_spend_cents''
         (rc_max_paid_service_spend_cents current) (rc_max_paid_service_spend_cents proposed)
     @ resource_change ''max_storage_bytes'' (rc_max_storage_bytes current) (rc_max_storage_bytes proposed)
     @ resource_change ''max_worker_concurrency''
         (rc_max_worker_concurrency current) (rc_max_worker_concurrency proposed)"

definition commission_amendment_diff ::
  "AuthorityEnvelope \<Rightarrow> AuthorityEnvelope \<Rightarrow> ResourceCeilings \<Rightarrow> ResourceCeilings \<Rightarrow> json" where
  "commission_amendment_diff current_authority proposed_authority current_ceilings proposed_ceilings = JObject
     [(''authority'', JObject
        [(''actions'', authority_list_diff (auth_actions current_authority) (auth_actions proposed_authority)),
         (''destinations'', authority_list_diff (auth_destinations current_authority) (auth_destinations proposed_authority)),
         (''effects'', authority_list_diff (auth_effects current_authority) (auth_effects proposed_authority)),
         (''paths'', authority_list_diff (auth_paths current_authority) (auth_paths proposed_authority)),
         (''repositories'', authority_list_diff (auth_repositories current_authority) (auth_repositories proposed_authority))]),
      (''changed'', JBool (current_authority \<noteq> proposed_authority \<or> current_ceilings \<noteq> proposed_ceilings)),
      (''resource_ceilings'', JObject (resource_changes current_ceilings proposed_ceilings))]"

definition authority_value :: "AuthorityEnvelope \<Rightarrow> json" where
  "authority_value authority = JObject
     [(''actions'', JArray (map JString (auth_actions authority))),
      (''destinations'', JArray (map JString (auth_destinations authority))),
      (''effects'', JArray (map JString (auth_effects authority))),
      (''paths'', JArray (map JString (auth_paths authority))),
      (''repositories'', JArray (map JString (auth_repositories authority)))]"

definition ceilings_value :: "ResourceCeilings \<Rightarrow> json" where
  "ceilings_value ceilings = JObject
     [(''max_attempts'', JPosInt (ucast (rc_max_attempts ceilings))),
      (''max_elapsed_seconds'', JPosInt (rc_max_elapsed_seconds ceilings)),
      (''max_model_spend_cents'', JPosInt (rc_max_model_spend_cents ceilings)),
      (''max_paid_service_spend_cents'', JPosInt (rc_max_paid_service_spend_cents ceilings)),
      (''max_storage_bytes'', JPosInt (rc_max_storage_bytes ceilings)),
      (''max_worker_concurrency'', JPosInt (ucast (rc_max_worker_concurrency ceilings)))]"

definition canonical_amendment :: "int \<Rightarrow> CommissionAmendment \<Rightarrow> json" where
  "canonical_amendment base_revision amendment = JObject
     [(''amendment'', JObject
        [(''authority'', authority_value (am_authority amendment)), (''reason'', JString (am_reason amendment)),
         (''resource_ceilings'', ceilings_value (am_resource_ceilings amendment))]),
      (''base_revision'', json_of_int base_revision)]"

section \<open>Checks against the state\<close>

definition validate_amended_execution_authority :: "string \<Rightarrow> AuthorityEnvelope \<Rightarrow> Db \<Rightarrow> unit result" where
  "validate_amended_execution_authority commission_id authority db =
     and_then (query_row (\<lambda>c. cm_id c = commission_id) (db_commissions db)) (\<lambda>c.
     let required_action = required_authority_action (cm_execution c)
     in if \<not> list_ex ((=) required_action) (auth_actions authority)
        then invalid_request (''Commission Amendment cannot remove required execution action '' @ required_action)
        else Ok ())"

text \<open>What is already committed; SQLite sums 64-bit integers and fails when a sum overflows.\<close>

definition owned_attempts :: "string \<Rightarrow> Db \<Rightarrow> int" where
  "owned_attempts commission_id db =
     int (length [t. t \<leftarrow> db_attempts db, a \<leftarrow> db_assignments db,
                     asg_id a = atm_assignment_id t \<and> asg_commission_id a = commission_id])"

definition reserved :: "(ReservationRow \<Rightarrow> bool) \<Rightarrow> (ReservationRow \<Rightarrow> int) \<Rightarrow> string \<Rightarrow> Db \<Rightarrow> int" where
  "reserved selected amount commission_id db =
     sum_list (map amount (filter (\<lambda>r. rsv_commission_id r = commission_id \<and> selected r) (db_reservations db)))"

definition validate_amended_resource_ceilings :: "string \<Rightarrow> ResourceCeilings \<Rightarrow> Db \<Rightarrow> unit result" where
  "validate_amended_resource_ceilings commission_id ceilings db =
     (let active = (\<lambda>r. rsv_status r = ''active'');
          attempts = owned_attempts commission_id db;
          concurrency = reserved active (\<lambda>r. uint (rsv_concurrency_slots r)) commission_id db;
          storage = reserved active (\<lambda>r. uint (rsv_storage_bytes r)) commission_id db;
          model_spend = reserved (\<lambda>_. True) (\<lambda>r. uint (rsv_model_spend_cents r)) commission_id db;
          paid_spend = reserved (\<lambda>_. True) (\<lambda>r. uint (rsv_paid_service_spend_cents r)) commission_id db
      in
      if 2 ^ 63 \<le> storage \<or> 2 ^ 63 \<le> model_spend \<or> 2 ^ 63 \<le> paid_spend \<or> 2 ^ 63 \<le> concurrency
      then database ''integer overflow''
      else if 2 ^ 32 \<le> attempts \<or> 2 ^ 32 \<le> concurrency then database ''integer out of range''
      else if uint (rc_max_attempts ceilings) < attempts \<or> uint (rc_max_worker_concurrency ceilings) < concurrency
         \<or> uint (rc_max_storage_bytes ceilings) < storage \<or> uint (rc_max_model_spend_cents ceilings) < model_spend
         \<or> uint (rc_max_paid_service_spend_cents ceilings) < paid_spend
      then invalid_request ''Commission Amendment resource ceilings cannot fall below committed use''
      else Ok ())"

definition active_leases :: "string \<Rightarrow> Db \<Rightarrow> (LeaseRow \<times> AttemptRow) list" where
  "active_leases commission_id db =
     sort_key (\<lambda>(_, t). atm_started_at t) (sort_key (\<lambda>(_, t). atm_id t)
       [(l, t). l \<leftarrow> db_leases db, wl_status l = ''active'',
                t \<leftarrow> db_attempts db, atm_id t = wl_attempt_id l,
                a \<leftarrow> db_assignments db, asg_id a = atm_assignment_id t \<and> asg_commission_id a = commission_id])"

definition query_active_lease_impact :: "string \<Rightarrow> Db \<Rightarrow> json list" where
  "query_active_lease_impact commission_id db =
     map (\<lambda>(l, t). JObject
        [(''attempt_id'', JString (atm_id t)), (''current_mandate_revision'', json_of_int (wl_mandate_revision l)),
         (''required_action'', JString ''revalidate_before_mandate_change''), (''worker_lease_id'', JString (wl_id l))])
       (active_leases commission_id db)"

definition query_active_leases :: "string \<Rightarrow> Db \<Rightarrow> (string \<times> string) list" where
  "query_active_leases commission_id db = map (\<lambda>(l, t). (wl_id l, atm_id t)) (active_leases commission_id db)"

definition query_open_operation_ids :: "string \<Rightarrow> Db \<Rightarrow> string list" where
  "query_open_operation_ids commission_id db =
     map or_id (operations_with commission_id {''approval_required'', ''authorized'', ''started''} db)"

section \<open>Proposing an Amendment\<close>

definition insert_amendment :: "AmendmentRow \<Rightarrow> Db \<Rightarrow> Db result" where
  "insert_amendment r db =
     (if amr_status r \<notin> {''proposed'', ''accepted'', ''invalidated''}
      then database ''CHECK constraint failed: commission_amendments''
      else if list_ex (\<lambda>q. amr_id q = amr_id r) (db_amendments db)
      then database ''UNIQUE constraint failed: commission_amendments.id''
      else if \<not> has_commission db (amr_commission_id r) then foreign_key_failed
      else Ok (db\<lparr>db_amendments := db_amendments db @ [r]\<rparr>))"

definition amendable :: "string \<Rightarrow> bool" where
  "amendable status \<longleftrightarrow>
     status = CommissionStatus_as_str CommissionStatus.Active \<or> status = CommissionStatus_as_str CommissionStatus.Paused"

definition has_pending_amendment :: "string \<Rightarrow> Db \<Rightarrow> bool" where
  "has_pending_amendment commission_id db =
     list_ex (\<lambda>r. amr_commission_id r = commission_id \<and> amr_status r = ''proposed'') (db_amendments db)"

definition propose_amendment_work ::
  "Sys \<Rightarrow> Readings \<Rightarrow> Request \<Rightarrow> string \<Rightarrow> CommissionAmendment \<Rightarrow> int \<Rightarrow> json tx" where
  "propose_amendment_work sys rd request commission_id amendment expected_revision =
     tx_bind (tx_query (authenticated_attachment_id sys request)) (\<lambda>attachment_id.
     tx_bind (tx_query (ensure_active_attachment attachment_id commission_id COMMISSION_ACCEPTANCE)) (\<lambda>_.
     tx_bind (tx_query (find_commission commission_id)) (\<lambda>c.
     if cm_revision c \<noteq> expected_revision
     then tx_lift (Err (TyrionError.StaleRevision expected_revision (cm_revision c)))
     else if \<not> amendable (cm_status c)
     then tx_lift (invalid_request (''Commission '' @ commission_id @ '' is '' @ cm_status c
            @ ''; only an active or paused mandate can be amended''))
     else
     tx_bind (tx_query (\<lambda>db. if has_pending_amendment commission_id db
         then invalid_request ''the Commission already has a proposed Amendment'' else Ok ())) (\<lambda>_.
     tx_bind (tx_query (\<lambda>db. Ok (load_authority commission_id db))) (\<lambda>current_authority.
     tx_bind (tx_query (load_resource_ceilings commission_id)) (\<lambda>current_ceilings.
     let diff = commission_amendment_diff current_authority (am_authority amendment)
                  current_ceilings (am_resource_ceilings amendment)
     in
     if json_index diff ''changed'' \<noteq> JBool True
     then tx_lift (invalid_request ''Commission Amendment must contain an exact authority or resource change'')
     else
     tx_bind (tx_query (validate_amended_execution_authority commission_id (am_authority amendment))) (\<lambda>_.
     tx_bind (tx_query (validate_amended_resource_ceilings commission_id (am_resource_ceilings amendment))) (\<lambda>_.
     let digest = sys_sha256_hex sys (sys_encode_json sys (canonical_amendment (cm_revision c) amendment))
     in
     tx_bind (tx_query (\<lambda>db. Ok (query_active_lease_impact commission_id db))) (\<lambda>leases.
     tx_bind (tx_query (\<lambda>db. Ok (query_open_operation_ids commission_id db))) (\<lambda>operations.
     let impact = JObject
           [(''operation_request_ids_requiring_revalidation'', JArray (map JString operations)),
            (''revalidation_required_before_effect_execution'', JBool True), (''worker_leases'', JArray leases)]
     in
     tx_bind (new_uuid rd) (\<lambda>amendment_id.
     tx_bind (unix_timestamp rd) (\<lambda>proposed_at.
     tx_bind (tx_execute (insert_amendment
         \<lparr>amr_id = amendment_id, amr_commission_id = commission_id, amr_base_revision = cm_revision c,
          amr_authority = am_authority amendment, amr_resource_ceilings = am_resource_ceilings amendment,
          amr_reason = am_reason amendment, amr_diff = diff, amr_digest = digest, amr_impact = impact,
          amr_revalidation = None, amr_status = ''proposed'', amr_proposed_at = proposed_at,
          amr_accepted_at = None\<rparr>)) (\<lambda>_.
     tx_bind (record_event_with_payload rd commission_id EventKind.CommissionAmendmentProposed (cm_revision c)
         (JObject
           [(''amendment_digest'', JString digest), (''amendment_id'', JString amendment_id),
            (''attachment_id'', JString attachment_id), (''diff'', diff), (''impact'', impact)])) (\<lambda>_.
     project_commission sys commission_id))))))))))))))"

definition propose_commission_amendment ::
  "Sys \<Rightarrow> Readings \<Rightarrow> Request \<Rightarrow> string \<Rightarrow> CommissionAmendment \<Rightarrow> Db \<Rightarrow> (json \<times> Db) result" where
  "propose_commission_amendment sys rd request commission_id amendment db =
     and_then (validate_commission_amendment sys amendment) (\<lambda>_.
     and_then (mutation_key request) (\<lambda>key.
     and_then (request_hash sys request) (\<lambda>hash.
     case req_expected_revision request of
       None \<Rightarrow> invalid_request ''Commission Amendment proposal requires an expected revision''
     | Some expected_revision \<Rightarrow>
         idempotent_transaction rd key hash
           (propose_amendment_work sys rd request commission_id amendment expected_revision) db)))"

definition inspect_commission_amendment :: "Sys \<Rightarrow> Request \<Rightarrow> string \<Rightarrow> string \<Rightarrow> Db \<Rightarrow> json result" where
  "inspect_commission_amendment sys request amendment_id principal_token_hash db =
     and_then (authenticate_principal sys request principal_token_hash) (\<lambda>_.
     case List.find (\<lambda>r. amr_id r = amendment_id) (db_amendments db) of
       None \<Rightarrow> Err (TyrionError.NotFound amendment_id)
     | Some r \<Rightarrow>
         and_then (sys_project_commission sys db (amr_commission_id r)) (\<lambda>projection.
         case json_as_array (json_index projection ''commission_amendments'') of
           None \<Rightarrow> Err (TyrionError.NotFound amendment_id)
         | Some amendments \<Rightarrow>
             (case List.find (\<lambda>a. json_as_str (json_index a ''id'') = Some amendment_id) amendments of
                None \<Rightarrow> Err (TyrionError.NotFound amendment_id)
              | Some a \<Rightarrow> Ok (JObject [(''commission_amendment'', a)]))))"

section \<open>Revalidating the work in progress\<close>

definition attempt_resources_fit :: "string \<Rightarrow> string \<Rightarrow> ResourceCeilings \<Rightarrow> Db \<Rightarrow> bool" where
  "attempt_resources_fit commission_id attempt_id ceilings db =
     (case List.find (\<lambda>r. rsv_commission_id r = commission_id \<and> rsv_attempt_id r = attempt_id) (db_reservations db) of
        None \<Rightarrow> False
      | Some r \<Rightarrow> rsv_concurrency_slots r \<le> rc_max_worker_concurrency ceilings
          \<and> rsv_storage_bytes r \<le> rc_max_storage_bytes ceilings
          \<and> rsv_model_spend_cents r \<le> rc_max_model_spend_cents ceilings
          \<and> rsv_paid_service_spend_cents r \<le> rc_max_paid_service_spend_cents ceilings)"

definition execution_authorized :: "ExecutionSpec \<Rightarrow> AuthorityEnvelope \<Rightarrow> bool" where
  "execution_authorized execution authority \<longleftrightarrow>
     list_ex ((=) (required_authority_action execution)) (auth_actions authority)
     \<and> (case execution of
          CodexGit repository _ \<Rightarrow> list_ex ((=) repository) (auth_repositories authority) \<and> auth_paths authority \<noteq> []
        | ExecutionSpec.Deterministic \<Rightarrow> True)"

definition result_authorized :: "AuthorityEnvelope \<Rightarrow> ResultRow \<Rightarrow> bool" where
  "result_authorized authority r \<longleftrightarrow>
     list_all (\<lambda>path. list_ex (store_path_is_within_scope path) (auth_paths authority)) (rs_changed_paths r)
     \<and> list_all (\<lambda>effect. list_ex ((=) effect) (auth_effects authority)) (rs_known_effects r)"

definition attempt_authority_is_current :: "string \<Rightarrow> string \<Rightarrow> ExecutionSpec \<Rightarrow> Db \<Rightarrow> bool result" where
  "attempt_authority_is_current commission_id attempt_id execution db =
     (let authority = load_authority commission_id db
      in if \<not> execution_authorized execution authority then Ok False
         else
         and_then (first_row
             [m. t \<leftarrow> db_attempts db, atm_id t = attempt_id,
                 a \<leftarrow> db_assignments db, asg_id a = atm_assignment_id t \<and> asg_commission_id a = commission_id,
                 m \<leftarrow> pt_metadata (db_plan db), md_assignment_id m = asg_id a]) (\<lambda>m.
         if list_ex (\<lambda>scope. \<not> list_ex (store_path_is_within_scope scope) (auth_paths authority))
              (pc_write_scopes (md_columns m))
         then Ok False
         else Ok (list_all (result_authorized authority)
                (filter (\<lambda>r. rs_attempt_id r = attempt_id) (db_results db)))))"

definition revoke_lease :: "string \<Rightarrow> int \<Rightarrow> Db \<Rightarrow> Db" where
  "revoke_lease lease_id now db =
     db\<lparr>db_leases :=
          update_where (\<lambda>l. wl_id l = lease_id \<and> wl_status l = ''active'')
            (\<lambda>l. l\<lparr>wl_status := ''revoked'', wl_released_at := Some now\<rparr>) (db_leases db)\<rparr>"

definition revoke_reservation :: "string \<Rightarrow> int \<Rightarrow> Db \<Rightarrow> Db" where
  "revoke_reservation attempt_id now_ms db =
     db\<lparr>db_reservations :=
          update_where (\<lambda>r. rsv_attempt_id r = attempt_id \<and> rsv_status r = ''active'')
            (\<lambda>r. r\<lparr>rsv_status := ''revoked'', rsv_released_at := Some now_ms\<rparr>) (db_reservations db)\<rparr>"

definition cancel_attempt_row :: "string \<Rightarrow> int \<Rightarrow> int \<Rightarrow> Db \<Rightarrow> Db" where
  "cancel_attempt_row attempt_id now now_ms db =
     db\<lparr>db_attempts :=
          update_where (\<lambda>t. atm_id t = attempt_id \<and> atm_status t = ''running'')
            (\<lambda>t. t\<lparr>atm_status := ''cancelled'', atm_completed_at := Some now, atm_completed_at_ms := Some now_ms,
                    atm_execution_completed_at_ms :=
                      (case atm_execution_completed_at_ms t of None \<Rightarrow> Some now_ms | Some ms \<Rightarrow> Some ms),
                    atm_revision_disposition := ''requires_revalidation''\<rparr>) (db_attempts db)\<rparr>"

definition cancel_worker :: "string \<Rightarrow> int \<Rightarrow> Db \<Rightarrow> Db" where
  "cancel_worker attempt_id now_ms db =
     db\<lparr>db_workers :=
          update_where (\<lambda>w. wk_attempt_id w = attempt_id \<and> wk_status w = ''running'')
            (\<lambda>w. w\<lparr>wk_status := ''cancelled'',
                    wk_latest_activity := ''Commission Amendment requires a revision-bound replacement Attempt'',
                    wk_activity_at_ms := now_ms\<rparr>) (db_workers db)\<rparr>"

definition record_attempt_profile_claim_outcome :: "Readings \<Rightarrow> string \<Rightarrow> ProfileClaimOutcome \<Rightarrow> unit tx" where
  "record_attempt_profile_claim_outcome rd attempt_id outcome =
     tx_bind (unix_timestamp rd) (\<lambda>now.
     tx_update (\<lambda>db. db\<lparr>db_claim_uses :=
          update_where (\<lambda>u. apc_attempt_id u = attempt_id \<and> apc_outcome u = None)
            (\<lambda>u. u\<lparr>apc_result_id := latest_result attempt_id db,
                    apc_outcome := Some (ProfileClaimOutcome_as_str outcome), apc_recorded_at := Some now\<rparr>)
            (db_claim_uses db)\<rparr>))"

definition reopen_assignment :: "string \<Rightarrow> Db \<Rightarrow> Db" where
  "reopen_assignment attempt_id db =
     db\<lparr>db_assignments :=
          update_where (\<lambda>a. map_option atm_assignment_id (List.find (\<lambda>t. atm_id t = attempt_id) (db_attempts db)) = Some (asg_id a)
                \<and> asg_status a = ''running'')
            (\<lambda>a. a\<lparr>asg_status := ''ready''\<rparr>) (db_assignments db)\<rparr>"

definition revalidate_lease ::
  "Readings \<Rightarrow> string \<Rightarrow> ExecutionSpec \<Rightarrow> ResourceCeilings \<Rightarrow> int \<Rightarrow> string \<times> string \<Rightarrow> json tx" where
  "revalidate_lease rd commission_id execution ceilings mandate_revision =
     (\<lambda>(lease_id, attempt_id).
      tx_bind (tx_query (attempt_authority_is_current commission_id attempt_id execution)) (\<lambda>authority_current.
      tx_bind (tx_query (\<lambda>db. Ok (attempt_resources_fit commission_id attempt_id ceilings db))) (\<lambda>resources_current.
      tx_bind (unix_timestamp rd) (\<lambda>now.
      tx_bind (unix_timestamp_millis rd) (\<lambda>now_ms.
      tx_bind (tx_for tx_update
          [revoke_lease lease_id now, revoke_reservation attempt_id now_ms, cancel_attempt_row attempt_id now now_ms,
           cancel_worker attempt_id now_ms]) (\<lambda>_.
      tx_bind (record_attempt_profile_claim_outcome rd attempt_id ProfileClaimOutcome.Rejected) (\<lambda>_.
      tx_bind (tx_update (reopen_assignment attempt_id)) (\<lambda>_.
      tx_return (JObject
        [(''attempt_id'', JString attempt_id), (''authority_current'', JBool authority_current),
         (''outcome'', JString ''restart_required''),
         (''replacement_mandate_revision'', json_of_int mandate_revision),
         (''resources_current'', JBool resources_current), (''worker_lease_id'', JString lease_id)])))))))))"

section \<open>Accepting an Amendment\<close>

definition delete_authority :: "string \<Rightarrow> Db \<Rightarrow> Db" where
  "delete_authority commission_id db =
     db\<lparr>db_authority_scopes := filter (\<lambda>r. as_commission_id r \<noteq> commission_id) (db_authority_scopes db)\<rparr>"

definition replace_authority :: "string \<Rightarrow> AuthorityEnvelope \<Rightarrow> unit tx" where
  "replace_authority commission_id authority =
     tx_bind (tx_update (delete_authority commission_id)) (\<lambda>_. insert_authority commission_id authority)"

definition replace_resource_ceilings :: "string \<Rightarrow> ResourceCeilings \<Rightarrow> Db \<Rightarrow> Db result" where
  "replace_resource_ceilings commission_id ceilings db =
     (if \<not> (storable_u64 (rc_max_elapsed_seconds ceilings) \<and> storable_u64 (rc_max_storage_bytes ceilings)
            \<and> storable_u64 (rc_max_model_spend_cents ceilings)
            \<and> storable_u64 (rc_max_paid_service_spend_cents ceilings))
      then database conversion_failed
      else Ok (db\<lparr>db_resource_ceilings :=
             update_where (\<lambda>(c, _). c = commission_id) (\<lambda>(c, _). (c, ceilings)) (db_resource_ceilings db)\<rparr>))"

definition set_revision :: "string \<Rightarrow> int \<Rightarrow> Db \<Rightarrow> Db" where
  "set_revision commission_id n db =
     db\<lparr>db_commissions :=
          update_where (\<lambda>c. cm_id c = commission_id) (\<lambda>c. c\<lparr>cm_revision := n\<rparr>) (db_commissions db)\<rparr>"

definition copy_current_criterion_versions :: "string \<Rightarrow> int \<Rightarrow> unit tx" where
  "copy_current_criterion_versions commission_id mandate_revision =
     tx_bind (tx_query (\<lambda>db. Ok (filter (\<lambda>r. cr_commission_id r = commission_id) (map fst (db_criteria db))))) (\<lambda>criteria.
     tx_for (\<lambda>r. tx_execute (insert_criterion_version_row r mandate_revision)) criteria)"

definition accept_amendment_row :: "string \<Rightarrow> int \<Rightarrow> json \<Rightarrow> Db \<Rightarrow> Db" where
  "accept_amendment_row amendment_id now revalidation db =
     db\<lparr>db_amendments :=
          update_where (\<lambda>r. amr_id r = amendment_id \<and> amr_status r = ''proposed'')
            (\<lambda>r. r\<lparr>amr_status := ''accepted'', amr_accepted_at := Some now, amr_revalidation := Some revalidation\<rparr>)
            (db_amendments db)\<rparr>"

definition invalidate_other_amendments :: "string \<Rightarrow> string \<Rightarrow> Db \<Rightarrow> Db" where
  "invalidate_other_amendments commission_id amendment_id db =
     db\<lparr>db_amendments :=
          update_where (\<lambda>r. amr_commission_id r = commission_id \<and> amr_id r \<noteq> amendment_id \<and> amr_status r = ''proposed'')
            (\<lambda>r. r\<lparr>amr_status := ''invalidated''\<rparr>) (db_amendments db)\<rparr>"

definition find_amendment :: "string \<Rightarrow> string \<Rightarrow> Db \<Rightarrow> AmendmentRow result" where
  "find_amendment amendment_id commission_id db =
     (case List.find (\<lambda>r. amr_id r = amendment_id \<and> amr_commission_id r = commission_id) (db_amendments db) of
        None \<Rightarrow> Err (TyrionError.NotFound amendment_id) | Some r \<Rightarrow> Ok r)"

definition replace_mandate :: "string \<Rightarrow> AmendmentRow \<Rightarrow> int \<Rightarrow> unit tx" where
  "replace_mandate commission_id a mandate_revision =
     tx_bind (replace_authority commission_id (amr_authority a)) (\<lambda>_.
     tx_bind (tx_execute (replace_resource_ceilings commission_id (amr_resource_ceilings a))) (\<lambda>_.
     tx_bind (tx_update (set_revision commission_id mandate_revision)) (\<lambda>_.
     copy_current_criterion_versions commission_id mandate_revision)))"

definition revoke_old_grants :: "string \<Rightarrow> int \<Rightarrow> unit tx" where
  "revoke_old_grants commission_id now =
     tx_for tx_update
       [close_gates commission_id ApprovalGateStatus.Invalidated now, revoke_operations commission_id now,
        revoke_grants commission_id now, revoke_exposures commission_id now]"

definition accept_amendment_work ::
  "Sys \<Rightarrow> Readings \<Rightarrow> string \<Rightarrow> string \<Rightarrow> string \<Rightarrow> int \<Rightarrow> json tx" where
  "accept_amendment_work sys rd commission_id amendment_id expected_amendment_digest expected_revision =
     tx_bind (tx_query (find_amendment amendment_id commission_id)) (\<lambda>a.
     if amr_status a \<noteq> ''proposed'' then tx_lift (control_denied ''Commission Amendment is no longer proposed'')
     else if amr_digest a \<noteq> expected_amendment_digest
     then tx_lift (control_denied ''acceptance does not match the exact proposed Commission Amendment'')
     else
     tx_bind (tx_query (\<lambda>db. query_row (\<lambda>c. cm_id c = commission_id) (db_commissions db))) (\<lambda>c.
     if cm_revision c \<noteq> expected_revision \<or> amr_base_revision a \<noteq> cm_revision c
     then tx_lift (Err (TyrionError.StaleRevision expected_revision (cm_revision c)))
     else if \<not> amendable (cm_status c)
     then tx_lift (control_denied ''only an active or paused Commission can accept an Amendment'')
     else
     tx_bind (tx_query (validate_amended_execution_authority commission_id (amr_authority a))) (\<lambda>_.
     tx_bind (tx_query (validate_amended_resource_ceilings commission_id (amr_resource_ceilings a))) (\<lambda>_.
     let mandate_revision = cm_revision c + 1
     in
     tx_bind (replace_mandate commission_id a mandate_revision) (\<lambda>_.
     tx_bind (tx_query (\<lambda>db. Ok (query_active_leases commission_id db))) (\<lambda>leases.
     tx_bind (tx_collect (revalidate_lease rd commission_id (cm_execution c) (amr_resource_ceilings a) mandate_revision)
         leases) (\<lambda>lease_revalidation.
     tx_bind (tx_query (\<lambda>db. Ok (query_open_operation_ids commission_id db))) (\<lambda>invalidated.
     tx_bind (unix_timestamp rd) (\<lambda>now.
     tx_bind (revoke_old_grants commission_id now) (\<lambda>_.
     let revalidation = JObject
           [(''criteria_rebound_to_mandate_revision'', json_of_int mandate_revision),
            (''invalidated_operation_request_ids'', JArray (map JString invalidated)),
            (''worker_leases'', JArray lease_revalidation)]
     in
     tx_bind (tx_update (accept_amendment_row amendment_id now revalidation)) (\<lambda>_.
     tx_bind (tx_update (invalidate_other_amendments commission_id amendment_id)) (\<lambda>_.
     tx_bind (record_event_with_payload rd commission_id EventKind.CommissionAmended mandate_revision
         (JObject
           [(''amendment_digest'', JString (amr_digest a)), (''amendment_id'', JString amendment_id),
            (''base_revision'', json_of_int (amr_base_revision a)),
            (''mandate_revision'', json_of_int mandate_revision), (''revalidation'', revalidation)])) (\<lambda>_.
     project_commission sys commission_id)))))))))))))"

definition accept_commission_amendment ::
  "Sys \<Rightarrow> Readings \<Rightarrow> string \<Rightarrow> unit result \<Rightarrow> Request \<Rightarrow> string \<Rightarrow> string \<Rightarrow> string \<Rightarrow> Db \<Rightarrow> (json \<times> Db) result" where
  "accept_commission_amendment sys rd principal_token_hash integration_lock request commission_id amendment_id
       expected_amendment_digest db =
     and_then (authenticate_principal sys request principal_token_hash) (\<lambda>_.
     and_then (mutation_key request) (\<lambda>key.
     and_then (request_hash sys request) (\<lambda>hash.
     case req_expected_revision request of
       None \<Rightarrow> invalid_request ''Commission Amendment acceptance requires an expected revision''
     | Some expected_revision \<Rightarrow>
         and_then integration_lock (\<lambda>_.
         idempotent_transaction rd key hash
           (accept_amendment_work sys rd commission_id amendment_id expected_amendment_digest expected_revision) db))))"

end
