(* ===== verification/Store_History.thy ===== *)
theory Store_History
  imports Store_Proposals
begin

text \<open>
  What every handler leaves alone and what it only adds to. Four relations between the tables before
  and after a transaction, each an instance of \<open>table_relation\<close>: the history (events, recorded
  results, used launch tokens) only grows, the event log stays well formed, the Attachments stay negotiated, and the
  handlers that do not mean to change control leave the control tables untouched. From the growing
  history follows exactly-once execution, proved once in a locale for every handler of the common shape.
\<close>

lemmas insert_defs =
  insert_commission_def insert_criterion_def insert_criterion_version_row_def insert_authority_scope_def
  insert_ceilings_def insert_known_uncertainty_def insert_launch_token_def insert_attachment_def
  insert_link_def insert_event_def insert_idempotency_key_def insert_identity_or_ignore_def upsert_alias_def

lemmas update_defs =
  consume_token_def set_capabilities_def demote_active_def promote_def set_control_revision_def
  set_status_def insert_project_or_ignore_def

lemmas work_defs =
  issue_attachment_token_work_def connect_attachment_work_def update_attachment_capabilities_work_def
  take_control_work_def change_commission_dispatch_state_work_def create_proposal_work_def
  join_as_observer_def bind_project_identity_def store_mandate_def attach_proposer_def
  insert_authority_def insert_resource_ceilings_def insert_criterion_version_def record_event_def
  record_event_with_payload_def save_idempotent_result_def project_commission_def Let_def

section \<open>Finding rows\<close>

lemma find_append: "List.find p (xs @ ys) = (case List.find p xs of None \<Rightarrow> List.find p ys | Some x \<Rightarrow> Some x)"
  by (induction xs) auto

lemma find_prefix: "prefix xs ys \<Longrightarrow> List.find p xs = Some x \<Longrightarrow> List.find p ys = Some x"
  by (auto simp: prefix_def find_append)

lemma find_no_match: "\<forall>x \<in> set xs. \<not> p x \<Longrightarrow> List.find p xs = None"
  by (simp add: find_None_iff)

lemma find_update_where:
  assumes "\<And>r. q (f r) = q r"
  shows "List.find q (update_where p f rs) = map_option (\<lambda>r. if p r then f r else r) (List.find q rs)"
  by (induction rs) (auto simp: update_where_def assms)

section \<open>The history grows\<close>

definition token_used :: "Db \<Rightarrow> string \<Rightarrow> bool" where
  "token_used db h = is_some_and (List.find (\<lambda>t. lt_token_hash t = h) (db_launch_tokens db)) (\<lambda>t. lt_consumed_at t \<noteq> None)"

definition history_grows :: "Db \<Rightarrow> Db \<Rightarrow> bool" where
  "history_grows db db' \<longleftrightarrow>
     (\<exists>es. db_events db' = db_events db @ es \<and> (\<forall>e \<in> set es. db_event_sequence db < ev_sequence e))
     \<and> prefix (db_idempotency_keys db) (db_idempotency_keys db')
     \<and> db_event_sequence db \<le> db_event_sequence db'
     \<and> (\<forall>h. token_used db h \<longrightarrow> token_used db' h)"

interpretation hist: table_relation history_grows
proof
  show "history_grows db db" for db by (simp add: history_grows_def)
  show "history_grows db db''" if "history_grows db db'" "history_grows db' db''" for db db' db''
    using that unfolding history_grows_def by (fastforce intro: order_le_less_trans)
qed

lemma hist_execute [intro!]:
  "hist.keeps (tx_execute (insert_commission r1))"
  "hist.keeps (tx_execute (insert_criterion r2 st))"
  "hist.keeps (tx_execute (insert_criterion_version_row r2 n))"
  "hist.keeps (tx_execute (insert_authority_scope r3))"
  "hist.keeps (tx_execute (insert_ceilings c ceil))"
  "hist.keeps (tx_execute (insert_known_uncertainty c n d))"
  "hist.keeps (tx_execute (insert_launch_token r4))"
  "hist.keeps (tx_execute (insert_attachment r5))"
  "hist.keeps (tx_execute (insert_link r6))"
  "hist.keeps (tx_execute (insert_event c t n p now))"
  "hist.keeps (tx_execute (insert_idempotency_key r7))"
  "hist.keeps (tx_execute (insert_identity_or_ignore r8))"
  "hist.keeps (tx_execute (upsert_alias r9))"
  by (rule hist.keeps_execute;
      auto simp: insert_defs history_grows_def token_used_def find_append Let_def split: if_splits)+

lemma token_used_consume: "token_used db h \<Longrightarrow> token_used (consume_token h' now db) h"
  by (cases "List.find (\<lambda>t. lt_token_hash t = h) (db_launch_tokens db)")
    (simp_all add: token_used_def consume_token_def find_update_where)

lemma hist_update [intro!]:
  "hist.keeps (tx_update (consume_token h now))"
  "hist.keeps (tx_update (set_capabilities a n))"
  "hist.keeps (tx_update (demote_active c))"
  "hist.keeps (tx_update (promote c a))"
  "hist.keeps (tx_update (set_control_revision c k))"
  "hist.keeps (tx_update (set_status c s))"
  "hist.keeps (tx_update (insert_project_or_ignore i now))"
  by (rule hist.keeps_update, simp add: history_grows_def token_used_consume, simp add: consume_token_def)
    (rule hist.keeps_update; simp add: update_defs history_grows_def token_used_def)+

lemma hist_work [intro!]:
  "hist.keeps (issue_attachment_token_work sys rd adapter ttl)"
  "hist.keeps (connect_attachment_work sys rd key hash token handshake cursor negotiated)"
  "hist.keeps (update_attachment_capabilities_work sys rd request c n negotiated)"
  "hist.keeps (take_control_work sys rd request c n k)"
  "hist.keeps (change_commission_dispatch_state_work sys rd request c st st' ev n)"
  "hist.keeps (create_proposal_work sys rd request proposal)"
  "hist.keeps (save_idempotent_result rd key hash v)"
  by (auto simp: work_defs)


section \<open>Exactly once\<close>

definition recorded :: "Db \<Rightarrow> string \<Rightarrow> (string \<times> json) option" where
  "recorded db key =
     map_option (\<lambda>r. (ik_request_hash r, ik_response r)) (List.find (\<lambda>r. ik_key r = key) (db_idempotency_keys db))"

lemma recorded_grows: "history_grows db db' \<Longrightarrow> recorded db key = Some x \<Longrightarrow> recorded db' key = Some x"
  by (auto simp: history_grows_def recorded_def dest: find_prefix)

lemma prior_result_recorded:
  "prior_result key hash db =
     (case recorded db key of None \<Rightarrow> Ok None
      | Some (h, v) \<Rightarrow> if h = hash then Ok (Some v) else Err TyrionError.IdempotencyConflict)"
  by (auto simp: prior_result_def recorded_def split: option.splits)

lemma save_recorded:
  "save_idempotent_result rd key hash v s = Inr (u, s') \<Longrightarrow> recorded (ses_db s') key = Some (hash, v)"
  by (auto simp: save_idempotent_result_def tx_simps insert_idempotency_key_def recorded_def find_append
      find_no_match list_ex_iff split: if_splits)

lemma idempotent_replays:
  "recorded db key = Some (hash, v) \<Longrightarrow> idempotent_transaction rd key hash work db = Inr (v, db)"
  by (simp add: idempotent_transaction_def transaction_def tx_bind_def tx_query_def prior_result_recorded tx_return_def)

lemma idempotent_conflicts:
  "recorded db key = Some (h, v) \<Longrightarrow> h \<noteq> hash \<Longrightarrow>
   idempotent_transaction rd key hash work db = Err TyrionError.IdempotencyConflict"
  by (simp add: idempotent_transaction_def transaction_def tx_bind_def tx_query_def prior_result_recorded)

text \<open>A transaction that succeeds either answered from the record or did its work once.\<close>

lemma idempotent_cases:
  assumes "idempotent_transaction rd key hash work db = Inr (v, db')"
  obtains (replayed) "recorded db key = Some (hash, v)" "db' = db"
  | (worked) s s' u where "recorded db key = None"
      "work \<lparr>ses_db = db, ses_clock = 0, ses_millis = 0, ses_uuid = 0\<rparr> = Inr (v, s)"
      "save_idempotent_result rd key hash v s = Inr (u, s')" "db' = ses_db s'"
proof (cases "recorded db key")
  case None
  then have "prior_result key hash db = Inr None" by (simp add: prior_result_recorded)
  with assms None that(2) show ?thesis
    by (auto simp: idempotent_transaction_def transaction_Inr tx_simps)
next
  case (Some r)
  obtain h w where r: "r = (h, w)" by force
  have "h = hash"
  proof (rule ccontr)
    assume "h \<noteq> hash"
    with idempotent_conflicts [of db key h w hash rd work] assms Some r show False by simp
  qed
  with Some r have old: "recorded db key = Some (hash, w)" by simp
  from idempotent_replays [OF old, of rd work] assms have "v = w" "db' = db" by simp_all
  with old show ?thesis by (intro that(1)) simp_all
qed

lemma idempotent_history:
  assumes "hist.keeps work" and "idempotent_transaction rd key hash work db = Inr (v, db')"
  shows "history_grows db db'"
  using assms(2) unfolding idempotent_transaction_def
  by (rule hist.keeps_transaction [rotated]) (auto intro: assms(1))

text \<open>The common shape of a mutating handler: checks that read nothing but the request, then one
  transaction under the idempotency key.\<close>

locale idempotent_handler =
  fixes handle :: "Sys \<Rightarrow> Readings \<Rightarrow> Request \<Rightarrow> Db \<Rightarrow> (json \<times> Db) result"
    and accepts :: "Sys \<Rightarrow> Request \<Rightarrow> bool"
    and work :: "Sys \<Rightarrow> Readings \<Rightarrow> Request \<Rightarrow> json tx"
  assumes accepted: "accepts sys request \<Longrightarrow> mutation_key request = Inr key \<Longrightarrow> request_hash sys request = Inr hash \<Longrightarrow>
      handle sys rd request db = idempotent_transaction rd key hash (work sys rd request) db"
    and refused: "handle sys rd request db = Inr r \<Longrightarrow>
      accepts sys request \<and> (\<exists>key. mutation_key request = Inr key) \<and> (\<exists>hash. request_hash sys request = Inr hash)"
    and work_history: "hist.keeps (work sys rd request)"
begin

lemma runs:
  assumes "handle sys rd request db = Inr (v, db')"
  obtains key hash where "mutation_key request = Inr key" "request_hash sys request = Inr hash"
    "accepts sys request" "idempotent_transaction rd key hash (work sys rd request) db = Inr (v, db')"
proof -
  from refused [OF assms] obtain key hash where kh: "mutation_key request = Inr key" "request_hash sys request = Inr hash"
    and "accepts sys request" by blast
  with accepted [of sys request key hash rd db] assms show ?thesis by (auto intro: that)
qed

lemma history: "handle sys rd request db = Inr (v, db') \<Longrightarrow> history_grows db db'"
  using runs idempotent_history [OF work_history] by metis

lemma records:
  assumes "handle sys rd request db = Inr (v, db')" and "mutation_key request = Inr key"
    and "request_hash sys request = Inr hash"
  shows "recorded db' key = Some (hash, v)"
proof -
  from runs [OF assms(1)] assms(2, 3)
  have "idempotent_transaction rd key hash (work sys rd request) db = Inr (v, db')" by auto
  then show ?thesis by (cases rule: idempotent_cases) (auto dest: save_recorded)
qed

lemma exactly_once:
  assumes "handle sys rd request db = Inr (v, db')" and "history_grows db' later"
  shows "handle sys rd' request later = Inr (v, later)"
proof -
  from runs [OF assms(1)] obtain key hash where kh: "mutation_key request = Inr key"
    "request_hash sys request = Inr hash" and ok: "accepts sys request" by blast
  from records [OF assms(1) kh] assms(2) have "recorded later key = Some (hash, v)" by (auto dest: recorded_grows)
  with accepted [OF ok kh] show ?thesis by (simp add: idempotent_replays)
qed

lemma conflicts:
  assumes "recorded db key = Some (h, w)" and "mutation_key request = Inr key"
    and "request_hash sys request = Inr hash" and "h \<noteq> hash" and "accepts sys request"
  shows "handle sys rd request db = Err TyrionError.IdempotencyConflict"
  using accepted [OF assms(5, 2, 3)] idempotent_conflicts [OF assms(1, 4)] by simp

end

interpretation issue: idempotent_handler
  "\<lambda>sys rd request. issue_attachment_token sys rd request adapter ttl"
  "\<lambda>sys request. validate_attachment_identity adapter = Inr () \<and> ttl \<noteq> 0 \<and> ttl \<le> 300"
  "\<lambda>sys rd request. issue_attachment_token_work sys rd adapter ttl"
  for adapter ttl
  by unfold_locales (auto simp: issue_attachment_token_def outcome_simps not_less split: if_splits)

interpretation downgrade: idempotent_handler
  "\<lambda>sys rd request. update_attachment_capabilities sys rd request c capabilities"
  "\<lambda>sys request. req_expected_revision request \<noteq> None
     \<and> (\<exists>n. negotiate capabilities = Inr n \<and> length (nc_effective n) = length capabilities)"
  "\<lambda>sys rd request. update_attachment_capabilities_work sys rd request c
     (the (req_expected_revision request)) (projr (negotiate capabilities))"
  for c capabilities
  by unfold_locales (auto simp: update_attachment_capabilities_def outcome_simps split: if_splits option.splits)

interpretation takeover: idempotent_handler
  "\<lambda>sys rd request. take_control sys rd request c"
  "\<lambda>sys request. req_expected_revision request \<noteq> None \<and> req_expected_control_revision request \<noteq> None"
  "\<lambda>sys rd request. take_control_work sys rd request c
     (the (req_expected_revision request)) (the (req_expected_control_revision request))"
  for c
  by unfold_locales (auto simp: take_control_def outcome_simps split: option.splits)

interpretation dispatch_state: idempotent_handler
  "\<lambda>sys rd request. change_commission_dispatch_state sys rd request c expected next event"
  "\<lambda>sys request. req_expected_revision request \<noteq> None"
  "\<lambda>sys rd request. change_commission_dispatch_state_work sys rd request c expected next event
     (the (req_expected_revision request))"
  for c expected "next" event
  by unfold_locales (auto simp: change_commission_dispatch_state_def outcome_simps split: option.splits)

interpretation proposing: idempotent_handler
  "\<lambda>sys rd request. create_proposal sys rd request proposal"
  "\<lambda>sys request. validate_proposal (sys_canonicalize sys) (sys_hash_orders sys) proposal = Inr ()"
  "\<lambda>sys rd request. create_proposal_work sys rd request proposal"
  for proposal
  by unfold_locales (auto simp: create_proposal_def outcome_simps)

end
