(* ===== verification/Store_Control.thy ===== *)
theory Store_Control
  imports Store_History
begin

text \<open>
  Who controls a Commission. The invariant \<open>control_wf\<close> of the control tables: ids are unique, every link
  joins an existing Commission to an existing Attachment, and every Commission has exactly one active
  Attachment. Every handler preserves it, although creating a Commission and taking control break it
  between two statements. With it come the exact effect of a takeover, the life of a launch token, the
  capabilities of an Attachment, and the dispatch state of a Commission.
\<close>

section \<open>Rows under update\<close>

lemma map_update_where: "(\<And>r. g (f r) = g r) \<Longrightarrow> map g (update_where p f rs) = map g rs"
  by (simp add: update_where_def)

lemma set_update_where: "set (update_where p f rs) = (\<lambda>r. if p r then f r else r) ` set rs"
  by (simp add: update_where_def)

lemma image_update_where: "(\<And>r. g (f r) = g r) \<Longrightarrow> g ` set (update_where p f rs) = g ` set rs"
  by (metis list.set_map map_update_where)

lemma has_commission_iff: "has_commission db c \<longleftrightarrow> c \<in> cm_id ` set (db_commissions db)"
  by (auto simp: has_commission_def list_ex_iff)

lemma has_attachment_iff: "has_attachment db a \<longleftrightarrow> a \<in> at_id ` set (db_attachments db)"
  by (auto simp: has_attachment_def list_ex_iff)

lemma find_commission_Ok: "find_commission c db = Inr r \<longleftrightarrow> List.find (\<lambda>q. cm_id q = c) (db_commissions db) = Some r"
  by (auto simp: find_commission_def split: option.splits)

section \<open>What leaves control alone\<close>

definition same_control :: "Db \<Rightarrow> Db \<Rightarrow> bool" where
  "same_control db db' \<longleftrightarrow>
     db_commissions db' = db_commissions db \<and> db_links db' = db_links db \<and> db_attachments db' = db_attachments db"

interpretation ctl: table_relation same_control
  by unfold_locales (auto simp: same_control_def)

lemma ctl_execute [intro!]:
  "ctl.keeps (tx_execute (insert_criterion r2 st))"
  "ctl.keeps (tx_execute (insert_criterion_version_row r2 n))"
  "ctl.keeps (tx_execute (insert_authority_scope r3))"
  "ctl.keeps (tx_execute (insert_ceilings c ceil))"
  "ctl.keeps (tx_execute (insert_known_uncertainty c n d))"
  "ctl.keeps (tx_execute (insert_launch_token r4))"
  "ctl.keeps (tx_execute (insert_event c t n p now))"
  "ctl.keeps (tx_execute (insert_idempotency_key r7))"
  "ctl.keeps (tx_execute (insert_identity_or_ignore r8))"
  "ctl.keeps (tx_execute (upsert_alias r9))"
  by (rule ctl.keeps_execute, auto simp: insert_defs same_control_def Let_def split: if_splits)+

lemma ctl_update [intro!]:
  "ctl.keeps (tx_update (consume_token h now))"
  "ctl.keeps (tx_update (insert_project_or_ignore i now))"
  by (rule ctl.keeps_update, simp add: update_defs same_control_def)+

lemma ctl_parts [intro!]:
  "ctl.keeps (record_event_with_payload rd c ev n p)"
  "ctl.keeps (record_event rd c ev n)"
  "ctl.keeps (save_idempotent_result rd key hash v)"
  "ctl.keeps (project_commission sys c)"
  "ctl.keeps (store_mandate c proposal)"
  "ctl.keeps (bind_project_identity sys rd proposal)"
  "ctl.keeps (issue_attachment_token_work sys rd adapter ttl)"
  by (auto simp: work_defs)

lemma ctl_step: "ctl.keeps m \<Longrightarrow> m s = Inr (v, s') \<Longrightarrow> same_control (ses_db s) (ses_db s')"
  by (auto simp: ctl.keeps_def)

section \<open>The invariant\<close>

definition link_key :: "LinkRow \<Rightarrow> string \<times> string" where
  "link_key l = (ca_commission_id l, ca_attachment_id l)"

definition control_wf :: "Db \<Rightarrow> bool" where
  "control_wf db \<longleftrightarrow>
     distinct (map cm_id (db_commissions db))
     \<and> distinct (map link_key (db_links db))
     \<and> (\<forall>l \<in> set (db_links db). has_commission db (ca_commission_id l) \<and> has_attachment db (ca_attachment_id l)
          \<and> ca_role l \<in> {''active'', ''observer''})
     \<and> (\<forall>c. has_commission db c \<longrightarrow> length (filter (active_link c) (db_links db)) = 1)"

text \<open>It depends only on the ids of Commissions and Attachments and on the links.\<close>

lemma control_wf_frame:
  assumes "control_wf db" and "map cm_id (db_commissions db') = map cm_id (db_commissions db)"
    and "db_links db' = db_links db" and "at_id ` set (db_attachments db) \<subseteq> at_id ` set (db_attachments db')"
  shows "control_wf db'"
proof -
  have "has_commission db' c = has_commission db c" for c
    unfolding has_commission_iff using assms(2) by (metis list.set_map)
  then show ?thesis using assms unfolding control_wf_def has_attachment_iff by auto
qed

interpretation cwf: table_relation "\<lambda>db db'. control_wf db \<longrightarrow> control_wf db'"
  by unfold_locales auto

lemma cwf_of_ctl: "ctl.keeps m \<Longrightarrow> cwf.keeps m"
  unfolding ctl.keeps_def cwf.keeps_def same_control_def using control_wf_frame by (metis order_refl)

lemma insert_link_Ok:
  "insert_link r db = Inr db' \<longleftrightarrow>
     ca_role r \<in> set role_check \<and> link_key r \<notin> link_key ` set (db_links db)
     \<and> (ca_role r = ''active'' \<longrightarrow> filter (active_link (ca_commission_id r)) (db_links db) = [])
     \<and> has_commission db (ca_commission_id r) \<and> has_attachment db (ca_attachment_id r)
     \<and> db' = db\<lparr>db_links := db_links db @ [r]\<rparr>"
proof -
  have "list_ex (\<lambda>q. ca_commission_id q = ca_commission_id r \<and> ca_attachment_id q = ca_attachment_id r) (db_links db)
      \<longleftrightarrow> link_key r \<in> link_key ` set (db_links db)"
    by (auto simp: list_ex_iff link_key_def image_iff eq_commute)
  moreover have "list_ex (\<lambda>q. ca_commission_id q = ca_commission_id r \<and> ca_role q = ''active'') (db_links db)
      \<longleftrightarrow> filter (active_link (ca_commission_id r)) (db_links db) \<noteq> []"
    by (auto simp: list_ex_iff active_link_def filter_empty_conv)
  ultimately show ?thesis by (simp add: insert_link_def) blast
qed

lemma cwf_observer: "ca_role r = ''observer'' \<Longrightarrow> cwf.keeps (tx_execute (insert_link r))"
  by (rule cwf.keeps_execute)
    (auto simp: insert_link_Ok control_wf_def active_link_def has_commission_iff has_attachment_iff)

lemma cwf_insert_attachment: "cwf.keeps (tx_execute (insert_attachment r))"
  by (rule cwf.keeps_execute)
    (auto simp: insert_attachment_def elim!: control_wf_frame split: if_splits)

lemma cwf_update:
  "cwf.keeps (tx_update (set_capabilities a n))"
  "cwf.keeps (tx_update (set_status c st))"
  by (rule cwf.keeps_update, auto simp: update_defs map_update_where image_update_where elim!: control_wf_frame)+


lemma cwf_parts [intro!]:
  "cwf.keeps (record_event_with_payload rd c ev n p)"
  "cwf.keeps (save_idempotent_result rd key hash v)"
  "cwf.keeps (project_commission sys c)"
  "cwf.keeps (tx_update (consume_token h now))"
  by (intro cwf_of_ctl ctl_parts ctl_update)+

lemma cwf_join: "cwf.keeps (join_as_observer rd a now cursor)"
  by (auto simp: join_as_observer_def intro!: cwf_observer)

lemma cwf_work:
  "cwf.keeps (issue_attachment_token_work sys rd adapter ttl)"
  "cwf.keeps (update_attachment_capabilities_work sys rd request c n negotiated)"
  "cwf.keeps (change_commission_dispatch_state_work sys rd request c st st' ev n)"
  "cwf.keeps (connect_attachment_work sys rd key hash token handshake cursor negotiated)"
  by (auto simp: update_attachment_capabilities_work_def change_commission_dispatch_state_work_def
      connect_attachment_work_def Let_def
      intro!: cwf_of_ctl [OF ctl_parts(7)] cwf_update cwf_insert_attachment cwf_join)

section \<open>Taking control\<close>

definition handover :: "string \<Rightarrow> string \<Rightarrow> LinkRow \<Rightarrow> LinkRow" where
  "handover c a l =
     (if ca_commission_id l = c then l\<lparr>ca_role := if ca_attachment_id l = a then ''active'' else ''observer''\<rparr> else l)"

lemma role_same: "ca_role l = x \<Longrightarrow> l\<lparr>ca_role := x\<rparr> = l"
  by (cases l) simp

lemma demote_promote:
  assumes "control_wf db"
  shows "db_links (promote c a (demote_active c db)) = map (handover c a) (db_links db)"
  using assms unfolding control_wf_def promote_def demote_active_def update_where_def
  by (auto simp: handover_def active_link_def role_same)

lemma length_filter_key:
  "distinct (map f xs) \<Longrightarrow> k \<in> f ` set xs \<Longrightarrow> length (filter (\<lambda>x. f x = k) xs) = 1"
proof (induction xs)
  case (Cons x xs)
  show ?case
  proof (cases "f x = k")
    case True
    with Cons.prems have "filter (\<lambda>x. f x = k) xs = []" by (auto simp: filter_empty_conv image_iff)
    with True show ?thesis by simp
  next
    case False
    with Cons show ?thesis by auto
  qed
qed simp

lemma handover_simps [simp]:
  "link_key (handover c a l) = link_key l" "ca_commission_id (handover c a l) = ca_commission_id l"
  "ca_attachment_id (handover c a l) = ca_attachment_id l"
  by (simp_all add: handover_def link_key_def)

lemma active_handover:
  "active_link c' (handover c a l) \<longleftrightarrow> (if c' = c then link_key l = (c, a) else active_link c' l)"
  by (auto simp: active_link_def handover_def link_key_def)

lemma handover_role:
  "ca_role (handover c a l) \<noteq> ''observer'' \<Longrightarrow> ca_role (handover c a l) \<noteq> ''active'' \<Longrightarrow>
   ca_role l \<noteq> ''observer'' \<and> ca_role l \<noteq> ''active''"
  by (auto simp: handover_def split: if_splits)

lemma control_wf_handover:
  assumes wf: "control_wf db" and "(c, a) \<in> link_key ` set (db_links db)"
    and "map cm_id (db_commissions db') = map cm_id (db_commissions db)"
    and links: "db_links db' = map (handover c a) (db_links db)"
    and "db_attachments db' = db_attachments db"
  shows "control_wf db'"
proof -
  have commissions: "has_commission db' c' = has_commission db c'" for c'
    unfolding has_commission_iff using assms(3) by (metis list.set_map)
  have "length (filter (active_link c') (db_links db')) = 1" if "has_commission db c'" for c'
  proof (cases "c' = c")
    case True
    then have "filter (active_link c') (db_links db') = map (handover c a) (filter (\<lambda>l. link_key l = (c, a)) (db_links db))"
      by (simp add: links filter_map comp_def active_handover)
    with wf assms(2) show ?thesis by (simp add: length_filter_key control_wf_def)
  next
    case False
    then have "filter (active_link c') (db_links db') = map (handover c a) (filter (active_link c') (db_links db))"
      by (simp add: links filter_map comp_def active_handover)
    with wf that show ?thesis by (simp add: control_wf_def)
  qed
  with wf assms show ?thesis
    unfolding control_wf_def commissions links has_attachment_iff
    by (auto simp: comp_def dest: handover_role)
qed

text \<open>The effect of a takeover on the tables.\<close>

lemma take_control_effect:
  assumes run: "take_control_work sys rd request c n k s = Inr (v, s')" and wf: "control_wf (ses_db s)"
  obtains a r where "authenticated_attachment_id sys request (ses_db s) = Inr a"
    "ensure_commission_attachment a c CONTROL_TAKEOVER (ses_db s) = Inr ()"
    "find_commission c (ses_db s) = Inr r" "cm_revision r = n" "cm_control_revision r = k"
    "db_links (ses_db s') = map (handover c a) (db_links (ses_db s))"
    "db_commissions (ses_db s')
       = update_where (\<lambda>q. cm_id q = c) (\<lambda>q. q\<lparr>cm_control_revision := k + 1\<rparr>) (db_commissions (ses_db s))"
    "db_attachments (ses_db s') = db_attachments (ses_db s)"
proof -
  from run obtain a r p s1 s2 s3 where
    a: "authenticated_attachment_id sys request (ses_db s) = Inr a"
    and e: "ensure_commission_attachment a c CONTROL_TAKEOVER (ses_db s) = Inr ()"
    and r: "find_commission c (ses_db s) = Inr r" "cm_revision r = n" "cm_control_revision r = k"
    and s1: "s1 = s\<lparr>ses_db := set_control_revision c (k + 1) (promote c a (demote_active c (ses_db s)))\<rparr>"
    and s2: "record_event_with_payload rd c EventKind.ActiveAttachmentChanged n p s1 = Inr ((), s2)"
    and s3: "project_commission sys c s2 = Inr (s3, s')"
    unfolding take_control_work_def
    by (auto simp: tx_simps Let_def split: if_splits)
  from s2 s3 have "same_control (ses_db s1) (ses_db s')"
    using ctl_step [OF ctl_parts(1)] ctl_step [OF ctl_parts(4)] ctl.rel_trans by blast
  then have "db_links (ses_db s') = map (handover c a) (db_links (ses_db s))"
    "db_commissions (ses_db s')
       = update_where (\<lambda>q. cm_id q = c) (\<lambda>q. q\<lparr>cm_control_revision := k + 1\<rparr>) (db_commissions (ses_db s))"
    "db_attachments (ses_db s') = db_attachments (ses_db s)"
    using demote_promote [OF wf, of c a]
    by (simp_all add: same_control_def s1 set_control_revision_def promote_def demote_active_def)
  with a e r show ?thesis by (rule that)
qed

lemma ensure_commission_attachment_Ok:
  "ensure_commission_attachment a c cap db = Inr () \<longleftrightarrow>
     has_commission db c \<and> (c, a) \<in> link_key ` set (db_links db)
     \<and> (\<exists>r. List.find (\<lambda>r. at_id r = a) (db_attachments db) = Some r \<and> cap \<in> set (at_capabilities r))"
  by (auto simp: ensure_commission_attachment_def ensure_commission_exists_def ensure_attachment_capability_def
      outcome_simps list_ex_iff link_key_def image_iff split: option.splits if_splits)

lemma cwf_take_control: "cwf.keeps (take_control_work sys rd request c n k)"
  unfolding cwf.keeps_def
proof (intro allI impI)
  fix s v s'
  assume run: "take_control_work sys rd request c n k s = Inr (v, s')" and wf: "control_wf (ses_db s)"
  from take_control_effect [OF run wf] obtain a where
    "ensure_commission_attachment a c CONTROL_TAKEOVER (ses_db s) = Inr ()"
    and links: "db_links (ses_db s') = map (handover c a) (db_links (ses_db s))"
    and "db_commissions (ses_db s')
       = update_where (\<lambda>q. cm_id q = c) (\<lambda>q. q\<lparr>cm_control_revision := k + 1\<rparr>) (db_commissions (ses_db s))"
    and same: "db_attachments (ses_db s') = db_attachments (ses_db s)" by blast
  then have "(c, a) \<in> link_key ` set (db_links (ses_db s))"
    "map cm_id (db_commissions (ses_db s')) = map cm_id (db_commissions (ses_db s))"
    by (simp_all add: ensure_commission_attachment_Ok map_update_where)
  with wf links same show "control_wf (ses_db s')" by (blast intro: control_wf_handover)
qed


section \<open>Creating a Commission\<close>

lemma attach_proposer_effect:
  assumes "attach_proposer rd c a s = Inr (u, s')"
  obtains l where "link_key l = (c, a)" "ca_role l = ''active''" "has_attachment (ses_db s) a"
    "db_links (ses_db s') = db_links (ses_db s) @ [l]"
    "db_commissions (ses_db s') = db_commissions (ses_db s)" "db_attachments (ses_db s') = db_attachments (ses_db s)"
proof -
  from assms obtain now db1 p q t s2 where
    l: "insert_link \<lparr>ca_commission_id = c, ca_attachment_id = a, ca_role = ''active'', ca_joined_at = now\<rparr>
          (ses_db s) = Inr db1"
    and s2: "record_event_with_payload rd c EventKind.AttachmentJoined 0 p t = Inr ((), s2)"
    and s3: "record_event_with_payload rd c EventKind.ActiveAttachmentChanged 0 q s2 = Inr (u, s')"
    and t: "ses_db t = db1"
    unfolding attach_proposer_def tx_simps by fastforce
  from s2 s3 t have "same_control db1 (ses_db s')"
    using ctl_step [OF ctl_parts(1)] ctl.rel_trans by blast
  with l show ?thesis by (intro that) (auto simp: insert_link_Ok same_control_def link_key_def)
qed

lemma create_proposal_effect:
  assumes "create_proposal_work sys rd request proposal s = Inr (v, s')"
  obtains c a r l where "authenticated_attachment_id sys request (ses_db s) = Inr a"
    "ensure_attachment_capability a PROPOSAL_CREATION (ses_db s) = Inr ()"
    "\<not> has_commission (ses_db s) c" "cm_id r = c" "cm_status r = ''proposed''"
    "cm_revision r = 0" "cm_control_revision r = 0"
    "db_commissions (ses_db s') = db_commissions (ses_db s) @ [r]"
    "has_attachment (ses_db s) a" "link_key l = (c, a)" "ca_role l = ''active''"
    "db_links (ses_db s') = db_links (ses_db s) @ [l]"
    "db_attachments (ses_db s') = db_attachments (ses_db s)"
proof -
  from assms obtain a s1 c r db2 t s3 s4 s5 where
    a: "authenticated_attachment_id sys request (ses_db s) = Inr a"
    "ensure_attachment_capability a PROPOSAL_CREATION (ses_db s) = Inr ()"
    and s1: "bind_project_identity sys rd proposal s = Inr ((), s1)"
    and db2: "insert_commission r (ses_db s1) = Inr db2"
    and s3: "store_mandate c proposal t = Inr ((), s3)"
    and s4: "record_event rd c EventKind.CommissionProposed 0 s3 = Inr ((), s4)"
    and s5: "attach_proposer rd c a s4 = Inr ((), s5)" and s': "project_commission sys c s5 = Inr (v, s')"
    and r: "cm_id r = c" "cm_status r = ''proposed''" "cm_revision r = 0" "cm_control_revision r = 0"
    and t: "ses_db t = db2"
    unfolding create_proposal_work_def tx_simps by fastforce
  have before: "same_control (ses_db s) (ses_db s1)" using ctl_step [OF ctl_parts(6) s1] .
  have between: "same_control db2 (ses_db s4)"
    using ctl_step [OF ctl_parts(5) s3] ctl_step [OF ctl_parts(2) s4] ctl.rel_trans t by blast
  have after: "same_control (ses_db s5) (ses_db s')" using ctl_step [OF ctl_parts(4) s'] .
  have fresh: "\<not> has_commission (ses_db s1) c" and row: "db2 = (ses_db s1)\<lparr>db_commissions := db_commissions (ses_db s1) @ [r]\<rparr>"
    using db2 r by (auto simp: insert_commission_def split: if_splits)
  from s5 obtain l where l: "link_key l = (c, a)" "ca_role l = ''active''" "has_attachment (ses_db s4) a"
    "db_links (ses_db s5) = db_links (ses_db s4) @ [l]"
    "db_commissions (ses_db s5) = db_commissions (ses_db s4)" "db_attachments (ses_db s5) = db_attachments (ses_db s4)"
    by (rule attach_proposer_effect)
  have "\<not> has_commission (ses_db s) c" "has_attachment (ses_db s) a"
    "db_commissions (ses_db s') = db_commissions (ses_db s) @ [r]" "db_links (ses_db s') = db_links (ses_db s) @ [l]"
    "db_attachments (ses_db s') = db_attachments (ses_db s)"
    using before between after fresh l by (auto simp: same_control_def row has_commission_iff has_attachment_iff)
  with a r l(1, 2) show ?thesis by (intro that [of a c r l]) simp_all
qed

lemma control_wf_new:
  assumes wf: "control_wf db" and fresh: "\<not> has_commission db c" and "cm_id r = c"
    and a: "has_attachment db a" and l: "link_key l = (c, a)" "ca_role l = ''active''"
    and db': "db_commissions db' = db_commissions db @ [r]" "db_links db' = db_links db @ [l]"
      "db_attachments db' = db_attachments db"
  shows "control_wf db'"
proof -
  have commissions: "has_commission db' x \<longleftrightarrow> x = c \<or> has_commission db x" for x
    using assms by (auto simp: has_commission_iff)
  have lc: "ca_commission_id l = c" "ca_attachment_id l = a" using l by (simp_all add: link_key_def)
  have none: "filter (active_link c) (db_links db) = []"
    using wf fresh by (auto simp: control_wf_def filter_empty_conv active_link_def)
  have notin: "link_key l \<notin> link_key ` set (db_links db)"
    using wf fresh l by (auto simp: control_wf_def link_key_def)
  have "length (filter (active_link x) (db_links db')) = 1" if "has_commission db' x" for x
    using that wf none l fresh lc unfolding commissions
    by (cases "x = c") (auto simp: control_wf_def db' active_link_def)
  moreover have "distinct (map cm_id (db_commissions db'))"
    using wf fresh assms(3) by (auto simp: control_wf_def db' has_commission_iff)
  moreover have "distinct (map link_key (db_links db'))"
    using wf notin by (simp add: control_wf_def db')
  ultimately show ?thesis
    using wf a l lc unfolding control_wf_def commissions has_attachment_iff db' by auto
qed

lemma cwf_create_proposal: "cwf.keeps (create_proposal_work sys rd request proposal)"
  unfolding cwf.keeps_def
proof (intro allI impI)
  fix s v s'
  assume run: "create_proposal_work sys rd request proposal s = Inr (v, s')" and wf: "control_wf (ses_db s)"
  from run show "control_wf (ses_db s')"
    by (rule create_proposal_effect) (rule control_wf_new [OF wf])
qed

section \<open>Attachments\<close>

text \<open>The row of an Attachment always records the outcome of a negotiation.\<close>

definition negotiated_row :: "AttachmentRow \<Rightarrow> bool" where
  "negotiated_row r \<longleftrightarrow>
     (\<exists>adv n. negotiate adv = Inr n \<and> at_capabilities r = nc_effective n
        \<and> at_missing_capabilities r = nc_missing n \<and> at_mode r = AttachmentMode_as_str (nc_mode n))"

definition attachments_wf :: "Db \<Rightarrow> bool" where
  "attachments_wf db \<longleftrightarrow>
     distinct (map at_id (db_attachments db)) \<and> distinct (map at_session_token_hash (db_attachments db))
     \<and> (\<forall>r \<in> set (db_attachments db). negotiated_row r)"

interpretation awf: table_relation "\<lambda>db db'. attachments_wf db \<longrightarrow> attachments_wf db'"
  by unfold_locales auto

lemma awf_of_ctl: "ctl.keeps m \<Longrightarrow> awf.keeps m"
  unfolding awf.keeps_def by (auto dest!: ctl_step simp: same_control_def attachments_wf_def)

lemma awf_other:
  "awf.keeps (tx_execute (insert_link r))" "awf.keeps (tx_execute (insert_commission q))"
  by (rule awf.keeps_execute; auto simp: insert_defs attachments_wf_def split: if_splits)+

lemma awf_update:
  "awf.keeps (tx_update (demote_active c))" "awf.keeps (tx_update (promote c a))"
  "awf.keeps (tx_update (set_control_revision c k))" "awf.keeps (tx_update (set_status c st))"
  by (rule awf.keeps_update, simp add: update_defs attachments_wf_def)+

lemma awf_insert_attachment:
  "negotiated_row r \<Longrightarrow> awf.keeps (tx_execute (insert_attachment r))"
  by (rule awf.keeps_execute)
    (fastforce simp: insert_attachment_def attachments_wf_def has_attachment_def list_ex_iff split: if_splits)

lemma awf_set_capabilities:
  "negotiate adv = Inr n \<Longrightarrow> awf.keeps (tx_update (set_capabilities a n))"
  by (rule awf.keeps_update)
    (fastforce simp: set_capabilities_def attachments_wf_def map_update_where set_update_where negotiated_row_def)

lemma awf_parts [intro!]:
  "awf.keeps (record_event_with_payload rd c ev k p)"
  "awf.keeps (save_idempotent_result rd key hash v)"
  "awf.keeps (project_commission sys c)"
  "awf.keeps (tx_update (consume_token h now))"
  by (intro awf_of_ctl ctl_parts ctl_update)+

lemma awf_work:
  "awf.keeps (issue_attachment_token_work sys rd adapter ttl)"
  "awf.keeps (take_control_work sys rd request c k j)"
  "awf.keeps (change_commission_dispatch_state_work sys rd request c st st' ev k)"
  "awf.keeps (create_proposal_work sys rd request proposal)"
  by (auto simp: take_control_work_def change_commission_dispatch_state_work_def create_proposal_work_def
      attach_proposer_def Let_def intro!: awf_of_ctl [OF ctl_parts(7)] awf_of_ctl [OF ctl_parts(5)]
      awf_of_ctl [OF ctl_parts(6)] awf_of_ctl [OF ctl_parts(2)] awf_update awf_other)

lemma awf_negotiated_work:
  assumes "negotiate adv = Inr negotiated"
  shows "awf.keeps (update_attachment_capabilities_work sys rd request c k negotiated)"
    and "awf.keeps (connect_attachment_work sys rd key hash token handshake cursor negotiated)"
proof -
  have row: "negotiated_row r" if "at_capabilities r = nc_effective negotiated"
    "at_missing_capabilities r = nc_missing negotiated" "at_mode r = AttachmentMode_as_str (nc_mode negotiated)" for r
    using assms that by (auto simp: negotiated_row_def)
  show "awf.keeps (update_attachment_capabilities_work sys rd request c k negotiated)"
    by (auto simp: update_attachment_capabilities_work_def Let_def intro!: awf_set_capabilities [OF assms])
  show "awf.keeps (connect_attachment_work sys rd key hash token handshake cursor negotiated)"
    by (auto simp: connect_attachment_work_def join_as_observer_def Let_def
        intro!: awf_insert_attachment row awf_other)
qed

end
