(* ===== verification/Store_Quiet.thy ===== *)
theory Store_Quiet
  imports Store_Amendments Store_Control
begin

text \<open>
  The handlers that work inside a Commission: accepting, pausing, resuming and cancelling it, proposing and
  approving operations, granting credentials, and amending the mandate. They leave control, Attachments and
  launch tokens alone and only append to the history. One relation, \<open>quiet\<close>, says so; every invariant of
  the store that follows from it holds for all of them at once.
\<close>

section \<open>The relation\<close>

definition control_rows :: "Db \<Rightarrow> (string \<times> int) list" where
  "control_rows db = map (\<lambda>r. (cm_id r, cm_control_revision r)) (db_commissions db)"

definition appends_events :: "Db \<Rightarrow> Db \<Rightarrow> bool" where
  "appends_events db db' \<longleftrightarrow>
     (\<exists>es. db_events db' = db_events db @ es
        \<and> map ev_sequence es = [db_event_sequence db + 1..db_event_sequence db']
        \<and> (\<forall>e \<in> set es. ev_commission_id e \<in> fst ` set (control_rows db)))
     \<and> db_event_sequence db \<le> db_event_sequence db'
     \<and> (db_event_sequence db < 2 ^ 63 \<longrightarrow> db_event_sequence db' < 2 ^ 63)"

definition quiet :: "Db \<Rightarrow> Db \<Rightarrow> bool" where
  "quiet db db' \<longleftrightarrow>
     db_links db' = db_links db \<and> db_attachments db' = db_attachments db
     \<and> db_launch_tokens db' = db_launch_tokens db \<and> control_rows db' = control_rows db
     \<and> as_commission_id ` set (db_authority_scopes db')
         \<subseteq> as_commission_id ` set (db_authority_scopes db) \<union> fst ` set (control_rows db)
     \<and> fst ` set (db_resource_ceilings db') \<subseteq> fst ` set (db_resource_ceilings db)
     \<and> prefix (db_idempotency_keys db) (db_idempotency_keys db')
     \<and> appends_events db db'"

lemma appends_refl [simp]: "appends_events db db"
  by (simp add: appends_events_def)

lemma appends_trans:
  assumes "appends_events db db'" and "appends_events db' db''" and "control_rows db' = control_rows db"
  shows "appends_events db db''"
proof -
  from assms(1) obtain es where es: "db_events db' = db_events db @ es"
    "map ev_sequence es = [db_event_sequence db + 1..db_event_sequence db']"
    "\<forall>e \<in> set es. ev_commission_id e \<in> fst ` set (control_rows db)" and le: "db_event_sequence db \<le> db_event_sequence db'"
    by (auto simp: appends_events_def)
  from assms(2) obtain es' where es': "db_events db'' = db_events db' @ es'"
    "map ev_sequence es' = [db_event_sequence db' + 1..db_event_sequence db'']"
    "\<forall>e \<in> set es'. ev_commission_id e \<in> fst ` set (control_rows db)" and le': "db_event_sequence db' \<le> db_event_sequence db''"
    using assms(3) by (auto simp: appends_events_def)
  have "[db_event_sequence db + 1..db_event_sequence db''] =
      [db_event_sequence db + 1..db_event_sequence db'] @ [db_event_sequence db' + 1..db_event_sequence db'']"
    using le le' by (cases "db_event_sequence db'' = db_event_sequence db'")
      (simp_all add: upto_split1 [of "db_event_sequence db + 1" "db_event_sequence db' + 1"])
  with es es' have "\<exists>es. db_events db'' = db_events db @ es
      \<and> map ev_sequence es = [db_event_sequence db + 1..db_event_sequence db'']
      \<and> (\<forall>e \<in> set es. ev_commission_id e \<in> fst ` set (control_rows db))"
    by (intro exI [of _ "es @ es'"]) auto
  with le le' assms(1, 2) show ?thesis unfolding appends_events_def by simp
qed

interpretation quiet: table_relation quiet
proof
  show "quiet db db" for db by (simp add: quiet_def)
  show "quiet db db''" if steps: "quiet db db'" "quiet db' db''" for db db' db''
  proof -
    let ?scopes = "\<lambda>db. as_commission_id ` set (db_authority_scopes db)" and ?rows = "fst ` set (control_rows db)"
    have "?scopes db'' \<subseteq> ?scopes db' \<union> ?rows" "?scopes db' \<subseteq> ?scopes db \<union> ?rows"
      "fst ` set (db_resource_ceilings db'') \<subseteq> fst ` set (db_resource_ceilings db')"
      "fst ` set (db_resource_ceilings db') \<subseteq> fst ` set (db_resource_ceilings db)"
      using steps by (simp_all add: quiet_def)
    then have "?scopes db'' \<subseteq> ?scopes db \<union> ?rows"
      "fst ` set (db_resource_ceilings db'') \<subseteq> fst ` set (db_resource_ceilings db)" by blast+
    moreover have "prefix (db_idempotency_keys db) (db_idempotency_keys db'')"
      using steps unfolding quiet_def by (metis prefix_order.trans)
    ultimately show ?thesis using steps appends_trans [of db db' db''] unfolding quiet_def by simp
  qed
qed

text \<open>A step that leaves these columns alone is quiet.\<close>

definition core ::
  "Db \<Rightarrow> (LinkRow list \<times> AttachmentRow list \<times> LaunchTokenRow list \<times> (string \<times> int) list) \<times>
     (AuthorityRow list \<times> (string \<times> ResourceCeilings) list \<times> IdempotencyRow list \<times> EventRow list \<times> int)" where
  "core db =
     ((db_links db, db_attachments db, db_launch_tokens db, control_rows db),
      (db_authority_scopes db, db_resource_ceilings db, db_idempotency_keys db, db_events db, db_event_sequence db))"

lemma quiet_core: "core db' = core db \<Longrightarrow> quiet db db'"
  by (simp add: core_def quiet_def appends_events_def)

lemma quiet_execute_core: "(\<And>db db'. u db = Inr db' \<Longrightarrow> core db' = core db) \<Longrightarrow> quiet.keeps (tx_execute u)"
  by (intro quiet.keeps_execute quiet_core)

lemma quiet_update_core: "(\<And>db. core (u db) = core db) \<Longrightarrow> quiet.keeps (tx_update u)"
  by (intro quiet.keeps_update quiet_core)

text \<open>The columns outside the core.\<close>

lemma core_update [simp]:
  "core (db\<lparr>db_plan := x1\<rparr>) = core db" "core (db\<lparr>db_assignments := x2\<rparr>) = core db"
  "core (db\<lparr>db_criterion_versions := x3\<rparr>) = core db" "core (db\<lparr>db_operations := x4\<rparr>) = core db"
  "core (db\<lparr>db_gates := x5\<rparr>) = core db" "core (db\<lparr>db_grants := x6\<rparr>) = core db"
  "core (db\<lparr>db_exposures := x7\<rparr>) = core db" "core (db\<lparr>db_recoveries := x8\<rparr>) = core db"
  "core (db\<lparr>db_amendments := x9\<rparr>) = core db" "core (db\<lparr>db_leases := y1\<rparr>) = core db"
  "core (db\<lparr>db_reservations := y2\<rparr>) = core db" "core (db\<lparr>db_attempts := y3\<rparr>) = core db"
  "core (db\<lparr>db_workers := y4\<rparr>) = core db" "core (db\<lparr>db_claim_uses := y5\<rparr>) = core db"
  "core (db\<lparr>db_worker_commands := y6\<rparr>) = core db" "core (db\<lparr>db_results := y7\<rparr>) = core db"
  "core (db\<lparr>db_materials := y8\<rparr>) = core db"
  by (simp_all add: core_def control_rows_def)

lemma core_commissions:
  assumes "\<And>c. cm_id (f c) = cm_id c" and "\<And>c. cm_control_revision (f c) = cm_control_revision c"
  shows "core (db\<lparr>db_commissions := update_where p f (db_commissions db)\<rparr>) = core db"
  by (simp add: core_def control_rows_def update_where_def assms)

section \<open>Every statement is quiet\<close>

lemmas plan_insert_defs =
  insert_plan_def insert_planned_def insert_planned_dependency_def insert_planned_criterion_def insert_assignment_def
  insert_metadata_def copy_metadata_def insert_skill_default_def replace_route_def insert_attention_def
  insert_verification_gate_def bind_criterion_versions_def on_plan_def

lemmas operation_insert_defs =
  insert_operation_def insert_gate_def insert_grant_def insert_exposure_def insert_recovery_or_ignore_def
  insert_amendment_def insert_criterion_version_row_def

lemma quiet_plan_execute [intro!]:
  "quiet.keeps (tx_execute (insert_plan r1))"
  "quiet.keeps (tx_execute (insert_planned r2))"
  "quiet.keeps (tx_execute (insert_planned_dependency r3))"
  "quiet.keeps (tx_execute (insert_planned_criterion r4))"
  "quiet.keeps (tx_execute (insert_assignment r5))"
  "quiet.keeps (tx_execute (copy_metadata a c l b))"
  "quiet.keeps (tx_execute (insert_skill_default r6))"
  "quiet.keeps (tx_execute (replace_route r7))"
  "quiet.keeps (tx_execute (insert_attention r8))"
  "quiet.keeps (tx_execute (insert_verification_gate r9))"
  "quiet.keeps (tx_execute (bind_criterion_versions c n))"
  by (rule quiet_execute_core, auto simp: plan_insert_defs Let_def split: if_splits option.splits)+

lemma quiet_operation_execute [intro!]:
  "quiet.keeps (tx_execute (insert_operation r1))"
  "quiet.keeps (tx_execute (insert_gate r2))"
  "quiet.keeps (tx_execute (insert_grant r3))"
  "quiet.keeps (tx_execute (insert_exposure r4))"
  "quiet.keeps (tx_execute (insert_recovery_or_ignore r5))"
  "quiet.keeps (tx_execute (insert_amendment r6))"
  "quiet.keeps (tx_execute (insert_criterion_version_row r7 n))"
  by (rule quiet_execute_core, auto simp: operation_insert_defs split: if_splits)+

lemma quiet_event [intro!]: "quiet.keeps (tx_execute (insert_event c t n p now))"
  by (rule quiet.keeps_execute)
    (auto simp: insert_event_def quiet_def appends_events_def has_commission_iff control_rows_def image_image
      split: if_splits)

lemma quiet_key [intro!]: "quiet.keeps (tx_execute (insert_idempotency_key r))"
  by (rule quiet.keeps_execute)
    (auto simp: insert_idempotency_key_def quiet_def appends_events_def control_rows_def split: if_splits)

lemma quiet_scope [intro!]: "quiet.keeps (tx_execute (insert_authority_scope r))"
  by (rule quiet.keeps_execute)
    (auto simp: insert_authority_scope_def quiet_def appends_events_def has_commission_iff control_rows_def image_image
      split: if_splits)

lemma quiet_ceilings [intro!]: "quiet.keeps (tx_execute (replace_resource_ceilings c ceil))"
proof (rule quiet.keeps_execute)
  fix db db' assume "replace_resource_ceilings c ceil db = Inr db'"
  then have "db' = db\<lparr>db_resource_ceilings :=
      update_where (\<lambda>(c', _). c' = c) (\<lambda>(c', _). (c', ceil)) (db_resource_ceilings db)\<rparr>"
    by (simp add: replace_resource_ceilings_def split: if_splits)
  then show "quiet db db'"
    by (simp add: quiet_def appends_events_def control_rows_def image_update_where split_beta)
qed

lemma quiet_delete_authority [intro!]: "quiet.keeps (tx_update (delete_authority c))"
  by (rule quiet.keeps_update) (auto simp: delete_authority_def quiet_def appends_events_def control_rows_def)

lemma quiet_commission_update [intro!]:
  "quiet.keeps (tx_update (activate c n now))"
  "quiet.keeps (tx_update (set_status c st))"
  "quiet.keeps (tx_update (set_revision c n))"
  "quiet.keeps (tx_update (cancel_commission_row c now))"
  by (rule quiet_update_core,
      simp add: activate_def set_status_def set_revision_def cancel_commission_row_def core_commissions)+

lemmas work_update_defs =
  set_assignment_status_def resolve_conditions_def restate_conditions_def on_plan_def authorize_gate_def
  authorize_operation_def revoke_lease_def revoke_reservation_def cancel_attempt_row_def cancel_worker_def
  reopen_assignment_def accept_amendment_row_def invalidate_other_amendments_def

lemma quiet_work_update [intro!]:
  "quiet.keeps (tx_update (set_assignment_status a st))"
  "quiet.keeps (tx_update (resolve_conditions a now))"
  "quiet.keeps (tx_update (restate_conditions a k req))"
  "quiet.keeps (tx_update (authorize_gate g now))"
  "quiet.keeps (tx_update (authorize_operation g now))"
  "quiet.keeps (tx_update (revoke_lease l now))"
  "quiet.keeps (tx_update (revoke_reservation t ms))"
  "quiet.keeps (tx_update (cancel_attempt_row t now ms))"
  "quiet.keeps (tx_update (cancel_worker t ms))"
  "quiet.keeps (tx_update (reopen_assignment t))"
  "quiet.keeps (tx_update (accept_amendment_row i now j))"
  "quiet.keeps (tx_update (invalidate_other_amendments c i))"
  "quiet.keeps (tx_update (\<lambda>db. db\<lparr>db_claim_uses := f db\<rparr>))"
  by (rule quiet_update_core, simp add: work_update_defs)+

lemmas closing_defs =
  cancel_assignments_def cancel_attempts_def reject_claim_uses_def cancel_workers_def fail_worker_commands_def
  revoke_leases_def revoke_reservations_def close_gates_def revoke_operations_def revoke_grants_def
  revoke_exposures_def strand_operations_def retain_results_def drop_accepted_artifacts_def
  refresh_temporary_material_retention_links_def expire_materials_def

lemma quiet_closing [intro!]:
  "quiet.keeps (tx_update (cancel_assignments c))"
  "quiet.keeps (tx_update (cancel_attempts c now ms))"
  "quiet.keeps (tx_update (reject_claim_uses c now))"
  "quiet.keeps (tx_update (cancel_workers c ms))"
  "quiet.keeps (tx_update (fail_worker_commands c))"
  "quiet.keeps (tx_update (revoke_leases c now))"
  "quiet.keeps (tx_update (revoke_reservations c ms))"
  "quiet.keeps (tx_update (close_gates c st now))"
  "quiet.keeps (tx_update (revoke_operations c now))"
  "quiet.keeps (tx_update (revoke_grants c now))"
  "quiet.keeps (tx_update (revoke_exposures c now))"
  "quiet.keeps (tx_update (strand_operations c now))"
  "quiet.keeps (tx_update (retain_results c))"
  "quiet.keeps (tx_update (drop_accepted_artifacts c))"
  "quiet.keeps (tx_update (refresh_temporary_material_retention_links p))"
  "quiet.keeps (tx_update (expire_materials c now))"
  by (rule quiet_update_core, simp add: closing_defs)+

section \<open>Every handler's work is quiet\<close>

lemma quiet_parts [intro!]:
  "quiet.keeps (record_event_with_payload rd c ev n p)"
  "quiet.keeps (record_event rd c ev n)"
  "quiet.keeps (save_idempotent_result rd key hash v)"
  "quiet.keeps (project_commission sys c)"
  "quiet.keeps (insert_authority c authority)"
  by (auto simp: record_event_def record_event_with_payload_def save_idempotent_result_def project_commission_def
      insert_authority_def)

lemma quiet_ready [intro!]: "quiet.keeps (insert_ready_assignment rd c l n m b now)"
  by (auto simp: insert_ready_assignment_def insert_assignment_skill_default_def)

lemma quiet_record_plan [intro!]: "quiet.keeps (record_plan_revision rd c n plan rec now)"
  by (auto simp: record_plan_revision_def store_planned_assignment_def)

lemma quiet_route [intro!]: "quiet.keeps (route_ready_assignments runtime rd c)"
  by (auto simp: route_ready_assignments_def route_assignment_def require_attention_def Let_def)

lemma quiet_acceptance [intro!]: "quiet.keeps (accept_commission_work sys runtime rd request c n)"
  by (auto simp: accept_commission_work_def plan_by_worker_def plan_of_proposal_def initialize_commission_plan_def
      open_principal_verification_gates_def Let_def)

lemma quiet_dispatch [intro!]: "quiet.keeps (change_commission_dispatch_state_work sys rd request c st st' ev n)"
  by (auto simp: change_commission_dispatch_state_work_def)

lemma quiet_context [intro!]:
  "quiet.keeps (ensure_current_operation_context rd c op n)"
  "quiet.keeps (ensure_current_credential_grant_context rd c grant n)"
  "quiet.keeps (check_credential_grant rd c op)"
  by (auto simp: ensure_current_operation_context_def ensure_current_credential_grant_context_def ensure_context_def
      check_credential_grant_def)

lemma quiet_grant [intro!]: "quiet.keeps (grant_credential_work sys rd c grant n)"
  by (auto simp: grant_credential_work_def)

lemma quiet_classify [intro!]: "quiet.keeps (classify_proposed rd runtime c op)"
  by (auto simp: classify_proposed_def Let_def)

lemma quiet_propose_operation [intro!]: "quiet.keeps (propose_operation_work sys rd runtime request c op n)"
  by (auto simp: propose_operation_work_def open_gate_def announce_operation_def ceiling_event_def Let_def)

lemma quiet_approve [intro!]: "quiet.keeps (approve_operation_work sys rd c g d n)"
  by (auto simp: approve_operation_work_def authorize_exposure_def)

lemma quiet_close [intro!]: "quiet.keeps (close_commission c now ms)"
  unfolding close_commission_def tx_for.simps by (intro quiet.keeps_bind quiet_commission_update quiet_closing) auto

lemma quiet_cancel [intro!]: "quiet.keeps (cancel_commission_work sys rd request c n)"
  by (auto simp: cancel_commission_work_def finalize_temporary_material_retention_def record_attempt_recovery_def)

lemma quiet_propose_amendment [intro!]: "quiet.keeps (propose_amendment_work sys rd request c amendment n)"
  by (auto simp: propose_amendment_work_def Let_def)

lemma quiet_accept_amendment [intro!]: "quiet.keeps (accept_amendment_work sys rd c i d n)"
  by (auto simp: accept_amendment_work_def replace_mandate_def replace_authority_def copy_current_criterion_versions_def
      revalidate_lease_def record_attempt_profile_claim_outcome_def revoke_old_grants_def Let_def)

section \<open>The handlers\<close>

lemma quiet_idempotent:
  assumes "quiet.keeps work" and "idempotent_transaction rd key hash work db = Inr (v, db')"
  shows "quiet db db'"
  using assms(2) unfolding idempotent_transaction_def
  by (rule quiet.keeps_transaction [rotated]) (auto intro: assms(1))

lemma quiet_history: "quiet db db' \<Longrightarrow> history_grows db db'"
proof -
  assume q: "quiet db db'"
  then obtain es where es: "db_events db' = db_events db @ es"
    "map ev_sequence es = [db_event_sequence db + 1..db_event_sequence db']" by (auto simp: quiet_def appends_events_def)
  have "db_event_sequence db < ev_sequence e" if "e \<in> set es" for e
  proof -
    from that have "ev_sequence e \<in> set (map ev_sequence es)" by simp
    then show ?thesis unfolding es(2) by simp
  qed
  with es q show ?thesis by (auto simp: history_grows_def quiet_def appends_events_def token_used_def)
qed

lemma hist_of_quiet: "quiet.keeps m \<Longrightarrow> hist.keeps m"
  unfolding quiet.keeps_def hist.keeps_def using quiet_history by blast

lemmas hist_quiet_work [intro!] =
  quiet_acceptance [THEN hist_of_quiet] quiet_grant [THEN hist_of_quiet] quiet_propose_operation [THEN hist_of_quiet]
  quiet_approve [THEN hist_of_quiet] quiet_cancel [THEN hist_of_quiet] quiet_propose_amendment [THEN hist_of_quiet]
  quiet_accept_amendment [THEN hist_of_quiet]

interpretation accepting: idempotent_handler
  "\<lambda>sys rd request. accept_commission sys runtime rd request c"
  "\<lambda>sys request. req_expected_revision request \<noteq> None"
  "\<lambda>sys rd request. accept_commission_work sys runtime rd request c (the (req_expected_revision request))"
  for runtime c
  by unfold_locales (auto simp: accept_commission_def outcome_simps split: option.splits)

interpretation cancelling: idempotent_handler
  "\<lambda>sys rd request. cancel_commission sys rd lock request c"
  "\<lambda>sys request. req_expected_revision request \<noteq> None \<and> lock = Inr ()"
  "\<lambda>sys rd request. cancel_commission_work sys rd request c (the (req_expected_revision request))"
  for lock c
  by unfold_locales (auto simp: cancel_commission_def outcome_simps split: option.splits)

interpretation proposing_operation: idempotent_handler
  "\<lambda>sys rd request. propose_operation sys rd runtime request c op"
  "\<lambda>sys request. req_expected_revision request \<noteq> None \<and> validate_operation_shape op = Inr ()"
  "\<lambda>sys rd request. propose_operation_work sys rd runtime request c op (the (req_expected_revision request))"
  for runtime c op
  by unfold_locales (auto simp: propose_operation_def outcome_simps split: option.splits)

interpretation approving: idempotent_handler
  "\<lambda>sys rd request. approve_operation sys rd h request c g d"
  "\<lambda>sys request. req_expected_revision request \<noteq> None \<and> authenticate_principal sys request h = Inr ()"
  "\<lambda>sys rd request. approve_operation_work sys rd c g d (the (req_expected_revision request))"
  for h c g d
  by unfold_locales (auto simp: approve_operation_def outcome_simps split: option.splits)

interpretation proposing_amendment: idempotent_handler
  "\<lambda>sys rd request. propose_commission_amendment sys rd request c amendment"
  "\<lambda>sys request. req_expected_revision request \<noteq> None \<and> validate_commission_amendment sys amendment = Inr ()"
  "\<lambda>sys rd request. propose_amendment_work sys rd request c amendment (the (req_expected_revision request))"
  for c amendment
  by unfold_locales (auto simp: propose_commission_amendment_def outcome_simps split: option.splits)

interpretation accepting_amendment: idempotent_handler
  "\<lambda>sys rd request. accept_commission_amendment sys rd h lock request c i d"
  "\<lambda>sys request. req_expected_revision request \<noteq> None \<and> authenticate_principal sys request h = Inr () \<and> lock = Inr ()"
  "\<lambda>sys rd request. accept_amendment_work sys rd c i d (the (req_expected_revision request))"
  for h lock c i d
  by unfold_locales (auto simp: accept_commission_amendment_def outcome_simps split: option.splits)

text \<open>Granting a credential looks up the recorded answer twice, before and after asking the credential runtime.\<close>

lemma grant_runs:
  assumes "grant_credential sys rd h runtime request c grant db = Inr (v, db')"
  obtains key hash n where "mutation_key request = Inr key" "request_hash sys request = Inr hash"
    "authenticate_principal sys request h = Inr ()" "req_expected_revision request = Some n"
    "idempotent_transaction rd key hash (grant_credential_work sys rd c grant n) db = Inr (v, db')"
proof -
  from assms obtain key hash n prior where kh: "mutation_key request = Inr key" "request_hash sys request = Inr hash"
    "authenticate_principal sys request h = Inr ()" "req_expected_revision request = Some n"
    and prior: "prior_result key hash db = Inr prior"
    and rest: "(case prior of Some w \<Rightarrow> Ok (w, db)
       | None \<Rightarrow> and_then (runtime_supports (the runtime) grant) (\<lambda>_.
           idempotent_transaction rd key hash (grant_credential_work sys rd c grant n) db)) = Inr (v, db')"
    by (auto simp: grant_credential_def outcome_simps split: option.splits)
  have "idempotent_transaction rd key hash (grant_credential_work sys rd c grant n) db = Inr (v, db')"
  proof (cases prior)
    case None
    with rest show ?thesis by (auto simp: outcome_simps)
  next
    case (Some w)
    with prior have "recorded db key = Some (hash, w)"
      by (auto simp: prior_result_recorded split: option.splits prod.splits if_splits)
    from idempotent_replays [OF this] rest Some show ?thesis by simp
  qed
  with kh show ?thesis by (intro that)
qed

inductive work_step :: "Sys \<Rightarrow> Db \<Rightarrow> Db \<Rightarrow> bool" for sys where
  accept: "accept_commission sys runtime rd request c db = Inr (v, db') \<Longrightarrow> work_step sys db db'"
| pause: "pause_commission sys rd request c db = Inr (v, db') \<Longrightarrow> work_step sys db db'"
| resume: "resume_commission sys rd request c db = Inr (v, db') \<Longrightarrow> work_step sys db db'"
| cancel: "cancel_commission sys rd lock request c db = Inr (v, db') \<Longrightarrow> work_step sys db db'"
| grant: "grant_credential sys rd h credentials request c grant db = Inr (v, db') \<Longrightarrow> work_step sys db db'"
| propose_operation: "propose_operation sys rd credentials request c op db = Inr (v, db') \<Longrightarrow> work_step sys db db'"
| approve: "approve_operation sys rd h request c g d db = Inr (v, db') \<Longrightarrow> work_step sys db db'"
| propose_amendment: "propose_commission_amendment sys rd request c amendment db = Inr (v, db') \<Longrightarrow> work_step sys db db'"
| accept_amendment: "accept_commission_amendment sys rd h lock request c i d db = Inr (v, db') \<Longrightarrow> work_step sys db db'"

lemma work_step_quiet: "work_step sys db db' \<Longrightarrow> quiet db db'"
  by (induction rule: work_step.induct)
    (auto simp: pause_commission_def resume_commission_def
      elim!: accepting.runs dispatch_state.runs cancelling.runs grant_runs proposing_operation.runs approving.runs
        proposing_amendment.runs accepting_amendment.runs
      intro: quiet_idempotent [rotated])

end
