(* ===== verification/Store_Machine.thy ===== *)
theory Store_Machine
  imports Store_Quiet
begin

text \<open>
  The store as a state machine. Every successful request is a step; the reachable states are those the
  empty database leads to. On reachable states the control tables, the Attachments and the event log
  are well formed, and control refines an abstract specification: a partial map from Commissions to
  their active Attachment and control revision.
\<close>

section \<open>The event log\<close>

definition events_wf :: "Db \<Rightarrow> bool" where
  "events_wf db \<longleftrightarrow>
     sorted_wrt (<) (map ev_sequence (db_events db)) \<and> 0 \<le> db_event_sequence db \<and> db_event_sequence db < 2 ^ 63
     \<and> (\<forall>e \<in> set (db_events db). 0 < ev_sequence e \<and> ev_sequence e \<le> db_event_sequence db
          \<and> has_commission db (ev_commission_id e))"

interpretation ewf: table_relation "\<lambda>db db'. events_wf db \<longrightarrow> events_wf db'"
  by unfold_locales auto

lemma events_wf_frame:
  assumes "events_wf db" and "db_events db' = db_events db" and "db_event_sequence db' = db_event_sequence db"
    and "cm_id ` set (db_commissions db) \<subseteq> cm_id ` set (db_commissions db')"
  shows "events_wf db'"
  using assms unfolding events_wf_def has_commission_iff by auto

lemma ewf_event [intro!]: "ewf.keeps (tx_execute (insert_event c t n p now))"
  by (rule ewf.keeps_execute)
    (fastforce simp: insert_event_def events_wf_def has_commission_iff sorted_wrt_append split: if_splits)

lemma ewf_execute [intro!]:
  "ewf.keeps (tx_execute (insert_commission r1))"
  "ewf.keeps (tx_execute (insert_criterion r2 st))"
  "ewf.keeps (tx_execute (insert_criterion_version_row r2 n))"
  "ewf.keeps (tx_execute (insert_authority_scope r3))"
  "ewf.keeps (tx_execute (insert_ceilings c ceil))"
  "ewf.keeps (tx_execute (insert_known_uncertainty c n d))"
  "ewf.keeps (tx_execute (insert_launch_token r4))"
  "ewf.keeps (tx_execute (insert_attachment r5))"
  "ewf.keeps (tx_execute (insert_link r6))"
  "ewf.keeps (tx_execute (insert_idempotency_key r7))"
  "ewf.keeps (tx_execute (insert_identity_or_ignore r8))"
  "ewf.keeps (tx_execute (upsert_alias r9))"
  by (rule ewf.keeps_execute; auto simp: insert_defs Let_def elim!: events_wf_frame split: if_splits)+

lemma ewf_update [intro!]:
  "ewf.keeps (tx_update (consume_token h now))"
  "ewf.keeps (tx_update (set_capabilities a n))"
  "ewf.keeps (tx_update (demote_active c))"
  "ewf.keeps (tx_update (promote c a))"
  "ewf.keeps (tx_update (set_control_revision c k))"
  "ewf.keeps (tx_update (set_status c s))"
  "ewf.keeps (tx_update (insert_project_or_ignore i now))"
  by (rule ewf.keeps_update; auto simp: update_defs image_update_where elim!: events_wf_frame)+

lemma ewf_work:
  "ewf.keeps (issue_attachment_token_work sys rd adapter ttl)"
  "ewf.keeps (connect_attachment_work sys rd key hash token handshake cursor negotiated)"
  "ewf.keeps (update_attachment_capabilities_work sys rd request c n negotiated)"
  "ewf.keeps (take_control_work sys rd request c n k)"
  "ewf.keeps (change_commission_dispatch_state_work sys rd request c st st' ev n)"
  "ewf.keeps (create_proposal_work sys rd request proposal)"
  "ewf.keeps (save_idempotent_result rd key hash v)"
  by (auto simp: work_defs)

text \<open>On a well-formed log a replay returns the events after the cursor in the order they were recorded.\<close>

lemma events_after_filter:
  assumes "events_wf db"
  shows "events_after c k db = filter (\<lambda>e. ev_commission_id e = c \<and> k < ev_sequence e) (db_events db)"
proof -
  have "sorted (map ev_sequence (db_events db))"
    using assms by (auto simp: events_wf_def intro: strict_sorted_imp_sorted)
  then have "sorted (map ev_sequence (filter (\<lambda>e. ev_commission_id e = c \<and> k < ev_sequence e) (db_events db)))"
    by (rule sorted_filter)
  then show ?thesis by (simp add: events_after_def sort_key_id_if_sorted)
qed


text \<open>Resuming from the cursor a replay returned misses nothing and repeats nothing: the events after \<open>k\<close>
  in a later log are those of the earlier log followed by those after the last of them.\<close>

definition next_cursor :: "int \<Rightarrow> EventRow list \<Rightarrow> int" where
  "next_cursor k es = (if es = [] then k else ev_sequence (last es))"

lemma sorted_last_max:
  fixes f :: "'a \<Rightarrow> int"
  shows "sorted_wrt (<) (map f xs) \<Longrightarrow> x \<in> set xs \<Longrightarrow> f x \<le> f (last xs)"
  by (induction xs) (auto intro: less_imp_le)

lemma replay_resumes:
  assumes wf: "events_wf db" "events_wf db'" and grows: "history_grows db db'"
  shows "events_after c k db' = events_after c k db @ events_after c (next_cursor k (events_after c k db)) db'"
proof -
  let ?P = "\<lambda>e. ev_commission_id e = c \<and> k < ev_sequence e"
  let ?old = "filter ?P (db_events db)"
  from grows obtain new where new: "db_events db' = db_events db @ new" by (auto simp: history_grows_def)
  have sorted: "sorted_wrt (<) (map ev_sequence (db_events db @ new))" using wf(2) by (simp add: events_wf_def new)
  have later: "ev_sequence e < ev_sequence n" if "e \<in> set (db_events db)" "n \<in> set new" for e n
    using sorted that by (auto simp: sorted_wrt_append)
  show ?thesis
  proof (cases "?old = []")
    case True
    then show ?thesis by (simp add: events_after_filter [OF wf(1)] next_cursor_def)
  next
    case False
    let ?n = "ev_sequence (last ?old)"
    have last: "last ?old \<in> set ?old" using False by (rule last_in_set)
    have ascending: "sorted_wrt (<) (map ev_sequence ?old)"
      using sorted by (simp add: sorted_wrt_append sorted_wrt_map sorted_wrt_filter)
    note max = sorted_last_max [OF ascending]
    have "filter (\<lambda>e. ev_commission_id e = c \<and> ?n < ev_sequence e) (db_events db) = []"
      using max last by (fastforce simp: filter_empty_conv)
    moreover have "filter (\<lambda>e. ev_commission_id e = c \<and> ?n < ev_sequence e) new = filter ?P new"
      using later last by (intro filter_cong) fastforce+
    ultimately show ?thesis using False
      by (simp add: events_after_filter wf next_cursor_def new)
  qed
qed


section \<open>Steps\<close>

inductive store_step :: "Sys \<Rightarrow> Db \<Rightarrow> Db \<Rightarrow> bool" for sys where
  issue: "issue_attachment_token sys rd request adapter ttl db = Inr (v, db') \<Longrightarrow> store_step sys db db'"
| connect: "connect_attachment sys rd request token handshake cursor db = Inr (v, db') \<Longrightarrow> store_step sys db db'"
| downgrade: "update_attachment_capabilities sys rd request c capabilities db = Inr (v, db') \<Longrightarrow> store_step sys db db'"
| takeover: "take_control sys rd request c db = Inr (v, db') \<Longrightarrow> store_step sys db db'"
| propose: "create_proposal sys rd request proposal db = Inr (v, db') \<Longrightarrow> store_step sys db db'"
| work: "work_step sys db db' \<Longrightarrow> store_step sys db db'"

definition reachable :: "Sys \<Rightarrow> Db \<Rightarrow> bool" where
  "reachable sys db \<longleftrightarrow> (store_step sys)\<^sup>*\<^sup>* empty_db db"

lemma reachable_step: "reachable sys db \<Longrightarrow> store_step sys db db' \<Longrightarrow> reachable sys db'"
  unfolding reachable_def by (rule rtranclp.rtrancl_into_rtrancl)

lemma step_history: "store_step sys db db' \<Longrightarrow> history_grows db db'"
proof (induction rule: store_step.induct)
  case (connect rd request token handshake cursor db v db')
  then show ?case
    by (auto simp: connect_attachment_def outcome_simps intro: hist.keeps_transaction)
next
  case (work db db')
  then show ?case by (intro quiet_history work_step_quiet)
qed (rule issue.history downgrade.history takeover.history proposing.history, assumption)+

text \<open>An invariant of the tables that every handler's work keeps is an invariant of the machine.\<close>

locale store_invariant = table_relation "\<lambda>db db'. inv db \<longrightarrow> inv db'" for inv :: "Db \<Rightarrow> bool" +
  assumes initial: "inv empty_db"
    and issue_keeps: "keeps (issue_attachment_token_work sys rd adapter ttl)"
    and connect_keeps: "negotiate adv = Inr n \<Longrightarrow> keeps (connect_attachment_work sys rd key hash token handshake cursor n)"
    and downgrade_keeps: "negotiate adv = Inr n \<Longrightarrow> keeps (update_attachment_capabilities_work sys rd request c k n)"
    and takeover_keeps: "keeps (take_control_work sys rd request c k j)"
    and propose_keeps: "keeps (create_proposal_work sys rd request proposal)"
    and save_keeps: "keeps (save_idempotent_result rd key hash v)"
    and quiet_keeps: "quiet db db' \<Longrightarrow> inv db \<Longrightarrow> inv db'"
begin

lemma idempotent:
  assumes "keeps work" and "idempotent_transaction rd key hash work db = Inr (v, db')" and "inv db"
  shows "inv db'"
  using assms(2)
proof (cases rule: idempotent_cases)
  case (worked s s' u)
  with assms(1, 3) save_keeps show ?thesis unfolding keeps_def by fastforce
qed (simp add: assms(3))

lemma step: "store_step sys db db' \<Longrightarrow> inv db \<Longrightarrow> inv db'"
proof (induction rule: store_step.induct)
  case (issue rd request adapter ttl db v db')
  then show ?case by (auto elim!: issue.runs intro: idempotent [OF issue_keeps])
next
  case (connect rd request token handshake cursor db v db')
  then obtain key hash n where n: "check_handshake handshake cursor = Inr n"
    and t: "transaction (connect_attachment_work sys rd key hash token handshake cursor n) db = Inr (v, db')"
    by (auto simp: connect_attachment_def outcome_simps)
  then obtain adv where "negotiate adv = Inr n" by (auto simp: check_handshake_def outcome_simps split: if_splits)
  with keeps_transaction [OF connect_keeps t] connect.prems show ?case by blast
next
  case (downgrade rd request c capabilities db v db')
  then show ?case by (auto elim!: downgrade.runs intro: idempotent [OF downgrade_keeps])
next
  case (takeover rd request c db v db')
  then show ?case by (auto elim!: takeover.runs intro: idempotent [OF takeover_keeps])
next
  case (propose rd request proposal db v db')
  then show ?case by (auto elim!: proposing.runs intro: idempotent [OF propose_keeps])
next
  case (work db db')
  then show ?case by (blast intro: quiet_keeps work_step_quiet)
qed

lemma reachable: "reachable sys db \<Longrightarrow> inv db"
  unfolding reachable_def by (induction rule: rtranclp_induct) (auto intro: initial step)

end

lemma quiet_ids:
  assumes "quiet db db'"
  shows "map cm_id (db_commissions db') = map cm_id (db_commissions db)"
proof -
  have "map fst (control_rows db') = map fst (control_rows db)" using assms by (simp add: quiet_def)
  then show ?thesis by (simp add: control_rows_def comp_def)
qed

lemma quiet_has_commission: "quiet db db' \<Longrightarrow> has_commission db' c \<longleftrightarrow> has_commission db c"
  using quiet_ids [of db db'] unfolding has_commission_iff by (metis list.set_map)

lemma quiet_control_wf: "quiet db db' \<Longrightarrow> control_wf db \<Longrightarrow> control_wf db'"
  using quiet_ids [of db db'] quiet_has_commission [of db db']
  by (simp add: control_wf_def quiet_def has_attachment_iff)

lemma quiet_attachments_wf: "quiet db db' \<Longrightarrow> attachments_wf db \<Longrightarrow> attachments_wf db'"
  by (simp add: attachments_wf_def quiet_def)

lemma quiet_events_wf:
  assumes q: "quiet db db'" and wf: "events_wf db"
  shows "events_wf db'"
proof -
  let ?n = "db_event_sequence db" and ?m = "db_event_sequence db'"
  from q obtain es where es: "db_events db' = db_events db @ es" "map ev_sequence es = [?n + 1..?m]"
    and ids: "\<forall>e \<in> set es. ev_commission_id e \<in> fst ` set (control_rows db)"
    and le: "?n \<le> ?m" "?n < 2 ^ 63 \<longrightarrow> ?m < 2 ^ 63"
    by (auto simp: quiet_def appends_events_def)
  have new: "ev_sequence e \<in> {?n + 1..?m}" if "e \<in> set es" for e
  proof -
    from that have "ev_sequence e \<in> set (map ev_sequence es)" by simp
    then show ?thesis unfolding es(2) by simp
  qed
  have "sorted_wrt (<) (map ev_sequence (db_events db'))"
    using wf new es by (fastforce simp: events_wf_def sorted_wrt_append)
  moreover have "has_commission db' (ev_commission_id e)" if "e \<in> set es" for e
    using ids that quiet_has_commission [OF q] by (force simp: has_commission_iff control_rows_def)
  ultimately show ?thesis
    using wf new le quiet_has_commission [OF q] es(1) by (fastforce simp: events_wf_def)
qed

interpretation control: store_invariant control_wf
  by (unfold_locales; (rule cwf_work cwf_take_control cwf_create_proposal cwf_parts | erule (1) quiet_control_wf
      | simp add: control_wf_def empty_db_def has_commission_def))

interpretation attached: store_invariant attachments_wf
  by (unfold_locales; (rule awf_work awf_parts | erule awf_negotiated_work | erule (1) quiet_attachments_wf
      | simp add: attachments_wf_def empty_db_def))

interpretation log: store_invariant events_wf
  by (unfold_locales; (rule ewf_work | erule (1) quiet_events_wf | simp add: events_wf_def empty_db_def))

end
