(* ===== verification/Store_Spec.thy ===== *)
theory Store_Spec
  imports Store_Machine
begin

text \<open>
  What the control plane promises, against abstract specifications: control of Commissions as a partial
  map, launch tokens that work once, capabilities that only shrink, and the dispatch switch.
\<close>

section \<open>Control as a partial map\<close>

definition abs_control :: "Db \<Rightarrow> string \<Rightarrow> (string \<times> int) option" where
  "abs_control db c =
     (case List.find (\<lambda>r. cm_id r = c) (db_commissions db) of
        None \<Rightarrow> None
      | Some r \<Rightarrow> map_option (\<lambda>l. (ca_attachment_id l, cm_control_revision r)) (List.find (active_link c) (db_links db)))"

inductive control_spec :: "(string \<Rightarrow> (string \<times> int) option) \<Rightarrow> (string \<Rightarrow> (string \<times> int) option) \<Rightarrow> bool" where
  unchanged: "control_spec m m"
| created: "m c = None \<Longrightarrow> control_spec m (m(c \<mapsto> (a, 0)))"
| taken: "m c = Some (b, k) \<Longrightarrow> control_spec m (m(c \<mapsto> (a, k + 1)))"

interpretation absc: table_relation "\<lambda>db db'. abs_control db' = abs_control db"
  by unfold_locales auto

lemma absc_of_ctl: "ctl.keeps m \<Longrightarrow> absc.keeps m"
  unfolding absc.keeps_def by (auto dest!: ctl_step simp: same_control_def abs_control_def fun_eq_iff split: option.splits)

lemma absc_parts [intro!]:
  "absc.keeps (record_event_with_payload rd c ev k p)"
  "absc.keeps (save_idempotent_result rd key hash v)"
  "absc.keeps (project_commission sys c)"
  "absc.keeps (tx_update (consume_token h now))"
  by (intro absc_of_ctl ctl_parts ctl_update)+

lemma absc_insert_attachment: "absc.keeps (tx_execute (insert_attachment r))"
  by (rule absc.keeps_execute) (auto simp: insert_attachment_def abs_control_def fun_eq_iff split: if_splits option.splits)

lemma absc_observer: "ca_role r = ''observer'' \<Longrightarrow> absc.keeps (tx_execute (insert_link r))"
  by (rule absc.keeps_execute)
    (auto simp: insert_link_Ok abs_control_def fun_eq_iff find_append active_link_def split: option.splits)

lemma absc_update:
  "absc.keeps (tx_update (set_capabilities a n))"
  "absc.keeps (tx_update (set_status c st))"
  by (rule absc.keeps_update; auto simp: update_defs abs_control_def fun_eq_iff find_update_where split: option.splits)+

lemma absc_work:
  "absc.keeps (issue_attachment_token_work sys rd adapter ttl)"
  "absc.keeps (update_attachment_capabilities_work sys rd request c n negotiated)"
  "absc.keeps (change_commission_dispatch_state_work sys rd request c st st' ev n)"
  "absc.keeps (connect_attachment_work sys rd key hash token handshake cursor negotiated)"
  by (auto simp: update_attachment_capabilities_work_def change_commission_dispatch_state_work_def
      connect_attachment_work_def join_as_observer_def Let_def
      intro!: absc_of_ctl [OF ctl_parts(7)] absc_update absc_insert_attachment absc_observer)

text \<open>Reading the map: on a well-formed state a Commission maps to its active link.\<close>

lemma unique_active:
  assumes "control_wf db" and "has_commission db c"
  obtains l where "filter (active_link c) (db_links db) = [l]"
  using assms by (auto simp: control_wf_def length_Suc_conv)

lemma find_of_filter: "List.find p xs = (case filter p xs of [] \<Rightarrow> None | x # _ \<Rightarrow> Some x)"
  by (induction xs) auto

lemma abs_control_Some:
  assumes wf: "control_wf db" and r: "List.find (\<lambda>r. cm_id r = c) (db_commissions db) = Some r"
  obtains l where "abs_control db c = Some (ca_attachment_id l, cm_control_revision r)"
    "filter (active_link c) (db_links db) = [l]"
proof -
  from r have "has_commission db c" by (auto dest: find_Some_mem simp: has_commission_iff)
  with unique_active [OF wf] obtain l where l: "filter (active_link c) (db_links db) = [l]" by blast
  with r have "abs_control db c = Some (ca_attachment_id l, cm_control_revision r)"
    by (simp add: abs_control_def find_of_filter [of "active_link c"])
  with l show ?thesis by (intro that)
qed

lemma abs_take_control:
  assumes run: "take_control_work sys rd request c n k s = Inr (v, s')" and wf: "control_wf (ses_db s)"
  obtains a b where "authenticated_attachment_id sys request (ses_db s) = Inr a"
    "abs_control (ses_db s) c = Some (b, k)"
    "abs_control (ses_db s') = (abs_control (ses_db s))(c \<mapsto> (a, k + 1))"
proof -
  from run wf obtain a r where a: "authenticated_attachment_id sys request (ses_db s) = Inr a"
    and e: "ensure_commission_attachment a c CONTROL_TAKEOVER (ses_db s) = Inr ()"
    and r: "find_commission c (ses_db s) = Inr r" "cm_control_revision r = k"
    and links: "db_links (ses_db s') = map (handover c a) (db_links (ses_db s))"
    and commissions: "db_commissions (ses_db s')
       = update_where (\<lambda>q. cm_id q = c) (\<lambda>q. q\<lparr>cm_control_revision := k + 1\<rparr>) (db_commissions (ses_db s))"
    by (rule take_control_effect)
  have found: "List.find (\<lambda>q. cm_id q = c) (db_commissions (ses_db s)) = Some r"
    using r by (simp add: find_commission_Ok)
  then obtain b where before: "abs_control (ses_db s) c = Some (b, k)"
    using abs_control_Some [OF wf found] r by metis
  have "filter (active_link c) (db_links (ses_db s'))
      = map (handover c a) (filter (\<lambda>l. link_key l = (c, a)) (db_links (ses_db s)))"
    by (simp add: links filter_map comp_def active_handover)
  moreover have "length (filter (\<lambda>l. link_key l = (c, a)) (db_links (ses_db s))) = 1"
    using wf e by (intro length_filter_key) (simp_all add: control_wf_def ensure_commission_attachment_Ok)
  then obtain l where l: "filter (\<lambda>l. link_key l = (c, a)) (db_links (ses_db s)) = [l]"
    by (auto simp: length_Suc_conv)
  then have "link_key l = (c, a)" by (metis (mono_tags) filter_eq_ConsD)
  ultimately have "List.find (active_link c) (db_links (ses_db s')) = Some (handover c a l)" "ca_attachment_id l = a"
    using l by (simp_all add: find_of_filter link_key_def)
  then have own: "abs_control (ses_db s') c = Some (a, k + 1)"
    using found r find_Some_mem [OF found] by (simp add: abs_control_def commissions find_update_where)
  have "abs_control (ses_db s') x = abs_control (ses_db s) x" if "x \<noteq> c" for x
  proof -
    have "List.find (active_link x) (db_links (ses_db s')) = map_option (handover c a) (List.find (active_link x) (db_links (ses_db s)))"
      using that by (simp add: links find_of_filter filter_map comp_def active_handover split: list.splits)
    moreover have "List.find (\<lambda>q. cm_id q = x) (db_commissions (ses_db s'))
        = List.find (\<lambda>q. cm_id q = x) (db_commissions (ses_db s))"
      using that by (cases "List.find (\<lambda>q. cm_id q = x) (db_commissions (ses_db s))")
        (auto simp: commissions find_update_where dest: find_Some_mem)
    ultimately show ?thesis
      by (auto simp: abs_control_def option.map_comp comp_def split: option.splits intro!: option.map_cong)
  qed
  with own have "abs_control (ses_db s') = (abs_control (ses_db s))(c \<mapsto> (a, k + 1))" by (auto simp: fun_eq_iff)
  with a before show ?thesis by (rule that)
qed

lemma abs_create_proposal:
  assumes run: "create_proposal_work sys rd request proposal s = Inr (v, s')" and wf: "control_wf (ses_db s)"
  obtains c a where "authenticated_attachment_id sys request (ses_db s) = Inr a"
    "abs_control (ses_db s) c = None"
    "abs_control (ses_db s') = (abs_control (ses_db s))(c \<mapsto> (a, 0))"
proof -
  from run obtain c a r l where a: "authenticated_attachment_id sys request (ses_db s) = Inr a"
    and fresh: "\<not> has_commission (ses_db s) c" and r: "cm_id r = c" "cm_control_revision r = 0"
    and commissions: "db_commissions (ses_db s') = db_commissions (ses_db s) @ [r]"
    and l: "link_key l = (c, a)" "ca_role l = ''active''"
    and links: "db_links (ses_db s') = db_links (ses_db s) @ [l]"
    by (rule create_proposal_effect)
  have none: "List.find (\<lambda>q. cm_id q = c) (db_commissions (ses_db s)) = None"
    "List.find (active_link c) (db_links (ses_db s)) = None"
    using fresh wf by (auto simp: find_None_all has_commission_iff control_wf_def active_link_def)
  have "abs_control (ses_db s') x = (if x = c then Some (a, 0) else abs_control (ses_db s) x)" for x
    using none r l by (auto simp: abs_control_def commissions links find_append active_link_def link_key_def
        split: option.splits)
  then have "abs_control (ses_db s') = (abs_control (ses_db s))(c \<mapsto> (a, 0))" by (auto simp: fun_eq_iff)
  with a show ?thesis using none(1) by (intro that [of a c]) (simp_all add: abs_control_def)
qed


text \<open>What an idempotent transaction does to the map is what its work does: recording the result does not
  touch control.\<close>

lemma abs_idempotent:
  assumes "idempotent_transaction rd key hash work db = Inr (v, db')"
  obtains "db' = db"
  | s where "work \<lparr>ses_db = db, ses_clock = 0, ses_millis = 0, ses_uuid = 0\<rparr> = Inr (v, s)"
      "abs_control db' = abs_control (ses_db s)"
  using assms
proof (cases rule: idempotent_cases)
  case (worked s s' u)
  then have "abs_control db' = abs_control (ses_db s)"
    using absc_parts(2) unfolding absc.keeps_def by blast
  with worked(2) that(2) show ?thesis by blast
qed (rule that(1))

lemma abs_unchanged:
  assumes "absc.keeps work" and "idempotent_transaction rd key hash work db = Inr (v, db')"
  shows "abs_control db' = abs_control db"
  using assms(2) by (rule abs_idempotent) (use assms(1) in \<open>auto simp: absc.keeps_def\<close>)

lemma find_control_rows:
  "map_option cm_control_revision (List.find (\<lambda>r. cm_id r = c) (db_commissions db))
     = map_option snd (List.find (\<lambda>p. fst p = c) (control_rows db))"
proof -
  have "map_option cm_control_revision (List.find (\<lambda>r. cm_id r = c) rs)
      = map_option snd (List.find (\<lambda>p. fst p = c) (map (\<lambda>r. (cm_id r, cm_control_revision r)) rs))" for rs
    by (induction rs) auto
  then show ?thesis by (simp add: control_rows_def)
qed

lemma quiet_abs: "quiet db db' \<Longrightarrow> abs_control db' = abs_control db"
proof
  fix c assume q: "quiet db db'"
  then have "map_option cm_control_revision (List.find (\<lambda>r. cm_id r = c) (db_commissions db'))
      = map_option cm_control_revision (List.find (\<lambda>r. cm_id r = c) (db_commissions db))"
    by (simp add: find_control_rows quiet_def)
  with q show "abs_control db' c = abs_control db c"
    by (auto simp: abs_control_def quiet_def split: option.splits)
qed

lemma step_refines:
  assumes "store_step sys db db'" and "control_wf db"
  shows "control_spec (abs_control db) (abs_control db')"
  using assms
proof (induction rule: store_step.induct)
  case (issue rd request adapter ttl db v db')
  then show ?case by (elim issue.runs) (simp add: abs_unchanged [OF absc_work(1)] control_spec.unchanged)
next
  case (connect rd request token handshake cursor db v db')
  then have "abs_control db' = abs_control db"
    by (auto simp: connect_attachment_def outcome_simps dest: absc.keeps_transaction [OF absc_work(4)])
  then show ?case by (simp add: control_spec.unchanged)
next
  case (downgrade rd request c capabilities db v db')
  then show ?case by (elim downgrade.runs) (simp add: abs_unchanged [OF absc_work(2)] control_spec.unchanged)
next
  case (work db db')
  then show ?case by (simp add: quiet_abs [OF work_step_quiet] control_spec.unchanged)
next
  case (takeover rd request c db v db')
  then show ?case
    by (elim takeover.runs abs_idempotent)
      (auto elim!: abs_take_control intro: control_spec.intros control_spec.taken [unfolded fun_upd_def])
next
  case (propose rd request proposal db v db')
  then show ?case
    by (elim proposing.runs abs_idempotent)
      (auto elim!: abs_create_proposal intro: control_spec.intros control_spec.created [unfolded fun_upd_def])
qed

text \<open>The abstract machine explains the control revision: along any run it never decreases, and it stays
  the same exactly when control did not change hands.\<close>

lemma control_spec_monotone:
  assumes "control_spec m m'" and "m c = Some (a, k)"
  shows "\<exists>a' k'. m' c = Some (a', k') \<and> (k' = k \<and> a' = a \<or> k' = k + 1)"
  using assms by cases auto

lemma run_control_monotone:
  assumes "(store_step sys)\<^sup>*\<^sup>* db db'" and "control_wf db" and "abs_control db c = Some (a, k)"
  shows "control_wf db' \<and> (\<exists>a' k'. abs_control db' c = Some (a', k') \<and> k \<le> k' \<and> (k' = k \<longrightarrow> a' = a))"
  using assms
proof (induction rule: rtranclp_induct)
  case (step y z)
  then obtain a' k' where y: "control_wf y" "abs_control y c = Some (a', k')" "k \<le> k'" "k' = k \<longrightarrow> a' = a" by blast
  moreover from control_spec_monotone [OF step_refines [OF step.hyps(2) y(1)] y(2)] obtain a'' k''
    where "abs_control z c = Some (a'', k'')" "k'' = k' \<and> a'' = a' \<or> k'' = k' + 1" by blast
  moreover have "control_wf z" using control.step [OF step.hyps(2) y(1)] .
  ultimately show ?case by auto
qed simp

text \<open>A takeover carried out for the first time moves the map as specified.\<close>

lemma takeover_abs:
  assumes "take_control sys rd request c db = Inr (v, db')" and wf: "control_wf db"
    and key: "mutation_key request = Inr key" and unseen: "recorded db key = None"
  shows "\<exists>a b k. authenticated_attachment_id sys request db = Inr a
    \<and> req_expected_control_revision request = Some k \<and> abs_control db c = Some (b, k)
    \<and> abs_control db' = (abs_control db)(c \<mapsto> (a, k + 1))"
proof -
  let ?k = "the (req_expected_control_revision request)"
  let ?w = "take_control_work sys rd request c (the (req_expected_revision request)) ?k"
  from assms(1) obtain key' hash where key': "mutation_key request = Inr key'"
    and some: "req_expected_control_revision request \<noteq> None"
    and t: "idempotent_transaction rd key' hash ?w db = Inr (v, db')" by (auto elim!: takeover.runs)
  from t show ?thesis
  proof (cases rule: idempotent_cases)
    case replayed
    with key key' unseen show ?thesis by simp
  next
    case (worked s s' u)
    have "control_wf (ses_db \<lparr>ses_db = db, ses_clock = 0, ses_millis = 0, ses_uuid = 0\<rparr>)" using wf by simp
    from abs_take_control [OF worked(2) this] obtain a b where
      "authenticated_attachment_id sys request db = Inr a" "abs_control db c = Some (b, ?k)"
      "abs_control (ses_db s) = (abs_control db)(c \<mapsto> (a, ?k + 1))" unfolding Session.select_convs by blast
    moreover have "abs_control db' = abs_control (ses_db s)"
      using absc_parts(2) worked(3, 4) unfolding absc.keeps_def by blast
    ultimately show ?thesis using some by auto
  qed
qed

section \<open>Launch tokens\<close>

lemma connect_token:
  assumes "connect_attachment sys rd request token handshake cursor db = Inr (v, db')"
  obtains t now where "List.find (\<lambda>t. lt_token_hash t = attachment_token_hash sys token) (db_launch_tokens db) = Some t"
    "lt_consumed_at t = None" "rd_unix_timestamp rd 0 = Inr now" "now < lt_expires_at t"
    "lt_expected_harness t = ai_harness (ah_adapter handshake)"
    "lt_expected_adapter_identity t = ai_adapter_identity (ah_adapter handshake)"
    "lt_expected_adapter_version t = ai_adapter_version (ah_adapter handshake)"
    "token_used db' (attachment_token_hash sys token)"
proof -
  let ?h = "attachment_token_hash sys token"
  from assms obtain key hash n s where
    run: "connect_attachment_work sys rd key hash token handshake cursor n
            \<lparr>ses_db = db, ses_clock = 0, ses_millis = 0, ses_uuid = 0\<rparr> = Inr (v, s)" and db': "db' = ses_db s"
    by (auto simp: connect_attachment_def outcome_simps transaction_Inr)
  from run obtain t now r db1 t2 aid t3 j where
    t: "List.find (\<lambda>t. lt_token_hash t = ?h) (db_launch_tokens db) = Some t" "lt_consumed_at t = None"
    and now: "rd_unix_timestamp rd 0 = Inr now" and m: "token_matches (ah_adapter handshake) t now = Inr ()"
    and a: "insert_attachment r db = Inr db1"
    and t3: "join_as_observer rd aid now cursor t2 = Inr ((), t3)"
    and sv: "save_idempotent_result rd key hash j t3 = Inr ((), s)"
    and t2: "ses_db t2 = consume_token ?h now db1"
    unfolding connect_attachment_work_def
    by (fastforce simp: tx_simps Let_def split: if_splits option.splits)
  have "db_launch_tokens db1 = db_launch_tokens db"
    using a by (auto simp: insert_attachment_def split: if_splits)
  then have "token_used (ses_db t2) ?h"
    by (simp add: t2 token_used_def consume_token_def find_update_where t(1))
      (use find_Some_mem [OF t(1)] in simp)
  moreover have "history_grows (ses_db t2) (ses_db s)"
  proof (rule hist.rel_trans)
    have "hist.keeps (join_as_observer rd aid now cursor)" by (auto simp: work_defs)
    with t3 show "history_grows (ses_db t2) (ses_db t3)" by (auto simp: hist.keeps_def)
    show "history_grows (ses_db t3) (ses_db s)" using hist_work(7) sv unfolding hist.keeps_def by blast
  qed
  ultimately have "token_used db' ?h" by (simp add: db' history_grows_def)
  with t now m show ?thesis
    by (intro that) (auto simp: token_matches_def split: if_splits)
qed

lemma used_token_refused:
  assumes "token_used db (attachment_token_hash sys token)"
  shows "connect_attachment sys rd request token handshake cursor db \<noteq> Inr r"
proof
  assume "connect_attachment sys rd request token handshake cursor db = Inr r"
  moreover obtain v db' where "r = (v, db')" by force
  ultimately show False using assms by (auto simp: token_used_def elim!: connect_token)
qed

lemma run_history: "(store_step sys)\<^sup>*\<^sup>* db db' \<Longrightarrow> history_grows db db'"
  by (induction rule: rtranclp_induct) (auto intro: hist.rel_refl hist.rel_trans dest: step_history)


section \<open>Capabilities\<close>

definition capabilities_of :: "Db \<Rightarrow> string \<Rightarrow> string set option" where
  "capabilities_of db a = map_option (\<lambda>r. set (at_capabilities r)) (List.find (\<lambda>r. at_id r = a) (db_attachments db))"

definition caps_shrink :: "Db \<Rightarrow> Db \<Rightarrow> bool" where
  "caps_shrink db db' \<longleftrightarrow>
     (\<forall>a C. capabilities_of db a = Some C \<longrightarrow> (\<exists>C'. capabilities_of db' a = Some C' \<and> C' \<subseteq> C))"

interpretation caps: table_relation caps_shrink
  by unfold_locales (auto simp: caps_shrink_def, metis order_trans)

lemma caps_frame: "db_attachments db' = db_attachments db \<Longrightarrow> caps_shrink db db'"
  by (auto simp: caps_shrink_def capabilities_of_def)

lemma caps_of_ctl: "ctl.keeps m \<Longrightarrow> caps.keeps m"
  unfolding caps.keeps_def by (auto dest!: ctl_step simp: same_control_def intro: caps_frame)

lemma caps_parts [intro!]:
  "caps.keeps (record_event_with_payload rd c ev k p)"
  "caps.keeps (save_idempotent_result rd key hash v)"
  "caps.keeps (project_commission sys c)"
  "caps.keeps (tx_update (consume_token h now))"
  by (intro caps_of_ctl ctl_parts ctl_update)+

lemma caps_execute:
  "caps.keeps (tx_execute (insert_link l))" "caps.keeps (tx_execute (insert_commission q))"
  by (rule caps.keeps_execute; auto simp: insert_defs intro!: caps_frame split: if_splits)+

lemma caps_insert_attachment: "caps.keeps (tx_execute (insert_attachment r))"
  by (rule caps.keeps_execute)
    (auto simp: insert_attachment_def caps_shrink_def capabilities_of_def find_append split: if_splits)

lemma caps_update:
  "caps.keeps (tx_update (demote_active c))" "caps.keeps (tx_update (promote c a))"
  "caps.keeps (tx_update (set_control_revision c k))" "caps.keeps (tx_update (set_status c st))"
  by (rule caps.keeps_update; simp add: update_defs caps_frame)+

lemma caps_work:
  "caps.keeps (issue_attachment_token_work sys rd adapter ttl)"
  "caps.keeps (take_control_work sys rd request c k j)"
  "caps.keeps (change_commission_dispatch_state_work sys rd request c st st' ev k)"
  "caps.keeps (create_proposal_work sys rd request proposal)"
  "caps.keeps (connect_attachment_work sys rd key hash token handshake cursor negotiated)"
  by (auto simp: take_control_work_def change_commission_dispatch_state_work_def create_proposal_work_def
      attach_proposer_def connect_attachment_work_def join_as_observer_def Let_def
      intro!: caps_of_ctl [OF ctl_parts(7)] caps_of_ctl [OF ctl_parts(5)] caps_of_ctl [OF ctl_parts(6)]
      caps_of_ctl [OF ctl_parts(2)] caps_update caps_execute caps_insert_attachment)

lemma first_row_mem: "first_row xs = Inr x \<Longrightarrow> x \<in> set xs"
  by (auto simp: first_row_def split: list.splits)

lemma find_unique:
  "distinct (map f xs) \<Longrightarrow> x \<in> set xs \<Longrightarrow> List.find (\<lambda>y. f y = f x) xs = Some x"
  by (induction xs) auto

text \<open>The effect of a downgrade: the row of the Attachment that asked, and only that row, now has the
  negotiated capabilities, all of which it had before.\<close>

lemma downgrade_effect:
  assumes run: "update_attachment_capabilities_work sys rd request c k n s = Inr (v, s')"
    and wf: "attachments_wf (ses_db s)"
  obtains a r where "authenticated_attachment_id sys request (ses_db s) = Inr a"
    "List.find (\<lambda>r. at_id r = a) (db_attachments (ses_db s)) = Some r"
    "set (nc_effective n) \<subseteq> set (at_capabilities r)"
    "db_attachments (ses_db s') = db_attachments (set_capabilities a n (ses_db s))"
proof -
  let ?rows = "\<lambda>a. [(cm_revision q, at_mode r, at_capabilities r, ca_role l).
            l \<leftarrow> db_links (ses_db s), ca_commission_id l = c \<and> ca_attachment_id l = a,
            q \<leftarrow> db_commissions (ses_db s), cm_id q = ca_commission_id l,
            r \<leftarrow> db_attachments (ses_db s), at_id r = ca_attachment_id l]"
  from run obtain a m cs role t p t1 linked where
    a: "authenticated_attachment_id sys request (ses_db s) = Inr a"
    and row: "first_row (?rows a) = Inr (k, m, cs, role)"
    and within: "\<not> list_ex (\<lambda>capability. \<not> list_ex ((=) capability) cs) (nc_effective n)"
    and events: "tx_for (\<lambda>(i, q). record_event_with_payload rd i EventKind.AttachmentCapabilitiesChanged q p) linked t
                   = Inr ((), t1)" and s': "ses_db s' = ses_db t1"
    and t: "ses_db t = set_capabilities a n (ses_db s)"
    unfolding update_attachment_capabilities_work_def
    by (auto simp: tx_simps Let_def project_commission_def split: if_splits)
  have "ctl.keeps (tx_for (\<lambda>(i, q). record_event_with_payload rd i EventKind.AttachmentCapabilitiesChanged q p) linked)"
    by auto
  then have same: "same_control (ses_db t) (ses_db t1)" using events by (rule ctl_step)
  from first_row_mem [OF row] obtain r where r: "r \<in> set (db_attachments (ses_db s))" "at_id r = a" "cs = at_capabilities r"
    by auto
  with find_unique [of at_id "db_attachments (ses_db s)" r] wf
  have "List.find (\<lambda>r. at_id r = a) (db_attachments (ses_db s)) = Some r" by (simp add: attachments_wf_def)
  moreover have "set (nc_effective n) \<subseteq> set (at_capabilities r)"
    using within r(3) by (auto simp: list_ex_iff)
  ultimately show ?thesis using a same t s' by (intro that) (simp_all add: same_control_def)
qed

lemma capabilities_of_set:
  assumes "db_attachments db' = db_attachments (set_capabilities a n db)"
  shows "capabilities_of db' x = (if x = a \<and> capabilities_of db a \<noteq> None then Some (set (nc_effective n))
           else capabilities_of db x)"
proof (cases "List.find (\<lambda>r. at_id r = x) (db_attachments db)")
  case None
  then show ?thesis by (auto simp: capabilities_of_def assms set_capabilities_def find_update_where)
next
  case (Some r)
  with find_Some_mem [OF Some] show ?thesis
    by (cases "x = a") (simp_all add: capabilities_of_def assms set_capabilities_def find_update_where)
qed

lemma step_caps:
  assumes "store_step sys db db'" and "attachments_wf db"
  shows "caps_shrink db db'"
  using assms
proof (induction rule: store_step.induct)
  case (downgrade rd request c capabilities db v db')
  let ?n = "projr (negotiate capabilities)"
  from downgrade(1) obtain key hash where
    "idempotent_transaction rd key hash (update_attachment_capabilities_work sys rd request c
       (the (req_expected_revision request)) ?n) db = Inr (v, db')" by (rule downgrade.runs)
  then show ?case
  proof (cases rule: idempotent_cases)
    case (worked s s' u)
    have wf: "attachments_wf (ses_db \<lparr>ses_db = db, ses_clock = 0, ses_millis = 0, ses_uuid = 0\<rparr>)"
      using downgrade(2) by simp
    from downgrade_effect [OF worked(2) wf] obtain a r where
      r: "List.find (\<lambda>r. at_id r = a) (db_attachments db) = Some r" "set (nc_effective ?n) \<subseteq> set (at_capabilities r)"
      and s: "db_attachments (ses_db s) = db_attachments (set_capabilities a ?n db)"
      unfolding Session.select_convs by blast
    have "caps_shrink db (ses_db s)"
      using r by (auto simp: caps_shrink_def capabilities_of_set [OF s]) (auto simp: capabilities_of_def)
    moreover have "caps_shrink (ses_db s) db'"
      using caps_parts(2) worked(3, 4) unfolding caps.keeps_def by blast
    ultimately show ?thesis by (rule caps.rel_trans)
  qed (simp add: caps.rel_refl)
next
  case (work db db')
  then show ?case by (auto simp: caps_shrink_def capabilities_of_def quiet_def dest: work_step_quiet)
qed (auto simp: connect_attachment_def outcome_simps idempotent_transaction_def
    elim!: issue.runs takeover.runs proposing.runs
    intro: caps_work dest!: caps.keeps_transaction [rotated])


section \<open>The dispatch switch\<close>

lemma ensure_active_Ok:
  assumes "ensure_active_attachment a c cap db = Inr ()" and wf: "control_wf db"
  shows "filter (active_link c) (db_links db) = [l] \<Longrightarrow> ca_attachment_id l = a"
proof -
  assume l: "filter (active_link c) (db_links db) = [l]"
  from assms(1) obtain q where "List.find (\<lambda>l. ca_commission_id l = c \<and> ca_attachment_id l = a) (db_links db) = Some q"
    "ca_role q = ''active''"
    by (auto simp: ensure_active_attachment_def outcome_simps query_row_def split: if_splits option.splits)
  then have "q \<in> set (filter (active_link c) (db_links db))" "ca_attachment_id q = a"
    by (auto dest!: find_Some_mem simp: active_link_def)
  with l show ?thesis by simp
qed

lemma dispatch_effect:
  assumes run: "change_commission_dispatch_state_work sys rd request c st st' ev n s = Inr (v, s')"
    and wf: "control_wf (ses_db s)"
  obtains a r where "authenticated_attachment_id sys request (ses_db s) = Inr a"
    "abs_control (ses_db s) c = Some (a, cm_control_revision r)"
    "find_commission c (ses_db s) = Inr r" "cm_revision r = n" "cm_status r = CommissionStatus_as_str st"
    "st' = CommissionStatus.Active \<Longrightarrow> \<not> uncertain_effects c (ses_db s)"
    "db_commissions (ses_db s') = db_commissions (set_status c st' (ses_db s))"
proof -
  from run obtain a r p t t' where
    a: "authenticated_attachment_id sys request (ses_db s) = Inr a"
    and e: "ensure_active_attachment a c COMMISSION_ACCEPTANCE (ses_db s) = Inr ()"
    and r: "find_commission c (ses_db s) = Inr r" "cm_revision r = n" "cm_status r = CommissionStatus_as_str st"
    and u: "st' = CommissionStatus.Active \<longrightarrow> \<not> uncertain_effects c (ses_db s)"
    and ev: "record_event_with_payload rd c ev n p t = Inr ((), t')" and s': "ses_db s' = ses_db t'"
    and t: "ses_db t = set_status c st' (ses_db s)"
    unfolding change_commission_dispatch_state_work_def
    by (fastforce simp: tx_simps project_commission_def split: if_splits)
  have found: "List.find (\<lambda>q. cm_id q = c) (db_commissions (ses_db s)) = Some r"
    using r by (simp add: find_commission_Ok)
  obtain l where "abs_control (ses_db s) c = Some (ca_attachment_id l, cm_control_revision r)"
    "filter (active_link c) (db_links (ses_db s)) = [l]" by (rule abs_control_Some [OF wf found])
  with ensure_active_Ok [OF e wf] have "abs_control (ses_db s) c = Some (a, cm_control_revision r)" by simp
  moreover have "db_commissions (ses_db s') = db_commissions (set_status c st' (ses_db s))"
    using ctl_step [OF ctl_parts(1) ev] s' t by (simp add: same_control_def)
  ultimately show ?thesis using a r u by (intro that) auto
qed

lemma dispatch_carried_out:
  assumes "change_commission_dispatch_state sys rd request c st st' ev db = Inr (v, db')" and wf: "control_wf db"
    and key: "mutation_key request = Inr key" and unseen: "recorded db key = None"
  shows "\<exists>a r. authenticated_attachment_id sys request db = Inr a
    \<and> abs_control db c = Some (a, cm_control_revision r) \<and> find_commission c db = Inr r
    \<and> req_expected_revision request = Some (cm_revision r) \<and> cm_status r = CommissionStatus_as_str st
    \<and> (st' = CommissionStatus.Active \<longrightarrow> \<not> uncertain_effects c db)
    \<and> find_commission c db' = Inr (r\<lparr>cm_status := CommissionStatus_as_str st'\<rparr>)"
proof -
  let ?w = "change_commission_dispatch_state_work sys rd request c st st' ev (the (req_expected_revision request))"
  from assms(1) obtain key' hash where key': "mutation_key request = Inr key'"
    and some: "req_expected_revision request \<noteq> None"
    and t: "idempotent_transaction rd key' hash ?w db = Inr (v, db')" by (auto elim!: dispatch_state.runs)
  from t show ?thesis
  proof (cases rule: idempotent_cases)
    case replayed
    with key key' unseen show ?thesis by simp
  next
    case (worked s s' u)
    have wf': "control_wf (ses_db \<lparr>ses_db = db, ses_clock = 0, ses_millis = 0, ses_uuid = 0\<rparr>)" using wf by simp
    from dispatch_effect [OF worked(2) wf'] obtain a r where
      e: "authenticated_attachment_id sys request db = Inr a" "abs_control db c = Some (a, cm_control_revision r)"
      "find_commission c db = Inr r" "cm_revision r = the (req_expected_revision request)"
      "cm_status r = CommissionStatus_as_str st" "st' = CommissionStatus.Active \<longrightarrow> \<not> uncertain_effects c db"
      "db_commissions (ses_db s) = db_commissions (set_status c st' db)" unfolding Session.select_convs by blast
    have "db_commissions db' = db_commissions (set_status c st' db)"
      using ctl_step [OF ctl_parts(3) worked(3)] e(7) by (simp add: worked(4) same_control_def)
    then have "find_commission c db' = Inr (r\<lparr>cm_status := CommissionStatus_as_str st'\<rparr>)"
      using e(3) by (auto simp: find_commission_Ok set_status_def find_update_where dest: find_Some_mem)
    with e some show ?thesis by auto
  qed
qed

section \<open>The mandate is stored as proposed\<close>

definition mandate_wf :: "Db \<Rightarrow> bool" where
  "mandate_wf db \<longleftrightarrow>
     (\<forall>r \<in> set (db_authority_scopes db). has_commission db (as_commission_id r))
     \<and> (\<forall>r \<in> set (db_resource_ceilings db). has_commission db (fst r))"

definition same_mandates :: "Db \<Rightarrow> Db \<Rightarrow> bool" where
  "same_mandates db db' \<longleftrightarrow>
     db_authority_scopes db' = db_authority_scopes db \<and> db_resource_ceilings db' = db_resource_ceilings db
     \<and> cm_id ` set (db_commissions db) \<subseteq> cm_id ` set (db_commissions db')"

interpretation mand: table_relation same_mandates
  by unfold_locales (auto simp: same_mandates_def)

lemma mand_execute [intro!]:
  "mand.keeps (tx_execute (insert_commission r1))"
  "mand.keeps (tx_execute (insert_criterion r2 st))"
  "mand.keeps (tx_execute (insert_criterion_version_row r2 n))"
  "mand.keeps (tx_execute (insert_known_uncertainty c n d))"
  "mand.keeps (tx_execute (insert_launch_token r4))"
  "mand.keeps (tx_execute (insert_attachment r5))"
  "mand.keeps (tx_execute (insert_link r6))"
  "mand.keeps (tx_execute (insert_event c t n p now))"
  "mand.keeps (tx_execute (insert_idempotency_key r7))"
  "mand.keeps (tx_execute (insert_identity_or_ignore r8))"
  "mand.keeps (tx_execute (upsert_alias r9))"
  by (rule mand.keeps_execute; auto simp: insert_defs same_mandates_def Let_def split: if_splits)+

lemma mand_update [intro!]:
  "mand.keeps (tx_update (consume_token h now))"
  "mand.keeps (tx_update (set_capabilities a n))"
  "mand.keeps (tx_update (demote_active c))"
  "mand.keeps (tx_update (promote c a))"
  "mand.keeps (tx_update (set_control_revision c k))"
  "mand.keeps (tx_update (set_status c s))"
  "mand.keeps (tx_update (insert_project_or_ignore i now))"
  by (rule mand.keeps_update; auto simp: update_defs image_update_where same_mandates_def)+

interpretation mwf: table_relation "\<lambda>db db'. mandate_wf db \<longrightarrow> mandate_wf db'"
  by unfold_locales auto

lemma mandate_wf_frame: "mandate_wf db \<Longrightarrow> same_mandates db db' \<Longrightarrow> mandate_wf db'"
  by (auto simp: mandate_wf_def same_mandates_def has_commission_iff)

lemma mwf_of_mand: "mand.keeps m \<Longrightarrow> mwf.keeps m"
  unfolding mand.keeps_def mwf.keeps_def using mandate_wf_frame by blast

lemma mwf_execute:
  "mwf.keeps (tx_execute (insert_authority_scope r3))"
  "mwf.keeps (tx_execute (insert_ceilings c ceil))"
  by (rule mwf.keeps_execute; fastforce simp: insert_defs mandate_wf_def has_commission_iff split: if_splits)+

lemma mand_work [intro!]:
  "mand.keeps (issue_attachment_token_work sys rd adapter ttl)"
  "mand.keeps (connect_attachment_work sys rd key hash token handshake cursor negotiated)"
  "mand.keeps (update_attachment_capabilities_work sys rd request c n negotiated)"
  "mand.keeps (take_control_work sys rd request c n k)"
  "mand.keeps (change_commission_dispatch_state_work sys rd request c st st' ev n)"
  "mand.keeps (save_idempotent_result rd key hash v)"
  "mand.keeps (bind_project_identity sys rd proposal)"
  "mand.keeps (record_event rd c ev k)"
  "mand.keeps (attach_proposer rd c a)"
  "mand.keeps (project_commission sys c)"
  by (auto simp: work_defs)

lemma mwf_store_mandate: "mwf.keeps (store_mandate c proposal)"
  unfolding store_mandate_def insert_authority_def insert_resource_ceilings_def insert_criterion_version_def
  by (intro mwf.keeps_bind mwf.keeps_for mwf.keeps_case_prod mwf.keeps_lift mwf_execute mwf_of_mand mand_execute)

lemma mwf_create_proposal: "mwf.keeps (create_proposal_work sys rd request proposal)"
  unfolding create_proposal_work_def
  by (intro mwf.keeps_bind mwf_store_mandate mwf.keeps_query mwf.keeps_uuid mwf.keeps_timestamp
      mwf_of_mand mand_work mand_execute)

lemma quiet_mandate_wf: "quiet db db' \<Longrightarrow> mandate_wf db \<Longrightarrow> mandate_wf db'"
proof -
  assume q: "quiet db db'" and wf: "mandate_wf db"
  let ?ids = "cm_id ` set (db_commissions db)"
  have rows: "fst ` set (control_rows db) = ?ids" by (force simp: control_rows_def)
  have old: "as_commission_id ` set (db_authority_scopes db) \<subseteq> ?ids" "fst ` set (db_resource_ceilings db) \<subseteq> ?ids"
    using wf by (auto simp: mandate_wf_def has_commission_iff)
  have new: "as_commission_id ` set (db_authority_scopes db')
      \<subseteq> as_commission_id ` set (db_authority_scopes db) \<union> ?ids"
    "fst ` set (db_resource_ceilings db') \<subseteq> fst ` set (db_resource_ceilings db)"
    using q unfolding quiet_def rows by simp_all
  have "as_commission_id ` set (db_authority_scopes db') \<subseteq> ?ids"
    using new(1) unfolding Un_absorb1 [OF old(1)] .
  moreover have "fst ` set (db_resource_ceilings db') \<subseteq> ?ids" using new(2) old(2) by (rule subset_trans)
  ultimately show ?thesis unfolding mandate_wf_def quiet_has_commission [OF q] unfolding has_commission_iff
    by (simp add: image_subset_iff)
qed

interpretation mandates: store_invariant mandate_wf
  by (unfold_locales; (rule mwf_create_proposal mand_work [THEN mwf_of_mand] | erule (1) quiet_mandate_wf
      | simp add: mandate_wf_def empty_db_def))

text \<open>The rows \<open>insert_authority\<close> writes, and reading them back.\<close>

interpretation ceil: table_relation "\<lambda>db db'. db_resource_ceilings db' = db_resource_ceilings db"
  by unfold_locales auto

lemma tx_for_rows:
  assumes "\<And>x s v s'. f x s = Inr (v, s') \<Longrightarrow> tab (ses_db s') = tab (ses_db s) @ g x"
    and "tx_for f xs s = Inr (v, s')"
  shows "tab (ses_db s') = tab (ses_db s) @ concat (map g xs)"
  using assms(2) by (induction xs arbitrary: s) (auto simp: tx_simps dest!: assms(1))

definition scope_rows :: "string \<Rightarrow> AuthorityScopeType \<Rightarrow> string list \<Rightarrow> AuthorityRow list" where
  "scope_rows c st vs =
     map (\<lambda>(i, v). \<lparr>as_commission_id = c, as_scope_type = AuthorityScopeType_as_str st, as_position = int i, as_value = v\<rparr>)
       (enumerate 0 vs)"

definition authority_rows :: "string \<Rightarrow> AuthorityEnvelope \<Rightarrow> AuthorityRow list" where
  "authority_rows c authority =
     scope_rows c AuthorityScopeType.Repository (auth_repositories authority)
     @ scope_rows c AuthorityScopeType.Path (auth_paths authority)
     @ scope_rows c AuthorityScopeType.Action (auth_actions authority)
     @ scope_rows c AuthorityScopeType.Destination (auth_destinations authority)
     @ scope_rows c AuthorityScopeType.Effect (auth_effects authority)"

lemma insert_scope_rows:
  assumes "tx_for (\<lambda>(i, v). tx_execute (insert_authority_scope
      \<lparr>as_commission_id = c, as_scope_type = AuthorityScopeType_as_str st, as_position = int i, as_value = v\<rparr>))
      (enumerate 0 vs) s = Inr (u, s')"
  shows "db_authority_scopes (ses_db s') = db_authority_scopes (ses_db s) @ scope_rows c st vs"
proof -
  have "db_authority_scopes (ses_db s') = db_authority_scopes (ses_db s)
      @ concat (map (\<lambda>(i, v). [\<lparr>as_commission_id = c, as_scope_type = AuthorityScopeType_as_str st,
                                 as_position = int i, as_value = v\<rparr>]) (enumerate 0 vs))"
    using assms by (rule tx_for_rows [rotated])
      (auto simp: tx_simps insert_authority_scope_def split: if_splits)
  moreover have "concat (map (\<lambda>(i, v). [h i v]) xs) = map (\<lambda>(i, v). h i v) xs" for h :: "nat \<Rightarrow> string \<Rightarrow> AuthorityRow" and xs
    by (induction xs) auto
  ultimately show ?thesis by (simp add: scope_rows_def)
qed

lemma insert_authority_rows:
  assumes "insert_authority c authority s = Inr (u, s')"
  shows "db_authority_scopes (ses_db s') = db_authority_scopes (ses_db s) @ authority_rows c authority"
proof -
  have "db_authority_scopes (ses_db s') = db_authority_scopes (ses_db s)
      @ concat (map (\<lambda>(st, vs). scope_rows c st vs)
          [(AuthorityScopeType.Repository, auth_repositories authority), (AuthorityScopeType.Path, auth_paths authority),
           (AuthorityScopeType.Action, auth_actions authority),
           (AuthorityScopeType.Destination, auth_destinations authority),
           (AuthorityScopeType.Effect, auth_effects authority)])"
    using assms unfolding insert_authority_def by (rule tx_for_rows [rotated]) (auto dest: insert_scope_rows)
  then show ?thesis by (simp add: authority_rows_def)
qed

lemma insert_authority_ceilings:
  assumes "insert_authority c authority s = Inr (u, s')"
  shows "db_resource_ceilings (ses_db s') = db_resource_ceilings (ses_db s)"
proof -
  have "ceil.keeps (insert_authority c authority)"
    unfolding insert_authority_def
    by (intro ceil.keeps_for ceil.keeps_case_prod ceil.keeps_execute)
      (auto simp: insert_authority_scope_def split: if_splits)
  with assms show ?thesis unfolding ceil.keeps_def by blast
qed

lemma filter_scope_rows:
  "filter (\<lambda>r. as_commission_id r = c \<and> as_scope_type r = AuthorityScopeType_as_str st') (scope_rows c st vs)
     = (if st = st' then scope_rows c st vs else [])"
  by (auto simp: scope_rows_def filter_empty_conv filter_id_conv)

lemma scope_rows_sorted: "sorted (map as_position (scope_rows c st vs))"
proof -
  have "map as_position (scope_rows c st vs) = map int (map fst (enumerate 0 vs))"
    unfolding scope_rows_def map_map by (rule map_cong) auto
  then show ?thesis by (simp only: map_fst_enumerate) (simp add: sorted_map)
qed

lemma scope_rows_values: "map as_value (scope_rows c st vs) = vs"
proof -
  have "map as_value (scope_rows c st vs) = map snd (enumerate 0 vs)"
    unfolding scope_rows_def map_map by (rule map_cong) auto
  then show ?thesis by simp
qed

lemma load_authority_rows:
  assumes "\<forall>r \<in> set old. as_commission_id r \<noteq> c" and "db_authority_scopes db = old @ authority_rows c authority"
  shows "load_authority c db = authority"
proof -
  have "load_authority_scope c st db = map as_value (sort_key as_position
      (filter (\<lambda>r. as_commission_id r = c \<and> as_scope_type r = AuthorityScopeType_as_str st) (authority_rows c authority)))" for st
    using assms by (simp add: load_authority_scope_def)
  then show ?thesis
    by (simp add: load_authority_def authority_rows_def filter_scope_rows
        sort_key_id_if_sorted scope_rows_sorted scope_rows_values)
qed


text \<open>Authority and ceilings of a new Commission are read back exactly as they were proposed.\<close>

lemma store_mandate_loads:
  assumes run: "store_mandate c proposal s = Inr (u, s')"
    and fresh: "\<forall>r \<in> set (db_authority_scopes (ses_db s)). as_commission_id r \<noteq> c"
      "\<forall>r \<in> set (db_resource_ceilings (ses_db s)). fst r \<noteq> c"
  shows "load_authority c (ses_db s') = prop_authority proposal"
    and "load_resource_ceilings c (ses_db s') = Inr (prop_resource_ceilings proposal)"
proof -
  from run obtain u1 s1 u2 s2 u3 s3 where
    s1: "tx_for (\<lambda>(position, criterion).
         tx_bind (tx_lift (criterion_row c position criterion)) (\<lambda>r.
         tx_bind (tx_execute (insert_criterion r (CriterionStatus_as_str CriterionStatus.Uncertain))) (\<lambda>_.
         insert_criterion_version c 0 position criterion))) (enumerate 0 (prop_criteria proposal)) s = Inr (u1, s1)"
    and s2: "insert_authority c (prop_authority proposal) s1 = Inr (u2, s2)"
    and s3: "insert_resource_ceilings c (prop_resource_ceilings proposal) s2 = Inr (u3, s3)"
    and s': "tx_for (\<lambda>(position, uncertainty). tx_execute (insert_known_uncertainty c (int position) uncertainty))
               (enumerate 0 (prop_known_uncertainties proposal)) s3 = Inr (u, s')"
    unfolding store_mandate_def tx_simps by blast
  have "mand.keeps (tx_for (\<lambda>(position, criterion).
         tx_bind (tx_lift (criterion_row c position criterion)) (\<lambda>r.
         tx_bind (tx_execute (insert_criterion r (CriterionStatus_as_str CriterionStatus.Uncertain))) (\<lambda>_.
         insert_criterion_version c 0 position criterion))) (enumerate 0 (prop_criteria proposal)))"
    unfolding insert_criterion_version_def by auto
  with s1 have first: "same_mandates (ses_db s) (ses_db s1)" unfolding mand.keeps_def by blast
  have "mand.keeps (tx_for (\<lambda>(position, uncertainty). tx_execute (insert_known_uncertainty c (int position) uncertainty))
               (enumerate 0 (prop_known_uncertainties proposal)))" by auto
  with s' have last: "same_mandates (ses_db s3) (ses_db s')" unfolding mand.keeps_def by blast
  have scopes: "db_authority_scopes (ses_db s2) = db_authority_scopes (ses_db s) @ authority_rows c (prop_authority proposal)"
    using insert_authority_rows [OF s2] first by (simp add: same_mandates_def)
  have ceilings: "db_resource_ceilings (ses_db s2) = db_resource_ceilings (ses_db s)"
    using insert_authority_ceilings [OF s2] first by (simp add: same_mandates_def)
  have s3: "ses_db s3 = (ses_db s2)\<lparr>db_resource_ceilings := db_resource_ceilings (ses_db s2)
              @ [(c, prop_resource_ceilings proposal)]\<rparr>"
    using s3 by (auto simp: insert_resource_ceilings_def tx_simps insert_ceilings_def split: if_splits)
  have "db_authority_scopes (ses_db s') = db_authority_scopes (ses_db s) @ authority_rows c (prop_authority proposal)"
    using last scopes s3 by (simp add: same_mandates_def)
  then show "load_authority c (ses_db s') = prop_authority proposal" by (rule load_authority_rows [OF fresh(1)])
  have "db_resource_ceilings (ses_db s') = db_resource_ceilings (ses_db s) @ [(c, prop_resource_ceilings proposal)]"
    using last ceilings s3 by (simp add: same_mandates_def)
  then show "load_resource_ceilings c (ses_db s') = Inr (prop_resource_ceilings proposal)"
    using fresh(2) by (simp add: load_resource_ceilings_def query_row_def find_append find_no_match)
qed


lemma proposal_loads:
  assumes run: "create_proposal_work sys rd request proposal s = Inr (v, s')" and wf: "mandate_wf (ses_db s)"
  obtains c where "\<not> has_commission (ses_db s) c" "has_commission (ses_db s') c"
    "load_authority c (ses_db s') = prop_authority proposal"
    "load_resource_ceilings c (ses_db s') = Inr (prop_resource_ceilings proposal)"
proof -
  from run obtain s1 c r db2 t s3 s4 a s5 where
    s1: "bind_project_identity sys rd proposal s = Inr ((), s1)"
    and db2: "insert_commission r (ses_db s1) = Inr db2"
    and s3: "store_mandate c proposal t = Inr ((), s3)"
    and s4: "record_event rd c EventKind.CommissionProposed 0 s3 = Inr ((), s4)"
    and s5: "attach_proposer rd c a s4 = Inr ((), s5)" and s': "project_commission sys c s5 = Inr (v, s')"
    and r: "cm_id r = c" and t: "ses_db t = db2"
    unfolding create_proposal_work_def tx_simps by fastforce
  have bound: "same_mandates (ses_db s) (ses_db s1)" "same_control (ses_db s) (ses_db s1)"
    using mand_work(7) [of sys rd proposal] s1 ctl_step [OF ctl_parts(6) s1] unfolding mand.keeps_def by blast+
  have row: "db2 = (ses_db s1)\<lparr>db_commissions := db_commissions (ses_db s1) @ [r]\<rparr>" "\<not> has_commission (ses_db s1) c"
    using db2 r by (auto simp: insert_commission_def split: if_splits)
  then have fresh: "\<not> has_commission (ses_db s) c"
    using bound(2) by (simp add: same_control_def has_commission_iff)
  with wf bound(1) row(1) have "\<forall>r \<in> set (db_authority_scopes (ses_db t)). as_commission_id r \<noteq> c"
    "\<forall>r \<in> set (db_resource_ceilings (ses_db t)). fst r \<noteq> c"
    by (auto simp: mandate_wf_def same_mandates_def t)
  note loads = store_mandate_loads [OF s3 this]
  have rest: "same_mandates (ses_db s3) (ses_db s')"
    using mand_work(8) [of rd c EventKind.CommissionProposed 0] mand_work(9) [of rd c a] mand_work(10) [of sys c] s4 s5 s'
    unfolding mand.keeps_def by (blast intro: mand.rel_trans)
  have "same_control (ses_db t) (ses_db s3)" by (rule ctl_step [OF ctl_parts(5) s3])
  then have "has_commission (ses_db s') c"
    using rest row r by (auto simp: same_control_def same_mandates_def has_commission_iff t)
  moreover have "load_authority c (ses_db s') = prop_authority proposal"
    "load_resource_ceilings c (ses_db s') = Inr (prop_resource_ceilings proposal)"
    using loads rest by (simp_all add: same_mandates_def load_authority_def load_authority_scope_def load_resource_ceilings_def)
  ultimately show ?thesis using fresh by (intro that)
qed

end
