(* ===== verification/Store_Life.thy ===== *)
theory Store_Life
  imports Store_Spec
begin

text \<open>
  The life of a Commission as a second abstract specification: a partial map from Commissions to their status
  and revision. Every successful request refines one of its steps: propose, accept, pause, resume, cancel,
  amend, or no change. The handlers that change a row of \<^verbatim>\<open>commissions\<close> do so in one statement; all others
  leave the table alone.
\<close>

section \<open>The specification\<close>

definition abs_life :: "Db \<Rightarrow> string \<Rightarrow> (string \<times> int) option" where
  "abs_life db c = map_option (\<lambda>r. (cm_status r, cm_revision r)) (List.find (\<lambda>r. cm_id r = c) (db_commissions db))"

inductive life_spec :: "(string \<Rightarrow> (string \<times> int) option) \<Rightarrow> (string \<Rightarrow> (string \<times> int) option) \<Rightarrow> bool" where
  unchanged: "life_spec m m"
| proposed: "m c = None \<Longrightarrow> life_spec m (m(c \<mapsto> (''proposed'', 0)))"
| accepted: "m c = Some (''proposed'', n) \<Longrightarrow> life_spec m (m(c \<mapsto> (''active'', n + 1)))"
| paused: "m c = Some (''active'', n) \<Longrightarrow> life_spec m (m(c \<mapsto> (''paused'', n)))"
| resumed: "m c = Some (''paused'', n) \<Longrightarrow> life_spec m (m(c \<mapsto> (''active'', n)))"
| cancelled: "m c = Some (st, n) \<Longrightarrow> st \<in> {''active'', ''paused''} \<Longrightarrow> life_spec m (m(c \<mapsto> (''cancelled'', n)))"
| amended: "m c = Some (st, n) \<Longrightarrow> st \<in> {''active'', ''paused''} \<Longrightarrow> life_spec m (m(c \<mapsto> (st, n + 1)))"

lemmas life_intros = life_spec.unchanged life_spec.intros [unfolded fun_upd_def]

lemma abs_life_find: "List.find (\<lambda>r. cm_id r = c) (db_commissions db) = Some r \<Longrightarrow> abs_life db c = Some (cm_status r, cm_revision r)"
  by (simp add: abs_life_def)

lemma abs_life_update:
  assumes "\<And>r. cm_id (f r) = cm_id r" and r: "List.find (\<lambda>r. cm_id r = c) (db_commissions db) = Some r"
  shows "abs_life (db\<lparr>db_commissions := update_where (\<lambda>r. cm_id r = c) f (db_commissions db)\<rparr>) =
    (abs_life db)(c \<mapsto> (cm_status (f r), cm_revision (f r)))"
proof
  fix c'
  have found: "cm_id q = c''" if "List.find (\<lambda>r. cm_id r = c'') rs = Some q" for q c'' rs
    using that by (auto dest: find_Some_mem)
  show "abs_life (db\<lparr>db_commissions := update_where (\<lambda>r. cm_id r = c) f (db_commissions db)\<rparr>) c' =
    ((abs_life db)(c \<mapsto> (cm_status (f r), cm_revision (f r)))) c'"
    by (cases "c' = c"; cases "List.find (\<lambda>r. cm_id r = c') (db_commissions db)")
      (auto simp: abs_life_def find_update_where assms found [OF r] dest: found)
qed

section \<open>Most statements leave the table alone\<close>

interpretation comm: table_relation "\<lambda>db db'. db_commissions db' = db_commissions db"
  by unfold_locales auto

lemma comm_life: "comm.keeps m \<Longrightarrow> m s = Inr (v, s') \<Longrightarrow> abs_life (ses_db s') = abs_life (ses_db s)"
  unfolding comm.keeps_def abs_life_def fun_eq_iff by metis

lemma comm_execute [intro!]:
  "comm.keeps (tx_execute (insert_criterion r2 st))"
  "comm.keeps (tx_execute (insert_criterion_version_row r2 n))"
  "comm.keeps (tx_execute (insert_authority_scope r3))"
  "comm.keeps (tx_execute (insert_ceilings c ceil))"
  "comm.keeps (tx_execute (insert_known_uncertainty c n d))"
  "comm.keeps (tx_execute (insert_launch_token r4))"
  "comm.keeps (tx_execute (insert_attachment r5))"
  "comm.keeps (tx_execute (insert_link r6))"
  "comm.keeps (tx_execute (insert_event c t n p now))"
  "comm.keeps (tx_execute (insert_idempotency_key r7))"
  "comm.keeps (tx_execute (insert_identity_or_ignore r8))"
  "comm.keeps (tx_execute (upsert_alias r9))"
  by (rule comm.keeps_execute, auto simp: insert_defs Let_def split: if_splits)+

lemma comm_update [intro!]:
  "comm.keeps (tx_update (consume_token h now))"
  "comm.keeps (tx_update (set_capabilities a n))"
  "comm.keeps (tx_update (demote_active c))"
  "comm.keeps (tx_update (promote c a))"
  "comm.keeps (tx_update (insert_project_or_ignore i now))"
  "comm.keeps (tx_update (delete_authority c))"
  by (rule comm.keeps_update, simp add: update_defs delete_authority_def)+

lemma comm_plan_execute [intro!]:
  "comm.keeps (tx_execute (insert_plan r1))"
  "comm.keeps (tx_execute (insert_planned r2))"
  "comm.keeps (tx_execute (insert_planned_dependency r3))"
  "comm.keeps (tx_execute (insert_planned_criterion r4))"
  "comm.keeps (tx_execute (insert_assignment r5))"
  "comm.keeps (tx_execute (copy_metadata a c l b))"
  "comm.keeps (tx_execute (insert_skill_default r6))"
  "comm.keeps (tx_execute (replace_route r7))"
  "comm.keeps (tx_execute (insert_attention r8))"
  "comm.keeps (tx_execute (insert_verification_gate r9))"
  "comm.keeps (tx_execute (bind_criterion_versions c n))"
  by (rule comm.keeps_execute, auto simp: plan_insert_defs Let_def split: if_splits option.splits)+

lemma comm_operation_execute [intro!]:
  "comm.keeps (tx_execute (insert_operation r1))"
  "comm.keeps (tx_execute (insert_gate r2))"
  "comm.keeps (tx_execute (insert_grant r3))"
  "comm.keeps (tx_execute (insert_exposure r4))"
  "comm.keeps (tx_execute (insert_recovery_or_ignore r5))"
  "comm.keeps (tx_execute (insert_amendment r6))"
  "comm.keeps (tx_execute (replace_resource_ceilings c ceil))"
  by (rule comm.keeps_execute, auto simp: operation_insert_defs replace_resource_ceilings_def split: if_splits)+

lemma comm_work_update [intro!]:
  "comm.keeps (tx_update (set_assignment_status a st))"
  "comm.keeps (tx_update (resolve_conditions a now))"
  "comm.keeps (tx_update (restate_conditions a k req))"
  "comm.keeps (tx_update (authorize_gate g now))"
  "comm.keeps (tx_update (authorize_operation g now))"
  "comm.keeps (tx_update (revoke_lease l now))"
  "comm.keeps (tx_update (revoke_reservation t ms))"
  "comm.keeps (tx_update (cancel_attempt_row t now ms))"
  "comm.keeps (tx_update (cancel_worker t ms))"
  "comm.keeps (tx_update (reopen_assignment t))"
  "comm.keeps (tx_update (accept_amendment_row i now j))"
  "comm.keeps (tx_update (invalidate_other_amendments c i))"
  "comm.keeps (tx_update (\<lambda>db. db\<lparr>db_claim_uses := f db\<rparr>))"
  by (rule comm.keeps_update, simp add: work_update_defs)+

lemma comm_closing [intro!]:
  "comm.keeps (tx_update (cancel_assignments c))"
  "comm.keeps (tx_update (cancel_attempts c now ms))"
  "comm.keeps (tx_update (reject_claim_uses c now))"
  "comm.keeps (tx_update (cancel_workers c ms))"
  "comm.keeps (tx_update (fail_worker_commands c))"
  "comm.keeps (tx_update (revoke_leases c now))"
  "comm.keeps (tx_update (revoke_reservations c ms))"
  "comm.keeps (tx_update (close_gates c st now))"
  "comm.keeps (tx_update (revoke_operations c now))"
  "comm.keeps (tx_update (revoke_grants c now))"
  "comm.keeps (tx_update (revoke_exposures c now))"
  "comm.keeps (tx_update (strand_operations c now))"
  "comm.keeps (tx_update (retain_results c))"
  "comm.keeps (tx_update (drop_accepted_artifacts c))"
  "comm.keeps (tx_update (refresh_temporary_material_retention_links p))"
  "comm.keeps (tx_update (expire_materials c now))"
  by (rule comm.keeps_update, simp add: closing_defs)+

lemma comm_parts [intro!]:
  "comm.keeps (record_event_with_payload rd c ev n p)"
  "comm.keeps (record_event rd c ev n)"
  "comm.keeps (save_idempotent_result rd key hash v)"
  "comm.keeps (project_commission sys c)"
  "comm.keeps (insert_authority c authority)"
  "comm.keeps (store_mandate c proposal)"
  "comm.keeps (bind_project_identity sys rd proposal)"
  "comm.keeps (attach_proposer rd c a)"
  by (auto simp: work_defs)

lemma comm_attachment_work [intro!]:
  "comm.keeps (issue_attachment_token_work sys rd adapter ttl)"
  "comm.keeps (connect_attachment_work sys rd key hash token handshake cursor negotiated)"
  "comm.keeps (update_attachment_capabilities_work sys rd request c n negotiated)"
  by (auto simp: work_defs)

lemma comm_plan_parts [intro!]:
  "comm.keeps (insert_ready_assignment rd c l n m b now)"
  "comm.keeps (record_plan_revision rd c n plan rec now)"
  "comm.keeps (route_ready_assignments runtime rd c)"
  "comm.keeps (open_principal_verification_gates c n now)"
  "comm.keeps (plan_by_worker rd c n now)"
  "comm.keeps (plan_of_proposal rd c p n now)"
proof -
  show ready: "comm.keeps (insert_ready_assignment rd c l n m b now)" for l n m b now
    by (auto simp: insert_ready_assignment_def insert_assignment_skill_default_def)
  show plan: "comm.keeps (record_plan_revision rd c n plan rec now)" for n plan rec now
    by (auto simp: record_plan_revision_def store_planned_assignment_def intro: ready)
  show "comm.keeps (route_ready_assignments runtime rd c)"
    by (auto simp: route_ready_assignments_def route_assignment_def require_attention_def Let_def)
  show "comm.keeps (open_principal_verification_gates c n now)"
    by (auto simp: open_principal_verification_gates_def)
  show "comm.keeps (plan_by_worker rd c n now)" "comm.keeps (plan_of_proposal rd c p n now)"
    by (auto simp: plan_by_worker_def plan_of_proposal_def initialize_commission_plan_def Let_def intro: plan)
qed

lemma comm_operation_work [intro!]:
  "comm.keeps (grant_credential_work sys rd c grant n)"
  "comm.keeps (propose_operation_work sys rd runtime request c op n)"
  "comm.keeps (approve_operation_work sys rd c g d n)"
  "comm.keeps (propose_amendment_work sys rd request c amendment n)"
proof -
  have ctx: "comm.keeps (ensure_current_operation_context rd c op n)"
    "comm.keeps (ensure_current_credential_grant_context rd c grant n)" "comm.keeps (check_credential_grant rd c op)" for op
    by (auto simp: ensure_current_operation_context_def ensure_current_credential_grant_context_def ensure_context_def
        check_credential_grant_def)
  show "comm.keeps (grant_credential_work sys rd c grant n)"
    by (auto simp: grant_credential_work_def intro: ctx)
  have "comm.keeps (classify_proposed rd runtime c op)"
    by (auto simp: classify_proposed_def Let_def intro: ctx)
  then show "comm.keeps (propose_operation_work sys rd runtime request c op n)"
    by (auto simp: propose_operation_work_def open_gate_def announce_operation_def ceiling_event_def Let_def
        intro: ctx)
  show "comm.keeps (approve_operation_work sys rd c g d n)"
    by (auto simp: approve_operation_work_def authorize_exposure_def intro: ctx)
  show "comm.keeps (propose_amendment_work sys rd request c amendment n)"
    by (auto simp: propose_amendment_work_def Let_def)
qed

section \<open>What each handler does to the table\<close>

text \<open>Steps that only read, at the front of a transaction.\<close>

lemma bind_query_Inr:
  "tx_bind (tx_query q) f s = Inr (v, s') \<longleftrightarrow> (\<exists>x. q (ses_db s) = Inr x \<and> f x s = Inr (v, s'))"
  by (auto simp: tx_simps)

lemma bind_timestamp_Inr:
  "tx_bind (unix_timestamp rd) f s = Inr (v, s') \<longleftrightarrow>
     (\<exists>t. rd_unix_timestamp rd (ses_clock s) = Inr t \<and> f t (s\<lparr>ses_clock := Suc (ses_clock s)\<rparr>) = Inr (v, s'))"
  by (auto simp: tx_simps)

lemma bind_millis_Inr:
  "tx_bind (unix_timestamp_millis rd) f s = Inr (v, s') \<longleftrightarrow>
     (\<exists>t. rd_unix_timestamp_millis rd (ses_millis s) = Inr t \<and> f t (s\<lparr>ses_millis := Suc (ses_millis s)\<rparr>) = Inr (v, s'))"
  by (auto simp: tx_simps)

lemmas peel_simps = bind_query_Inr bind_timestamp_Inr bind_millis_Inr tx_lift_Inr find_commission_Ok Let_def

lemma life_bind:
  assumes "tx_bind m k s = Inr (v, s')" and "\<And>x. comm.keeps (k x)"
  obtains x t where "m s = Inr (x, t)" "abs_life (ses_db s') = abs_life (ses_db t)"
  using assms by (auto simp: tx_bind_Inr dest: comm_life)

lemma life_update_then:
  assumes "tx_bind (tx_update u) k s = Inr (v, s')" and "\<And>x. comm.keeps (k x)"
  shows "abs_life (ses_db s') = abs_life (u (ses_db s))"
  using assms by (rule life_bind) (simp add: tx_simps)

lemma accept_life:
  assumes "accept_commission_work sys runtime rd request c n s = Inr (v, s')"
  shows "abs_life (ses_db s) c = Some (''proposed'', n)
    \<and> abs_life (ses_db s') = (abs_life (ses_db s))(c \<mapsto> (''active'', n + 1))"
proof -
  from assms obtain r now where r: "List.find (\<lambda>r. cm_id r = c) (db_commissions (ses_db s)) = Some r"
    "cm_revision r = n" "cm_status r = ''proposed''"
    and "abs_life (ses_db s') = abs_life (activate c (n + 1) now (ses_db s))"
    unfolding accept_commission_work_def
    by (auto simp: peel_simps split: if_splits dest!: life_update_then)
  then show ?thesis by (simp add: activate_def abs_life_update abs_life_find)
qed

lemma dispatch_life:
  assumes "change_commission_dispatch_state_work sys rd request c st st' ev n s = Inr (v, s')"
  shows "abs_life (ses_db s) c = Some (CommissionStatus_as_str st, n)
    \<and> abs_life (ses_db s') = (abs_life (ses_db s))(c \<mapsto> (CommissionStatus_as_str st', n))"
proof -
  from assms obtain r where r: "List.find (\<lambda>r. cm_id r = c) (db_commissions (ses_db s)) = Some r"
    "cm_revision r = n" "cm_status r = CommissionStatus_as_str st"
    and "abs_life (ses_db s') = abs_life (set_status c st' (ses_db s))"
    unfolding change_commission_dispatch_state_work_def
    by (auto simp: peel_simps split: if_splits dest!: life_update_then)
  then show ?thesis by (simp add: set_status_def abs_life_update abs_life_find)
qed

lemma cancel_life:
  assumes "cancel_commission_work sys rd request c n s = Inr (v, s')"
  shows "\<exists>st. abs_life (ses_db s) c = Some (st, n) \<and> st \<in> {''active'', ''paused''}
    \<and> abs_life (ses_db s') = (abs_life (ses_db s))(c \<mapsto> (''cancelled'', n))"
proof -
  have rest: "comm.keeps (finalize_temporary_material_retention c now)" "comm.keeps (record_attempt_recovery rd rec)" for now rec
    by (auto simp: finalize_temporary_material_retention_def record_attempt_recovery_def)
  have closing: "abs_life (ses_db t') = abs_life (cancel_commission_row c now (ses_db t))"
    if "close_commission c now ms t = Inr (x, t')" for now ms t x t'
    using that unfolding close_commission_def tx_for.simps by (rule life_update_then) auto
  from assms obtain r now where r: "List.find (\<lambda>r. cm_id r = c) (db_commissions (ses_db s)) = Some r"
    "cm_revision r = n" "cm_status r \<in> {''active'', ''paused''}"
    and "abs_life (ses_db s') = abs_life (cancel_commission_row c now (ses_db s))"
    unfolding cancel_commission_work_def
    by (auto simp: peel_simps split: if_splits elim!: life_bind intro: rest dest!: closing)
  then show ?thesis by (simp add: cancel_commission_row_def abs_life_update abs_life_find)
qed

lemma amend_life:
  assumes "accept_amendment_work sys rd c i d n s = Inr (v, s')"
  shows "\<exists>st. abs_life (ses_db s) c = Some (st, n) \<and> st \<in> {''active'', ''paused''}
    \<and> abs_life (ses_db s') = (abs_life (ses_db s))(c \<mapsto> (st, n + 1))"
proof -
  have replace: "abs_life (ses_db t') = abs_life (set_revision c k (ses_db t))"
    if "replace_mandate c a k t = Inr (x, t')" for a k t x t'
  proof -
    have first: "comm.keeps (tx_bind (replace_authority c (amr_authority a)) (\<lambda>_.
        tx_execute (replace_resource_ceilings c (amr_resource_ceilings a))))"
      by (auto simp: replace_authority_def)
    from that obtain t1 where t1: "tx_bind (replace_authority c (amr_authority a)) (\<lambda>_.
        tx_execute (replace_resource_ceilings c (amr_resource_ceilings a))) t = Inr ((), t1)"
      and rest: "tx_bind (tx_update (set_revision c k)) (\<lambda>_. copy_current_criterion_versions c k) t1 = Inr (x, t')"
      unfolding replace_mandate_def tx_bind_Inr by auto
    have "abs_life (ses_db t') = abs_life (set_revision c k (ses_db t1))"
      using rest by (rule life_update_then) (auto simp: copy_current_criterion_versions_def)
    moreover have "db_commissions (ses_db t1) = db_commissions (ses_db t)"
      using first t1 unfolding comm.keeps_def by blast
    ultimately show ?thesis by (simp add: set_revision_def abs_life_def fun_eq_iff)
  qed
  have rest: "comm.keeps (revalidate_lease rd c e ceil k l)" "comm.keeps (revoke_old_grants c now)" for e ceil k l now
    by (auto simp: revalidate_lease_def record_attempt_profile_claim_outcome_def revoke_old_grants_def split: prod.splits)
  from assms obtain r where r: "List.find (\<lambda>r. cm_id r = c) (db_commissions (ses_db s)) = Some r"
    "cm_revision r = n" "cm_status r \<in> {''active'', ''paused''}"
    and "abs_life (ses_db s') = abs_life (set_revision c (n + 1) (ses_db s))"
    unfolding accept_amendment_work_def
    by (auto simp: peel_simps query_row_def amendable_def split: if_splits option.splits
        elim!: life_bind intro: rest dest!: replace)
  then show ?thesis by (simp add: set_revision_def abs_life_update abs_life_find)
qed

text \<open>Taking control and creating a Commission.\<close>

interpretation life: table_relation "\<lambda>db db'. abs_life db' = abs_life db"
  by unfold_locales auto

lemma life_of_comm: "comm.keeps m \<Longrightarrow> life.keeps m"
  unfolding life.keeps_def by (intro allI impI, erule (1) comm_life)

lemma takeover_life: "life.keeps (take_control_work sys rd request c n k)"
proof -
  have "life.keeps (tx_update (set_control_revision c j))" for j
  proof (rule life.keeps_update)
    show "abs_life (set_control_revision c j db) = abs_life db" for db
    proof
      show "abs_life (set_control_revision c j db) c' = abs_life db c'" for c'
        by (cases "List.find (\<lambda>r. cm_id r = c') (db_commissions db)")
          (auto simp: abs_life_def set_control_revision_def find_update_where)
    qed
  qed
  then show ?thesis
    by (auto simp: take_control_work_def Let_def intro!: life_of_comm [OF comm_update(3)]
        life_of_comm [OF comm_update(4)] life_of_comm [OF comm_parts(1)] life_of_comm [OF comm_parts(4)])
qed

lemma proposal_life:
  assumes "create_proposal_work sys rd request proposal s = Inr (v, s')"
  shows "\<exists>c. abs_life (ses_db s) c = None \<and> abs_life (ses_db s') = (abs_life (ses_db s))(c \<mapsto> (''proposed'', 0))"
proof -
  from assms obtain s1 c r db2 t s3 s4 a s5 where
    s1: "bind_project_identity sys rd proposal s = Inr ((), s1)"
    and db2: "insert_commission r (ses_db s1) = Inr db2"
    and s3: "store_mandate c proposal t = Inr ((), s3)"
    and s4: "record_event rd c EventKind.CommissionProposed 0 s3 = Inr ((), s4)"
    and s5: "attach_proposer rd c a s4 = Inr ((), s5)" and s': "project_commission sys c s5 = Inr (v, s')"
    and r: "cm_id r = c" "cm_status r = ''proposed''" "cm_revision r = 0" and t: "ses_db t = db2"
    unfolding create_proposal_work_def tx_simps by fastforce
  have keep: "db_commissions (ses_db s1) = db_commissions (ses_db s)"
    using s1 comm_parts(7) [of sys rd proposal] unfolding comm.keeps_def by blast
  have row: "db2 = (ses_db s1)\<lparr>db_commissions := db_commissions (ses_db s1) @ [r]\<rparr>" "\<not> has_commission (ses_db s1) c"
    using db2 r by (auto simp: insert_commission_def split: if_splits)
  have "abs_life (ses_db s') = abs_life db2"
    using comm_life [OF comm_parts(6) s3] comm_life [OF comm_parts(2) s4] comm_life [OF comm_parts(8) s5]
      comm_life [OF comm_parts(4) s'] t by simp
  moreover have none: "List.find (\<lambda>r. cm_id r = c) (db_commissions (ses_db s)) = None"
    using row(2) by (auto simp: find_None_iff has_commission_iff keep)
  then have "abs_life db2 = (abs_life (ses_db s))(c \<mapsto> (''proposed'', 0))"
    using r by (auto simp: abs_life_def row(1) keep find_append fun_eq_iff split: option.splits)
  ultimately show ?thesis using none by (auto simp: abs_life_def)
qed

section \<open>Refinement\<close>

lemma life_idempotent:
  assumes "idempotent_transaction rd key hash work db = Inr (v, db')"
  obtains "abs_life db' = abs_life db"
  | s where "work \<lparr>ses_db = db, ses_clock = 0, ses_millis = 0, ses_uuid = 0\<rparr> = Inr (v, s)" "abs_life db' = abs_life (ses_db s)"
  using assms by (cases rule: idempotent_cases) (auto dest!: comm_life [OF comm_parts(3)])

lemma life_kept:
  assumes "life.keeps work" and "idempotent_transaction rd key hash work db = Inr (v, db')"
  shows "abs_life db' = abs_life db"
  using assms(2) by (rule life_idempotent) (use assms(1) in \<open>auto simp: life.keeps_def\<close>)

lemma work_life:
  assumes "work_step sys db db'"
  shows "life_spec (abs_life db) (abs_life db')"
  using assms
proof (induction rule: work_step.induct)
  case (accept runtime rd request c db v db')
  then show ?case
    by (elim accepting.runs life_idempotent) (auto dest!: accept_life intro: life_intros)
next
  case (pause rd request c db v db')
  then show ?case unfolding pause_commission_def
    by (elim dispatch_state.runs life_idempotent) (auto dest!: dispatch_life intro: life_intros)
next
  case (resume rd request c db v db')
  then show ?case unfolding resume_commission_def
    by (elim dispatch_state.runs life_idempotent) (auto dest!: dispatch_life intro: life_intros)
next
  case (cancel rd lock request c db v db')
  then show ?case
    by (elim cancelling.runs life_idempotent) (auto dest!: cancel_life intro: life_intros)
next
  case (accept_amendment rd h lock request c i d db v db')
  then show ?case
    by (elim accepting_amendment.runs life_idempotent) (auto dest!: amend_life intro: life_intros)
qed (auto elim!: grant_runs proposing_operation.runs approving.runs proposing_amendment.runs
    simp: life_kept [OF life_of_comm [OF comm_operation_work(1)]] life_kept [OF life_of_comm [OF comm_operation_work(2)]]
      life_kept [OF life_of_comm [OF comm_operation_work(3)]] life_kept [OF life_of_comm [OF comm_operation_work(4)]]
    intro: life_spec.unchanged)

lemma step_life:
  assumes "store_step sys db db'"
  shows "life_spec (abs_life db) (abs_life db')"
  using assms
proof (induction rule: store_step.induct)
  case (connect rd request token handshake cursor db v db')
  then have "abs_life db' = abs_life db"
    by (auto simp: connect_attachment_def outcome_simps
        dest: life.keeps_transaction [OF life_of_comm [OF comm_attachment_work(2)]])
  then show ?case by (simp add: life_spec.unchanged)
next
  case (propose rd request proposal db v db')
  then show ?case by (elim proposing.runs life_idempotent) (auto dest!: proposal_life intro: life_intros)
qed (auto elim!: issue.runs downgrade.runs takeover.runs
    simp: life_kept [OF life_of_comm [OF comm_attachment_work(1)]] life_kept [OF life_of_comm [OF comm_attachment_work(3)]]
      life_kept [OF takeover_life] intro: life_spec.unchanged work_life)

text \<open>Revisions never decrease along a run, and a cancelled Commission stays cancelled.\<close>

lemma life_spec_monotone:
  assumes "life_spec m m'" and "m c = Some (st, n)"
  shows "\<exists>st' n'. m' c = Some (st', n') \<and> n \<le> n' \<and> (st = ''cancelled'' \<longrightarrow> st' = ''cancelled'' \<and> n' = n)"
  using assms by cases auto

lemma run_life:
  assumes "(store_step sys)\<^sup>*\<^sup>* db db'" and "abs_life db c = Some (st, n)"
  shows "\<exists>st' n'. abs_life db' c = Some (st', n') \<and> n \<le> n' \<and> (st = ''cancelled'' \<longrightarrow> st' = ''cancelled'' \<and> n' = n)"
  using assms
proof (induction rule: rtranclp_induct)
  case (step y z)
  then obtain st' n' where "abs_life y c = Some (st', n')" "n \<le> n'" "st = ''cancelled'' \<longrightarrow> st' = ''cancelled'' \<and> n' = n"
    by blast
  with life_spec_monotone [OF step_life [OF step.hyps(2)] this(1)] show ?case by fastforce
qed simp

end
