(* ===== verification/Sample_Run.thy ===== *)
theory Sample_Run
  imports Store_Life
begin

text \<open>
  Concrete data for the witnesses: a plan, a mandate, a proposal, and one run of the store from the empty
  database through connecting, proposing, taking control, accepting, amending and cancelling a Commission. Its
  states are written out, so each step is one evaluation of the model.
\<close>

section \<open>Sample data for the witnesses\<close>

definition hash_order_id :: HashOrders where
  "hash_order_id = \<lparr>ho_competitions = \<lambda>ks. ks, ho_competition_assignments = \<lambda>ks. ks, ho_assignments = \<lambda>ks. ks\<rparr>"

definition sample_ceilings :: ResourceCeilings where
  "sample_ceilings = \<lparr>rc_max_attempts = 4, rc_max_elapsed_seconds = 600, rc_max_worker_concurrency = 2,
     rc_max_storage_bytes = 1000, rc_max_model_spend_cents = 0, rc_max_paid_service_spend_cents = 0\<rparr>"

definition sample_authority :: AuthorityEnvelope where
  "sample_authority = \<lparr>auth_repositories = [''/r''], auth_paths = [''src''],
     auth_actions = [''codex.git_change'', ''filesystem.write'', ''repository.read''],
     auth_destinations = [''local''], auth_effects = [''filesystem.write'']\<rparr>"

definition sample_assignment :: "string \<Rightarrow> string \<Rightarrow> string list \<Rightarrow> PlannedAssignment" where
  "sample_assignment i c ds =
     \<lparr>pa_id = i, pa_goal = ''g'', pa_dependencies = ds, pa_criterion_ids = [c], pa_purpose = CriticalPath,
      pa_read_scopes = [], pa_write_scopes = [''src/a''],
      pa_resources = \<lparr>ar_concurrency_slots = 1, ar_max_storage_bytes = 10,
                      ar_max_model_spend_cents = 0, ar_max_paid_service_spend_cents = 0\<rparr>,
      pa_worker_requirements = default_worker_requirements, pa_competition = None\<rparr>"

definition sample_plan :: CommissionPlan where
  "sample_plan = \<lparr>plan_assignments = [sample_assignment ''a'' ''c1'' [], sample_assignment ''b'' ''c2'' [''a'']]\<rparr>"

definition sample_mandate :: PlanMandate where
  "sample_mandate = \<lparr>pm_criterion_ids = [''c1'', ''c2''], pm_all_deterministic = True,
     pm_authority = sample_authority, pm_resource_ceilings = sample_ceilings,
     pm_worker_requirements = default_worker_requirements, pm_attempts_available = 4\<rparr>"

definition sample_proposal :: CommissionProposal where
  "sample_proposal = \<lparr>prop_project_id = None, prop_goal = ''g'', prop_commission_constraints = [],
     prop_execution = CodexGit ''/r'' ''0000000000000000000000000000000000000000'',
     prop_worker_requirements = default_worker_requirements, prop_plan = None, prop_planning = None,
     prop_criteria = [], prop_authority = sample_authority\<lparr>auth_repositories := [''/r'', ''/out'']\<rparr>,
     prop_resource_ceilings = sample_ceilings, prop_known_uncertainties = []\<rparr>"

definition sample_criterion :: AcceptanceCriterion where
  "sample_criterion = \<lparr>ac_id = ''c1'', ac_description = ''d'', ac_required_evidence = ''e'',
     ac_verifier_type = VerifierType.Deterministic, ac_verification_depth = Standard,
     ac_verifier_configuration = ''v'', ac_verification_environment = ''local'',
     ac_verifier = Verifier.Command [''true'']\<rparr>"

lemma valid_orders_id [simp]: "valid_orders hash_order_id"
  by (simp add: valid_orders_def iteration_order_def hash_order_id_def)

lemma sample_plan_accepted: "validate_plan_against hash_order_id sample_mandate sample_plan = Inr ()"
  by code_simp

lemma sample_plan_length [simp]: "length (plan_assignments sample_plan) = 2"
  by (simp add: sample_plan_def)


section \<open>A sample run of the store\<close>

definition sample_sys :: Sys where
  "sample_sys =
     \<lparr>sys_sha256_hex = (\<lambda>s. s),
      sys_encode_request = (\<lambda>r. Inr (case req_idempotency_key r of None \<Rightarrow> [] | Some k \<Rightarrow> k)),
      sys_project_commission = (\<lambda>db c. Inr JNull), sys_canonicalize = (\<lambda>p. Inr p), sys_is_dir = (\<lambda>p. True),
      sys_device_inode = (\<lambda>p. Inr (1, 1)), sys_to_str = Some, sys_hash_orders = hash_order_id,
      sys_encode_json = (\<lambda>j. ''j''), sys_operation_value = (\<lambda>o'. Inr JNull),
      sys_operation_from_value = (\<lambda>j. Err (Serialization ''none'')), sys_bind_file_effect = (\<lambda>o'. Inr JNull)\<rparr>"

definition sample_readings :: "string \<Rightarrow> Readings" where
  "sample_readings p =
     \<lparr>rd_unix_timestamp = (\<lambda>_. Inr 1000), rd_unix_timestamp_millis = (\<lambda>_. Inr 1000000),
      rd_uuid = (\<lambda>i. p @ replicate i CHR ''x'')\<rparr>"

definition sample_req :: "string \<Rightarrow> string option \<Rightarrow> Request" where
  "sample_req key token =
     \<lparr>req_protocol_version = PROTOCOL_VERSION, req_attachment_token = token, req_principal_token = None,
      req_idempotency_key = Some key, req_expected_revision = Some 0, req_expected_control_revision = Some 0,
      req_command = TakeControl ''c''\<rparr>"

definition sample_adapter :: AdapterIdentity where
  "sample_adapter = \<lparr>ai_harness = ''pi'', ai_adapter_identity = ''a'', ai_adapter_version = ''1''\<rparr>"

definition sample_capabilities :: "string list" where
  "sample_capabilities =
     [PROPOSAL_CREATION, COMMISSION_ACCEPTANCE, COMMISSION_INSPECTION, EVENT_REPLAY, CONTROL_TAKEOVER]"

definition sample_handshake :: AttachmentHandshake where
  "sample_handshake = \<lparr>ah_adapter = sample_adapter, ah_adapter_protocol_version = PROTOCOL_VERSION,
     ah_native_session_id = ''n'', ah_capabilities = sample_capabilities\<rparr>"

definition full_proposal :: CommissionProposal where
  "full_proposal = sample_proposal\<lparr>prop_criteria := [sample_criterion]\<rparr>"

text \<open>The states of the run, written out.\<close>

definition sample_token :: "string \<Rightarrow> int option \<Rightarrow> LaunchTokenRow" where
  "sample_token h used = \<lparr>lt_token_hash = h, lt_expected_harness = ''pi'', lt_expected_adapter_identity = ''a'',
     lt_expected_adapter_version = ''1'', lt_created_at = 1000, lt_expires_at = 1060, lt_consumed_at = used\<rparr>"

definition sample_key :: "string \<Rightarrow> json \<Rightarrow> IdempotencyRow" where
  "sample_key k v = \<lparr>ik_key = k, ik_request_hash = k, ik_response = v, ik_created_at = 1000\<rparr>"

definition issue_answer :: "string \<Rightarrow> json" where
  "issue_answer token = JObject
     [(''created_at'', JPosInt 1000), (''expected_adapter_identity'', JString ''a''),
      (''expected_adapter_version'', JString ''1''), (''expected_harness'', JString ''pi''),
      (''expires_at'', JPosInt 1060), (''launch_token'', JString token)]"

definition connect_answer :: "string \<Rightarrow> json" where
  "connect_answer a = JObject [(''attachment_handshake'', JString ''consumed''), (''attachment_id'', JString a)]"

definition sample_attachment :: "string \<Rightarrow> string \<Rightarrow> AttachmentRow" where
  "sample_attachment a h =
     \<lparr>at_id = a, at_session_token_hash = h, at_harness = ''pi'', at_adapter_identity = ''a'',
      at_adapter_version = ''1'', at_protocol_version = PROTOCOL_VERSION, at_native_session_id = ''n'',
      at_mode = ''limited'', at_capabilities = sample_capabilities,
      at_missing_capabilities =
        map missing_capability (filter (\<lambda>c. cap_name c \<notin> set sample_capabilities) CAPABILITIES),
      at_created_at = 1000\<rparr>"

definition sample_link :: "string \<Rightarrow> string \<Rightarrow> LinkRow" where
  "sample_link a role = \<lparr>ca_commission_id = ''c'', ca_attachment_id = a, ca_role = role, ca_joined_at = 1000\<rparr>"

definition sample_event :: "int \<Rightarrow> string \<Rightarrow> (string \<times> json) list \<Rightarrow> EventRow" where
  "sample_event n t p = \<lparr>ev_sequence = n, ev_commission_id = ''c'', ev_event_type = t,
     ev_commission_revision = 0, ev_payload = JObject p, ev_created_at = 1000\<rparr>"

definition sample_commission :: CommissionRow where
  "sample_commission =
     \<lparr>cm_id = ''c'', cm_goal = ''g'', cm_status = ''proposed'', cm_revision = 0, cm_control_revision = 0,
      cm_created_at = 1000, cm_accepted_at = None, cm_completed_at = None,
      cm_execution = prop_execution sample_proposal, cm_worker_requirements = default_worker_requirements,
      cm_plan = None, cm_project_id = None, cm_constraints = [], cm_planning = None\<rparr>"

definition sample_criterion_row :: CriterionRow where
  "sample_criterion_row =
     \<lparr>cr_commission_id = ''c'', cr_criterion_id = ''c1'', cr_position = 0, cr_description = ''d'',
      cr_required_evidence = ''e'', cr_verifier_type = ''deterministic'', cr_verification_depth = ''standard'',
      cr_verifier_configuration = ''v'', cr_verification_environment = ''local'',
      cr_verifier = Verifier.Command [''true'']\<rparr>"

definition sample_revision :: "int \<Rightarrow> string \<Rightarrow> string option \<Rightarrow> Request" where
  "sample_revision n key token = (sample_req key token)\<lparr>req_expected_revision := Some n\<rparr>"

definition principal_req :: Request where
  "principal_req = (sample_revision 1 ''k9'' None)\<lparr>req_principal_token := Some ''p''\<rparr>"

definition sample_mandate_event :: "int \<Rightarrow> int \<Rightarrow> string \<Rightarrow> (string \<times> json) list \<Rightarrow> EventRow" where
  "sample_mandate_event r n t p = (sample_event n t p)\<lparr>ev_commission_revision := r\<rparr>"

definition sample_amendment :: CommissionAmendment where
  "sample_amendment =
     \<lparr>am_authority = sample_authority
        \<lparr>auth_repositories := [''/r'', ''/r/sub''], auth_destinations := [''local'', ''example.org''],
         auth_effects := [''filesystem.write'', ''http.post'']\<rparr>,
      am_resource_ceilings = sample_ceilings, am_reason = ''more''\<rparr>"

definition sample_diff :: json where
  "sample_diff = commission_amendment_diff (prop_authority sample_proposal) (am_authority sample_amendment)
     sample_ceilings sample_ceilings"

definition sample_impact :: json where
  "sample_impact = JObject
     [(''operation_request_ids_requiring_revalidation'', JArray []),
      (''revalidation_required_before_effect_execution'', JBool True), (''worker_leases'', JArray [])]"

definition sample_revalidation :: json where
  "sample_revalidation = JObject
     [(''criteria_rebound_to_mandate_revision'', JPosInt 2), (''invalidated_operation_request_ids'', JArray []),
      (''worker_leases'', JArray [])]"

text \<open>The event log and the recorded answers of the whole run; a state has a prefix of each.\<close>

definition sample_log :: "EventRow list" where
  "sample_log =
     [sample_event 1 ''commission_proposed'' [],
        sample_event 2 ''attachment_joined'' [(''attachment_id'', JString ''b''), (''role'', JString ''active'')],
        sample_event 3 ''active_attachment_changed''
        [(''active_attachment_id'', JString ''b''), (''previous_active_attachment_id'', JNull)],
      sample_event 4 ''attachment_joined'' [(''attachment_id'', JString ''e''), (''role'', JString ''observer'')],
      sample_event 5 ''active_attachment_changed''
        [(''active_attachment_id'', JString ''e''), (''control_revision'', JPosInt 1),
        (''previous_active_attachment_id'', JString ''b'')],
      sample_mandate_event 1 6 ''commission_accepted'' [],
        sample_mandate_event 1 7 ''plan_revised''
        [(''plan_revision'', JPosInt 1), (''reason'', JString ''initial_decomposition''),
        (''source'', JString ''control_plane'')],
        sample_mandate_event 1 8 ''assignment_ready''
        [(''assignment_id'', JString ''h''), (''logical_id'', JString ''legacy-assignment''),
        (''plan_revision'', JPosInt 1)],
      sample_mandate_event 1 9 ''commission_amendment_proposed''
        [(''amendment_digest'', JString ''j''), (''amendment_id'', JString ''i''), (''attachment_id'', JString ''e''),
        (''diff'', sample_diff), (''impact'', sample_impact)],
      sample_mandate_event 2 10 ''commission_amended''
        [(''amendment_digest'', JString ''j''), (''amendment_id'', JString ''i''), (''base_revision'', JPosInt 1),
        (''mandate_revision'', JPosInt 2), (''revalidation'', sample_revalidation)],
      sample_mandate_event 2 11 ''commission_cancelled''
        [(''affected_in_flight_operation_ids'', JArray []), (''attachment_id'', JString ''e''),
        (''authority_grants_revoked'', JBool True), (''irreversible_effects'', JArray []),
        (''revoked_attempt_ids'', JArray []), (''revoked_operation_request_ids'', JArray []),
        (''rollback_claimed'', JBool False)]]"

definition sample_answers :: "IdempotencyRow list" where
  "sample_answers =
     [sample_key ''k1'' (issue_answer ''tlt_a_ax''),
      sample_key ''k2'' (connect_answer ''b''),
      sample_key ''k3'' JNull,
      sample_key ''k4'' (issue_answer ''tlt_d_dx''),
      sample_key ''k5'' (connect_answer ''e''),
      sample_key ''k6'' (JObject
        [(''active_attachment_id'', JString ''e''), (''attachments'', JNull), (''commission_id'', JString ''c''),
        (''commission_revision'', JPosInt 0), (''control_revision'', JPosInt 1)]),
      sample_key ''k7'' JNull,
      sample_key ''k8'' JNull,
      sample_key ''k9'' JNull,
      sample_key ''ka'' JNull]"

definition db_issued :: Db where
  "db_issued = empty_db\<lparr>db_launch_tokens := [sample_token ''tlt_a_ax'' None],
     db_idempotency_keys := take 1 sample_answers\<rparr>"

definition db_connected :: Db where
  "db_connected = empty_db\<lparr>db_launch_tokens := [sample_token ''tlt_a_ax'' (Some 1000)],
     db_attachments := [sample_attachment ''b'' ''tat_bx_bxx''],
     db_idempotency_keys := take 2 sample_answers\<rparr>"

definition db_proposed :: Db where
  "db_proposed = db_connected
     \<lparr>db_commissions := [sample_commission],
      db_criteria := [(sample_criterion_row, ''uncertain'')], db_criterion_versions := [(sample_criterion_row, 0)],
      db_authority_scopes := authority_rows ''c'' (prop_authority sample_proposal),
      db_resource_ceilings := [(''c'', sample_ceilings)],
      db_links := [sample_link ''b'' ''active''],
      db_events := take 3 sample_log,
      db_event_sequence := 3,
      db_idempotency_keys := take 3 sample_answers\<rparr>"

definition db_issued_again :: Db where
  "db_issued_again = db_proposed
     \<lparr>db_launch_tokens := [sample_token ''tlt_a_ax'' (Some 1000), sample_token ''tlt_d_dx'' None],
      db_idempotency_keys := take 4 sample_answers\<rparr>"

definition db_joined :: Db where
  "db_joined = db_issued_again
     \<lparr>db_launch_tokens := [sample_token ''tlt_a_ax'' (Some 1000), sample_token ''tlt_d_dx'' (Some 1000)],
      db_attachments := [sample_attachment ''b'' ''tat_bx_bxx'', sample_attachment ''e'' ''tat_ex_exx''],
      db_links := [sample_link ''b'' ''active'', sample_link ''e'' ''observer''],
      db_events := take 4 sample_log,
      db_event_sequence := 4,
      db_idempotency_keys := take 5 sample_answers\<rparr>"

definition db_taken :: Db where
  "db_taken = db_joined
     \<lparr>db_commissions := [sample_commission\<lparr>cm_control_revision := 1\<rparr>],
      db_links := [sample_link ''b'' ''observer'', sample_link ''e'' ''active''],
      db_events := take 5 sample_log,
      db_event_sequence := 5,
      db_idempotency_keys := take 6 sample_answers\<rparr>"

text \<open>The new controller accepts the proposal. The catalog of Workers is empty, so the one Assignment of the
  plan asks for attention.\<close>

definition sample_runtime :: WorkerRuntime where
  "sample_runtime =
     \<lparr>wrt_host = \<lparr>fs_read = (\<lambda>_. Inl ''none''), fs_metadata = (\<lambda>_. Inl ''none''), sha256_hex = (\<lambda>s. s)\<rparr>,
      wrt_catalog = []\<rparr>"

definition active_commission :: CommissionRow where
  "active_commission = sample_commission
     \<lparr>cm_status := ''active'', cm_revision := 1, cm_control_revision := 1, cm_accepted_at := Some 1000\<rparr>"

definition sample_work_assignment :: "string \<Rightarrow> AssignmentRow" where
  "sample_work_assignment status =
     \<lparr>asg_id = ''h'', asg_commission_id = ''c'', asg_plan_revision = 1, asg_status = status, asg_created_at = 1000\<rparr>"

definition sample_legacy_plan :: CommissionPlan where
  "sample_legacy_plan = legacy_plan active_commission sample_ceilings db_taken"

definition sample_columns :: PlannedColumns where
  "sample_columns =
     \<lparr>pc_logical_id = ''legacy-assignment'', pc_position = 0, pc_goal = ''g'', pc_purpose = ''critical_path'',
      pc_read_scopes = [], pc_write_scopes = [''src''],
      pc_resources = \<lparr>ar_concurrency_slots = 1, ar_max_storage_bytes = 1000, ar_max_model_spend_cents = 0,
                      ar_max_paid_service_spend_cents = 0\<rparr>,
      pc_competition = None\<rparr>"

definition sample_decision :: RouteDecision where
  "sample_decision = route (wrt_host sample_runtime) []
     \<lparr>rr_requirements = default_worker_requirements, rr_resources = pc_resources sample_columns,
      rr_required_authority_action = CODEX_GIT_ACTION,
      rr_required_authority_scope_types = [''repository'', ''path'', ''action''], rr_entry_harness = ''pi''\<rparr> {}"

definition sample_plan_tables :: PlanTables where
  "sample_plan_tables = empty_plan
     \<lparr>pt_plans := [\<lparr>plr_commission_id = ''c'', plr_revision = 1, plr_source = ''control_plane'',
        plr_reason = ''initial decomposition exposed the first safe Execution Frontier'',
        plr_snapshot = sample_legacy_plan, plr_created_at = 1000\<rparr>],
      pt_planned := [\<lparr>pn_commission_id = ''c'', pn_columns = sample_columns,
        pn_worker_requirements = default_worker_requirements, pn_created_plan_revision = 1\<rparr>],
      pt_criteria := [\<lparr>pk_commission_id = ''c'', pk_assignment = ''legacy-assignment'', pk_target = ''c1'',
        pk_position = 0\<rparr>],
      pt_metadata := [\<lparr>md_assignment_id = ''h'', md_commission_id = ''c'', md_columns = sample_columns,
        md_legacy = True\<rparr>],
      pt_routes := [\<lparr>ro_assignment_id = ''h'', ro_status = ''attention_required'', ro_selected_configuration = None,
        ro_rationale = rd_rationale sample_decision, ro_decided_at = 1000\<rparr>],
      pt_attention := [\<lparr>att_id = ''hx'', att_commission_id = ''c'', att_assignment_id = ''h'',
        att_code = ''worker_configuration_ineligible'',
        att_requirement = the (rt_attention_requirement (rd_rationale sample_decision)),
        att_status = ''open'', att_created_at = 1000, att_resolved_at = None\<rparr>]\<rparr>"

definition db_active :: Db where
  "db_active = db_taken
     \<lparr>db_commissions := [active_commission],
      db_criterion_versions := [(sample_criterion_row, 1)],
      db_assignments := [sample_work_assignment ''attention_required''],
      db_plan := sample_plan_tables,
      db_events := take 8 sample_log,
      db_event_sequence := 8,
      db_idempotency_keys := take 7 sample_answers\<rparr>"

text \<open>It then proposes to widen the authority, the Principal accepts, and finally the Commission is cancelled.\<close>

definition sample_amendment_row :: AmendmentRow where
  "sample_amendment_row =
     \<lparr>amr_id = ''i'', amr_commission_id = ''c'', amr_base_revision = 1, amr_authority = am_authority sample_amendment,
      amr_resource_ceilings = sample_ceilings, amr_reason = ''more'', amr_diff = sample_diff, amr_digest = ''j'',
      amr_impact = sample_impact, amr_revalidation = None, amr_status = ''proposed'', amr_proposed_at = 1000,
      amr_accepted_at = None\<rparr>"

definition db_amending :: Db where
  "db_amending = db_active
     \<lparr>db_amendments := [sample_amendment_row],
      db_events := take 9 sample_log,
      db_event_sequence := 9,
      db_idempotency_keys := take 8 sample_answers\<rparr>"

definition db_amended :: Db where
  "db_amended = db_amending
     \<lparr>db_commissions := [active_commission\<lparr>cm_revision := 2\<rparr>],
      db_criterion_versions := [(sample_criterion_row, 1), (sample_criterion_row, 2)],
      db_authority_scopes := authority_rows ''c'' (am_authority sample_amendment),
      db_amendments := [sample_amendment_row
        \<lparr>amr_revalidation := Some sample_revalidation, amr_status := ''accepted'', amr_accepted_at := Some 1000\<rparr>],
      db_events := take 10 sample_log,
      db_event_sequence := 10,
      db_idempotency_keys := take 9 sample_answers\<rparr>"

definition db_cancelled :: Db where
  "db_cancelled = db_amended
     \<lparr>db_commissions := [active_commission\<lparr>cm_status := ''cancelled'', cm_revision := 2, cm_completed_at := Some 1000\<rparr>],
      db_assignments := [sample_work_assignment ''cancelled''],
      db_events := take 11 sample_log,
      db_event_sequence := 11,
      db_idempotency_keys := take 10 sample_answers\<rparr>"

section \<open>The run\<close>

definition leads_to :: "(json \<times> Db) result \<Rightarrow> Db \<Rightarrow> bool" where
  "leads_to r db = (case r of Inl _ \<Rightarrow> False | Inr (v, db') \<Rightarrow> db' = db)"

lemma leads_toD: "leads_to r db \<Longrightarrow> \<exists>v. r = Inr (v, db)"
  by (auto simp: leads_to_def split: sum.splits prod.splits)

lemma run_issued:
  "leads_to (issue_attachment_token sample_sys (sample_readings ''a'') (sample_req ''k1'' None) sample_adapter 60 empty_db)
     db_issued"
  by code_simp

lemma run_connected:
  "leads_to (connect_attachment sample_sys (sample_readings ''b'') (sample_req ''k2'' None) ''tlt_a_ax''
     sample_handshake None db_issued) db_connected"
  by code_simp

lemma run_proposed:
  "leads_to (create_proposal sample_sys (sample_readings ''c'') (sample_req ''k3'' (Some ''tat_bx_bxx'')) full_proposal
     db_connected) db_proposed"
  by code_simp

lemma run_issued_again:
  "leads_to (issue_attachment_token sample_sys (sample_readings ''d'') (sample_req ''k4'' None) sample_adapter 60
     db_proposed) db_issued_again"
  by code_simp

lemma run_joined:
  "leads_to (connect_attachment sample_sys (sample_readings ''e'') (sample_req ''k5'' None) ''tlt_d_dx''
     sample_handshake (Some \<lparr>crc_commission_id = ''c'', crc_last_event_sequence = 0\<rparr>) db_issued_again) db_joined"
  by code_simp

lemma run_taken:
  "leads_to (take_control sample_sys (sample_readings ''f'') (sample_req ''k6'' (Some ''tat_ex_exx'')) ''c'' db_joined)
     db_taken"
  by code_simp

lemma run_active:
  "leads_to (accept_commission sample_sys sample_runtime (sample_readings ''h'') (sample_revision 0 ''k7'' (Some ''tat_ex_exx''))
     ''c'' db_taken) db_active"
  by code_simp

lemma run_amending:
  "leads_to (propose_commission_amendment sample_sys (sample_readings ''i'') (sample_revision 1 ''k8'' (Some ''tat_ex_exx''))
     ''c'' sample_amendment db_active) db_amending"
  by code_simp

lemma run_amended:
  "leads_to (accept_commission_amendment sample_sys (sample_readings ''k'') ''p'' (Inr ()) principal_req ''c'' ''i'' ''j''
     db_amending) db_amended"
  by code_simp

lemma run_cancelled:
  "leads_to (cancel_commission sample_sys (sample_readings ''l'') (Inr ()) (sample_revision 2 ''ka'' (Some ''tat_ex_exx''))
     ''c'' db_amended) db_cancelled"
  by code_simp

lemmas sample_runs =
  run_issued [THEN leads_toD] run_connected [THEN leads_toD] run_proposed [THEN leads_toD]
  run_issued_again [THEN leads_toD] run_joined [THEN leads_toD] run_taken [THEN leads_toD]
  run_active [THEN leads_toD] run_amending [THEN leads_toD] run_amended [THEN leads_toD] run_cancelled [THEN leads_toD]

lemma sample_steps:
  "store_step sample_sys empty_db db_issued" "store_step sample_sys db_issued db_connected"
  "store_step sample_sys db_connected db_proposed" "store_step sample_sys db_proposed db_issued_again"
  "store_step sample_sys db_issued_again db_joined" "store_step sample_sys db_joined db_taken"
  "store_step sample_sys db_taken db_active" "store_step sample_sys db_active db_amending"
  "store_step sample_sys db_amending db_amended" "store_step sample_sys db_amended db_cancelled"
  using sample_runs by (blast intro: store_step.intros work_step.intros)+

lemma sample_reachable:
  "reachable sample_sys db_issued" "reachable sample_sys db_connected"
  "reachable sample_sys db_proposed" "reachable sample_sys db_issued_again"
  "reachable sample_sys db_joined" "reachable sample_sys db_taken" "reachable sample_sys db_active"
  "reachable sample_sys db_amending" "reachable sample_sys db_amended" "reachable sample_sys db_cancelled"
proof -
  have "reachable sample_sys empty_db" by (simp add: reachable_def)
  from reachable_step [OF this sample_steps(1)] show a: "reachable sample_sys db_issued" .
  from reachable_step [OF a sample_steps(2)] show b: "reachable sample_sys db_connected" .
  from reachable_step [OF b sample_steps(3)] show c: "reachable sample_sys db_proposed" .
  from reachable_step [OF c sample_steps(4)] show d: "reachable sample_sys db_issued_again" .
  from reachable_step [OF d sample_steps(5)] show e: "reachable sample_sys db_joined" .
  from reachable_step [OF e sample_steps(6)] show f: "reachable sample_sys db_taken" .
  from reachable_step [OF f sample_steps(7)] show g: "reachable sample_sys db_active" .
  from reachable_step [OF g sample_steps(8)] show h: "reachable sample_sys db_amending" .
  from reachable_step [OF h sample_steps(9)] show i: "reachable sample_sys db_amended" .
  from reachable_step [OF i sample_steps(10)] show "reachable sample_sys db_cancelled" .
qed

end
