(* ===== verification/Profile_Claims.thy ===== *)
theory Profile_Claims
  imports Store_Spec
begin

text \<open>
  What Tyrion remembers about the Principal (\<^verbatim>\<open>src/src/store.rs\<close>, tables of \<^verbatim>\<open>src/src/store/schema.rs\<close>):
  Profile Claims with their versions and lifecycle, the observations that support them, and Learning
  Boundaries, which forbid a statement. This theory holds the tables with their constraints, the
  validation and fingerprint of a statement, the queries, and the two loops that demote soft Claims until
  the active Profile fits its budget. Sums of tokens are integers: a statement has at most 80 bytes.
\<close>

section \<open>Tables\<close>

record ClaimRow =
  pc_id :: string
  pc_current_version :: int
  pc_strength :: string
  pc_scope_kind :: string
  pc_scope_id :: "string option"
  pc_applicability :: string
  pc_confidence_category :: string
  pc_confidence_basis_points :: int
  pc_lifecycle_state :: string
  pc_statement_fingerprint :: string
  pc_last_nonweak_support_at :: "int option"
  pc_lifecycle_changed_at :: int
  pc_created_at :: int
  pc_updated_at :: int

record ClaimVersionRow =
  pv_claim_id :: string
  pv_version :: int
  pv_statement :: string
  pv_token_upper_bound :: int
  pv_commission_id :: string
  pv_attachment_id :: string
  pv_created_at :: int

record ObservationRow =
  lo_id :: string
  lo_commission_id :: string
  lo_project_id :: string
  lo_attachment_id :: string
  lo_claim_id :: "string option"
  lo_statement :: string
  lo_statement_fingerprint :: string
  lo_kind :: string
  lo_explanation :: "string option"
  lo_strength :: string
  lo_observed_at :: int

text \<open>The sequence number of a lifecycle row is its position in the table.\<close>

record LifecycleRow =
  pl_claim_id :: string
  pl_from_state :: "string option"
  pl_to_state :: string
  pl_reason :: string
  pl_observation_id :: "string option"
  pl_changed_at :: int

record BoundaryRow =
  lb_id :: string
  lb_scope_kind :: string
  lb_scope_id :: "string option"
  lb_statement_fingerprint :: string
  lb_commission_id :: string
  lb_attachment_id :: string
  lb_created_at :: int

record DeletionReceiptRow =
  dr_id :: string
  dr_claim_id :: string
  dr_scope_kind :: string
  dr_scope_id :: "string option"
  dr_cascade :: json
  dr_remaining :: "string list"
  dr_deleted_at :: int

record ProvenanceRow =
  ip_entity_kind :: string
  ip_entity_id :: string
  ip_entity_version :: int
  ip_provenance :: json

record Memory =
  mem_db :: Db
  mem_claims :: "ClaimRow list"
  mem_versions :: "ClaimVersionRow list"
  mem_lifecycle :: "LifecycleRow list"
  mem_observations :: "ObservationRow list"
  mem_supports :: "(string \<times> string) list"
  mem_indexes :: "(string \<times> string \<times> int) list"
  mem_caches :: "(string \<times> json \<times> int) list"
  mem_boundaries :: "BoundaryRow list"
  mem_receipts :: "DeletionReceiptRow list"
  mem_provenance :: "ProvenanceRow list"
  mem_imported_attempts :: "(string \<times> string) list"

definition lifecycle_state_check :: "string list" where
  "lifecycle_state_check = [''candidate'', ''active'', ''suppressed'', ''contradicted'']"

definition scope_check :: "string \<Rightarrow> string option \<Rightarrow> bool" where
  "scope_check kind i \<longleftrightarrow> kind = ''principal'' \<and> i = None \<or> kind = ''project'' \<and> i \<noteq> None"

definition has_project :: "Db \<Rightarrow> string \<Rightarrow> bool" where
  "has_project db p = list_ex (\<lambda>(q, _). q = p) (db_projects db)"

definition has_claim :: "Memory \<Rightarrow> string \<Rightarrow> bool" where
  "has_claim m i = list_ex (\<lambda>c. pc_id c = i) (mem_claims m)"

definition has_observation :: "Memory \<Rightarrow> string \<Rightarrow> bool" where
  "has_observation m i = list_ex (\<lambda>r. lo_id r = i) (mem_observations m)"

definition same_version :: "string \<Rightarrow> int \<Rightarrow> ClaimVersionRow \<Rightarrow> bool" where
  "same_version i n v \<longleftrightarrow> pv_claim_id v = i \<and> pv_version v = n"

definition insert_claim_version :: "ClaimVersionRow \<Rightarrow> Memory \<Rightarrow> Memory result" where
  "insert_claim_version v m =
     (if pv_version v \<le> 0 \<or> pv_token_upper_bound v \<le> 0
      then database ''CHECK constraint failed: profile_claim_versions''
      else if list_ex (same_version (pv_claim_id v) (pv_version v)) (mem_versions m)
      then database ''UNIQUE constraint failed: profile_claim_versions.claim_id, profile_claim_versions.version''
      else if \<not> has_commission (mem_db m) (pv_commission_id v) \<or> \<not> has_attachment (mem_db m) (pv_attachment_id v)
      then foreign_key_failed
      else Ok (m\<lparr>mem_versions := mem_versions m @ [v]\<rparr>))"

definition insert_claim :: "ClaimRow \<Rightarrow> Memory \<Rightarrow> Memory result" where
  "insert_claim c m =
     (if pc_current_version c \<le> 0 \<or> pc_strength c \<notin> {''hard'', ''soft''}
         \<or> \<not> scope_check (pc_scope_kind c) (pc_scope_id c) \<or> pc_applicability c \<noteq> ''software_building''
         \<or> pc_confidence_category c \<notin> {''explicit'', ''inferred''}
         \<or> pc_confidence_basis_points c < 0 \<or> 10000 < pc_confidence_basis_points c
         \<or> pc_lifecycle_state c \<notin> set lifecycle_state_check
      then database ''CHECK constraint failed: profile_claims''
      else if has_claim m (pc_id c) then database ''UNIQUE constraint failed: profile_claims.id''
      else if \<not> list_ex (same_version (pc_id c) (pc_current_version c)) (mem_versions m)
         \<or> (case pc_scope_id c of None \<Rightarrow> False | Some p \<Rightarrow> \<not> has_project (mem_db m) p)
      then foreign_key_failed
      else Ok (m\<lparr>mem_claims := mem_claims m @ [c]\<rparr>))"

definition insert_lifecycle :: "LifecycleRow \<Rightarrow> Memory \<Rightarrow> Memory result" where
  "insert_lifecycle r m =
     (if pl_to_state r \<notin> set lifecycle_state_check then database ''CHECK constraint failed: profile_claim_lifecycle''
      else if \<not> has_claim m (pl_claim_id r)
         \<or> (case pl_observation_id r of None \<Rightarrow> False | Some i \<Rightarrow> \<not> has_observation m i)
      then foreign_key_failed
      else Ok (m\<lparr>mem_lifecycle := mem_lifecycle m @ [r]\<rparr>))"

definition insert_observation :: "ObservationRow \<Rightarrow> Memory \<Rightarrow> Memory result" where
  "insert_observation r m =
     (if lo_kind r \<notin> {''principal_edit'', ''explained_rejection'', ''unedited_acceptance'', ''contradiction''}
         \<or> lo_strength r \<notin> {''strong'', ''weak'', ''contradiction''}
      then database ''CHECK constraint failed: learning_observations''
      else if has_observation m (lo_id r) then database ''UNIQUE constraint failed: learning_observations.id''
      else if list_ex (\<lambda>q. lo_commission_id q = lo_commission_id r \<and> lo_statement_fingerprint q = lo_statement_fingerprint r)
                (mem_observations m)
      then database ''UNIQUE constraint failed: learning_observations.commission_id, learning_observations.statement_fingerprint''
      else if \<not> has_commission (mem_db m) (lo_commission_id r) \<or> \<not> has_attachment (mem_db m) (lo_attachment_id r)
         \<or> (case lo_claim_id r of None \<Rightarrow> False | Some i \<Rightarrow> \<not> has_claim m i)
      then foreign_key_failed
      else Ok (m\<lparr>mem_observations := mem_observations m @ [r]\<rparr>))"

definition insert_support_or_ignore :: "string \<Rightarrow> string \<Rightarrow> Memory \<Rightarrow> Memory result" where
  "insert_support_or_ignore claim_id observation_id m =
     (if (claim_id, observation_id) \<in> set (mem_supports m) then Ok m
      else if \<not> has_claim m claim_id \<or> \<not> has_observation m observation_id then foreign_key_failed
      else Ok (m\<lparr>mem_supports := mem_supports m @ [(claim_id, observation_id)]\<rparr>))"

definition insert_boundary :: "BoundaryRow \<Rightarrow> Memory \<Rightarrow> Memory result" where
  "insert_boundary b m =
     (if lb_scope_kind b = ''principal''
         \<and> list_ex (\<lambda>q. lb_scope_kind q = ''principal'' \<and> lb_statement_fingerprint q = lb_statement_fingerprint b)
             (mem_boundaries m)
      then database ''Principal Learning Boundary already exists''
      else if \<not> scope_check (lb_scope_kind b) (lb_scope_id b)
      then database ''CHECK constraint failed: learning_boundaries''
      else if list_ex (\<lambda>q. lb_id q = lb_id b) (mem_boundaries m)
      then database ''UNIQUE constraint failed: learning_boundaries.id''
      else if lb_scope_id b \<noteq> None
         \<and> list_ex (\<lambda>q. lb_scope_kind q = lb_scope_kind b \<and> lb_scope_id q = lb_scope_id b
                       \<and> lb_statement_fingerprint q = lb_statement_fingerprint b) (mem_boundaries m)
      then database ''UNIQUE constraint failed: learning_boundaries.scope_kind, learning_boundaries.scope_id, learning_boundaries.statement_fingerprint''
      else if \<not> has_commission (mem_db m) (lb_commission_id b) \<or> \<not> has_attachment (mem_db m) (lb_attachment_id b)
         \<or> (case lb_scope_id b of None \<Rightarrow> False | Some p \<Rightarrow> \<not> has_project (mem_db m) p)
      then foreign_key_failed
      else Ok (m\<lparr>mem_boundaries := mem_boundaries m @ [b]\<rparr>))"

section \<open>Statements\<close>

record MemoryEnv =
  me_sys :: Sys
  me_to_lowercase :: "string \<Rightarrow> string"

text \<open>The full stops, exclamation and question marks that something other than white space follows.\<close>

fun sentence_boundaries :: "string \<Rightarrow> nat" where
  "sentence_boundaries [] = 0"
| "sentence_boundaries (c # s) =
     (if c \<in> {CHR ''.'', CHR ''!'', CHR ''?''} \<and> trim_start s \<noteq> [] then 1 else 0) + sentence_boundaries s"

fun contains_str :: "string \<Rightarrow> string \<Rightarrow> bool" where
  "contains_str p [] = (p = [])"
| "contains_str p (c # s) = (take (length p) (c # s) = p \<or> contains_str p s)"

definition contains_atomicity_boundary :: "MemoryEnv \<Rightarrow> string \<Rightarrow> bool" where
  "contains_atomicity_boundary env statement =
     list_ex (\<lambda>boundary. contains_str boundary (me_to_lowercase env statement))
       ['' and '', '' or '', '' while '', '' also '', '' but '', '' whereas '', '' plus '']"

definition token_upper_bound :: "string \<Rightarrow> int" where
  "token_upper_bound value = int (length value)"

definition validate_reusable_preference :: "MemoryEnv \<Rightarrow> ReusablePreference \<Rightarrow> unit result" where
  "validate_reusable_preference env preference =
     (let statement = rp_statement preference
      in if trim statement \<noteq> statement \<or> statement = []
            \<or> list_ex (contains_char statement) [CHR 0x0A, CHR 0x0D, NUL]
            \<or> list_ex (contains_char statement) [CHR '';'', CHR '','', CHR '':'']
            \<or> sentence_boundaries statement > 0 \<or> contains_atomicity_boundary env statement
            \<or> token_upper_bound statement > 80
         then invalid_request ''a reusable preference must be one atomic sentence of at most 80 tokens under conservative UTF-8 accounting''
         else Ok ())"

text \<open>\<^verbatim>\<open>str::split_whitespace\<close>: the pieces between white space, none of them empty.\<close>

function split_whitespace :: "string \<Rightarrow> string \<Rightarrow> string list" where
  "split_whitespace piece s =
     (let pieces = (if piece = [] then [] else [piece])
      in case s of [] \<Rightarrow> pieces
         | c # r \<Rightarrow> (case strip_any white_space s of
                      Some rest \<Rightarrow> pieces @ split_whitespace [] rest
                    | None \<Rightarrow> split_whitespace (piece @ [c]) r))"
  by pat_completeness auto
termination
  by (relation "measure (\<lambda>(_, s). length s)") (auto dest: strip_any_shorter [OF _ white_space_nonempty(1)])

declare split_whitespace.simps [simp del]

definition preference_fingerprint :: "MemoryEnv \<Rightarrow> string \<Rightarrow> string" where
  "preference_fingerprint env statement =
     ''sha256:'' @ sys_sha256_hex (me_sys env)
       (me_to_lowercase env (join_with '' '' (split_whitespace [] statement)))"

section \<open>Derived data\<close>

definition refresh_profile_claim_derived_data :: "string \<Rightarrow> string \<Rightarrow> int \<Rightarrow> Memory \<Rightarrow> Memory result" where
  "refresh_profile_claim_derived_data claim_id statement_fingerprint now m =
     (if \<not> has_claim m claim_id then foreign_key_failed
      else Ok (m\<lparr>mem_indexes := AList.update claim_id (statement_fingerprint, now) (mem_indexes m),
                 mem_caches := AList.update claim_id (JObject [], now) (mem_caches m)\<rparr>))"

section \<open>The active Profile\<close>

text \<open>The Claims of a scope that are active, other than the excluded ones, joined with their current version.\<close>

definition in_profile :: "string \<Rightarrow> string option \<Rightarrow> string set \<Rightarrow> ClaimRow \<Rightarrow> bool" where
  "in_profile scope_kind scope_id excluded c \<longleftrightarrow>
     pc_lifecycle_state c = ''active'' \<and> pc_scope_kind c = scope_kind \<and> pc_scope_id c = scope_id \<and> pc_id c \<notin> excluded"

definition with_version :: "(ClaimRow \<Rightarrow> bool) \<Rightarrow> Memory \<Rightarrow> (ClaimRow \<times> ClaimVersionRow) list" where
  "with_version p m =
     [(c, v). c \<leftarrow> mem_claims m, p c, v \<leftarrow> mem_versions m, same_version (pc_id c) (pc_current_version c) v]"

definition profile_load :: "(ClaimRow \<Rightarrow> bool) \<Rightarrow> Memory \<Rightarrow> int \<times> int" where
  "profile_load p m =
     (let rows = with_version p m
      in (int (length rows), sum_list (map (\<lambda>(_, v). pv_token_upper_bound v) rows)))"

definition demotion :: "(ClaimRow \<Rightarrow> bool) \<Rightarrow> Memory \<Rightarrow> string option" where
  "demotion p m =
     (case sort_key pc_confidence_basis_points (sort_key pc_updated_at (sort_key pc_created_at (sort_key pc_id
             (filter (\<lambda>c. p c \<and> pc_strength c = ''soft'') (mem_claims m))))) of
        [] \<Rightarrow> None | c # _ \<Rightarrow> Some (pc_id c))"

definition set_lifecycle :: "string \<Rightarrow> string \<Rightarrow> int \<Rightarrow> Memory \<Rightarrow> Memory" where
  "set_lifecycle claim_id state now m =
     m\<lparr>mem_claims :=
          update_where (\<lambda>c. pc_id c = claim_id)
            (\<lambda>c. c\<lparr>pc_lifecycle_state := state, pc_lifecycle_changed_at := now, pc_updated_at := now\<rparr>) (mem_claims m)\<rparr>"

definition demote :: "string \<Rightarrow> string \<Rightarrow> int \<Rightarrow> Memory \<Rightarrow> Memory result" where
  "demote claim_id reason now m =
     insert_lifecycle
       \<lparr>pl_claim_id = claim_id, pl_from_state = Some ''active'', pl_to_state = ''candidate'', pl_reason = reason,
        pl_observation_id = None, pl_changed_at = now\<rparr>
       (set_lifecycle claim_id ''candidate'' now m)"

text \<open>The number of Claims that the loops below can still demote.\<close>

definition soft_active :: "(ClaimRow \<Rightarrow> bool) \<Rightarrow> Memory \<Rightarrow> nat" where
  "soft_active p m = length (filter (\<lambda>c. p c \<and> pc_strength c = ''soft'') (mem_claims m))"

lemma fewer_filtered:
  assumes "x \<in> set xs" and "P x" and "\<not> P (g x)" and "\<And>y. P (g y) \<Longrightarrow> P y"
  shows "length (filter P (map g xs)) < length (filter P xs)"
  using assms(1)
proof (induction xs)
  case (Cons y xs)
  have le: "length (filter P (map g ys)) \<le> length (filter P ys)" for ys
    using assms(4) by (induction ys) auto
  show ?case
  proof (cases "x = y")
    case True
    with assms(2,3) le [of xs] show ?thesis by simp
  next
    case False
    with Cons assms(4) [of y] show ?thesis by auto
  qed
qed simp

lemma demotion_Some:
  "demotion p m = Some d \<Longrightarrow> \<exists>c. c \<in> set (mem_claims m) \<and> p c \<and> pc_strength c = ''soft'' \<and> pc_id c = d"
proof -
  assume "demotion p m = Some d"
  then obtain c cs where sorted: "sort_key pc_confidence_basis_points (sort_key pc_updated_at (sort_key pc_created_at
      (sort_key pc_id (filter (\<lambda>c. p c \<and> pc_strength c = ''soft'') (mem_claims m))))) = c # cs" and d: "d = pc_id c"
    by (auto simp: demotion_def split: list.splits)
  have "c \<in> set (c # cs)" by simp
  then show ?thesis unfolding sorted [symmetric] using d by auto
qed

lemma demotion_None: "demotion p m = None \<longleftrightarrow> (\<forall>c \<in> set (mem_claims m). p c \<longrightarrow> pc_strength c \<noteq> ''soft'')"
proof -
  have "demotion p m = None \<longleftrightarrow> set (sort_key pc_confidence_basis_points (sort_key pc_updated_at (sort_key pc_created_at
      (sort_key pc_id (filter (\<lambda>c. p c \<and> pc_strength c = ''soft'') (mem_claims m)))))) = {}"
    unfolding set_empty by (simp add: demotion_def split: list.splits)
  then show ?thesis by auto
qed

lemma has_claim_update [simp]:
  assumes "\<And>c. pc_id (f c) = pc_id c"
  shows "has_claim (m\<lparr>mem_claims := update_where p f (mem_claims m)\<rparr>) i \<longleftrightarrow> has_claim m i"
proof -
  have "pc_id (if p c then f c else c) = pc_id c" for c using assms by simp
  then have "map pc_id (update_where p f (mem_claims m)) = map pc_id (mem_claims m)" by (simp add: update_where_def)
  then have "i \<in> set (map pc_id (update_where p f (mem_claims m))) \<longleftrightarrow> i \<in> set (map pc_id (mem_claims m))" by simp
  then show ?thesis unfolding set_map has_claim_def list_ex_iff image_iff by auto
qed

lemma demote_Ok:
  "demote d reason now m = Inr m' \<longleftrightarrow> has_claim m d \<and>
     m' = (set_lifecycle d ''candidate'' now m)\<lparr>mem_lifecycle := mem_lifecycle m @
       [\<lparr>pl_claim_id = d, pl_from_state = Some ''active'', pl_to_state = ''candidate'', pl_reason = reason,
         pl_observation_id = None, pl_changed_at = now\<rparr>]\<rparr>"
  unfolding demote_def insert_lifecycle_def set_lifecycle_def lifecycle_state_check_def
  by (simp add: eq_commute [of m'])

text \<open>A demoted Claim, and the effect of demoting some Claims on the tables.\<close>

definition demoted :: "string set \<Rightarrow> int \<Rightarrow> ClaimRow \<Rightarrow> ClaimRow" where
  "demoted ds now c =
     (if pc_id c \<in> ds
      then c\<lparr>pc_lifecycle_state := ''candidate'', pc_lifecycle_changed_at := now, pc_updated_at := now\<rparr> else c)"

lemma demoted_simps [simp]:
  "pc_id (demoted ds now c) = pc_id c" "pc_strength (demoted ds now c) = pc_strength c"
  "pc_scope_kind (demoted ds now c) = pc_scope_kind c" "pc_scope_id (demoted ds now c) = pc_scope_id c"
  "pc_current_version (demoted ds now c) = pc_current_version c"
  "pc_statement_fingerprint (demoted ds now c) = pc_statement_fingerprint c"
  "demoted {} now = (\<lambda>c. c)"
  by (auto simp: demoted_def)

lemma demoted_in_profile [simp]: "in_profile k i x (demoted ds now c) \<longleftrightarrow> in_profile k i x c \<and> pc_id c \<notin> ds"
  by (auto simp: in_profile_def demoted_def)

lemma demoted_demoted [simp]: "demoted ds now (demoted es now c) = demoted (ds \<union> es) now c"
  by (auto simp: demoted_def)

lemma demoted_state: "pc_lifecycle_state (demoted ds now c) = ''active'' \<longleftrightarrow> pc_lifecycle_state c = ''active'' \<and> pc_id c \<notin> ds"
  by (auto simp: demoted_def)

definition demotes :: "string set \<Rightarrow> int \<Rightarrow> Memory \<Rightarrow> Memory \<Rightarrow> bool" where
  "demotes ds now m m' \<longleftrightarrow>
     (\<exists>rows. m' = m\<lparr>mem_claims := map (demoted ds now) (mem_claims m), mem_lifecycle := rows\<rparr>)"

lemma demotes_refl: "demotes {} now m m"
  unfolding demotes_def by (rule exI [of _ "mem_lifecycle m"]) simp

lemma demotes_trans: "demotes ds now m m' \<Longrightarrow> demotes es now m' m'' \<Longrightarrow> demotes (ds \<union> es) now m m''"
  by (auto simp: demotes_def comp_def Un_commute)

lemma demote_demotes:
  assumes "demote d reason now m = Inr m'"
  shows "demotes {d} now m m'"
proof -
  have "mem_claims (set_lifecycle d ''candidate'' now m) = map (demoted {d} now) (mem_claims m)"
    by (simp add: set_lifecycle_def update_where_def demoted_def)
  with assms show ?thesis unfolding demotes_def demote_Ok by (auto simp: set_lifecycle_def)
qed

lemma demote_fewer:
  assumes "demotion (in_profile k i x) m = Some d" and "demote d reason now m = Inr m'"
  shows "soft_active (in_profile k i x) m' < soft_active (in_profile k i x) m"
proof -
  obtain c where c: "c \<in> set (mem_claims m)" "in_profile k i x c \<and> pc_strength c = ''soft''" "pc_id c = d"
    using demotion_Some [OF assms(1)] by blast
  have "mem_claims m' = map (demoted {d} now) (mem_claims m)"
    using demote_demotes [OF assms(2)] by (auto simp: demotes_def)
  then show ?thesis
    unfolding soft_active_def
    using fewer_filtered [OF c(1), of "\<lambda>c. in_profile k i x c \<and> pc_strength c = ''soft''" "demoted {d} now"] c(2,3) by simp
qed

function demote_until ::
  "(int \<times> int \<Rightarrow> bool) \<Rightarrow> string \<Rightarrow> string \<Rightarrow> string \<Rightarrow> string option \<Rightarrow> string set \<Rightarrow> int \<Rightarrow> Memory
    \<Rightarrow> (string list \<times> Memory) result" where
  "demote_until fits reason refusal scope_kind scope_id excluded now m =
     (if fits (profile_load (in_profile scope_kind scope_id excluded) m) then Ok ([], m)
      else case demotion (in_profile scope_kind scope_id excluded) m of
             None \<Rightarrow> invalid_request refusal
           | Some claim_id \<Rightarrow>
               and_then (demote claim_id reason now m) (\<lambda>m'.
               and_then (demote_until fits reason refusal scope_kind scope_id excluded now m') (\<lambda>(demoted, m'').
               Ok (claim_id # demoted, m''))))"
  by pat_completeness auto
termination
  by (relation "measure (\<lambda>(_, _, _, k, i, x, _, m). soft_active (in_profile k i x) m)") (auto intro: demote_fewer)

declare demote_until.simps [simp del]

definition make_room_in_active_profile ::
  "string \<Rightarrow> string option \<Rightarrow> int \<Rightarrow> int \<Rightarrow> int \<Rightarrow> string option \<Rightarrow> int \<Rightarrow> Memory \<Rightarrow> (string list \<times> Memory) result" where
  "make_room_in_active_profile scope_kind scope_id claim_limit token_limit incoming_tokens excluded_claim_id now =
     demote_until
       (\<lambda>(active_claims, active_tokens). active_claims + 1 \<le> claim_limit \<and> active_tokens + incoming_tokens \<le> token_limit)
       ''active_profile_capacity''
       (''the '' @ scope_kind @ '' Profile cannot admit this preference without truncating hard Profile Claims'')
       scope_kind scope_id {case excluded_claim_id of None \<Rightarrow> [] | Some claim_id \<Rightarrow> claim_id} now"

definition reconcile_active_profile_budget ::
  "string \<Rightarrow> string option \<Rightarrow> int \<Rightarrow> int \<Rightarrow> int \<Rightarrow> Memory \<Rightarrow> (string list \<times> Memory) result" where
  "reconcile_active_profile_budget scope_kind scope_id claim_limit token_limit now =
     demote_until
       (\<lambda>(active_claims, active_tokens). active_claims \<le> claim_limit \<and> active_tokens \<le> token_limit)
       ''memory_import_capacity''
       (''memory import exceeds the '' @ scope_kind @ '' Profile budget and cannot truncate hard Profile Claims'')
       scope_kind scope_id {} now"

definition hard_profile_capacity_allows :: "string \<Rightarrow> string option \<Rightarrow> int \<Rightarrow> int \<Rightarrow> int \<Rightarrow> Memory \<Rightarrow> bool" where
  "hard_profile_capacity_allows scope_kind scope_id claim_limit token_limit incoming_tokens m =
     (case profile_load (\<lambda>c. in_profile scope_kind scope_id {} c \<and> pc_strength c = ''hard'') m of
        (hard_claims, hard_tokens) \<Rightarrow>
          hard_claims + 1 \<le> claim_limit \<and> hard_tokens + incoming_tokens \<le> token_limit)"

section \<open>Loads as sums\<close>

text \<open>Primary keys, the check of the scope, and the reference of a Claim to its current version. Ids are not empty, so excluding the
  empty id excludes nothing.\<close>

definition claims_wf :: "Memory \<Rightarrow> bool" where
  "claims_wf m \<longleftrightarrow>
     distinct (map pc_id (mem_claims m)) \<and> distinct (map (\<lambda>v. (pv_claim_id v, pv_version v)) (mem_versions m))
     \<and> (\<forall>v \<in> set (mem_versions m). 0 < pv_token_upper_bound v)
     \<and> (\<forall>c \<in> set (mem_claims m). pc_id c \<noteq> [] \<and> scope_check (pc_scope_kind c) (pc_scope_id c)
          \<and> list_ex (same_version (pc_id c) (pc_current_version c)) (mem_versions m))"

definition tokens_of :: "Memory \<Rightarrow> ClaimRow \<Rightarrow> int" where
  "tokens_of m c =
     (case List.find (same_version (pc_id c) (pc_current_version c)) (mem_versions m) of
        None \<Rightarrow> 0 | Some v \<Rightarrow> pv_token_upper_bound v)"

lemma filter_key: "distinct (map f xs) \<Longrightarrow> x \<in> set xs \<Longrightarrow> filter (\<lambda>y. f y = f x) xs = [x]"
  by (induction xs) (auto simp: filter_empty_conv image_iff)

lemma version_rows:
  assumes "claims_wf m" and "c \<in> set (mem_claims m)"
  shows "\<exists>v. filter (same_version (pc_id c) (pc_current_version c)) (mem_versions m) = [v]
    \<and> tokens_of m c = pv_token_upper_bound v \<and> 0 < pv_token_upper_bound v"
proof -
  obtain v where v: "v \<in> set (mem_versions m)" "same_version (pc_id c) (pc_current_version c) v"
    using assms by (auto simp: claims_wf_def list_ex_iff)
  have eq: "same_version (pc_id c) (pc_current_version c) = (\<lambda>w. (pv_claim_id w, pv_version w) = (pv_claim_id v, pv_version v))"
    using v(2) by (auto simp: same_version_def)
  have rows: "filter (same_version (pc_id c) (pc_current_version c)) (mem_versions m) = [v]"
    unfolding eq by (rule filter_key) (use assms v in \<open>auto simp: claims_wf_def\<close>)
  moreover have "List.find (same_version (pc_id c) (pc_current_version c)) (mem_versions m) = Some v"
    by (simp add: find_of_filter rows)
  ultimately show ?thesis using assms(1) v(1) by (auto simp: tokens_of_def claims_wf_def)
qed

lemma concat_filter: "concat (map (\<lambda>v. if q v then [f v] else []) ys) = map f (filter q ys)"
  by (induction ys) auto

lemma profile_load_sum:
  assumes "claims_wf m"
  shows "profile_load p m =
    (int (length (filter p (mem_claims m))), sum_list (map (tokens_of m) (filter p (mem_claims m))))"
proof -
  let ?rows = "\<lambda>cs. concat (map (\<lambda>c. if p c then map (Pair c)
      (filter (same_version (pc_id c) (pc_current_version c)) (mem_versions m)) else []) cs)"
  have "length (?rows cs) = length (filter p cs) \<and>
      sum_list (map (\<lambda>(_, v). pv_token_upper_bound v) (?rows cs)) = sum_list (map (tokens_of m) (filter p cs))"
    if "set cs \<subseteq> set (mem_claims m)" for cs
    using that by (induction cs) (auto dest!: version_rows [OF assms])
  from this [of "mem_claims m"] show ?thesis
    by (simp add: profile_load_def with_version_def concat_filter Let_def cong: if_cong)
qed

lemma sum_list_filter_mono:
  fixes f :: "'a \<Rightarrow> int"
  assumes "\<And>x. x \<in> set xs \<Longrightarrow> 0 \<le> f x" and "\<And>x. x \<in> set xs \<Longrightarrow> p x \<Longrightarrow> q x"
  shows "length (filter p xs) \<le> length (filter q xs) \<and> sum_list (map f (filter p xs)) \<le> sum_list (map f (filter q xs))"
  using assms by (induction xs) force+

lemma tokens_of_nonneg: "claims_wf m \<Longrightarrow> c \<in> set (mem_claims m) \<Longrightarrow> 0 \<le> tokens_of m c"
  using version_rows [of m c] by auto

lemma profile_load_mono:
  assumes "claims_wf m" and "\<And>c. c \<in> set (mem_claims m) \<Longrightarrow> p c \<Longrightarrow> q c"
  shows "fst (profile_load p m) \<le> fst (profile_load q m) \<and> snd (profile_load p m) \<le> snd (profile_load q m)"
  using sum_list_filter_mono [of "mem_claims m" "tokens_of m" p q] tokens_of_nonneg [OF assms(1)] assms(2)
  by (simp add: profile_load_sum [OF assms(1)])

lemma profile_load_cong:
  assumes "claims_wf m" and "\<And>c. c \<in> set (mem_claims m) \<Longrightarrow> p c = q c"
  shows "profile_load p m = profile_load q m"
  using assms(2) by (simp add: profile_load_sum [OF assms(1)] cong: filter_cong)

section \<open>What the loops do\<close>

lemma demotes_wf:
  assumes "demotes ds now m m'" and "claims_wf m"
  shows "claims_wf m'"
  using assms by (auto simp: demotes_def claims_wf_def comp_def)

lemma demotes_tokens: "demotes ds now m m' \<Longrightarrow> tokens_of m' (demoted ds now c) = tokens_of m c"
  by (auto simp: demotes_def tokens_of_def)

lemma demotes_load:
  assumes "demotes ds now m m'" and "claims_wf m"
  shows "profile_load p m' = profile_load (\<lambda>c. p (demoted ds now c)) m"
proof -
  have claims: "mem_claims m' = map (demoted ds now) (mem_claims m)" using assms(1) by (auto simp: demotes_def)
  show ?thesis
    by (simp add: profile_load_sum [OF assms(2)] profile_load_sum [OF demotes_wf [OF assms]] claims filter_map comp_def
        demotes_tokens [OF assms(1)])
qed

lemma demote_until_Ok:
  assumes "demote_until fits reason refusal k i x now m = Inr (ds, m')"
  shows "demotes (set ds) now m m' \<and> fits (profile_load (in_profile k i x) m') \<and> length ds \<le> soft_active (in_profile k i x) m
    \<and> (\<forall>d \<in> set ds. \<exists>c \<in> set (mem_claims m). pc_id c = d \<and> in_profile k i x c \<and> pc_strength c = ''soft'')"
  using assms
proof (induction fits reason refusal k i x now m arbitrary: ds m' rule: demote_until.induct)
  case (1 fits reason refusal k i x now m)
  show ?case
  proof (cases "fits (profile_load (in_profile k i x) m)")
    case True
    with 1 show ?thesis by (simp add: demote_until.simps [of fits reason refusal k i x now m] demotes_refl)
  next
    case False
    with "1.prems" obtain d n es where d: "demotion (in_profile k i x) m = Some d" and n: "demote d reason now m = Inr n"
      and rec: "demote_until fits reason refusal k i x now n = Inr (es, m')" and ds: "ds = d # es"
      by (auto simp: demote_until.simps [of fits reason refusal k i x now m] outcome_simps split: option.splits)
    note IH = "1.IH" [OF False d n rec]
    have step: "demotes {d} now m n" by (rule demote_demotes [OF n])
    have claims: "mem_claims n = map (demoted {d} now) (mem_claims m)" using step by (auto simp: demotes_def)
    have "\<exists>c \<in> set (mem_claims m). pc_id c = e \<and> in_profile k i x c \<and> pc_strength c = ''soft''" if "e \<in> set ds" for e
      using that demotion_Some [OF d] IH unfolding ds claims by auto
    moreover have "length ds \<le> soft_active (in_profile k i x) m" using demote_fewer [OF d n] IH ds by simp
    ultimately show ?thesis using IH demotes_trans [OF step] by (auto simp: ds)
  qed
qed

text \<open>A budget that admits a load admits every smaller one.\<close>

definition a_budget :: "(int \<times> int \<Rightarrow> bool) \<Rightarrow> bool" where
  "a_budget fits \<longleftrightarrow> (\<forall>p q. fits q \<longrightarrow> fst p \<le> fst q \<longrightarrow> snd p \<le> snd q \<longrightarrow> fits p)"

lemma demote_until_exact:
  assumes "claims_wf m" and "a_budget fits"
  shows "if fits (profile_load (\<lambda>c. in_profile k i x c \<and> pc_strength c \<noteq> ''soft'') m)
    then \<exists>ds m'. demote_until fits reason refusal k i x now m = Inr (ds, m')
    else demote_until fits reason refusal k i x now m = invalid_request refusal"
  using assms
proof (induction fits reason refusal k i x now m rule: demote_until.induct)
  case (1 fits reason refusal k i x now m)
  let ?hard = "\<lambda>c. in_profile k i x c \<and> pc_strength c \<noteq> ''soft''"
  show ?case
  proof (cases "fits (profile_load (in_profile k i x) m)")
    case True
    have "fits (profile_load ?hard m)"
      using profile_load_mono [OF "1.prems"(1), of ?hard "in_profile k i x"] True "1.prems"(2)
      unfolding a_budget_def by blast
    with True show ?thesis by (simp add: demote_until.simps [of fits reason refusal k i x now m])
  next
    case False
    show ?thesis
    proof (cases "demotion (in_profile k i x) m")
      case None
      then have "profile_load ?hard m = profile_load (in_profile k i x) m"
        by (intro profile_load_cong [OF "1.prems"(1)]) (auto simp: demotion_None)
      with False None show ?thesis by (simp add: demote_until.simps [of fits reason refusal k i x now m])
    next
      case (Some d)
      obtain c where c: "c \<in> set (mem_claims m)" "pc_strength c = ''soft''" "pc_id c = d"
        using demotion_Some [OF Some] by blast
      then obtain n where n: "demote d reason now m = Inr n" by (auto simp: demote_Ok has_claim_def list_ex_iff)
      have step: "demotes {d} now m n" by (rule demote_demotes [OF n])
      have same: "c' = c" if "c' \<in> set (mem_claims m)" "pc_id c' = d" for c'
        using that c "1.prems"(1) by (auto simp: claims_wf_def distinct_map inj_on_def)
      have "profile_load ?hard n = profile_load ?hard m"
        unfolding demotes_load [OF step "1.prems"(1)]
        by (rule profile_load_cong [OF "1.prems"(1)]) (use same c(2) in auto)
      then show ?thesis
        using "1.IH" [OF False Some n demotes_wf [OF step "1.prems"(1)] "1.prems"(2)] False Some n
        by (auto simp: demote_until.simps [of fits reason refusal k i x now m])
    qed
  qed
qed

end
