(* ===== verification/Profile_Memory.thy ===== *)
theory Profile_Memory
  imports Profile_Claims
begin

text \<open>
  The requests by which the Principal teaches Tyrion (\<^verbatim>\<open>src/src/store.rs\<close>): stating a preference, reporting an
  observation, confirming, suppressing, forgetting and revising a Profile Claim, and setting a Learning
  Boundary. Each is a transaction on the memory; every reading of the clock and of the random generator is an
  argument with its own index. Importing and exporting memory are not modelled.
\<close>

section \<open>Transactions on the memory\<close>

type_synonym 'a mtx = "Memory \<Rightarrow> (TyrionError, 'a \<times> Memory) outcome"

definition m_return :: "'a \<Rightarrow> 'a mtx" where
  "m_return x m = Ok (x, m)"

definition m_bind :: "'a mtx \<Rightarrow> ('a \<Rightarrow> 'b mtx) \<Rightarrow> 'b mtx" where
  "m_bind a f m = and_then (a m) (\<lambda>(x, n). f x n)"

definition m_query :: "(Memory \<Rightarrow> 'a result) \<Rightarrow> 'a mtx" where
  "m_query q m = and_then (q m) (\<lambda>x. Ok (x, m))"

definition m_execute :: "(Memory \<Rightarrow> Memory result) \<Rightarrow> unit mtx" where
  "m_execute u m = and_then (u m) (\<lambda>n. Ok ((), n))"

definition m_lift :: "'a result \<Rightarrow> 'a mtx" where
  "m_lift r m = and_then r (\<lambda>x. Ok (x, m))"

definition m_update :: "(Memory \<Rightarrow> Memory) \<Rightarrow> unit mtx" where
  "m_update u m = Ok ((), u m)"

fun m_for :: "('a \<Rightarrow> unit mtx) \<Rightarrow> 'a list \<Rightarrow> unit mtx" where
  "m_for f [] = m_return ()"
| "m_for f (x # xs) = m_bind (f x) (\<lambda>_. m_for f xs)"

definition memory_transaction :: "Readings \<Rightarrow> string \<Rightarrow> string \<Rightarrow> json mtx \<Rightarrow> json mtx" where
  "memory_transaction rd key hash work =
     m_bind (m_query (\<lambda>m. prior_result key hash (mem_db m))) (\<lambda>prior.
       case prior of
         Some v \<Rightarrow> m_return v
       | None \<Rightarrow>
           m_bind work (\<lambda>result.
           m_bind (m_lift (rd_unix_timestamp rd 0)) (\<lambda>now.
           m_bind (m_execute (\<lambda>m. and_then (insert_idempotency_key
               \<lparr>ik_key = key, ik_request_hash = hash, ik_response = result, ik_created_at = now\<rparr> (mem_db m))
             (\<lambda>db. Ok (m\<lparr>mem_db := db\<rparr>)))) (\<lambda>_.
           m_return result))))"

section \<open>Projections\<close>

definition profile_scope :: "string \<Rightarrow> string option \<Rightarrow> json" where
  "profile_scope scope_kind scope_id =
     (if scope_kind = ''project''
      then JObject [(''kind'', JString scope_kind), (''project_id'', option_json JString scope_id)]
      else JObject [(''kind'', JString scope_kind)])"

definition imported_provenance :: "string \<Rightarrow> string \<Rightarrow> int \<Rightarrow> Memory \<Rightarrow> json option" where
  "imported_provenance entity_kind entity_id entity_version m =
     map_option ip_provenance
       (List.find (\<lambda>r. ip_entity_kind r = entity_kind \<and> ip_entity_id r = entity_id \<and> ip_entity_version r = entity_version)
          (mem_provenance m))"

definition profile_claim :: "string \<Rightarrow> Memory \<Rightarrow> json result" where
  "profile_claim claim_id m =
     (case with_version (\<lambda>c. pc_id c = claim_id) m of
        [] \<Rightarrow> Err (TyrionError.NotFound claim_id)
      | (c, v) # _ \<Rightarrow>
          Ok (JObject
            [(''applicability'', JObject [(''work_kind'', JString (pc_applicability c))]),
             (''confidence'', JObject
                [(''basis_points'', json_of_int (pc_confidence_basis_points c)),
                 (''category'', JString (pc_confidence_category c))]),
             (''created_at'', json_of_int (pc_created_at c)),
             (''id'', JString (pc_id c)),
             (''lifecycle'', JObject [(''state'', JString (pc_lifecycle_state c))]),
             (''provenance'',
                case imported_provenance ''claim_version'' (pc_id c) (pc_current_version c) m of
                  Some p \<Rightarrow> p
                | None \<Rightarrow> JObject
                    [(''attachment_id'', JString (pv_attachment_id v)),
                     (''commission_id'', JString (pv_commission_id v)),
                     (''kind'', JString (if pc_confidence_category c = ''explicit'' then ''explicit_principal_statement''
                                         else ''inferred_learning_observation''))]),
             (''scope'', profile_scope (pc_scope_kind c) (pc_scope_id c)),
             (''statement'', JString (pv_statement v)),
             (''strength'', JString (pc_strength c)),
             (''token_accounting'', JString ''utf8_byte_upper_bound''),
             (''token_upper_bound'', json_of_int (pv_token_upper_bound v)),
             (''updated_at'', json_of_int (pc_updated_at c)),
             (''version'', json_of_int (pc_current_version c))]))"

definition learning_observation :: "string \<Rightarrow> Memory \<Rightarrow> json result" where
  "learning_observation observation_id m =
     (case List.find (\<lambda>r. lo_id r = observation_id) (mem_observations m) of
        None \<Rightarrow> Err (TyrionError.NotFound observation_id)
      | Some r \<Rightarrow>
          (let imported = imported_provenance ''observation'' (lo_id r) 0 m;
               field = (\<lambda>name local. case Option.bind imported (\<lambda>p. json_as_str (json_index p name)) of
                                        Some v \<Rightarrow> JString v | None \<Rightarrow> JString local)
           in Ok (JObject
             [(''claim_id'', option_json JString (lo_claim_id r)),
              (''commission_id'', field ''commission_id'' (lo_commission_id r)),
              (''explanation'', option_json JString (lo_explanation r)),
              (''id'', JString (lo_id r)),
              (''kind'', JString (lo_kind r)),
              (''observed_at'', json_of_int (lo_observed_at r)),
              (''project_id'', field ''project_id'' (lo_project_id r)),
              (''provenance'',
                 case imported of
                   Some p \<Rightarrow> p
                 | None \<Rightarrow> JObject [(''commission_id'', JString (lo_commission_id r)), (''project_id'', JString (lo_project_id r))]),
              (''statement'', JString (lo_statement r)),
              (''statement_fingerprint'', JString (lo_statement_fingerprint r)),
              (''strength'', JString (lo_strength r))])))"

section \<open>Queries\<close>

definition commission_project_id :: "string \<Rightarrow> Db \<Rightarrow> string option result" where
  "commission_project_id commission_id db =
     (case List.find (\<lambda>c. cm_id c = commission_id) (db_commissions db) of
        None \<Rightarrow> Err (TyrionError.NotFound commission_id) | Some c \<Rightarrow> Ok (cm_project_id c))"

definition ensure_claim_scope :: "string \<Rightarrow> string option \<Rightarrow> string option \<Rightarrow> unit result" where
  "ensure_claim_scope scope_kind scope_id source_project_id =
     (if scope_kind = ''project'' \<and> scope_id \<noteq> source_project_id
      then control_denied ''a project Profile Claim can only be controlled from the same verified Project''
      else Ok ())"

definition memory_author :: "MemoryEnv \<Rightarrow> Request \<Rightarrow> string \<Rightarrow> string mtx" where
  "memory_author env request commission_id =
     m_bind (m_query (\<lambda>m. authenticated_attachment_id (me_sys env) request (mem_db m))) (\<lambda>attachment_id.
     m_bind (m_query (\<lambda>m. ensure_active_attachment attachment_id commission_id COMMISSION_INSPECTION (mem_db m))) (\<lambda>_.
     m_return attachment_id))"

definition find_claim :: "string \<Rightarrow> Memory \<Rightarrow> ClaimRow result" where
  "find_claim claim_id m =
     (case List.find (\<lambda>c. pc_id c = claim_id) (mem_claims m) of
        None \<Rightarrow> Err (TyrionError.NotFound claim_id) | Some c \<Rightarrow> Ok c)"

text \<open>The oldest Claim that satisfies a condition.\<close>

definition oldest_claim :: "(ClaimRow \<Rightarrow> bool) \<Rightarrow> Memory \<Rightarrow> ClaimRow option" where
  "oldest_claim p m =
     (case sort_key pc_created_at (sort_key pc_id (filter p (mem_claims m))) of [] \<Rightarrow> None | c # _ \<Rightarrow> Some c)"

definition claim_observation_project_ids :: "string \<Rightarrow> Memory \<Rightarrow> string list" where
  "claim_observation_project_ids claim_id m =
     sort (remdups [lo_project_id r. r \<leftarrow> mem_observations m, (claim_id, lo_id r) \<in> set (mem_supports m)])"

text \<open>Boundaries in the order of the queries: those of Projects first, then by age.\<close>

definition ordered_boundaries :: "string \<Rightarrow> Memory \<Rightarrow> BoundaryRow list" where
  "ordered_boundaries statement_fingerprint m =
     sort_key (\<lambda>b. if lb_scope_kind b = ''project'' then 0 else 1 :: nat) (sort_key lb_created_at (sort_key lb_id
       (filter (\<lambda>b. lb_statement_fingerprint b = statement_fingerprint) (mem_boundaries m))))"

definition blocks :: "string \<Rightarrow> string option \<Rightarrow> string list \<Rightarrow> BoundaryRow \<Rightarrow> bool" where
  "blocks claim_scope_kind claim_scope_id related_project_ids b \<longleftrightarrow>
     lb_scope_kind b = ''principal''
     \<or> lb_scope_kind b = ''project''
       \<and> (claim_scope_kind = ''principal''
          \<or> claim_scope_kind = ''project'' \<and> lb_scope_id b = claim_scope_id
          \<or> (case lb_scope_id b of None \<Rightarrow> False | Some p \<Rightarrow> p \<in> set related_project_ids))"

definition blocking_learning_boundary_id ::
  "string \<Rightarrow> string \<Rightarrow> string option \<Rightarrow> string list \<Rightarrow> Memory \<Rightarrow> string option" where
  "blocking_learning_boundary_id statement_fingerprint claim_scope_kind claim_scope_id related_project_ids m =
     map_option lb_id
       (List.find (blocks claim_scope_kind claim_scope_id related_project_ids) (ordered_boundaries statement_fingerprint m))"

definition ensure_not_blocked ::
  "string \<Rightarrow> string \<Rightarrow> string option \<Rightarrow> string list \<Rightarrow> string \<Rightarrow> Memory \<Rightarrow> unit result" where
  "ensure_not_blocked statement_fingerprint scope_kind scope_id related_project_ids what m =
     (case blocking_learning_boundary_id statement_fingerprint scope_kind scope_id related_project_ids m of
        Some boundary_id \<Rightarrow> control_denied (''Learning Boundary '' @ boundary_id @ '' prevents Profile Claim '' @ what)
      | None \<Rightarrow> Ok ())"

section \<open>Stating a preference\<close>

definition profile_limits :: "string \<Rightarrow> int \<times> int" where
  "profile_limits scope_kind = (if scope_kind = ''project'' then (80, 4000) else (20, 1000))"

definition scope_of_project :: "string option \<Rightarrow> string \<times> string option" where
  "scope_of_project project_id =
     (case project_id of Some p \<Rightarrow> (''project'', Some p) | None \<Rightarrow> (''principal'', None))"

definition make_room :: "string \<Rightarrow> string option \<Rightarrow> int \<Rightarrow> string option \<Rightarrow> int \<Rightarrow> string list mtx" where
  "make_room scope_kind scope_id incoming_tokens excluded_claim_id now =
     make_room_in_active_profile scope_kind scope_id (fst (profile_limits scope_kind)) (snd (profile_limits scope_kind))
       incoming_tokens excluded_claim_id now"

definition first_version :: "string \<Rightarrow> string \<Rightarrow> string \<Rightarrow> string \<Rightarrow> int \<Rightarrow> ClaimVersionRow" where
  "first_version claim_id statement commission_id attachment_id now =
     \<lparr>pv_claim_id = claim_id, pv_version = 1, pv_statement = statement, pv_token_upper_bound = token_upper_bound statement,
      pv_commission_id = commission_id, pv_attachment_id = attachment_id, pv_created_at = now\<rparr>"

definition new_claim :: "string \<Rightarrow> string \<Rightarrow> string \<times> string option \<Rightarrow> string \<times> int \<Rightarrow> string \<Rightarrow> string \<Rightarrow> int \<Rightarrow> ClaimRow" where
  "new_claim claim_id claim_strength scope confidence state statement_fingerprint now =
     \<lparr>pc_id = claim_id, pc_current_version = 1, pc_strength = claim_strength, pc_scope_kind = fst scope, pc_scope_id = snd scope,
      pc_applicability = ''software_building'', pc_confidence_category = fst confidence,
      pc_confidence_basis_points = snd confidence, pc_lifecycle_state = state,
      pc_statement_fingerprint = statement_fingerprint, pc_last_nonweak_support_at = Some now,
      pc_lifecycle_changed_at = now, pc_created_at = now, pc_updated_at = now\<rparr>"

definition lifecycle_row :: "string \<Rightarrow> string option \<Rightarrow> string \<Rightarrow> string \<Rightarrow> string option \<Rightarrow> int \<Rightarrow> LifecycleRow" where
  "lifecycle_row claim_id from_state to_state reason observation_id now =
     \<lparr>pl_claim_id = claim_id, pl_from_state = from_state, pl_to_state = to_state, pl_reason = reason,
      pl_observation_id = observation_id, pl_changed_at = now\<rparr>"

text \<open>The four statements by which every new Claim is stored.\<close>

definition store_claim :: "ClaimRow \<Rightarrow> ClaimVersionRow \<Rightarrow> string \<Rightarrow> string option \<Rightarrow> int \<Rightarrow> unit mtx" where
  "store_claim c v reason observation_id now =
     m_bind (m_execute (insert_claim_version v)) (\<lambda>_.
     m_bind (m_execute (insert_claim c)) (\<lambda>_.
     m_bind (m_execute (insert_lifecycle
         (lifecycle_row (pc_id c) None (pc_lifecycle_state c) reason observation_id now))) (\<lambda>_.
     m_execute (refresh_profile_claim_derived_data (pc_id c) (pc_statement_fingerprint c) now))))"

definition create_profile_claim_work ::
  "MemoryEnv \<Rightarrow> Readings \<Rightarrow> Request \<Rightarrow> string \<Rightarrow> ReusablePreference \<Rightarrow> json mtx" where
  "create_profile_claim_work env rd request commission_id preference =
     m_bind (memory_author env request commission_id) (\<lambda>attachment_id.
     m_bind (m_query (\<lambda>m. commission_project_id commission_id (mem_db m))) (\<lambda>project_id.
     let (scope_kind, scope_id) = scope_of_project project_id;
         statement_fingerprint = preference_fingerprint env (rp_statement preference);
         claim_id = rd_uuid rd 0
     in
     m_bind (m_query (ensure_not_blocked statement_fingerprint scope_kind scope_id [] ''creation'')) (\<lambda>_.
     m_bind (m_lift (rd_unix_timestamp_millis rd 0)) (\<lambda>now.
     m_bind (make_room scope_kind scope_id (token_upper_bound (rp_statement preference)) None now) (\<lambda>evicted_claim_ids.
     m_bind (store_claim
         (new_claim claim_id ''hard'' (scope_kind, scope_id) (''explicit'', 10000) ''active'' statement_fingerprint now)
         (first_version claim_id (rp_statement preference) commission_id attachment_id now)
         ''explicit_principal_statement'' None now) (\<lambda>_.
     m_bind (m_query (profile_claim claim_id)) (\<lambda>claim.
     m_return (JObject
       [(''claim'', claim),
        (''demoted_claim_ids'', JArray (map JString evicted_claim_ids)),
        (''learning_receipt'', JObject
           [(''claim_id'', JString claim_id), (''claim_version'', json_of_int 1),
            (''kind'', JString ''profile_claim_created''), (''scope'', json_index claim ''scope'')])]))))))))"

definition create_profile_claim ::
  "MemoryEnv \<Rightarrow> Readings \<Rightarrow> string \<Rightarrow> Request \<Rightarrow> string \<Rightarrow> ReusablePreference \<Rightarrow> json mtx" where
  "create_profile_claim env rd principal_token_hash request commission_id preference m =
     and_then (authenticate_principal (me_sys env) request principal_token_hash) (\<lambda>_.
     and_then (validate_reusable_preference env preference) (\<lambda>_.
     and_then (mutation_key request) (\<lambda>key.
     and_then (request_hash (me_sys env) request) (\<lambda>hash.
     memory_transaction rd key hash (create_profile_claim_work env rd request commission_id preference) m))))"

section \<open>Reporting an observation\<close>

text \<open>The first boundary that covers a statement in a Project.\<close>

definition observation_boundary :: "string \<Rightarrow> string \<Rightarrow> Memory \<Rightarrow> string option" where
  "observation_boundary statement_fingerprint project_id m =
     map_option lb_id
       (List.find (\<lambda>b. lb_scope_kind b = ''principal'' \<or> lb_scope_kind b = ''project'' \<and> lb_scope_id b = Some project_id)
          (ordered_boundaries statement_fingerprint m))"

definition project_claim :: "string \<Rightarrow> string \<Rightarrow> ClaimRow \<Rightarrow> bool" where
  "project_claim project_id statement_fingerprint c \<longleftrightarrow>
     pc_scope_kind c = ''project'' \<and> pc_scope_id c = Some project_id \<and> pc_statement_fingerprint c = statement_fingerprint"

text \<open>The observations of a statement that support or contradict it.\<close>

definition evidence_rows :: "(ObservationRow \<Rightarrow> bool) \<Rightarrow> string \<Rightarrow> string set \<Rightarrow> Memory \<Rightarrow> ObservationRow list" where
  "evidence_rows p statement_fingerprint strengths m =
     filter (\<lambda>r. p r \<and> lo_statement_fingerprint r = statement_fingerprint \<and> lo_strength r \<in> strengths) (mem_observations m)"

definition of_strength :: "string \<Rightarrow> ObservationRow list \<Rightarrow> nat" where
  "of_strength s rows = length (filter (\<lambda>r. lo_strength r = s) rows)"

definition distinct_count :: "('a \<Rightarrow> 'b) \<Rightarrow> 'a list \<Rightarrow> nat" where
  "distinct_count f rows = length (remdups (map f rows))"

definition link_observations :: "string \<Rightarrow> ObservationRow list \<Rightarrow> unit mtx" where
  "link_observations claim_id = m_for (\<lambda>r. m_execute (insert_support_or_ignore claim_id (lo_id r)))"

definition attribute_observations :: "string \<Rightarrow> (ObservationRow \<Rightarrow> bool) \<Rightarrow> Memory \<Rightarrow> Memory" where
  "attribute_observations claim_id p m =
     m\<lparr>mem_observations := update_where p (\<lambda>r. r\<lparr>lo_claim_id := Some claim_id\<rparr>) (mem_observations m)\<rparr>"

definition touch_support :: "string \<Rightarrow> int \<Rightarrow> Memory \<Rightarrow> Memory" where
  "touch_support claim_id now m =
     m\<lparr>mem_claims :=
          update_where (\<lambda>c. pc_id c = claim_id)
            (\<lambda>c. c\<lparr>pc_last_nonweak_support_at :=
                     Some (max (case pc_last_nonweak_support_at c of None \<Rightarrow> 0 | Some t \<Rightarrow> t) now),
                   pc_updated_at := max (pc_updated_at c) now\<rparr>) (mem_claims m)\<rparr>"

text \<open>A principal signal about a statement without a Claim in the Project stores an inferred candidate.\<close>

definition infer_project_claim ::
  "Readings \<Rightarrow> string \<Rightarrow> string \<Rightarrow> string \<Rightarrow> string \<Rightarrow> string \<Rightarrow> string \<Rightarrow> int \<Rightarrow> unit mtx" where
  "infer_project_claim rd commission_id attachment_id project_id statement statement_fingerprint observation_id now =
     (let claim_id = rd_uuid rd 1 in
      m_bind (store_claim
          (new_claim claim_id ''soft'' (''project'', Some project_id) (''inferred'', 5000) ''candidate'' statement_fingerprint now)
          (first_version claim_id statement commission_id attachment_id now)
          ''eligible_inferred_observation'' (Some observation_id) now) (\<lambda>_.
      m_bind (m_query (\<lambda>m. Ok (evidence_rows (\<lambda>r. lo_project_id r = project_id) statement_fingerprint {''strong'', ''weak''} m)))
        (\<lambda>rows.
      m_bind (link_observations claim_id rows) (\<lambda>_.
      m_update (attribute_observations claim_id
        (\<lambda>r. lo_project_id r = project_id \<and> lo_statement_fingerprint r = statement_fingerprint
             \<and> lo_claim_id r = None \<and> lo_strength r \<in> {''strong'', ''weak''}))))))"

definition link_claim :: "string \<Rightarrow> string \<Rightarrow> LearningObservationKind \<Rightarrow> int \<Rightarrow> unit mtx" where
  "link_claim claim_id observation_id outcome now =
     m_bind (m_update (attribute_observations claim_id (\<lambda>r. lo_id r = observation_id))) (\<lambda>_.
     m_bind (m_execute (insert_support_or_ignore claim_id observation_id)) (\<lambda>_.
     if strength outcome = ''strong'' then m_update (touch_support claim_id now) else m_return ()))"

definition contradict_claim :: "string \<Rightarrow> int \<Rightarrow> string \<Rightarrow> unit mtx" where
  "contradict_claim observation_id now claim_id =
     m_bind (m_query (\<lambda>m. query_row (\<lambda>c. pc_id c = claim_id) (mem_claims m))) (\<lambda>c.
     if pc_strength c = ''soft'' \<and> pc_lifecycle_state c \<noteq> ''contradicted''
     then m_bind (m_update (set_lifecycle claim_id ''contradicted'' now)) (\<lambda>_.
          m_execute (insert_lifecycle (lifecycle_row claim_id (Some (pc_lifecycle_state c)) ''contradicted''
            ''current_project_evidence'' (Some observation_id) now)))
     else m_return ())"

definition contradict :: "string option \<Rightarrow> string \<Rightarrow> string \<Rightarrow> int \<Rightarrow> unit mtx" where
  "contradict claim_id statement_fingerprint observation_id now =
     m_bind (m_query (\<lambda>m. Ok (oldest_claim (\<lambda>c. pc_scope_kind c = ''principal'' \<and> pc_strength c = ''soft''
          \<and> pc_lifecycle_state c \<in> {''candidate'', ''active''} \<and> pc_statement_fingerprint c = statement_fingerprint) m)))
       (\<lambda>principal_claim.
     m_for (contradict_claim observation_id now)
       ((case claim_id of None \<Rightarrow> [] | Some i \<Rightarrow> [i]) @ (case principal_claim of None \<Rightarrow> [] | Some c \<Rightarrow> [pc_id c])))"

definition activate_claim :: "string \<Rightarrow> int \<Rightarrow> string \<Rightarrow> string option \<Rightarrow> int \<Rightarrow> unit mtx" where
  "activate_claim claim_id confidence reason observation_id now =
     m_bind (m_update (\<lambda>m. m\<lparr>mem_claims :=
          update_where (\<lambda>c. pc_id c = claim_id)
            (\<lambda>c. c\<lparr>pc_lifecycle_state := ''active'', pc_confidence_basis_points := confidence,
                   pc_lifecycle_changed_at := now, pc_updated_at := now\<rparr>) (mem_claims m)\<rparr>)) (\<lambda>_.
     m_execute (insert_lifecycle (lifecycle_row claim_id (Some ''candidate'') ''active'' reason observation_id now)))"

definition promote_claim :: "string \<Rightarrow> string \<Rightarrow> string \<Rightarrow> int \<Rightarrow> bool mtx" where
  "promote_claim claim_id project_id observation_id now =
     m_bind (m_query (\<lambda>m. query_row (\<lambda>c. pc_id c = claim_id) (mem_claims m))) (\<lambda>c.
     if pc_lifecycle_state c \<noteq> ''candidate'' then m_return False
     else
     m_bind (m_query (\<lambda>m. first_row (with_version (\<lambda>c. pc_id c = claim_id) m))) (\<lambda>(_, v).
     m_bind (m_query (\<lambda>m. Ok (hard_profile_capacity_allows ''project'' (Some project_id) 80 4000 (pv_token_upper_bound v) m)))
       (\<lambda>room.
     if \<not> room then m_return False
     else
     m_bind (make_room ''project'' (Some project_id) (pv_token_upper_bound v) None now) (\<lambda>_.
     m_bind (activate_claim claim_id 7500 ''independent_commission_support'' (Some observation_id) now) (\<lambda>_.
     m_return True)))))"

definition infer_principal_claim ::
  "Readings \<Rightarrow> string \<Rightarrow> string \<Rightarrow> string \<Rightarrow> string \<Rightarrow> string \<Rightarrow> int \<Rightarrow> unit mtx" where
  "infer_principal_claim rd commission_id attachment_id statement statement_fingerprint observation_id now =
     (let claim_id = rd_uuid rd 2 in
      m_bind (store_claim
          (new_claim claim_id ''soft'' (''principal'', None) (''inferred'', 7500) ''candidate'' statement_fingerprint now)
          (first_version claim_id statement commission_id attachment_id now)
          ''cross_project_support'' (Some observation_id) now) (\<lambda>_.
      m_bind (m_query (\<lambda>m. Ok (evidence_rows (\<lambda>_. True) statement_fingerprint {''strong'', ''weak''} m))) (\<lambda>rows.
      link_observations claim_id rows)))"

definition principal_candidate ::
  "Readings \<Rightarrow> string \<Rightarrow> string \<Rightarrow> string \<Rightarrow> string \<Rightarrow> string \<Rightarrow> LearningObservationKind \<Rightarrow> int
    \<Rightarrow> (ObservationRow list \<times> string option) mtx" where
  "principal_candidate rd commission_id attachment_id statement statement_fingerprint observation_id outcome now =
     m_bind (m_query (\<lambda>m. Ok (evidence_rows (\<lambda>_. True) statement_fingerprint {''strong'', ''weak'', ''contradiction''} m)))
       (\<lambda>wider.
     m_bind (m_query (\<lambda>m. Ok (map_option pc_id (oldest_claim
         (\<lambda>c. pc_scope_kind c = ''principal'' \<and> pc_statement_fingerprint c = statement_fingerprint) m)))) (\<lambda>existing.
     m_bind
       (case existing of
          None \<Rightarrow>
            if 3 \<le> distinct_count lo_commission_id wider \<and> 2 \<le> distinct_count lo_project_id wider
               \<and> 0 < of_strength ''strong'' wider \<and> of_strength ''contradiction'' wider = 0
            then m_bind (infer_principal_claim rd commission_id attachment_id statement statement_fingerprint observation_id now)
                   (\<lambda>_. m_return (Some (rd_uuid rd 2)))
            else m_return None
        | Some claim_id \<Rightarrow>
            m_bind (m_execute (insert_support_or_ignore claim_id observation_id)) (\<lambda>_. m_return (Some claim_id)))
       (\<lambda>candidate.
     m_bind (case candidate of
               Some claim_id \<Rightarrow> if strength outcome = ''strong'' then m_update (touch_support claim_id now) else m_return ()
             | None \<Rightarrow> m_return ()) (\<lambda>_.
     m_return (wider, candidate)))))"

text \<open>The columns of \<^verbatim>\<open>learning_observations\<close> and \<^verbatim>\<open>profile_claim_observations\<close> that the retention of temporary
  material reads.\<close>

definition refresh_retention :: "string \<Rightarrow> Memory \<Rightarrow> Memory" where
  "refresh_retention commission_id m =
     m\<lparr>mem_db := refresh_temporary_material_retention_links (Some commission_id)
         ((mem_db m)\<lparr>db_learning_observations := map (\<lambda>r. (lo_id r, lo_commission_id r)) (mem_observations m),
                     db_claim_observations := map snd (mem_supports m)\<rparr>)\<rparr>"

definition optional_claim :: "string option \<Rightarrow> json mtx" where
  "optional_claim claim_id =
     (case claim_id of None \<Rightarrow> m_return JNull | Some i \<Rightarrow> m_query (profile_claim i))"

text \<open>What an observation changes in its Project: the Claim it is attributed to, the evidence, and whether the
  Claim was promoted.\<close>

definition learn_in_project ::
  "Readings \<Rightarrow> string \<Rightarrow> string \<Rightarrow> string \<Rightarrow> string \<Rightarrow> string \<Rightarrow> LearningObservationKind \<Rightarrow> string option \<Rightarrow> int
    \<Rightarrow> (string option \<times> ObservationRow list \<times> bool) mtx" where
  "learn_in_project rd commission_id attachment_id project_id statement statement_fingerprint outcome explanation now =
     (let observation_id = rd_uuid rd 0 in
      m_bind (m_execute (insert_observation
          \<lparr>lo_id = observation_id, lo_commission_id = commission_id, lo_project_id = project_id,
           lo_attachment_id = attachment_id, lo_claim_id = None, lo_statement = statement,
           lo_statement_fingerprint = statement_fingerprint, lo_kind = LearningObservationKind_as_str outcome,
           lo_explanation = explanation, lo_strength = strength outcome, lo_observed_at = now\<rparr>)) (\<lambda>_.
      m_bind (m_query (\<lambda>m. Ok (map_option pc_id (oldest_claim (project_claim project_id statement_fingerprint) m)))) (\<lambda>found.
      m_bind
        (if found = None \<and> outcome \<in> {PrincipalEdit, ExplainedRejection}
         then m_bind (infer_project_claim rd commission_id attachment_id project_id statement statement_fingerprint observation_id now)
                (\<lambda>_. m_return (Some (rd_uuid rd 1)))
         else m_return found) (\<lambda>claim_id.
      m_bind (case claim_id of None \<Rightarrow> m_return () | Some i \<Rightarrow> link_claim i observation_id outcome now) (\<lambda>_.
      m_bind (if outcome = Contradiction then contradict claim_id statement_fingerprint observation_id now else m_return ()) (\<lambda>_.
      m_bind (m_query (\<lambda>m. Ok (evidence_rows (\<lambda>r. lo_project_id r = project_id) statement_fingerprint
                {''strong'', ''weak'', ''contradiction''} m))) (\<lambda>rows.
      m_bind (case claim_id of
                None \<Rightarrow> m_return False
              | Some i \<Rightarrow>
                  if 2 \<le> distinct_count lo_commission_id rows \<and> 0 < of_strength ''strong'' rows \<and> of_strength ''contradiction'' rows = 0
                  then promote_claim i project_id observation_id now else m_return False) (\<lambda>promoted.
      m_return (claim_id, rows, promoted)))))))))"

definition learn ::
  "Readings \<Rightarrow> string \<Rightarrow> string \<Rightarrow> string \<Rightarrow> string \<Rightarrow> string \<Rightarrow> LearningObservationKind \<Rightarrow> string option \<Rightarrow> int \<Rightarrow> json mtx" where
  "learn rd commission_id attachment_id project_id statement statement_fingerprint outcome explanation now =
     m_bind (learn_in_project rd commission_id attachment_id project_id statement statement_fingerprint outcome explanation now)
       (\<lambda>(claim_id, rows, promoted).
     m_bind (principal_candidate rd commission_id attachment_id statement statement_fingerprint (rd_uuid rd 0) outcome now)
       (\<lambda>(wider, candidate).
     m_bind (m_update (refresh_retention commission_id)) (\<lambda>_.
     m_bind (m_query (learning_observation (rd_uuid rd 0))) (\<lambda>observation.
     m_bind (optional_claim claim_id) (\<lambda>claim.
     m_bind (optional_claim candidate) (\<lambda>principal.
     m_return (JObject
       [(''claim'', claim), (''observation'', observation), (''principal_candidate'', principal),
        (''promoted'', JBool promoted),
        (''support'', JObject
           [(''includes_principal_signal'', JBool (0 < of_strength ''strong'' rows)),
            (''independent_commissions'', json_of_int (int (distinct_count lo_commission_id rows))),
            (''material_contradictions'', json_of_int (int (of_strength ''contradiction'' rows)))]),
        (''wider_scope'', JObject
           [(''independent_commissions'', json_of_int (int (distinct_count lo_commission_id wider))),
            (''independent_projects'', json_of_int (int (distinct_count lo_project_id wider))),
            (''material_contradictions'', json_of_int (int (of_strength ''contradiction'' wider))),
            (''requires_confirmation'', JBool (candidate \<noteq> None))])])))))))"

definition observe_profile_preference_work ::
  "MemoryEnv \<Rightarrow> Readings \<Rightarrow> Request \<Rightarrow> string \<Rightarrow> ReusablePreference \<Rightarrow> LearningObservationKind \<Rightarrow> string option \<Rightarrow> json mtx" where
  "observe_profile_preference_work env rd request commission_id preference outcome explanation =
     m_bind (memory_author env request commission_id) (\<lambda>attachment_id.
     m_bind (m_query (\<lambda>m. find_commission commission_id (mem_db m))) (\<lambda>c.
     case cm_project_id c of
       None \<Rightarrow> m_lift (invalid_request ''inferred learning requires a Commission with a verified Project'')
     | Some project_id \<Rightarrow>
         if cm_status c \<notin> {''verified_complete'', ''cancelled''}
         then m_lift (invalid_request ''learning observations require a terminal Commission'')
         else
         (let statement_fingerprint = preference_fingerprint env (rp_statement preference) in
          m_bind (m_query (\<lambda>m. Ok (observation_boundary statement_fingerprint project_id m))) (\<lambda>boundary.
          case boundary of
            Some boundary_id \<Rightarrow> m_return (JObject
              [(''blocked_by_learning_boundary'', JBool True), (''claim'', JNull),
               (''learning_boundary_id'', JString boundary_id), (''observation'', JNull), (''promoted'', JBool False)])
          | None \<Rightarrow>
              m_bind (m_query (\<lambda>m. if list_ex (\<lambda>r. lo_commission_id r = commission_id
                     \<and> lo_statement_fingerprint r = statement_fingerprint) (mem_observations m)
                   then invalid_request ''one Commission can contribute at most one observation per preference''
                   else Ok ())) (\<lambda>_.
              m_bind (m_lift (rd_unix_timestamp_millis rd 0)) (\<lambda>observed_at.
              learn rd commission_id attachment_id project_id (rp_statement preference) statement_fingerprint outcome
                explanation observed_at))))))"

definition trimmed_explanation :: "string option \<Rightarrow> string option" where
  "trimmed_explanation explanation =
     (case explanation of None \<Rightarrow> None | Some e \<Rightarrow> if trim e = [] then None else Some (trim e))"

definition observe_profile_preference ::
  "MemoryEnv \<Rightarrow> Readings \<Rightarrow> string \<Rightarrow> Request \<Rightarrow> string \<Rightarrow> ReusablePreference \<Rightarrow> LearningObservationKind
    \<Rightarrow> string option \<Rightarrow> json mtx" where
  "observe_profile_preference env rd principal_token_hash request commission_id preference outcome explanation m =
     and_then (authenticate_principal (me_sys env) request principal_token_hash) (\<lambda>_.
     and_then (validate_reusable_preference env preference) (\<lambda>_.
     if outcome \<in> {ExplainedRejection, Contradiction} \<and> trimmed_explanation explanation = None
     then invalid_request ''explained rejection and contradiction observations require an explanation''
     else
     and_then (mutation_key request) (\<lambda>key.
     and_then (request_hash (me_sys env) request) (\<lambda>hash.
     memory_transaction rd key hash
       (observe_profile_preference_work env rd request commission_id preference outcome (trimmed_explanation explanation)) m))))"

section \<open>Confirming and suppressing a Claim\<close>

definition ensure_version :: "int \<Rightarrow> ClaimRow \<Rightarrow> unit result" where
  "ensure_version expected_version c =
     (if pc_current_version c \<noteq> expected_version
      then Err (TyrionError.StaleRevision expected_version (pc_current_version c)) else Ok ())"

definition confirm_profile_claim_work ::
  "MemoryEnv \<Rightarrow> Readings \<Rightarrow> Request \<Rightarrow> string \<Rightarrow> string \<Rightarrow> int \<Rightarrow> json mtx" where
  "confirm_profile_claim_work env rd request commission_id claim_id expected_version =
     m_bind (memory_author env request commission_id) (\<lambda>_.
     m_bind (m_query (find_claim claim_id)) (\<lambda>c.
     m_bind (m_lift (ensure_version expected_version c)) (\<lambda>_.
     if pc_strength c \<noteq> ''soft'' \<or> pc_scope_kind c \<noteq> ''principal'' \<or> pc_lifecycle_state c \<noteq> ''candidate''
     then m_lift (invalid_request ''only an inferred Principal Profile candidate can be confirmed'')
     else
     m_bind (m_query (\<lambda>m. ensure_not_blocked (pc_statement_fingerprint c) (pc_scope_kind c) None
         (claim_observation_project_ids claim_id m) ''reactivation'' m)) (\<lambda>_.
     m_bind (m_lift (rd_unix_timestamp_millis rd 0)) (\<lambda>now.
     m_bind (m_query (\<lambda>m. query_row (same_version claim_id (pc_current_version c)) (mem_versions m))) (\<lambda>v.
     m_bind (make_room ''principal'' None (pv_token_upper_bound v) None now) (\<lambda>_.
     m_bind (activate_claim claim_id 9000 ''explicit_principal_confirmation'' None now) (\<lambda>_.
     m_bind (m_query (profile_claim claim_id)) (\<lambda>claim.
     m_return (JObject
       [(''claim'', claim),
        (''learning_receipt'', JObject
           [(''claim_id'', JString claim_id), (''claim_version'', json_of_int (pc_current_version c)),
            (''kind'', JString ''profile_claim_confirmed''), (''scope'', JObject [(''kind'', JString ''principal'')])])]))))))))))"

definition confirm_profile_claim ::
  "MemoryEnv \<Rightarrow> Readings \<Rightarrow> string \<Rightarrow> Request \<Rightarrow> string \<Rightarrow> string \<Rightarrow> int \<Rightarrow> json mtx" where
  "confirm_profile_claim env rd principal_token_hash request commission_id claim_id expected_version m =
     and_then (authenticate_principal (me_sys env) request principal_token_hash) (\<lambda>_.
     and_then (mutation_key request) (\<lambda>key.
     and_then (request_hash (me_sys env) request) (\<lambda>hash.
     memory_transaction rd key hash (confirm_profile_claim_work env rd request commission_id claim_id expected_version) m)))"

definition suppress_profile_claim_work ::
  "MemoryEnv \<Rightarrow> Readings \<Rightarrow> Request \<Rightarrow> string \<Rightarrow> string \<Rightarrow> int \<Rightarrow> json mtx" where
  "suppress_profile_claim_work env rd request commission_id claim_id expected_version =
     m_bind (memory_author env request commission_id) (\<lambda>_.
     m_bind (m_query (\<lambda>m. commission_project_id commission_id (mem_db m))) (\<lambda>source_project_id.
     m_bind (m_query (find_claim claim_id)) (\<lambda>c.
     m_bind (m_lift (ensure_claim_scope (pc_scope_kind c) (pc_scope_id c) source_project_id)) (\<lambda>_.
     m_bind (m_lift (ensure_version expected_version c)) (\<lambda>_.
     if pc_lifecycle_state c = ''suppressed''
     then m_lift (invalid_request ''the Profile Claim is already suppressed'')
     else
     m_bind (m_lift (rd_unix_timestamp_millis rd 0)) (\<lambda>now.
     m_bind (m_update (set_lifecycle claim_id ''suppressed'' now)) (\<lambda>_.
     m_bind (m_execute (insert_lifecycle (lifecycle_row claim_id (Some (pc_lifecycle_state c)) ''suppressed''
         ''principal_suppression'' None now))) (\<lambda>_.
     m_bind (m_query (profile_claim claim_id)) (\<lambda>claim.
     m_return (JObject
       [(''claim'', claim),
        (''learning_receipt'', JObject
           [(''claim_id'', JString claim_id), (''claim_version'', json_of_int (pc_current_version c)),
            (''kind'', JString ''profile_claim_suppressed''), (''scope'', json_index claim ''scope'')])]))))))))))"

definition suppress_profile_claim ::
  "MemoryEnv \<Rightarrow> Readings \<Rightarrow> string \<Rightarrow> Request \<Rightarrow> string \<Rightarrow> string \<Rightarrow> int \<Rightarrow> json mtx" where
  "suppress_profile_claim env rd principal_token_hash request commission_id claim_id expected_version m =
     and_then (authenticate_principal (me_sys env) request principal_token_hash) (\<lambda>_.
     and_then (mutation_key request) (\<lambda>key.
     and_then (request_hash (me_sys env) request) (\<lambda>hash.
     memory_transaction rd key hash (suppress_profile_claim_work env rd request commission_id claim_id expected_version) m)))"

section \<open>Forgetting a Claim\<close>

text \<open>Forgetting and revising answer with a preview first; only a request that carries the digest of the preview
  changes anything, and only such a request is recorded under its key.\<close>

definition confirmed_transaction ::
  "MemoryEnv \<Rightarrow> Readings \<Rightarrow> Request \<Rightarrow> string option \<Rightarrow> json mtx \<Rightarrow> json mtx" where
  "confirmed_transaction env rd request confirmation_digest work m =
     (case confirmation_digest of
        None \<Rightarrow> work m
      | Some _ \<Rightarrow>
          and_then (mutation_key request) (\<lambda>key.
          and_then (request_hash (me_sys env) request) (\<lambda>hash.
          memory_transaction rd key hash work m)))"

definition preview_digest :: "MemoryEnv \<Rightarrow> json \<Rightarrow> string" where
  "preview_digest env payload = ''sha256:'' @ sys_sha256_hex (me_sys env) (sys_encode_json (me_sys env) payload)"

definition derived_candidates :: "string \<Rightarrow> Memory \<Rightarrow> string list" where
  "derived_candidates claim_id m =
     sort (remdups [pc_id c. c \<leftarrow> mem_claims m,
       pc_id c \<noteq> claim_id \<and> pc_scope_kind c = ''principal'' \<and> pc_lifecycle_state c = ''candidate''
       \<and> list_ex (\<lambda>(i, r). i = pc_id c \<and> (claim_id, r) \<in> set (mem_supports m)) (mem_supports m)])"

definition claim_observation_ids :: "string list \<Rightarrow> Memory \<Rightarrow> string list" where
  "claim_observation_ids claim_ids m = sort (remdups [r. (i, r) \<leftarrow> mem_supports m, i \<in> set claim_ids])"

definition dedicated_observation_ids :: "string list \<Rightarrow> string list \<Rightarrow> Memory \<Rightarrow> string list" where
  "dedicated_observation_ids observation_ids claims_to_delete m =
     filter (\<lambda>r. list_all (\<lambda>(i, r'). r' = r \<longrightarrow> i \<in> set claims_to_delete) (mem_supports m)) observation_ids"

definition related_claim_ids :: "string \<Rightarrow> string list \<Rightarrow> string list \<Rightarrow> Memory \<Rightarrow> string list" where
  "related_claim_ids statement_fingerprint observation_ids claims_to_delete m =
     sort (filter (\<lambda>i. i \<notin> set claims_to_delete) (remdups
       ([pc_id c. c \<leftarrow> mem_claims m, pc_statement_fingerprint c = statement_fingerprint]
        @ [i. (i, r) \<leftarrow> mem_supports m, r \<in> set observation_ids])))"

definition count_for_claims :: "('r \<Rightarrow> string) \<Rightarrow> 'r list \<Rightarrow> string list \<Rightarrow> json" where
  "count_for_claims f rows claim_ids =
     json_of_int (int (sum_list (map (\<lambda>i. length (filter (\<lambda>r. f r = i) rows)) claim_ids)))"

definition cascade_value :: "string list \<Rightarrow> string list \<Rightarrow> string list \<Rightarrow> Memory \<Rightarrow> json" where
  "cascade_value claims_to_delete observation_ids dedicated m =
     JObject
       [(''affected_attempt_records'',
           count_for_claims id (map apc_claim_id (db_claim_uses (mem_db m)) @ map fst (mem_imported_attempts m)) claims_to_delete),
        (''caches'', count_for_claims fst (mem_caches m) claims_to_delete),
        (''claim_versions'', count_for_claims pv_claim_id (mem_versions m) claims_to_delete),
        (''claims'', json_of_int (int (length claims_to_delete))),
        (''dedicated_excerpts'', json_of_int (int (length dedicated))),
        (''indexes'', count_for_claims fst (mem_indexes m) claims_to_delete),
        (''supporting_observations'', json_of_int (int (length observation_ids)))]"

text \<open>Deleting a Claim deletes its versions and, by \<^verbatim>\<open>ON DELETE\<close>, what refers to it.\<close>

definition delete_claim :: "string \<Rightarrow> Memory \<Rightarrow> Memory" where
  "delete_claim claim_id m =
     m\<lparr>mem_provenance := filter (\<lambda>r. \<not> (ip_entity_kind r = ''claim_version'' \<and> ip_entity_id r = claim_id)) (mem_provenance m),
       mem_db := (mem_db m)\<lparr>db_claim_uses := filter (\<lambda>u. apc_claim_id u \<noteq> claim_id) (db_claim_uses (mem_db m))\<rparr>,
       mem_claims := filter (\<lambda>c. pc_id c \<noteq> claim_id) (mem_claims m),
       mem_observations :=
         update_where (\<lambda>r. lo_claim_id r = Some claim_id) (\<lambda>r. r\<lparr>lo_claim_id := None\<rparr>) (mem_observations m),
       mem_lifecycle := filter (\<lambda>r. pl_claim_id r \<noteq> claim_id) (mem_lifecycle m),
       mem_supports := filter (\<lambda>(i, _). i \<noteq> claim_id) (mem_supports m),
       mem_indexes := filter (\<lambda>(i, _). i \<noteq> claim_id) (mem_indexes m),
       mem_caches := filter (\<lambda>(i, _). i \<noteq> claim_id) (mem_caches m),
       mem_imported_attempts := filter (\<lambda>(i, _). i \<noteq> claim_id) (mem_imported_attempts m),
       mem_versions := filter (\<lambda>v. pv_claim_id v \<noteq> claim_id) (mem_versions m)\<rparr>"

definition delete_observation :: "string \<Rightarrow> Memory \<Rightarrow> Memory result" where
  "delete_observation observation_id m =
     (if list_ex (\<lambda>(_, r). r = observation_id) (mem_supports m) then Ok m
      else if has_observation m observation_id
         \<and> list_ex (\<lambda>r. pl_observation_id r = Some observation_id) (mem_lifecycle m) then foreign_key_failed
      else Ok (m\<lparr>mem_provenance :=
                   filter (\<lambda>r. \<not> (ip_entity_kind r = ''observation'' \<and> ip_entity_id r = observation_id)) (mem_provenance m),
                 mem_observations := filter (\<lambda>r. lo_id r \<noteq> observation_id) (mem_observations m)\<rparr>))"

definition insert_receipt :: "DeletionReceiptRow \<Rightarrow> Memory \<Rightarrow> Memory result" where
  "insert_receipt r m =
     (if dr_scope_kind r \<notin> {''principal'', ''project''} then database ''CHECK constraint failed: memory_deletion_receipts''
      else if list_ex (\<lambda>q. dr_id q = dr_id r) (mem_receipts m)
      then database ''UNIQUE constraint failed: memory_deletion_receipts.id''
      else Ok (m\<lparr>mem_receipts := mem_receipts m @ [r]\<rparr>))"

definition forget_profile_claim_work ::
  "MemoryEnv \<Rightarrow> Readings \<Rightarrow> Request \<Rightarrow> string \<Rightarrow> string \<Rightarrow> int \<Rightarrow> string option \<Rightarrow> json mtx" where
  "forget_profile_claim_work env rd request commission_id claim_id expected_version confirmation_digest =
     m_bind (memory_author env request commission_id) (\<lambda>_.
     m_bind (m_query (\<lambda>m. commission_project_id commission_id (mem_db m))) (\<lambda>source_project_id.
     m_bind (m_query (find_claim claim_id)) (\<lambda>c.
     m_bind (m_lift (ensure_claim_scope (pc_scope_kind c) (pc_scope_id c) source_project_id)) (\<lambda>_.
     m_bind (m_lift (ensure_version expected_version c)) (\<lambda>_.
     m_bind (m_query (\<lambda>m. Ok (claim_id # (if pc_scope_kind c = ''project'' then derived_candidates claim_id m else []))))
       (\<lambda>claims_to_delete.
     m_bind (m_query (\<lambda>m. Ok (claim_observation_ids claims_to_delete m))) (\<lambda>observation_ids.
     m_bind (m_query (\<lambda>m. Ok (dedicated_observation_ids observation_ids claims_to_delete m))) (\<lambda>dedicated.
     m_bind (m_query (\<lambda>m. Ok (cascade_value claims_to_delete observation_ids dedicated m))) (\<lambda>cascade.
     m_bind (m_query (\<lambda>m. Ok (related_claim_ids (pc_statement_fingerprint c) observation_ids claims_to_delete m))) (\<lambda>remaining.
     let required = preview_digest env (JObject
           [(''cascade'', cascade), (''claim_id'', JString claim_id), (''commission_id'', JString commission_id),
            (''expected_version'', json_of_int expected_version), (''operation'', JString ''forget_profile_claim''),
            (''remaining_related_claim_ids'', JArray (map JString remaining))])
     in case confirmation_digest of
          None \<Rightarrow> m_return (JObject
            [(''applied'', JBool False), (''cascade'', cascade), (''claim_id'', JString claim_id),
             (''confirmation_digest'', JString required), (''expected_version'', json_of_int expected_version),
             (''remaining_related_claim_ids'', JArray (map JString remaining))])
        | Some digest \<Rightarrow>
            if digest \<noteq> required
            then m_lift (control_denied ''Profile Claim forgetting confirmation digest does not match the exact cascade'')
            else
            m_bind (m_for (\<lambda>i. m_update (delete_claim i)) claims_to_delete) (\<lambda>_.
            m_bind (m_for (\<lambda>r. m_execute (delete_observation r)) dedicated) (\<lambda>_.
            m_bind (m_lift (rd_unix_timestamp_millis rd 0)) (\<lambda>deleted_at.
            m_bind (m_execute (insert_receipt
                \<lparr>dr_id = rd_uuid rd 0, dr_claim_id = claim_id, dr_scope_kind = pc_scope_kind c, dr_scope_id = pc_scope_id c,
                 dr_cascade = cascade, dr_remaining = remaining, dr_deleted_at = deleted_at\<rparr>)) (\<lambda>_.
            m_return (JObject
              [(''applied'', JBool True),
               (''deletion_receipt'', JObject
                  [(''cascade'', cascade), (''claim_id'', JString claim_id), (''deleted_at'', json_of_int deleted_at),
                   (''id'', JString (rd_uuid rd 0)), (''remaining_related_claim_ids'', JArray (map JString remaining)),
                   (''scope'', profile_scope (pc_scope_kind c) (pc_scope_id c))])])))))))))))))))"

definition forget_profile_claim ::
  "MemoryEnv \<Rightarrow> Readings \<Rightarrow> string \<Rightarrow> Request \<Rightarrow> string \<Rightarrow> string \<Rightarrow> int \<Rightarrow> string option \<Rightarrow> json mtx" where
  "forget_profile_claim env rd principal_token_hash request commission_id claim_id expected_version confirmation_digest m =
     and_then (authenticate_principal (me_sys env) request principal_token_hash) (\<lambda>_.
     confirmed_transaction env rd request confirmation_digest
       (forget_profile_claim_work env rd request commission_id claim_id expected_version confirmation_digest) m)"

section \<open>Setting a Learning Boundary\<close>

definition matching_claim :: "string \<Rightarrow> string \<Rightarrow> string option \<Rightarrow> Memory \<Rightarrow> ClaimRow option" where
  "matching_claim statement_fingerprint scope_kind scope_id m =
     (case sort_key (\<lambda>c. if pc_scope_kind c = ''project'' then 0 else 1 :: nat) (sort_key pc_created_at (sort_key pc_id
         (filter (\<lambda>c. pc_statement_fingerprint c = statement_fingerprint
             \<and> (scope_kind = ''principal'' \<or> pc_scope_kind c = ''principal''
                \<or> pc_scope_kind c = ''project'' \<and> scope_id \<noteq> None \<and> pc_scope_id c = scope_id)) (mem_claims m)))) of
        [] \<Rightarrow> None | c # _ \<Rightarrow> Some c)"

definition create_learning_boundary_work ::
  "MemoryEnv \<Rightarrow> Readings \<Rightarrow> Request \<Rightarrow> string \<Rightarrow> ReusablePreference \<Rightarrow> json mtx" where
  "create_learning_boundary_work env rd request commission_id preference =
     m_bind (memory_author env request commission_id) (\<lambda>attachment_id.
     m_bind (m_query (\<lambda>m. commission_project_id commission_id (mem_db m))) (\<lambda>project_id.
     let (scope_kind, scope_id) = scope_of_project project_id;
         statement_fingerprint = preference_fingerprint env (rp_statement preference)
     in
     m_bind (m_query (\<lambda>m. case List.find (\<lambda>b. lb_scope_kind b = scope_kind \<and> lb_scope_id b = scope_id
                 \<and> lb_statement_fingerprint b = statement_fingerprint) (mem_boundaries m) of
            Some b \<Rightarrow> invalid_request (''Learning Boundary '' @ lb_id b @ '' already exists'') | None \<Rightarrow> Ok ())) (\<lambda>_.
     m_bind (m_query (\<lambda>m. case matching_claim statement_fingerprint scope_kind scope_id m of
            Some c \<Rightarrow> control_denied (''forget matching Profile Claim '' @ pc_id c @ '' before creating a Learning Boundary'')
          | None \<Rightarrow> Ok ())) (\<lambda>_.
     m_bind (m_lift (rd_unix_timestamp_millis rd 0)) (\<lambda>created_at.
     m_bind (m_execute (insert_boundary
         \<lparr>lb_id = rd_uuid rd 0, lb_scope_kind = scope_kind, lb_scope_id = scope_id,
          lb_statement_fingerprint = statement_fingerprint, lb_commission_id = commission_id,
          lb_attachment_id = attachment_id, lb_created_at = created_at\<rparr>)) (\<lambda>_.
     m_return (JObject
       [(''boundary'', JObject
           [(''created_at'', json_of_int created_at), (''id'', JString (rd_uuid rd 0)),
            (''scope'', profile_scope scope_kind scope_id),
            (''statement_fingerprint'', JString statement_fingerprint)])])))))))"

definition create_learning_boundary ::
  "MemoryEnv \<Rightarrow> Readings \<Rightarrow> string \<Rightarrow> Request \<Rightarrow> string \<Rightarrow> ReusablePreference \<Rightarrow> json mtx" where
  "create_learning_boundary env rd principal_token_hash request commission_id preference m =
     and_then (authenticate_principal (me_sys env) request principal_token_hash) (\<lambda>_.
     and_then (validate_reusable_preference env preference) (\<lambda>_.
     and_then (mutation_key request) (\<lambda>key.
     and_then (request_hash (me_sys env) request) (\<lambda>hash.
     memory_transaction rd key hash (create_learning_boundary_work env rd request commission_id preference) m))))"

section \<open>Revising a Claim\<close>

definition set_version :: "string \<Rightarrow> int \<Rightarrow> string \<Rightarrow> int \<Rightarrow> Memory \<Rightarrow> Memory" where
  "set_version claim_id next_version statement_fingerprint now m =
     m\<lparr>mem_claims :=
          update_where (\<lambda>c. pc_id c = claim_id)
            (\<lambda>c. c\<lparr>pc_current_version := next_version, pc_statement_fingerprint := statement_fingerprint,
                   pc_lifecycle_state := ''active'', pc_last_nonweak_support_at := Some now,
                   pc_lifecycle_changed_at := now, pc_updated_at := now\<rparr>) (mem_claims m)\<rparr>"

definition apply_revision ::
  "MemoryEnv \<Rightarrow> Readings \<Rightarrow> string \<Rightarrow> string \<Rightarrow> ClaimRow \<Rightarrow> ReusablePreference \<Rightarrow> int mtx" where
  "apply_revision env rd commission_id attachment_id c preference =
     (let claim_id = pc_id c;
          next_version = i64_saturating_add (pc_current_version c) 1;
          statement_fingerprint = preference_fingerprint env (rp_statement preference)
      in
      m_bind (m_lift (rd_unix_timestamp_millis rd 0)) (\<lambda>now.
      m_bind (m_query (\<lambda>m. ensure_not_blocked statement_fingerprint (pc_scope_kind c) (pc_scope_id c)
          (claim_observation_project_ids claim_id m) ''correction'' m)) (\<lambda>_.
      m_bind (make_room (pc_scope_kind c) (pc_scope_id c) (token_upper_bound (rp_statement preference)) (Some claim_id) now) (\<lambda>_.
      m_bind (m_execute (insert_claim_version
          \<lparr>pv_claim_id = claim_id, pv_version = next_version, pv_statement = rp_statement preference,
           pv_token_upper_bound = token_upper_bound (rp_statement preference), pv_commission_id = commission_id,
           pv_attachment_id = attachment_id, pv_created_at = now\<rparr>)) (\<lambda>_.
      m_bind (m_update (set_version claim_id next_version statement_fingerprint now)) (\<lambda>_.
      m_bind (m_execute (insert_lifecycle (lifecycle_row claim_id (Some (pc_lifecycle_state c)) ''active''
          ''principal_correction'' None now))) (\<lambda>_.
      m_bind (m_execute (refresh_profile_claim_derived_data claim_id statement_fingerprint now)) (\<lambda>_.
      m_return next_version))))))))"

definition revise_profile_claim_work ::
  "MemoryEnv \<Rightarrow> Readings \<Rightarrow> Request \<Rightarrow> string \<Rightarrow> string \<Rightarrow> int \<Rightarrow> string option \<Rightarrow> ReusablePreference \<Rightarrow> json mtx" where
  "revise_profile_claim_work env rd request commission_id claim_id expected_version confirmation_digest preference =
     m_bind (memory_author env request commission_id) (\<lambda>attachment_id.
     m_bind (m_query (\<lambda>m. commission_project_id commission_id (mem_db m))) (\<lambda>source_project_id.
     m_bind (m_query (find_claim claim_id)) (\<lambda>c.
     if pc_lifecycle_state c \<notin> {''active'', ''contradicted''}
     then m_lift (invalid_request ''only an active or contradicted Profile Claim can be revised'')
     else
     m_bind (m_lift (ensure_version expected_version c)) (\<lambda>_.
     if pc_scope_kind c = ''project'' \<and> pc_scope_id c \<noteq> source_project_id
     then m_lift (control_denied ''a project Profile Claim can only be revised from the same verified Project'')
     else
     m_bind (m_query (profile_claim claim_id)) (\<lambda>current_claim.
     let diff = JObject [(''statement'', JObject
           [(''after'', JString (rp_statement preference)), (''before'', json_index current_claim ''statement'')])];
         required = preview_digest env (JObject
           [(''claim_id'', JString claim_id), (''commission_id'', JString commission_id), (''diff'', diff),
            (''expected_version'', json_of_int expected_version), (''operation'', JString ''revise_profile_claim'')])
     in case confirmation_digest of
          None \<Rightarrow> m_return (JObject
            [(''applied'', JBool False), (''claim_id'', JString claim_id), (''confirmation_digest'', JString required),
             (''diff'', diff), (''expected_version'', json_of_int expected_version),
             (''scope'', json_index current_claim ''scope'')])
        | Some digest \<Rightarrow>
            if digest \<noteq> required
            then m_lift (control_denied ''Profile Claim revision confirmation digest does not match the exact diff'')
            else
            m_bind (apply_revision env rd commission_id attachment_id c preference) (\<lambda>next_version.
            m_bind (m_query (profile_claim claim_id)) (\<lambda>claim.
            m_return (JObject
              [(''applied'', JBool True), (''claim'', claim), (''confirmation_digest'', JString required), (''diff'', diff),
               (''learning_receipt'', JObject
                  [(''claim_id'', JString claim_id), (''claim_version'', json_of_int next_version),
                   (''kind'', JString ''profile_claim_changed''), (''previous_version'', json_of_int (pc_current_version c)),
                   (''scope'', json_index claim ''scope'')])]))))))))"

definition revise_profile_claim ::
  "MemoryEnv \<Rightarrow> Readings \<Rightarrow> string \<Rightarrow> Request \<Rightarrow> string \<Rightarrow> string \<Rightarrow> int \<Rightarrow> string option \<Rightarrow> ReusablePreference \<Rightarrow> json mtx" where
  "revise_profile_claim env rd principal_token_hash request commission_id claim_id expected_version confirmation_digest preference m =
     and_then (authenticate_principal (me_sys env) request principal_token_hash) (\<lambda>_.
     and_then (validate_reusable_preference env preference) (\<lambda>_.
     confirmed_transaction env rd request confirmation_digest
       (revise_profile_claim_work env rd request commission_id claim_id expected_version confirmation_digest preference) m))"

end
