(* ===== verification/Profile_Invariants.thy ===== *)
theory Profile_Invariants
  imports Profile_Memory
begin

text \<open>
  What every memory request keeps: primary keys and references of the Claim tables, the budget of every active
  Profile, and the Learning Boundaries. The requests are the steps of a machine that the other requests of
  the store may interleave with; they change no memory table.
\<close>

section \<open>The invariant\<close>

definition fits_limits :: "string \<Rightarrow> int \<times> int \<Rightarrow> bool" where
  "fits_limits k load \<longleftrightarrow> fst load \<le> fst (profile_limits k) \<and> snd load \<le> snd (profile_limits k)"

definition within_budget :: "Memory \<Rightarrow> bool" where
  "within_budget m \<longleftrightarrow> (\<forall>k i. fits_limits k (profile_load (in_profile k i {}) m))"

text \<open>No active Claim makes a statement that a boundary forbids in its scope.\<close>

definition unblocked :: "Memory \<Rightarrow> ClaimRow \<Rightarrow> bool" where
  "unblocked m c \<longleftrightarrow> (\<forall>b \<in> set (mem_boundaries m). lb_statement_fingerprint b = pc_statement_fingerprint c \<longrightarrow>
     \<not> blocks (pc_scope_kind c) (pc_scope_id c) [] b)"

definition boundaries_respected :: "Memory \<Rightarrow> bool" where
  "boundaries_respected m \<longleftrightarrow> (\<forall>c \<in> set (mem_claims m). pc_lifecycle_state c = ''active'' \<longrightarrow> unblocked m c)"

definition memory_wf :: "Memory \<Rightarrow> bool" where
  "memory_wf m \<longleftrightarrow> claims_wf m \<and> within_budget m \<and> boundaries_respected m"

lemma memory_wfD: "memory_wf m \<Longrightarrow> claims_wf m" "memory_wf m \<Longrightarrow> within_budget m" "memory_wf m \<Longrightarrow> boundaries_respected m"
  by (simp_all add: memory_wf_def)

section \<open>Changing one Claim\<close>

lemma sum_list_partition:
  fixes f :: "'a \<Rightarrow> int"
  shows "int (length (filter p xs)) = int (length (filter (\<lambda>x. p x \<and> \<not> q x) xs)) + int (length (filter (\<lambda>x. p x \<and> q x) xs))"
    and "sum_list (map f (filter p xs)) =
      sum_list (map f (filter (\<lambda>x. p x \<and> \<not> q x) xs)) + sum_list (map f (filter (\<lambda>x. p x \<and> q x) xs))"
  by (induction xs) auto

text \<open>Two states that agree on all Claims but one.\<close>

definition same_others :: "string \<Rightarrow> Memory \<Rightarrow> Memory \<Rightarrow> bool" where
  "same_others d m m' \<longleftrightarrow>
     filter (\<lambda>c. pc_id c \<noteq> d) (mem_claims m') = filter (\<lambda>c. pc_id c \<noteq> d) (mem_claims m)
     \<and> (\<forall>c \<in> set (mem_claims m). pc_id c \<noteq> d \<longrightarrow> tokens_of m' c = tokens_of m c)"

lemma load_others:
  assumes "claims_wf m" and "claims_wf m'" and "same_others d m m'" and "\<And>c. p c \<Longrightarrow> pc_id c \<noteq> d"
  shows "profile_load p m' = profile_load p m"
proof -
  have split: "filter p xs = filter p (filter (\<lambda>c. pc_id c \<noteq> d) xs)" for xs
    using assms(4) by (auto simp: filter_filter intro: filter_cong)
  have same: "filter p (mem_claims m') = filter p (mem_claims m)"
    using assms(3) by (simp add: split [of "mem_claims m'"] split [of "mem_claims m"] same_others_def)
  have "map (tokens_of m') (filter p (mem_claims m)) = map (tokens_of m) (filter p (mem_claims m))"
    using assms(3,4) by (auto simp: same_others_def)
  with same show ?thesis unfolding profile_load_sum [OF assms(1)] profile_load_sum [OF assms(2)] by metis
qed

lemma load_own:
  assumes "claims_wf m"
  shows "profile_load (\<lambda>c. p c \<and> pc_id c = d) m = (0, 0)
    \<or> (\<exists>c \<in> set (mem_claims m). p c \<and> pc_id c = d \<and> profile_load (\<lambda>c. p c \<and> pc_id c = d) m = (1, tokens_of m c))"
proof (cases "filter (\<lambda>c. p c \<and> pc_id c = d) (mem_claims m)")
  case (Cons c cs)
  then have c: "c \<in> set (mem_claims m)" "p c" "pc_id c = d" by (auto simp: filter_eq_Cons_iff)
  have "filter (\<lambda>c. p c \<and> pc_id c = d) (mem_claims m) = filter p (filter (\<lambda>y. pc_id y = pc_id c) (mem_claims m))"
    using c(3) by (simp add: conj_commute)
  also have "\<dots> = [c]"
    using filter_key [of pc_id "mem_claims m" c] assms c by (simp add: claims_wf_def)
  finally show ?thesis using c by (auto simp: profile_load_sum [OF assms])
qed (simp add: profile_load_sum [OF assms])

lemma load_with:
  assumes "claims_wf m" and "claims_wf m'" and "same_others d m m'"
  shows "profile_load (in_profile k i {}) m' =
    (fst (profile_load (in_profile k i {d}) m) + fst (profile_load (\<lambda>c. in_profile k i {} c \<and> pc_id c = d) m'),
     snd (profile_load (in_profile k i {d}) m) + snd (profile_load (\<lambda>c. in_profile k i {} c \<and> pc_id c = d) m'))"
proof -
  have "in_profile k i {d} = (\<lambda>c. in_profile k i {} c \<and> \<not> pc_id c = d)" by (auto simp: in_profile_def)
  then have "profile_load (\<lambda>c. in_profile k i {} c \<and> \<not> pc_id c = d) m' = profile_load (in_profile k i {d}) m"
    using load_others [OF assms, of "in_profile k i {d}"] by (auto simp: in_profile_def)
  then show ?thesis
    using sum_list_partition(1) [of "in_profile k i {}" "mem_claims m'" "\<lambda>c. pc_id c = d"]
      sum_list_partition(2) [of "tokens_of m'" "in_profile k i {}" "mem_claims m'" "\<lambda>c. pc_id c = d"]
    by (simp add: profile_load_sum [OF assms(2)] prod_eq_iff)
qed

text \<open>A Claim may become active when the others of its scope leave room for it and no boundary forbids it.\<close>

definition admissible :: "string \<Rightarrow> Memory \<Rightarrow> Memory \<Rightarrow> ClaimRow \<Rightarrow> bool" where
  "admissible d m m' c \<longleftrightarrow>
     fits_limits (pc_scope_kind c)
       (fst (profile_load (in_profile (pc_scope_kind c) (pc_scope_id c) {d}) m) + 1,
        snd (profile_load (in_profile (pc_scope_kind c) (pc_scope_id c) {d}) m) + tokens_of m' c)
     \<and> unblocked m c"

lemma admitted:
  assumes wf: "memory_wf m" and wf': "claims_wf m'" and others: "same_others d m m'"
    and bound: "mem_boundaries m' = mem_boundaries m"
    and own: "\<And>c. c \<in> set (mem_claims m') \<Longrightarrow> pc_id c = d \<Longrightarrow> pc_lifecycle_state c = ''active'' \<Longrightarrow> admissible d m m' c"
  shows "memory_wf m'"
proof -
  note cwf = memory_wfD(1) [OF wf]
  have "fits_limits k (profile_load (in_profile k i {}) m')" for k i
    using load_own [OF wf', of "in_profile k i {}" d]
  proof (elim disjE bexE)
    assume none: "profile_load (\<lambda>c. in_profile k i {} c \<and> pc_id c = d) m' = (0, 0)"
    have "fits_limits k (profile_load (in_profile k i {}) m)" using memory_wfD(2) [OF wf] by (simp add: within_budget_def)
    then show ?thesis
      using profile_load_mono [OF cwf, of "in_profile k i {d}" "in_profile k i {}"]
      unfolding load_with [OF cwf wf' others] none fits_limits_def by (auto simp: in_profile_def)
  next
    fix c assume "c \<in> set (mem_claims m')"
      and c: "in_profile k i {} c \<and> pc_id c = d \<and> profile_load (\<lambda>c. in_profile k i {} c \<and> pc_id c = d) m' = (1, tokens_of m' c)"
    then have "admissible d m m' c" by (intro own) (auto simp: in_profile_def)
    with c show ?thesis by (simp add: load_with [OF cwf wf' others] admissible_def in_profile_def)
  qed
  moreover have "unblocked m' c" if c: "c \<in> set (mem_claims m')" "pc_lifecycle_state c = ''active''" for c
  proof (cases "pc_id c = d")
    case True
    with own c show ?thesis by (auto simp: admissible_def unblocked_def bound)
  next
    case False
    with c have "c \<in> set (filter (\<lambda>c. pc_id c \<noteq> d) (mem_claims m'))" by simp
    with others have "c \<in> set (mem_claims m)" by (simp add: same_others_def)
    with c memory_wfD(3) [OF wf] show ?thesis by (simp add: boundaries_respected_def unblocked_def bound)
  qed
  ultimately show ?thesis using wf' by (simp add: memory_wf_def within_budget_def boundaries_respected_def)
qed

section \<open>Changing columns that do not count\<close>

lemma relabelled:
  assumes wf: "memory_wf m" and claims: "mem_claims m' = map f (mem_claims m)"
    and keep: "\<And>c. pc_id (f c) = pc_id c \<and> pc_current_version (f c) = pc_current_version c
      \<and> pc_scope_kind (f c) = pc_scope_kind c \<and> pc_scope_id (f c) = pc_scope_id c
      \<and> pc_statement_fingerprint (f c) = pc_statement_fingerprint c
      \<and> (pc_lifecycle_state (f c) = ''active'' \<longrightarrow> pc_lifecycle_state c = ''active'')"
    and rest: "mem_versions m' = mem_versions m" "mem_boundaries m' = mem_boundaries m"
  shows "memory_wf m'"
proof -
  note cwf = memory_wfD(1) [OF wf]
  have wf': "claims_wf m'" using cwf keep by (simp add: claims_wf_def claims rest comp_def)
  have tokens: "tokens_of m' (f c) = tokens_of m c" for c using keep by (simp add: tokens_of_def rest)
  have load: "profile_load p m' = profile_load (\<lambda>c. p (f c)) m" for p
    by (simp add: profile_load_sum [OF cwf] profile_load_sum [OF wf'] claims filter_map comp_def tokens)
  have "within_budget m'"
    unfolding within_budget_def load
  proof (intro allI)
    fix k i
    have "in_profile k i {} c" if "in_profile k i {} (f c)" for c using that keep [of c] by (simp add: in_profile_def)
    then show "fits_limits k (profile_load (\<lambda>c. in_profile k i {} (f c)) m)"
      using profile_load_mono [OF cwf, of "\<lambda>c. in_profile k i {} (f c)" "in_profile k i {}"] memory_wfD(2) [OF wf]
      by (meson fits_limits_def order_trans within_budget_def)
  qed
  moreover have "boundaries_respected m'"
    using memory_wfD(3) [OF wf] keep by (simp add: boundaries_respected_def unblocked_def claims rest)
  ultimately show ?thesis using wf' by (simp add: memory_wf_def)
qed

lemma unaffected:
  assumes "memory_wf m" and "mem_claims m' = mem_claims m" "mem_versions m' = mem_versions m" "mem_boundaries m' = mem_boundaries m"
  shows "memory_wf m'"
  by (rule relabelled [OF assms(1), of _ "\<lambda>c. c"]) (simp_all add: assms)

lemma update_relabels:
  assumes "memory_wf m" and "\<And>c. pc_id (f c) = pc_id c \<and> pc_current_version (f c) = pc_current_version c
      \<and> pc_scope_kind (f c) = pc_scope_kind c \<and> pc_scope_id (f c) = pc_scope_id c
      \<and> pc_statement_fingerprint (f c) = pc_statement_fingerprint c
      \<and> (pc_lifecycle_state (f c) = ''active'' \<longrightarrow> pc_lifecycle_state c = ''active'')"
  shows "memory_wf (m\<lparr>mem_claims := update_where p f (mem_claims m)\<rparr>)"
  by (rule relabelled [OF assms(1), of _ "\<lambda>c. if p c then f c else c"]) (use assms(2) in \<open>simp_all add: update_where_def\<close>)

section \<open>Transactions that keep an invariant\<close>

named_theorems mtx_simps

lemma m_simps [mtx_simps]:
  "m_return x m = Inr (v, n) \<longleftrightarrow> v = x \<and> n = m"
  "m_bind a f m = Inr (v, n) \<longleftrightarrow> (\<exists>x t. a m = Inr (x, t) \<and> f x t = Inr (v, n))"
  "m_query q m = Inr (v, n) \<longleftrightarrow> q m = Inr v \<and> n = m"
  "m_lift r m = Inr (v, n) \<longleftrightarrow> r = Inr v \<and> n = m"
  "m_execute u m = Inr (w, n) \<longleftrightarrow> u m = Inr n"
  "m_update g m = Inr (w, n) \<longleftrightarrow> n = g m"
  by (auto simp: m_return_def m_bind_def m_query_def m_lift_def m_execute_def m_update_def outcome_simps)

locale memory_invariant =
  fixes inv :: "Memory \<Rightarrow> bool"
  assumes inv_db: "inv m \<Longrightarrow> inv (m\<lparr>mem_db := db\<rparr>)"
begin

definition keeps_inv :: "'a mtx \<Rightarrow> bool" where
  "keeps_inv a \<longleftrightarrow> (\<forall>m v n. inv m \<longrightarrow> a m = Inr (v, n) \<longrightarrow> inv n)"

lemma keepsD: "keeps_inv a \<Longrightarrow> inv m \<Longrightarrow> a m = Inr (v, n) \<Longrightarrow> inv n"
  by (simp add: keeps_inv_def)

lemma keeps_leaf [simp, intro]: "keeps_inv (m_return x)" "keeps_inv (m_query q)" "keeps_inv (m_lift r)"
  by (simp_all add: keeps_inv_def mtx_simps)

lemma keeps_execute: "(\<And>m n. inv m \<Longrightarrow> u m = Inr n \<Longrightarrow> inv n) \<Longrightarrow> keeps_inv (m_execute u)"
  by (simp add: keeps_inv_def mtx_simps)

lemma keeps_update: "(\<And>m. inv m \<Longrightarrow> inv (g m)) \<Longrightarrow> keeps_inv (m_update g)"
  by (simp add: keeps_inv_def mtx_simps)

lemma keeps_bind [intro!]: "keeps_inv a \<Longrightarrow> (\<And>x. keeps_inv (f x)) \<Longrightarrow> keeps_inv (m_bind a f)"
  unfolding keeps_inv_def mtx_simps by blast

lemma keeps_for [intro!]: "(\<And>x. keeps_inv (f x)) \<Longrightarrow> keeps_inv (m_for f xs)"
  by (induction xs) auto

lemma keeps_if [intro!]: "(b \<Longrightarrow> keeps_inv a) \<Longrightarrow> (\<not> b \<Longrightarrow> keeps_inv c) \<Longrightarrow> keeps_inv (if b then a else c)"
  by simp

lemma keeps_case_option [intro!]:
  "keeps_inv a \<Longrightarrow> (\<And>x. keeps_inv (f x)) \<Longrightarrow> keeps_inv (case p of None \<Rightarrow> a | Some x \<Rightarrow> f x)"
  by (cases p) simp_all

lemma keeps_case_prod [intro!]: "(\<And>x y. keeps_inv (f x y)) \<Longrightarrow> keeps_inv (case p of (x, y) \<Rightarrow> f x y)"
  by (cases p) simp

lemma keeps_transaction [intro!]: "keeps_inv work \<Longrightarrow> keeps_inv (memory_transaction rd key hash work)"
  unfolding memory_transaction_def
  by (intro keeps_bind keeps_case_option keeps_leaf keeps_execute) (auto simp: outcome_simps intro: inv_db)

lemma keeps_guard: "(\<And>x. keeps_inv (f x)) \<Longrightarrow> keeps_inv (\<lambda>m. and_then r (\<lambda>x. f x m))"
  by (auto simp: keeps_inv_def outcome_simps)

lemma keeps_confirmed:
  assumes "keeps_inv work"
  shows "keeps_inv (confirmed_transaction env rd request digest work)"
proof (cases digest)
  case None
  with assms show ?thesis by (simp add: confirmed_transaction_def keeps_inv_def)
next
  case (Some d)
  with keeps_transaction [OF assms] show ?thesis unfolding keeps_inv_def confirmed_transaction_def
    by (auto simp: outcome_simps)
qed

end

text \<open>The invariant, and that the Claims with certain ids make a statement that is allowed in a Project.\<close>

definition learning_wf :: "string set \<Rightarrow> string \<Rightarrow> string \<Rightarrow> Memory \<Rightarrow> bool" where
  "learning_wf D project_id statement_fingerprint m \<longleftrightarrow>
     memory_wf m \<and> (\<forall>c \<in> set (mem_claims m). pc_id c \<in> D \<longrightarrow> project_claim project_id statement_fingerprint c \<and> unblocked m c)"

lemma learning_wf_empty: "learning_wf {} p fp m \<longleftrightarrow> memory_wf m"
  by (simp add: learning_wf_def)

definition keeps_columns :: "(ClaimRow \<Rightarrow> ClaimRow) \<Rightarrow> bool" where
  "keeps_columns f \<longleftrightarrow> (\<forall>c. pc_id (f c) = pc_id c \<and> pc_current_version (f c) = pc_current_version c
      \<and> pc_scope_kind (f c) = pc_scope_kind c \<and> pc_scope_id (f c) = pc_scope_id c
      \<and> pc_statement_fingerprint (f c) = pc_statement_fingerprint c
      \<and> (pc_lifecycle_state (f c) = ''active'' \<longrightarrow> pc_lifecycle_state c = ''active''))"

lemma learning_relabelled:
  assumes "learning_wf D p fp m" and "mem_claims m' = map f (mem_claims m)" and "keeps_columns f"
    and "mem_versions m' = mem_versions m" "mem_boundaries m' = mem_boundaries m"
  shows "learning_wf D p fp m'"
  using assms relabelled [of m m' f]
  by (auto simp: learning_wf_def keeps_columns_def project_claim_def unblocked_def)

lemma learning_updated:
  assumes "learning_wf D p fp m" and "keeps_columns f"
  shows "learning_wf D p fp (m\<lparr>mem_claims := update_where q f (mem_claims m)\<rparr>)"
  by (rule learning_relabelled [OF assms(1), of _ "\<lambda>c. if q c then f c else c"])
    (use assms(2) in \<open>simp_all add: update_where_def keeps_columns_def\<close>)

lemma learning_unaffected:
  assumes "learning_wf D p fp m" and "mem_claims m' = mem_claims m" "mem_versions m' = mem_versions m" "mem_boundaries m' = mem_boundaries m"
  shows "learning_wf D p fp m'"
  by (rule learning_relabelled [OF assms(1), of _ "\<lambda>c. c"]) (simp_all add: assms keeps_columns_def)

interpretation mem: memory_invariant "learning_wf D p fp" for D p fp
  by unfold_locales (rule learning_unaffected, simp_all)

section \<open>The statements\<close>

lemma mem_execute [intro!]:
  "mem.keeps_inv D p fp (m_execute (insert_lifecycle r))" "mem.keeps_inv D p fp (m_execute (insert_observation o'))"
  "mem.keeps_inv D p fp (m_execute (insert_support_or_ignore i j))"
  "mem.keeps_inv D p fp (m_execute (refresh_profile_claim_derived_data i fp' now))"
  "mem.keeps_inv D p fp (m_execute (delete_observation j))" "mem.keeps_inv D p fp (m_execute (insert_receipt d))"
  by (rule mem.keeps_execute, erule learning_unaffected,
      auto simp: insert_lifecycle_def insert_observation_def insert_support_or_ignore_def
        refresh_profile_claim_derived_data_def delete_observation_def insert_receipt_def split: if_splits)+

lemma mem_update [intro!]:
  "mem.keeps_inv D p fp (m_update (attribute_observations i q))" "mem.keeps_inv D p fp (m_update (refresh_retention c))"
  "mem.keeps_inv D p fp (m_update (touch_support i now))"
  "state \<noteq> ''active'' \<Longrightarrow> mem.keeps_inv D p fp (m_update (set_lifecycle i state now))"
  by (rule mem.keeps_update, erule learning_unaffected; simp add: attribute_observations_def refresh_retention_def)+
    (rule mem.keeps_update, simp add: touch_support_def set_lifecycle_def learning_updated keeps_columns_def)+

lemma mem_parts [intro!]:
  "mem.keeps_inv D p fp (memory_author env request c)" "mem.keeps_inv D p fp (link_observations i rows)"
  "mem.keeps_inv D p fp (link_claim i j outcome now)" "mem.keeps_inv D p fp (contradict_claim j now i)"
  "mem.keeps_inv D p fp (contradict o' fp' j now)" "mem.keeps_inv D p fp (optional_claim o')"
  by (auto simp: memory_author_def link_observations_def link_claim_def contradict_claim_def contradict_def optional_claim_def
      intro!: mem.keeps_for)

section \<open>Storing, activating and deleting a Claim\<close>

lemma not_blocked_Ok:
  assumes "ensure_not_blocked fp k i related what m = Inr ()" and "b \<in> set (mem_boundaries m)"
    and "lb_statement_fingerprint b = fp"
  shows "\<not> blocks k i [] b"
proof -
  have "\<not> blocks k i related b"
    using assms by (auto simp: ensure_not_blocked_def blocking_learning_boundary_id_def ordered_boundaries_def find_None_iff
        split: option.splits)
  then show ?thesis by (auto simp: blocks_def split: option.splits)
qed

lemma insert_claim_version_Ok:
  "insert_claim_version v m = Inr m' \<Longrightarrow> m' = m\<lparr>mem_versions := mem_versions m @ [v]\<rparr> \<and> 0 < pv_token_upper_bound v
     \<and> (\<forall>w \<in> set (mem_versions m). \<not> same_version (pv_claim_id v) (pv_version v) w)"
  by (auto simp: insert_claim_version_def list_ex_iff split: if_splits)

lemma insert_claim_Ok:
  "insert_claim c m = Inr m' \<Longrightarrow> m' = m\<lparr>mem_claims := mem_claims m @ [c]\<rparr> \<and> \<not> has_claim m (pc_id c)
     \<and> scope_check (pc_scope_kind c) (pc_scope_id c)"
  by (auto simp: insert_claim_def split: if_splits)

lemma insert_lifecycle_Ok: "insert_lifecycle r m = Inr m' \<Longrightarrow> m' = m\<lparr>mem_lifecycle := mem_lifecycle m @ [r]\<rparr>"
  by (auto simp: insert_lifecycle_def split: if_splits)

lemma new_version_wf:
  assumes "claims_wf m" and "0 < pv_token_upper_bound v"
    and "\<forall>w \<in> set (mem_versions m). \<not> same_version (pv_claim_id v) (pv_version v) w"
    and "mem_versions m' = mem_versions m @ [v]"
    and "distinct (map pc_id (mem_claims m'))"
    and "\<forall>c \<in> set (mem_claims m'). c \<in> set (mem_claims m)
      \<or> pc_id c = pv_claim_id v \<and> pc_current_version c = pv_version v \<and> pc_id c \<noteq> [] \<and> scope_check (pc_scope_kind c) (pc_scope_id c)"
  shows "claims_wf m'" and "\<And>c. c \<in> set (mem_claims m) \<Longrightarrow> tokens_of m' c = tokens_of m c"
    and "\<And>c. pc_id c = pv_claim_id v \<Longrightarrow> pc_current_version c = pv_version v \<Longrightarrow> tokens_of m' c = pv_token_upper_bound v"
proof -
  have "(pv_claim_id v, pv_version v) \<notin> (\<lambda>w. (pv_claim_id w, pv_version w)) ` set (mem_versions m)"
    using assms(3) by (auto simp: same_version_def)
  then show "claims_wf m'"
    using assms by (auto simp: claims_wf_def same_version_def)
  show "tokens_of m' c = tokens_of m c" if "c \<in> set (mem_claims m)" for c
    using version_rows [OF assms(1) that] by (auto simp: tokens_of_def assms(4) find_of_filter split: list.splits)
  show "tokens_of m' c = pv_token_upper_bound v" if "pc_id c = pv_claim_id v" "pc_current_version c = pv_version v" for c
  proof -
    have "filter (same_version (pv_claim_id v) (pv_version v)) (mem_versions m) = []"
      using assms(3) by (simp add: filter_empty_conv)
    then show ?thesis using that by (simp add: tokens_of_def assms(4) find_of_filter same_version_def)
  qed
qed

lemma stored_claim:
  assumes wf: "memory_wf m" and run: "store_claim c v reason obs now m = Inr (u, m')"
    and v: "pv_claim_id v = pc_id c" "pv_version v = pc_current_version c" "pc_id c \<noteq> []"
    and own: "pc_lifecycle_state c = ''active'' \<Longrightarrow> unblocked m c \<and> fits_limits (pc_scope_kind c)
      (fst (profile_load (in_profile (pc_scope_kind c) (pc_scope_id c) {pc_id c}) m) + 1,
       snd (profile_load (in_profile (pc_scope_kind c) (pc_scope_id c) {pc_id c}) m) + pv_token_upper_bound v)"
  shows "memory_wf m' \<and> mem_claims m' = mem_claims m @ [c] \<and> mem_boundaries m' = mem_boundaries m
    \<and> pc_id c \<notin> pc_id ` set (mem_claims m)"
proof -
  from run obtain m1 m2 where m1: "insert_claim_version v m = Inr m1" and m2: "insert_claim c m1 = Inr m2"
    and eq: "mem_claims m' = mem_claims m2 \<and> mem_versions m' = mem_versions m2 \<and> mem_boundaries m' = mem_boundaries m2"
    by (auto simp: store_claim_def mtx_simps refresh_profile_claim_derived_data_def dest!: insert_lifecycle_Ok split: if_splits)
  note vOk = insert_claim_version_Ok [OF m1] and cOk = insert_claim_Ok [OF m2]
  have claims: "mem_claims m' = mem_claims m @ [c]" and bound: "mem_boundaries m' = mem_boundaries m"
    and versions: "mem_versions m' = mem_versions m @ [v]" and fresh: "pc_id c \<notin> pc_id ` set (mem_claims m)"
    using vOk cOk eq by (auto simp: has_claim_def list_ex_iff)
  have dist: "distinct (map pc_id (mem_claims m'))" using memory_wfD(1) [OF wf] fresh by (simp add: claims claims_wf_def)
  note nv = new_version_wf [OF memory_wfD(1) [OF wf] _ _ versions dist]
  have wf': "claims_wf m'" by (rule nv(1)) (use vOk cOk v claims in auto)
  have others: "same_others (pc_id c) m m'"
    unfolding same_others_def using nv(2) vOk cOk v claims fresh by (auto simp: filter_empty_conv)
  have tokens: "tokens_of m' c = pv_token_upper_bound v" by (rule nv(3)) (use vOk cOk v claims in auto)
  have "admissible (pc_id c) m m' x"
    if "x \<in> set (mem_claims m')" "pc_id x = pc_id c" "pc_lifecycle_state x = ''active''" for x
  proof -
    have "x = c" using that fresh claims by (metis Un_iff empty_iff imageI insert_iff list.set(1,2) set_append)
    with that own show ?thesis by (simp add: admissible_def tokens)
  qed
  from admitted [OF wf wf' others bound this] show ?thesis using claims bound fresh by blast
qed

lemma updated_wf:
  assumes "claims_wf m" and claims: "mem_claims m' = update_where q f (mem_claims m)" and versions: "mem_versions m' = mem_versions m"
    and f: "\<And>c. pc_id (f c) = pc_id c \<and> pc_current_version (f c) = pc_current_version c
      \<and> pc_scope_kind (f c) = pc_scope_kind c \<and> pc_scope_id (f c) = pc_scope_id c"
  shows "claims_wf m'"
proof -
  have "map pc_id (mem_claims m') = map pc_id (mem_claims m)" using f by (simp add: claims update_where_def)
  then have "distinct (map pc_id (mem_claims m'))" using assms(1) by (simp add: claims_wf_def)
  moreover have "pc_id c \<noteq> [] \<and> scope_check (pc_scope_kind c) (pc_scope_id c)
      \<and> list_ex (same_version (pc_id c) (pc_current_version c)) (mem_versions m)" if "c \<in> set (mem_claims m')" for c
    using that assms(1) f by (auto simp: claims_wf_def claims update_where_def split: if_splits)
  ultimately show ?thesis using assms(1) by (simp add: claims_wf_def versions)
qed

lemma mem_updated_claim:
  assumes wf: "memory_wf m" and wf': "claims_wf m'" and claims: "mem_claims m' = update_where (\<lambda>c. pc_id c = d) f (mem_claims m)"
    and f: "\<And>c. pc_id (f c) = pc_id c" and tokens: "\<And>c. c \<in> set (mem_claims m) \<Longrightarrow> tokens_of m' c = tokens_of m c"
    and bound: "mem_boundaries m' = mem_boundaries m"
    and own: "\<And>c. c \<in> set (mem_claims m) \<Longrightarrow> pc_id c = d \<Longrightarrow> admissible d m m' (f c)"
  shows "memory_wf m'"
proof (rule admitted [OF wf wf' _ bound])
  have "filter (\<lambda>c. pc_id c \<noteq> d) (update_where (\<lambda>c. pc_id c = d) f xs) = filter (\<lambda>c. pc_id c \<noteq> d) xs" for xs
    using f by (induction xs) (auto simp: update_where_def)
  then show "same_others d m m'" using tokens by (simp add: same_others_def claims)
  show "admissible d m m' c" if "c \<in> set (mem_claims m')" "pc_id c = d" for c
    using that own f by (auto simp: claims update_where_def split: if_splits)
qed

lemma made_room:
  assumes wf: "memory_wf m" and run: "make_room k i t x now m = Inr (ds, m')" and d: "x = None \<or> x = Some d"
  shows "memory_wf m' \<and> mem_claims m' = map (demoted (set ds) now) (mem_claims m) \<and> mem_versions m' = mem_versions m
    \<and> mem_boundaries m' = mem_boundaries m
    \<and> fits_limits k (fst (profile_load (in_profile k i {d}) m') + 1, snd (profile_load (in_profile k i {d}) m') + t)"
proof -
  let ?X = "{case x of None \<Rightarrow> [] | Some y \<Rightarrow> y}"
  from demote_until_Ok [OF run [unfolded make_room_def make_room_in_active_profile_def]]
  have dem: "demotes (set ds) now m m'"
    and fits: "fits_limits k (fst (profile_load (in_profile k i ?X) m') + 1, snd (profile_load (in_profile k i ?X) m') + t)"
    by (auto simp: fits_limits_def split: prod.splits)
  have wf': "memory_wf m'"
    by (rule relabelled [OF wf, of _ "demoted (set ds) now"]) (use dem in \<open>auto simp: demotes_def demoted_state\<close>)
  have "in_profile k i ?X c" if "c \<in> set (mem_claims m')" "in_profile k i {d} c" for c
    using that d memory_wfD(1) [OF wf'] by (auto simp: in_profile_def claims_wf_def)
  then show ?thesis
    using profile_load_mono [OF memory_wfD(1) [OF wf'], of "in_profile k i {d}" "in_profile k i ?X"] fits wf' dem
    by (auto simp: fits_limits_def demotes_def)
qed

section \<open>The handlers\<close>

lemma activated:
  assumes wf: "memory_wf m" and run: "activate_claim d confidence reason obs now m = Inr (u, m')"
    and own: "\<And>c. c \<in> set (mem_claims m) \<Longrightarrow> pc_id c = d \<Longrightarrow> admissible d m m c"
  shows "memory_wf m'"
proof -
  let ?f = "\<lambda>c. c\<lparr>pc_lifecycle_state := ''active'', pc_confidence_basis_points := confidence,
      pc_lifecycle_changed_at := now, pc_updated_at := now\<rparr>"
  have claims: "mem_claims m' = update_where (\<lambda>c. pc_id c = d) ?f (mem_claims m)" and rest: "mem_versions m' = mem_versions m"
      "mem_boundaries m' = mem_boundaries m"
    using run by (auto simp: activate_claim_def mtx_simps dest!: insert_lifecycle_Ok)
  have wf': "claims_wf m'" by (rule updated_wf [OF memory_wfD(1) [OF wf] claims rest(1)]) simp
  show ?thesis
  proof (rule mem_updated_claim [OF wf wf' claims _ _ rest(2)])
    show "admissible d m m' (?f c)" if "c \<in> set (mem_claims m)" "pc_id c = d" for c
      using own [OF that] by (simp add: admissible_def unblocked_def tokens_of_def rest)
  qed (simp_all add: tokens_of_def rest)
qed

lemma created_claim:
  assumes wf: "memory_wf m" and uuid: "rd_uuid rd 0 \<noteq> []"
    and run: "create_profile_claim_work env rd request c preference m = Inr (u, m')"
  shows "memory_wf m'"
proof -
  from run obtain a k i now ds m1 w where
    free: "ensure_not_blocked (preference_fingerprint env (rp_statement preference)) k i [] ''creation'' m = Inr ()"
    and room: "make_room k i (token_upper_bound (rp_statement preference)) None now m = Inr (ds, m1)"
    and store: "store_claim (new_claim (rd_uuid rd 0) ''hard'' (k, i) (''explicit'', 10000) ''active''
        (preference_fingerprint env (rp_statement preference)) now)
      (first_version (rd_uuid rd 0) (rp_statement preference) c a now) ''explicit_principal_statement'' None now m1 = Inr (w, m')"
    by (auto simp: create_profile_claim_work_def mtx_simps memory_author_def Let_def case_prod_unfold)
  note mr = made_room [OF wf room, of "rd_uuid rd 0"]
  show ?thesis
    using stored_claim [OF _ store] mr uuid not_blocked_Ok [OF free]
    by (auto simp: new_claim_def first_version_def unblocked_def)
qed

lemma unblocked_demoted:
  "mem_boundaries m' = mem_boundaries m \<Longrightarrow> unblocked m' (demoted ds now c) = unblocked m c"
  by (simp add: unblocked_def)

lemma admissible_after_room:
  assumes wf: "memory_wf m" and room: "make_room k i t x now m = Inr (ds, m1)" and d: "x = None \<or> x = Some d"
    and c: "c \<in> set (mem_claims m)" "pc_id c = d" "pc_scope_kind c = k" "pc_scope_id c = i" "tokens_of m c = t" "unblocked m c"
    and c': "c' \<in> set (mem_claims m1)" "pc_id c' = d"
  shows "admissible d m1 m1 c'"
proof -
  note mr = made_room [OF wf room d]
  then obtain c0 where "c0 \<in> set (mem_claims m)" "c' = demoted (set ds) now c0" using c' by auto
  moreover have "c0 = c" if "c0 \<in> set (mem_claims m)" "pc_id c0 = d"
    using that c memory_wfD(1) [OF wf] by (auto simp: claims_wf_def distinct_map inj_on_def)
  ultimately have "c' = demoted (set ds) now c" using c' by auto
  then show ?thesis using mr c by (simp add: admissible_def unblocked_def tokens_of_def)
qed

lemma tokens_of_version:
  assumes "claims_wf m" and "c \<in> set (mem_claims m)" and "query_row (same_version (pc_id c) (pc_current_version c)) (mem_versions m) = Inr v"
  shows "tokens_of m c = pv_token_upper_bound v"
  using assms version_rows [of m c] by (auto simp: query_row_def tokens_of_def split: option.splits)

lemma tokens_of_first:
  assumes wf: "claims_wf m" and "first_row (with_version (\<lambda>c. pc_id c = d) m) = Inr (c, v)"
  shows "c \<in> set (mem_claims m) \<and> pc_id c = d \<and> tokens_of m c = pv_token_upper_bound v"
proof -
  have "(c, v) \<in> set (with_version (\<lambda>c. pc_id c = d) m)"
    using assms(2) by (auto simp: first_row_def split: list.splits)
  then have c: "c \<in> set (mem_claims m)" "pc_id c = d" and v: "v \<in> set (filter (same_version (pc_id c) (pc_current_version c)) (mem_versions m))"
    by (auto simp: with_version_def split: if_splits)
  obtain w where w: "filter (same_version (pc_id c) (pc_current_version c)) (mem_versions m) = [w]"
    "tokens_of m c = pv_token_upper_bound w" using version_rows [OF wf c(1)] by blast
  then have "v = w" using v by simp
  with c w show ?thesis by simp
qed

lemma confirmed_claim:
  assumes wf: "memory_wf m" and run: "confirm_profile_claim_work env rd request c d n m = Inr (u, m')"
  shows "memory_wf m'"
proof -
  from run obtain cl now v ds m1 w where found: "find_claim d m = Inr cl" and
    kind: "pc_scope_kind cl = ''principal''" and
    free: "ensure_not_blocked (pc_statement_fingerprint cl) (pc_scope_kind cl) None (claim_observation_project_ids d m) ''reactivation'' m = Inr ()"
    and v: "query_row (same_version d (pc_current_version cl)) (mem_versions m) = Inr v"
    and room: "make_room ''principal'' None (pv_token_upper_bound v) None now m = Inr (ds, m1)"
    and act: "activate_claim d 9000 ''explicit_principal_confirmation'' None now m1 = Inr (w, m')"
    by (auto simp: confirm_profile_claim_work_def mtx_simps memory_author_def split: if_splits)
  have cl: "cl \<in> set (mem_claims m)" "pc_id cl = d"
    using found by (auto simp: find_claim_def find_Some_iff split: option.splits)
  then have "scope_check (pc_scope_kind cl) (pc_scope_id cl)" using memory_wfD(1) [OF wf] by (simp add: claims_wf_def)
  then have "pc_scope_id cl = None" using kind by (simp add: scope_check_def)
  moreover have "tokens_of m cl = pv_token_upper_bound v"
    using tokens_of_version [OF memory_wfD(1) [OF wf] cl(1)] v cl(2) by simp
  moreover have "unblocked m cl" using not_blocked_Ok [OF free] kind \<open>pc_scope_id cl = None\<close> by (simp add: unblocked_def)
  ultimately show ?thesis
    using activated [OF _ act] made_room [OF wf room, of d] admissible_after_room [OF wf room, of d, OF _ cl kind] by blast
qed

lemma promoted_claim:
  assumes wf: "learning_wf {d} p fp m" and run: "promote_claim d p obs now m = Inr (b, m')"
  shows "memory_wf m'"
proof (cases "m' = m")
  case False
  with run obtain cl v ds m1 w where first: "first_row (with_version (\<lambda>c. pc_id c = d) m) = Inr (cl, v)"
    and room: "make_room ''project'' (Some p) (pv_token_upper_bound v) None now m = Inr (ds, m1)"
    and act: "activate_claim d 7500 ''independent_commission_support'' (Some obs) now m1 = Inr (w, m')"
    by (auto simp: promote_claim_def mtx_simps case_prod_unfold split: if_splits)
  from wf have mwf: "memory_wf m" by (simp add: learning_wf_def)
  have cl: "cl \<in> set (mem_claims m)" "pc_id cl = d" and t: "tokens_of m cl = pv_token_upper_bound v"
    using tokens_of_first [OF memory_wfD(1) [OF mwf] first] by auto
  with wf have "pc_scope_kind cl = ''project''" "pc_scope_id cl = Some p" "unblocked m cl"
    by (auto simp: learning_wf_def project_claim_def)
  then show ?thesis
    using activated [OF _ act] made_room [OF mwf room, of d] admissible_after_room [OF mwf room, of d, OF _ cl] t by blast
qed (use wf in \<open>simp add: learning_wf_def\<close>)

lemma mem_store_candidate:
  assumes "pv_claim_id v = pc_id c" "pv_version v = pc_current_version c" "pc_id c \<noteq> []" "pc_lifecycle_state c \<noteq> ''active''"
  shows "mem.keeps_inv {} p fp (store_claim c v reason obs now)"
  unfolding mem.keeps_inv_def learning_wf_empty using stored_claim [OF _ _ assms(1-3)] assms(4) by blast

lemma mem_principal_candidate:
  assumes "rd_uuid rd 2 \<noteq> []"
  shows "mem.keeps_inv {} p fp (principal_candidate rd c a statement fp' obs outcome now)"
  unfolding principal_candidate_def infer_principal_claim_def Let_def
  by (intro mem.keeps_bind mem.keeps_case_option mem.keeps_if mem.keeps_leaf mem_execute mem_update mem_parts mem_store_candidate)
    (use assms in \<open>simp_all add: new_claim_def first_version_def\<close>)

lemma observation_allowed:
  assumes "observation_boundary fp p m = None" and "project_claim p fp c"
  shows "unblocked m c"
  using assms
  by (auto simp: observation_boundary_def ordered_boundaries_def find_None_iff unblocked_def project_claim_def blocks_def
      split: option.splits)

lemma inferred_project_claim:
  assumes wf: "memory_wf m" and uuid: "rd_uuid rd 1 \<noteq> []" and free: "observation_boundary fp p m = None"
    and run: "infer_project_claim rd c a p statement fp obs now m = Inr (u, m')"
  shows "learning_wf {rd_uuid rd 1} p fp m'"
proof -
  let ?c = "new_claim (rd_uuid rd 1) ''soft'' (''project'', Some p) (''inferred'', 5000) ''candidate'' fp now"
  from run obtain m1 w where store: "store_claim ?c (first_version (rd_uuid rd 1) statement c a now)
      ''eligible_inferred_observation'' (Some obs) now m = Inr (w, m1)"
    and rest: "m_bind (link_observations (rd_uuid rd 1) (evidence_rows (\<lambda>r. lo_project_id r = p) fp {''strong'', ''weak''} m1)) (\<lambda>_.
      m_update (attribute_observations (rd_uuid rd 1) (\<lambda>r. lo_project_id r = p \<and> lo_statement_fingerprint r = fp
             \<and> lo_claim_id r = None \<and> lo_strength r \<in> {''strong'', ''weak''}))) m1 = Inr (u, m')"
    by (auto simp: infer_project_claim_def Let_def mtx_simps)
  have stored: "memory_wf m1 \<and> mem_claims m1 = mem_claims m @ [?c] \<and> mem_boundaries m1 = mem_boundaries m
      \<and> pc_id ?c \<notin> pc_id ` set (mem_claims m)"
    by (rule stored_claim [OF wf store]) (use uuid in \<open>simp_all add: new_claim_def first_version_def\<close>)
  have "project_claim p fp ?c" by (simp add: project_claim_def new_claim_def)
  moreover have "pc_id ?c = rd_uuid rd 1" by (simp add: new_claim_def)
  moreover have "unblocked m1 ?c"
    using observation_allowed [OF free \<open>project_claim p fp ?c\<close>] stored by (simp add: unblocked_def)
  ultimately have "learning_wf {rd_uuid rd 1} p fp m1"
    using stored by (auto simp: learning_wf_def image_iff)
  then show ?thesis using mem.keepsD [OF mem.keeps_bind [OF mem_parts(2) mem_update(1)] _ rest] by blast
qed

lemma oldest_claim_Some: "oldest_claim q m = Some c \<Longrightarrow> c \<in> set (mem_claims m) \<and> q c"
proof -
  assume "oldest_claim q m = Some c"
  then obtain cs where "sort_key pc_created_at (sort_key pc_id (filter q (mem_claims m))) = c # cs"
    by (auto simp: oldest_claim_def split: list.splits)
  then have "c \<in> set (sort_key pc_created_at (sort_key pc_id (filter q (mem_claims m))))" by simp
  then show ?thesis by simp
qed

lemma found_project_claim:
  assumes "memory_wf m" and "observation_boundary fp p m = None" and "oldest_claim (project_claim p fp) m = Some c"
  shows "learning_wf {pc_id c} p fp m"
proof -
  have c: "c \<in> set (mem_claims m)" "project_claim p fp c" using oldest_claim_Some [OF assms(3)] by auto
  have "x = c" if "x \<in> set (mem_claims m)" "pc_id x = pc_id c" for x
    using that c memory_wfD(1) [OF assms(1)] by (auto simp: claims_wf_def distinct_map inj_on_def)
  then show ?thesis using assms(1) c observation_allowed [OF assms(2)] by (auto simp: learning_wf_def)
qed

text \<open>Where a step relies on an earlier answer: what holds after a transaction, given what holds before.\<close>

definition ensures :: "(Memory \<Rightarrow> bool) \<Rightarrow> 'a mtx \<Rightarrow> ('a \<Rightarrow> Memory \<Rightarrow> bool) \<Rightarrow> bool" where
  "ensures P a Q \<longleftrightarrow> (\<forall>m v n. P m \<longrightarrow> a m = Inr (v, n) \<longrightarrow> Q v n)"

lemma ensures_bind: "ensures P a Q \<Longrightarrow> (\<And>x. ensures (Q x) (f x) R) \<Longrightarrow> ensures P (m_bind a f) R"
  unfolding ensures_def mtx_simps by blast

lemma ensures_keeps: "mem.keeps_inv D p fp a \<Longrightarrow> ensures (learning_wf D p fp) a (\<lambda>_. learning_wf D p fp)"
  by (simp add: ensures_def mem.keeps_inv_def)

lemma ensures_kept: "mem.keeps_inv {} p fp a \<Longrightarrow> ensures memory_wf a (\<lambda>_. memory_wf)"
  by (simp add: ensures_def mem.keeps_inv_def learning_wf_empty)

lemma ensures_query: "ensures P (m_query (\<lambda>m. Ok (g m))) (\<lambda>v m. P m \<and> v = g m)"
  by (simp add: ensures_def mtx_simps)

lemma ensures_leaf: "ensures P (m_query q) (\<lambda>_. P)" "ensures P (m_lift r) (\<lambda>_. P)" "ensures P (m_return x) (\<lambda>_. P)"
  by (simp_all add: ensures_def mtx_simps)

lemma ensures_weaken: "ensures P' a Q' \<Longrightarrow> (\<And>m. P m \<Longrightarrow> P' m) \<Longrightarrow> (\<And>v m. Q' v m \<Longrightarrow> Q v m) \<Longrightarrow> ensures P a Q"
  unfolding ensures_def by blast

lemma ensures_cases:
  "(b \<Longrightarrow> ensures P a Q) \<Longrightarrow> (\<not> b \<Longrightarrow> ensures P c Q) \<Longrightarrow> ensures P (if b then a else c) Q"
  "(o' = None \<Longrightarrow> ensures P a Q) \<Longrightarrow> (\<And>x. o' = Some x \<Longrightarrow> ensures P (f x) Q) \<Longrightarrow>
     ensures P (case o' of None \<Rightarrow> a | Some x \<Rightarrow> f x) Q"
  by (auto split: option.split)

definition allowed :: "string \<Rightarrow> string \<Rightarrow> Memory \<Rightarrow> bool" where
  "allowed fp p m \<longleftrightarrow> memory_wf m \<and> observation_boundary fp p m = None"

abbreviation attributed :: "string option \<Rightarrow> string set" where
  "attributed claim_id \<equiv> case claim_id of None \<Rightarrow> {} | Some i \<Rightarrow> {i}"

lemma ensures_observation: "ensures (allowed fp p) (m_execute (insert_observation r)) (\<lambda>_. allowed fp p)"
  unfolding ensures_def mtx_simps
proof (intro allI impI)
  fix m :: Memory and u :: unit and n assume wf: "allowed fp p m" and run: "insert_observation r m = Inr n"
  from run have same: "mem_claims n = mem_claims m" "mem_versions n = mem_versions m" "mem_boundaries n = mem_boundaries m"
    by (auto simp: insert_observation_def split: if_splits)
  with wf unaffected [OF _ same] show "allowed fp p n"
    by (simp add: allowed_def observation_boundary_def ordered_boundaries_def)
qed

lemma ensures_attributed:
  assumes "\<And>n. rd_uuid rd n \<noteq> []"
  shows "ensures (\<lambda>m. allowed fp p m \<and> found = map_option pc_id (oldest_claim (project_claim p fp) m))
    (if found = None \<and> outcome \<in> {PrincipalEdit, ExplainedRejection}
     then m_bind (infer_project_claim rd c a p statement fp obs now) (\<lambda>_. m_return (Some (rd_uuid rd 1)))
     else m_return found) (\<lambda>claim_id. learning_wf (attributed claim_id) p fp)"
  unfolding ensures_def allowed_def
  using inferred_project_claim [OF _ assms] found_project_claim
  by (auto simp: mtx_simps learning_wf_empty split: option.splits)

lemma ensures_promoted:
  "ensures (learning_wf (attributed claim_id) p fp)
     (case claim_id of None \<Rightarrow> m_return False | Some i \<Rightarrow> if b then promote_claim i p obs now else m_return False) (\<lambda>_. memory_wf)"
  using promoted_claim by (auto simp: ensures_def mtx_simps learning_wf_def split: option.splits)

lemma learned_in_project:
  assumes "\<And>n. rd_uuid rd n \<noteq> []"
  shows "ensures (allowed fp p) (learn_in_project rd c a p statement fp outcome explanation now) (\<lambda>_. memory_wf)"
  unfolding learn_in_project_def Let_def
  apply (rule ensures_bind [OF ensures_observation])
  apply (rule ensures_bind [OF ensures_query])
  apply (rule ensures_bind [OF ensures_attributed [OF assms]])
  apply (rule ensures_bind, rule ensures_keeps, rule mem.keeps_case_option, rule mem.keeps_leaf, rule mem_parts)
  apply (rule ensures_bind, rule ensures_keeps, rule mem.keeps_if, rule mem_parts, rule mem.keeps_leaf)
  apply (rule ensures_bind, rule ensures_keeps, rule mem.keeps_leaf)
  apply (rule ensures_bind, rule ensures_promoted)
  apply (simp add: ensures_def mtx_simps)
  done

lemma learned:
  assumes uuid: "\<And>n. rd_uuid rd n \<noteq> []"
  shows "ensures (allowed fp p) (learn rd c a p statement fp outcome explanation now) (\<lambda>_. memory_wf)"
  unfolding learn_def
  by (rule ensures_bind [OF learned_in_project [OF uuid]], rule ensures_kept [of p fp])
    (intro mem.keeps_case_prod mem.keeps_bind mem_principal_candidate uuid mem_update mem_parts mem.keeps_leaf)

lemma ensures_guard: "(\<And>x. r = Inr x \<Longrightarrow> ensures P (f x) Q) \<Longrightarrow> ensures P (\<lambda>m. and_then r (\<lambda>x. f x m)) Q"
  by (auto simp: ensures_def outcome_simps)

lemma observed:
  assumes uuid: "\<And>n. rd_uuid rd n \<noteq> []"
  shows "ensures memory_wf (observe_profile_preference_work env rd request c preference outcome explanation) (\<lambda>_. memory_wf)"
  unfolding observe_profile_preference_work_def Let_def
  apply (rule ensures_bind [OF ensures_kept [OF mem_parts(1) [of "{}" "[]" "[]"]]])
  apply (rule ensures_bind [OF ensures_leaf(1)], rule ensures_cases, rule ensures_leaf, rule ensures_cases, rule ensures_leaf)
  apply (rule ensures_bind [OF ensures_query], rule ensures_cases)
   apply (rule ensures_bind [OF ensures_leaf(1)], rule ensures_bind [OF ensures_leaf(2)])
   apply (rule ensures_weaken [OF learned [OF uuid]], simp_all add: allowed_def)
  apply (rule ensures_weaken [OF ensures_leaf(3)], simp_all)
  done

lemma suppressed: "ensures memory_wf (suppress_profile_claim_work env rd request c d n) (\<lambda>_. memory_wf)"
  unfolding suppress_profile_claim_work_def
  by (rule ensures_kept [of "[]" "[]"])
    (intro mem.keeps_bind mem.keeps_if mem_parts mem.keeps_leaf mem_update mem_execute; simp)

lemma deleted_claim:
  assumes wf: "memory_wf m"
  shows "memory_wf (delete_claim d m)"
proof (rule admitted [OF wf, of _ d])
  let ?m = "delete_claim d m"
  have claims: "mem_claims ?m = filter (\<lambda>c. pc_id c \<noteq> d) (mem_claims m)"
    and versions: "mem_versions ?m = filter (\<lambda>v. pv_claim_id v \<noteq> d) (mem_versions m)" by (simp_all add: delete_claim_def)
  have keep: "filter (same_version (pc_id c) (pc_current_version c)) (mem_versions ?m)
      = filter (same_version (pc_id c) (pc_current_version c)) (mem_versions m)" if "pc_id c \<noteq> d" for c
    using that by (auto simp: versions same_version_def intro!: filter_cong)
  show "same_others d m ?m" by (simp add: same_others_def claims tokens_of_def find_of_filter keep)
  have "list_ex (same_version (pc_id c) (pc_current_version c)) (mem_versions ?m)"
    if "c \<in> set (mem_claims m)" "pc_id c \<noteq> d" for c
    using that memory_wfD(1) [OF wf] by (fastforce simp: claims_wf_def list_ex_iff versions same_version_def)
  then show "claims_wf ?m"
    using memory_wfD(1) [OF wf] by (auto simp: claims_wf_def claims versions distinct_map inj_on_def)
  show "mem_boundaries ?m = mem_boundaries m" by (simp add: delete_claim_def)
qed (simp_all add: delete_claim_def)

lemma mem_delete: "mem.keeps_inv {} p fp (m_update (delete_claim d))"
  by (rule mem.keeps_update) (simp add: learning_wf_empty deleted_claim)

lemma forgotten: "ensures memory_wf (forget_profile_claim_work env rd request c d n digest) (\<lambda>_. memory_wf)"
  unfolding forget_profile_claim_work_def Let_def
  by (rule ensures_kept [of "[]" "[]"])
    (intro mem.keeps_bind mem.keeps_if mem.keeps_case_option mem.keeps_for mem_parts mem.keeps_leaf mem_delete mem_execute)

lemma case_option_Ok: "(case x of None \<Rightarrow> Inr () | Some y \<Rightarrow> Inl (f y)) = Inr u \<longleftrightarrow> x = None"
  by (cases x) simp_all

lemma scope_of_project_check: "scope_check (fst (scope_of_project p)) (snd (scope_of_project p))"
  by (simp add: scope_of_project_def scope_check_def split: option.split)

lemma bounded:
  assumes wf: "memory_wf m" and run: "create_learning_boundary_work env rd request c preference m = Inr (u, m')"
  shows "memory_wf m'"
proof -
  let ?fp = "preference_fingerprint env (rp_statement preference)"
  from run obtain p a now where "matching_claim ?fp (fst (scope_of_project p)) (snd (scope_of_project p)) m = None"
    and "insert_boundary \<lparr>lb_id = rd_uuid rd 0, lb_scope_kind = fst (scope_of_project p), lb_scope_id = snd (scope_of_project p),
      lb_statement_fingerprint = ?fp, lb_commission_id = c, lb_attachment_id = a, lb_created_at = now\<rparr> m = Inr m'"
    by (auto simp: create_learning_boundary_work_def memory_author_def mtx_simps Let_def case_prod_unfold case_option_Ok)
  then obtain k i b where scope: "scope_check k i"
    and free: "matching_claim ?fp k i m = None" and ins: "insert_boundary b m = Inr m'"
    and b: "lb_scope_kind b = k" "lb_scope_id b = i" "lb_statement_fingerprint b = ?fp"
    using scope_of_project_check [of p] by fastforce
  have m': "m' = m\<lparr>mem_boundaries := mem_boundaries m @ [b]\<rparr>" using ins by (auto simp: insert_boundary_def split: if_splits)
  have none: "filter (\<lambda>c. pc_statement_fingerprint c = ?fp \<and> (k = ''principal'' \<or> pc_scope_kind c = ''principal''
                \<or> pc_scope_kind c = ''project'' \<and> i \<noteq> None \<and> pc_scope_id c = i)) (mem_claims m) = []"
    using free arg_cong [of _ "[]" set] unfolding matching_claim_def
    by (auto split: list.splits simp: set_empty [symmetric] simp del: set_empty)
  have "boundaries_respected m'"
    unfolding boundaries_respected_def unblocked_def
  proof (intro ballI impI)
    fix c b' assume c: "c \<in> set (mem_claims m')" "pc_lifecycle_state c = ''active''"
      and b': "b' \<in> set (mem_boundaries m')" "lb_statement_fingerprint b' = pc_statement_fingerprint c"
    show "\<not> blocks (pc_scope_kind c) (pc_scope_id c) [] b'"
    proof (cases "b' \<in> set (mem_boundaries m)")
      case True
      with c b' memory_wfD(3) [OF wf] show ?thesis by (simp add: m' boundaries_respected_def unblocked_def)
    next
      case False
      with b' have "b' = b" by (simp add: m')
      with none c b b'(2) scope show ?thesis by (auto simp: m' filter_empty_conv blocks_def scope_check_def split: option.splits)
    qed
  qed
  moreover have "profile_load q m' = profile_load q m" for q
    by (simp add: m' profile_load_def with_version_def cong: if_cong)
  then have "claims_wf m'" "within_budget m'"
    using wf by (simp_all add: memory_wf_def m' claims_wf_def within_budget_def)
  ultimately show ?thesis by (simp add: memory_wf_def)
qed

lemma revised:
  assumes wf: "memory_wf m" and cl: "find_claim d m = Inr cl"
    and run: "apply_revision env rd c a cl preference m = Inr (u, m')"
  shows "memory_wf m'"
proof -
  let ?fp = "preference_fingerprint env (rp_statement preference)" and ?t = "token_upper_bound (rp_statement preference)"
  let ?n = "i64_saturating_add (pc_current_version cl) 1"
  have c: "cl \<in> set (mem_claims m)" "pc_id cl = d"
    using cl by (auto simp: find_claim_def find_Some_iff split: option.splits)
  from run c obtain now ds m1 m2 v where
    free: "ensure_not_blocked ?fp (pc_scope_kind cl) (pc_scope_id cl) (claim_observation_project_ids d m) ''correction'' m = Inr ()"
    and room: "make_room (pc_scope_kind cl) (pc_scope_id cl) ?t (Some d) now m = Inr (ds, m1)"
    and ins: "insert_claim_version v m1 = Inr m2"
    and v: "pv_claim_id v = d" "pv_version v = ?n" "pv_token_upper_bound v = ?t"
    and set: "mem_claims m' = mem_claims (set_version d ?n ?fp now m2)" "mem_versions m' = mem_versions m2"
      "mem_boundaries m' = mem_boundaries m2"
    by (auto simp: apply_revision_def mtx_simps Let_def set_version_def refresh_profile_claim_derived_data_def
        dest!: insert_lifecycle_Ok split: if_splits)
  note mr = made_room [OF wf room, of d] and vOk = insert_claim_version_Ok [OF ins]
  let ?f = "\<lambda>c. c\<lparr>pc_current_version := ?n, pc_statement_fingerprint := ?fp, pc_lifecycle_state := ''active'',
      pc_last_nonweak_support_at := Some now, pc_lifecycle_changed_at := now, pc_updated_at := now\<rparr>"
  have claims: "mem_claims m' = update_where (\<lambda>c. pc_id c = d) ?f (mem_claims m1)" using set vOk by (simp add: set_version_def)
  have wf1: "memory_wf m1" using mr by simp
  have ids: "map pc_id (mem_claims m') = map pc_id (mem_claims m1)" by (simp add: claims update_where_def)
  have new: "\<forall>x \<in> set (mem_claims m'). x \<in> set (mem_claims m1) \<or> pc_id x = pv_claim_id v \<and> pc_current_version x = pv_version v
      \<and> pc_id x \<noteq> [] \<and> scope_check (pc_scope_kind x) (pc_scope_id x)"
    using memory_wfD(1) [OF wf1] v by (auto simp: claims update_where_def claims_wf_def)
  have dist: "distinct (map pc_id (mem_claims m'))" using memory_wfD(1) [OF wf1] by (simp add: ids claims_wf_def)
  have versions: "mem_versions m' = mem_versions m1 @ [v]" using set vOk by simp
  note nv = new_version_wf [OF memory_wfD(1) [OF wf1] _ _ versions dist new]
  show ?thesis
  proof (rule mem_updated_claim [OF wf1 nv(1) claims])
    show "admissible d m1 m' (?f x)" if x: "x \<in> set (mem_claims m1)" "pc_id x = d" for x
    proof -
      obtain x0 where x0: "x0 \<in> set (mem_claims m)" "x = demoted (set ds) now x0" using mr x(1) by auto
      then have "x0 = cl" using c x(2) memory_wfD(1) [OF wf] by (auto simp: claims_wf_def distinct_map inj_on_def)
      then show ?thesis using mr x0 not_blocked_Ok [OF free] nv(3) [of "?f x"] vOk v x(2)
        by (auto simp: admissible_def unblocked_def)
    qed
  qed (use set vOk nv(2) in auto)
qed

lemma revision: "ensures memory_wf (revise_profile_claim_work env rd request c d n digest preference) (\<lambda>_. memory_wf)"
proof -
  have "memory_wf m'" if wf: "memory_wf m"
    and run: "revise_profile_claim_work env rd request c d n digest preference m = Inr (v, m')" for m v m'
  proof (cases "m' = m")
    case False
    with run obtain cl a u where "find_claim d m = Inr cl" "apply_revision env rd c a cl preference m = Inr (u, m')"
      by (auto simp: revise_profile_claim_work_def mtx_simps memory_author_def Let_def split: if_splits option.splits)
    with revised [OF wf] show ?thesis by blast
  qed (use wf in simp)
  then show ?thesis by (simp add: ensures_def)
qed

section \<open>The machine\<close>

text \<open>One rule per request. Fresh identifiers are not empty. The other requests of the store change no memory
  table; whatever they do to the rest is the first rule.\<close>

inductive memory_step :: "MemoryEnv \<Rightarrow> Memory \<Rightarrow> Memory \<Rightarrow> bool" for env where
  store: "memory_step env m (m\<lparr>mem_db := db\<rparr>)"
| state: "(\<And>n. rd_uuid rd n \<noteq> []) \<Longrightarrow> create_profile_claim env rd token request c preference m = Inr (v, m') \<Longrightarrow>
    memory_step env m m'"
| observe: "(\<And>n. rd_uuid rd n \<noteq> []) \<Longrightarrow>
    observe_profile_preference env rd token request c preference outcome explanation m = Inr (v, m') \<Longrightarrow> memory_step env m m'"
| confirm: "confirm_profile_claim env rd token request c i n m = Inr (v, m') \<Longrightarrow> memory_step env m m'"
| suppress: "suppress_profile_claim env rd token request c i n m = Inr (v, m') \<Longrightarrow> memory_step env m m'"
| forget: "forget_profile_claim env rd token request c i n digest m = Inr (v, m') \<Longrightarrow> memory_step env m m'"
| forbid: "create_learning_boundary env rd token request c preference m = Inr (v, m') \<Longrightarrow> memory_step env m m'"
| revise: "revise_profile_claim env rd token request c i n digest preference m = Inr (v, m') \<Longrightarrow> memory_step env m m'"

definition empty_memory :: "Db \<Rightarrow> Memory" where
  "empty_memory db =
     \<lparr>mem_db = db, mem_claims = [], mem_versions = [], mem_lifecycle = [], mem_observations = [], mem_supports = [],
      mem_indexes = [], mem_caches = [], mem_boundaries = [], mem_receipts = [], mem_provenance = [],
      mem_imported_attempts = []\<rparr>"

definition memory_reachable :: "MemoryEnv \<Rightarrow> Memory \<Rightarrow> bool" where
  "memory_reachable env m \<longleftrightarrow> (\<exists>db. (memory_step env)\<^sup>*\<^sup>* (empty_memory db) m)"

lemma mem_kept:
  "(\<And>m v n. memory_wf m \<Longrightarrow> a m = Inr (v, n) \<Longrightarrow> memory_wf n) \<Longrightarrow> mem.keeps_inv {} p fp a"
  "ensures memory_wf a (\<lambda>_. memory_wf) \<Longrightarrow> mem.keeps_inv {} p fp a"
  by (simp_all add: mem.keeps_inv_def learning_wf_empty ensures_def)

lemma mem_works:
  assumes "\<And>n. rd_uuid rd n \<noteq> []"
  shows "mem.keeps_inv {} p fp (create_profile_claim_work env rd request c preference)"
    and "mem.keeps_inv {} p fp (observe_profile_preference_work env rd request c preference outcome explanation)"
  by (rule mem_kept(1), erule created_claim [OF _ assms], assumption) (rule mem_kept(2) [OF observed [OF assms]])

lemma mem_other_works:
  "mem.keeps_inv {} p fp (confirm_profile_claim_work env rd request c i n)"
  "mem.keeps_inv {} p fp (create_learning_boundary_work env rd request c preference)"
  "mem.keeps_inv {} p fp (suppress_profile_claim_work env rd request c i n)"
  "mem.keeps_inv {} p fp (forget_profile_claim_work env rd request c i n digest)"
  "mem.keeps_inv {} p fp (revise_profile_claim_work env rd request c i n digest preference)"
  by (rule mem_kept(1), erule (1) confirmed_claim, rule mem_kept(1), erule (1) bounded)
    (rule mem_kept(2), rule suppressed forgotten revision)+

lemma memory_step_wf:
  assumes "memory_step env m m'" and "memory_wf m"
  shows "memory_wf m'"
  using assms
proof cases
  case (store db)
  with assms(2) show ?thesis by (simp add: unaffected)
next
  case (state rd token request c preference v)
  then show ?thesis
    using mem.keepsD [OF mem.keeps_transaction [OF mem_works(1) [OF state(1)]]] assms(2)
    by (auto simp: create_profile_claim_def outcome_simps learning_wf_empty)
next
  case (observe rd token request c preference outcome explanation v)
  then show ?thesis
    using mem.keepsD [OF mem.keeps_transaction [OF mem_works(2) [OF observe(1)]]] assms(2)
    by (auto simp: observe_profile_preference_def outcome_simps learning_wf_empty)
next
  case (confirm rd token request c i n v)
  then show ?thesis
    using mem.keepsD [OF mem.keeps_transaction [OF mem_other_works(1)]] assms(2)
    by (auto simp: confirm_profile_claim_def outcome_simps learning_wf_empty)
next
  case (suppress rd token request c i n v)
  then show ?thesis
    using mem.keepsD [OF mem.keeps_transaction [OF mem_other_works(3)]] assms(2)
    by (auto simp: suppress_profile_claim_def outcome_simps learning_wf_empty)
next
  case (forget rd token request c i n digest v)
  then show ?thesis
    using mem.keepsD [OF mem.keeps_confirmed [OF mem_other_works(4)]] assms(2)
    by (auto simp: forget_profile_claim_def outcome_simps learning_wf_empty)
next
  case (forbid rd token request c preference v)
  then show ?thesis
    using mem.keepsD [OF mem.keeps_transaction [OF mem_other_works(2)]] assms(2)
    by (auto simp: create_learning_boundary_def outcome_simps learning_wf_empty)
next
  case (revise rd token request c i n digest preference v)
  then show ?thesis
    using mem.keepsD [OF mem.keeps_confirmed [OF mem_other_works(5)]] assms(2)
    by (auto simp: revise_profile_claim_def outcome_simps learning_wf_empty)
qed

lemma memory_reachable_wf:
  assumes "memory_reachable env m"
  shows "memory_wf m"
proof -
  obtain db where "(memory_step env)\<^sup>*\<^sup>* (empty_memory db) m" using assms by (auto simp: memory_reachable_def)
  then show ?thesis
    by (induction rule: rtranclp_induct)
      (simp_all add: memory_step_wf, simp add: empty_memory_def memory_wf_def claims_wf_def within_budget_def
        boundaries_respected_def fits_limits_def profile_limits_def profile_load_def with_version_def)
qed

end
