(* ===== verification/Sample_Memory.thy ===== *)
theory Sample_Memory
  imports Sample_Run Profile_Invariants
begin

text \<open>
  Concrete data for the witnesses about memory: on the sample database the Principal states one preference and
  forbids another, and a Profile in which a soft Claim has to make room.
\<close>

section \<open>A sample run of the memory\<close>

definition sample_env :: MemoryEnv where
  "sample_env = \<lparr>me_sys = sample_sys, me_to_lowercase = (\<lambda>s. s)\<rparr>"

definition memory_req :: "string \<Rightarrow> Request" where
  "memory_req key = (sample_req key (Some ''tat_bx_bxx''))\<lparr>req_principal_token := Some ''p''\<rparr>"

definition sample_claim :: ClaimRow where
  "sample_claim = new_claim ''m'' ''hard'' (''principal'', None) (''explicit'', 10000) ''active'' ''sha256:a'' 1000000"

definition sample_version :: ClaimVersionRow where
  "sample_version = first_version ''m'' ''a'' ''c'' ''b'' 1000000"

definition sample_claim_answer :: json where
  "sample_claim_answer = JObject
     [(''applicability'', JObject [(''work_kind'', JString ''software_building'')]),
      (''confidence'', JObject [(''basis_points'', JPosInt 10000), (''category'', JString ''explicit'')]),
      (''created_at'', JPosInt 1000000), (''id'', JString ''m''), (''lifecycle'', JObject [(''state'', JString ''active'')]),
      (''provenance'', JObject
         [(''attachment_id'', JString ''b''), (''commission_id'', JString ''c''), (''kind'', JString ''explicit_principal_statement'')]),
      (''scope'', JObject [(''kind'', JString ''principal'')]), (''statement'', JString ''a''), (''strength'', JString ''hard''),
      (''token_accounting'', JString ''utf8_byte_upper_bound''), (''token_upper_bound'', JPosInt 1),
      (''updated_at'', JPosInt 1000000), (''version'', JPosInt 1)]"

definition memory_taught :: Memory where
  "memory_taught = (empty_memory db_proposed)
     \<lparr>mem_db := db_proposed\<lparr>db_idempotency_keys := db_idempotency_keys db_proposed @
        [sample_key ''q1'' (JObject
           [(''claim'', sample_claim_answer), (''demoted_claim_ids'', JArray []),
            (''learning_receipt'', JObject
               [(''claim_id'', JString ''m''), (''claim_version'', JPosInt 1), (''kind'', JString ''profile_claim_created''),
                (''scope'', JObject [(''kind'', JString ''principal'')])])])]\<rparr>,
      mem_claims := [sample_claim], mem_versions := [sample_version],
      mem_lifecycle := [lifecycle_row ''m'' None ''active'' ''explicit_principal_statement'' None 1000000],
      mem_indexes := [(''m'', ''sha256:a'', 1000000)], mem_caches := [(''m'', JObject [], 1000000)]\<rparr>"

definition sample_boundary :: BoundaryRow where
  "sample_boundary =
     \<lparr>lb_id = ''o'', lb_scope_kind = ''principal'', lb_scope_id = None, lb_statement_fingerprint = ''sha256:z'',
      lb_commission_id = ''c'', lb_attachment_id = ''b'', lb_created_at = 1000000\<rparr>"

definition memory_bounded :: Memory where
  "memory_bounded = memory_taught
     \<lparr>mem_db := db_proposed\<lparr>db_idempotency_keys := db_idempotency_keys (mem_db memory_taught) @
        [sample_key ''q2'' (JObject
           [(''boundary'', JObject
               [(''created_at'', JPosInt 1000000), (''id'', JString ''o''),
                (''scope'', JObject [(''kind'', JString ''principal'')]), (''statement_fingerprint'', JString ''sha256:z'')])])]\<rparr>,
      mem_boundaries := [sample_boundary]\<rparr>"

lemma sample_uuids: "p \<noteq> [] \<Longrightarrow> rd_uuid (sample_readings p) n \<noteq> []"
  by (simp add: sample_readings_def)

lemma run_taught:
  "map_sum id snd (create_profile_claim sample_env (sample_readings ''m'') ''p'' (memory_req ''q1'') ''c'' \<lparr>rp_statement = ''a''\<rparr>
     (empty_memory db_proposed)) = Inr memory_taught"
  by code_simp

lemma run_bounded:
  "map_sum id snd (create_learning_boundary sample_env (sample_readings ''o'') ''p'' (memory_req ''q2'') ''c'' \<lparr>rp_statement = ''z''\<rparr>
     memory_taught) = Inr memory_bounded"
  by code_simp

lemma map_sum_Inr: "map_sum id snd r = Inr m \<Longrightarrow> \<exists>v. r = Inr (v, m)"
  by (cases r) auto

lemma sample_memories: "memory_reachable sample_env memory_taught" "memory_reachable sample_env memory_bounded"
proof -
  have first: "memory_step sample_env (empty_memory db_proposed) memory_taught"
    using map_sum_Inr [OF run_taught] memory_step.state [OF sample_uuids, of "''m''"] by blast
  have second: "memory_step sample_env memory_taught memory_bounded"
    using map_sum_Inr [OF run_bounded] memory_step.forbid by blast
  show "memory_reachable sample_env memory_taught" unfolding memory_reachable_def using first by blast
  show "memory_reachable sample_env memory_bounded"
    unfolding memory_reachable_def using first second by (meson converse_rtranclp_into_rtranclp rtranclp.rtrancl_refl)
qed

section \<open>A Profile that has to make room\<close>

definition soft_claim :: "string \<Rightarrow> int \<Rightarrow> ClaimRow" where
  "soft_claim i confidence = new_claim i ''soft'' (''principal'', None) (''inferred'', confidence) ''active'' i 1000"

definition crowded_memory :: Memory where
  "crowded_memory = memory_taught
     \<lparr>mem_claims := [sample_claim, soft_claim ''r'' 9000, soft_claim ''s'' 7500],
      mem_versions := [sample_version, first_version ''r'' ''rr'' ''c'' ''b'' 1000, first_version ''s'' ''ss'' ''c'' ''b'' 1000]\<rparr>"

lemma crowded_wf: "claims_wf crowded_memory"
  by code_simp

lemma crowded_run:
  "map_sum id fst (make_room_in_active_profile ''principal'' None 3 100 5 None 2000 crowded_memory) = Inr [''s'']"
  by code_simp

end
