(* ===== verification/Store_Effects.thy ===== *)
theory Store_Effects
  imports Store_Life
begin

text \<open>
  What the requests that end, widen or release work leave behind: after a cancellation nothing of the
  Commission runs or is authorized, an accepted Amendment is exactly what the Principal saw, an approved
  operation is exactly the one shown at an open gate.
\<close>

section \<open>Running up to a statement\<close>

text \<open>When all that follows keeps a relation, a transaction relates to the state its first part ends in.\<close>

context table_relation
begin

lemma rest_keeps:
  assumes "tx_bind m k s = Inr (v, s')" and "\<And>x. keeps (k x)"
  obtains x t where "m s = Inr (x, t)" "rel (ses_db t) (ses_db s')"
  using assms by (auto simp: tx_bind_Inr keeps_def)

end

lemma bind_lift_Inr:
  "tx_bind (tx_lift r) f s = Inr (v, s') \<longleftrightarrow> (\<exists>x. r = Inr x \<and> f x s = Inr (v, s'))"
  by (auto simp: tx_simps)

section \<open>Nothing runs\<close>

definition attempts_stopped :: "string \<Rightarrow> Db \<Rightarrow> bool" where
  "attempts_stopped c db =
     list_all (\<lambda>t. owned_assignment c db (atm_assignment_id t) \<longrightarrow> atm_status t \<noteq> ''running'') (db_attempts db)"

definition leases_released :: "string \<Rightarrow> Db \<Rightarrow> bool" where
  "leases_released c db =
     list_all (\<lambda>l. owned_attempt c db (wl_attempt_id l) \<longrightarrow> wl_status l \<noteq> ''active'') (db_leases db)"

definition reservations_released :: "string \<Rightarrow> Db \<Rightarrow> bool" where
  "reservations_released c db =
     list_all (\<lambda>r. rsv_commission_id r = c \<longrightarrow> rsv_status r \<noteq> ''active'') (db_reservations db)"

definition workers_stopped :: "string \<Rightarrow> Db \<Rightarrow> bool" where
  "workers_stopped c db = list_all (\<lambda>w. wk_commission_id w = c \<longrightarrow> wk_status w \<noteq> ''running'') (db_workers db)"

definition gates_closed :: "string \<Rightarrow> Db \<Rightarrow> bool" where
  "gates_closed c db =
     list_all (\<lambda>g. ag_commission_id g = c \<longrightarrow> ag_status g \<notin> {''open'', ''authorized''}) (db_gates db)"

definition operations_revoked :: "string \<Rightarrow> Db \<Rightarrow> bool" where
  "operations_revoked c db =
     list_all (\<lambda>r. or_commission_id r = c \<longrightarrow> or_status r \<notin> {''approval_required'', ''authorized''}) (db_operations db)"

definition grants_revoked :: "string \<Rightarrow> Db \<Rightarrow> bool" where
  "grants_revoked c db = list_all (\<lambda>g. gr_commission_id g = c \<longrightarrow> gr_status g \<noteq> ''active'') (db_grants db)"

definition exposures_revoked :: "string \<Rightarrow> Db \<Rightarrow> bool" where
  "exposures_revoked c db =
     list_all (\<lambda>e. owned_grant c db (eg_credential_grant_id e) \<longrightarrow> eg_status e \<noteq> ''authorized'') (db_exposures db)"

definition nothing_started :: "string \<Rightarrow> Db \<Rightarrow> bool" where
  "nothing_started c db =
     list_all (\<lambda>r. or_commission_id r = c \<longrightarrow> or_status r \<noteq> ''started'') (db_operations db)"

definition nothing_runs :: "string \<Rightarrow> Db \<Rightarrow> bool" where
  "nothing_runs c db \<longleftrightarrow>
     attempts_stopped c db \<and> leases_released c db \<and> reservations_released c db \<and> workers_stopped c db
     \<and> nothing_started c db"

definition nothing_authorized :: "string \<Rightarrow> Db \<Rightarrow> bool" where
  "nothing_authorized c db \<longleftrightarrow>
     gates_closed c db \<and> operations_revoked c db \<and> grants_revoked c db \<and> exposures_revoked c db"

lemmas stopped_defs =
  attempts_stopped_def leases_released_def reservations_released_def workers_stopped_def gates_closed_def
  operations_revoked_def grants_revoked_def exposures_revoked_def nothing_started_def

text \<open>The tables these predicates read.\<close>

definition effect_tables ::
  "Db \<Rightarrow> (AssignmentRow list \<times> AttemptRow list \<times> LeaseRow list \<times> ReservationRow list \<times> WorkerRow list) \<times>
     (GateRow list \<times> OperationRow list \<times> GrantRow list \<times> ExposureRow list)" where
  "effect_tables db =
     ((db_assignments db, db_attempts db, db_leases db, db_reservations db, db_workers db),
      (db_gates db, db_operations db, db_grants db, db_exposures db))"

lemma effect_tables_cong:
  assumes "effect_tables db' = effect_tables db"
  shows "nothing_runs c db' = nothing_runs c db" "nothing_authorized c db' = nothing_authorized c db"
  using assms
  by (simp_all add: effect_tables_def nothing_runs_def nothing_authorized_def stopped_defs owned_attempt_def
      owned_assignment_def owned_grant_def)

interpretation eff: table_relation "\<lambda>db db'. effect_tables db' = effect_tables db"
  by unfold_locales auto

lemma eff_parts [intro!]:
  "eff.keeps (record_event_with_payload rd c ev n p)"
  "eff.keeps (save_idempotent_result rd key hash v)"
  "eff.keeps (project_commission sys c)"
  "eff.keeps (finalize_temporary_material_retention c now)"
  "eff.keeps (record_attempt_recovery rd r)"
proof -
  have ev: "eff.keeps (tx_execute (insert_event c t n p now))" "eff.keeps (tx_execute (insert_idempotency_key k))"
    "eff.keeps (tx_execute (insert_recovery_or_ignore q))" for c t n p now k q
    by (rule eff.keeps_execute,
        (auto simp: insert_event_def insert_idempotency_key_def insert_recovery_or_ignore_def effect_tables_def Let_def
          split: if_splits) [1])+
  show rec: "eff.keeps (record_event_with_payload rd c ev n p)" for c ev n p
    by (auto simp: record_event_with_payload_def intro: ev)
  show "eff.keeps (save_idempotent_result rd key hash v)" "eff.keeps (project_commission sys c)"
    by (auto simp: save_idempotent_result_def project_commission_def intro: ev)
  have "eff.keeps (tx_update (drop_accepted_artifacts c))" "eff.keeps (tx_update (refresh_temporary_material_retention_links x))"
    "eff.keeps (tx_update (expire_materials c now))" for x now
    by (rule eff.keeps_update, simp add: effect_tables_def drop_accepted_artifacts_def
        refresh_temporary_material_retention_links_def expire_materials_def)+
  then show "eff.keeps (finalize_temporary_material_retention c now)"
    by (auto simp: finalize_temporary_material_retention_def)
  show "eff.keeps (record_attempt_recovery rd r)"
    by (auto simp: record_attempt_recovery_def intro: ev rec)
qed

section \<open>Cancellation\<close>

lemma update_where_all:
  "list_all Q (update_where P f xs) \<longleftrightarrow> (\<forall>x \<in> set xs. if P x then Q (f x) else Q x)"
  by (auto simp: update_where_def list_all_iff)

lemma tx_updates: "tx_for tx_update us s = Inr ((), s\<lparr>ses_db := fold id us (ses_db s)\<rparr>)"
  by (induction us arbitrary: s) (simp_all add: tx_simps)

text \<open>What one statement establishes and the later ones keep holds at the end.\<close>

lemma fold_establishes:
  assumes "n < length us" and "\<And>db. P ((us ! n) db)" and "\<And>w db. w \<in> set (drop (Suc n) us) \<Longrightarrow> P db \<Longrightarrow> P (w db)"
  shows "P (fold id us db)"
proof -
  have "P db \<Longrightarrow> P (fold id ws db)" if "set ws \<subseteq> set (drop (Suc n) us)" for ws db
    using that by (induction ws arbitrary: db) (auto intro: assms(3))
  with assms(2) have "P (fold id (take n us @ us ! n # drop (Suc n) us) db)" by simp
  then show ?thesis using id_take_nth_drop [OF assms(1)] by simp
qed

lemma owned_update [simp]:
  "owned_assignment c (db\<lparr>db_attempts := x1\<rparr>) = owned_assignment c db"
  "owned_assignment c (db\<lparr>db_leases := x2\<rparr>) = owned_assignment c db"
  "owned_assignment c (db\<lparr>db_claim_uses := x3\<rparr>) = owned_assignment c db"
  "owned_assignment c (db\<lparr>db_workers := x4\<rparr>) = owned_assignment c db"
  "owned_assignment c (db\<lparr>db_worker_commands := x5\<rparr>) = owned_assignment c db"
  "owned_assignment c (db\<lparr>db_reservations := x6\<rparr>) = owned_assignment c db"
  "owned_assignment c (db\<lparr>db_gates := x7\<rparr>) = owned_assignment c db"
  "owned_assignment c (db\<lparr>db_operations := x8\<rparr>) = owned_assignment c db"
  "owned_assignment c (db\<lparr>db_grants := x9\<rparr>) = owned_assignment c db"
  "owned_assignment c (db\<lparr>db_exposures := y1\<rparr>) = owned_assignment c db"
  "owned_assignment c (db\<lparr>db_results := y2\<rparr>) = owned_assignment c db"
  "owned_grant c (db\<lparr>db_exposures := y1\<rparr>) = owned_grant c db"
  "owned_grant c (db\<lparr>db_operations := x8\<rparr>) = owned_grant c db"
  "owned_grant c (db\<lparr>db_results := y2\<rparr>) = owned_grant c db"
  by (simp_all add: owned_assignment_def owned_grant_def fun_eq_iff)

lemma owned_attempt_update [simp]:
  "owned_attempt c (db\<lparr>db_leases := x2\<rparr>) = owned_attempt c db"
  "owned_attempt c (db\<lparr>db_reservations := x6\<rparr>) = owned_attempt c db"
  "owned_attempt c (db\<lparr>db_gates := x7\<rparr>) = owned_attempt c db"
  "owned_attempt c (db\<lparr>db_operations := x8\<rparr>) = owned_attempt c db"
  "owned_attempt c (db\<lparr>db_grants := x9\<rparr>) = owned_attempt c db"
  "owned_attempt c (db\<lparr>db_exposures := y1\<rparr>) = owned_attempt c db"
  "owned_attempt c (db\<lparr>db_results := y2\<rparr>) = owned_attempt c db"
  by (simp_all add: owned_attempt_def fun_eq_iff)

lemma owned_grant_status [simp]:
  "(\<And>g. gr_id (f g) = gr_id g \<and> gr_commission_id (f g) = gr_commission_id g) \<Longrightarrow>
     owned_grant c (db\<lparr>db_grants := update_where P f (db_grants db)\<rparr>) = owned_grant c db"
  by (auto simp: owned_grant_def update_where_def list_ex_iff fun_eq_iff split: if_splits)

abbreviation closing_statements :: "string \<Rightarrow> int \<Rightarrow> int \<Rightarrow> (Db \<Rightarrow> Db) list" where
  "closing_statements c now ms \<equiv>
     [cancel_commission_row c now, cancel_assignments c, cancel_attempts c now ms, reject_claim_uses c now,
      cancel_workers c ms, fail_worker_commands c, revoke_leases c now, revoke_reservations c ms,
      close_gates c ApprovalGateStatus.Revoked now, revoke_operations c now, revoke_grants c now,
      revoke_exposures c now, strand_operations c now, retain_results c]"

lemma closed_runs: "nothing_runs c (fold id (closing_statements c now ms) db)"
  unfolding nothing_runs_def
proof (intro conjI)
  let ?us = "closing_statements c now ms"
  show "attempts_stopped c (fold id ?us db)"
    by (rule fold_establishes [where n = 2 and P = "attempts_stopped c"])
      (auto simp: stopped_defs closing_defs update_where_all)
  show "leases_released c (fold id ?us db)"
    by (rule fold_establishes [where n = 6 and P = "leases_released c"])
      (auto simp: stopped_defs closing_defs update_where_all)
  show "reservations_released c (fold id ?us db)"
    by (rule fold_establishes [where n = 7 and P = "reservations_released c"])
      (auto simp: stopped_defs closing_defs update_where_all)
  show "workers_stopped c (fold id ?us db)"
    by (rule fold_establishes [where n = 4 and P = "workers_stopped c"])
      (auto simp: stopped_defs closing_defs update_where_all)
  show "nothing_started c (fold id ?us db)"
    by (rule fold_establishes [where n = 12 and P = "nothing_started c"])
      (auto simp: stopped_defs closing_defs update_where_all)
qed

abbreviation revoking_statements :: "string \<Rightarrow> ApprovalGateStatus \<Rightarrow> int \<Rightarrow> (Db \<Rightarrow> Db) list" where
  "revoking_statements c st now \<equiv>
     [close_gates c st now, revoke_operations c now, revoke_grants c now, revoke_exposures c now]"

lemma revoked_authorized:
  assumes "st \<in> {ApprovalGateStatus.Revoked, ApprovalGateStatus.Invalidated}"
  shows "nothing_authorized c (fold id (revoking_statements c st now) db)"
  unfolding nothing_authorized_def
proof (intro conjI)
  let ?us = "revoking_statements c st now"
  show "gates_closed c (fold id ?us db)"
    by (rule fold_establishes [where n = 0 and P = "gates_closed c"])
      (use assms in \<open>auto simp: stopped_defs closing_defs update_where_all\<close>)
  show "operations_revoked c (fold id ?us db)"
    by (rule fold_establishes [where n = 1 and P = "operations_revoked c"])
      (auto simp: stopped_defs closing_defs update_where_all)
  show "grants_revoked c (fold id ?us db)"
    by (rule fold_establishes [where n = 2 and P = "grants_revoked c"])
      (auto simp: stopped_defs closing_defs update_where_all)
  show "exposures_revoked c (fold id ?us db)"
    by (rule fold_establishes [where n = 3 and P = "exposures_revoked c"])
      (auto simp: stopped_defs closing_defs update_where_all)
qed

lemma closed_authorized: "nothing_authorized c (fold id (closing_statements c now ms) db)"
proof -
  have "operations_revoked c (strand_operations c now d)" if "operations_revoked c d" for d
    using that by (simp add: operations_revoked_def strand_operations_def update_where_all) (simp add: list_all_iff)
  then have "nothing_authorized c (retain_results c (strand_operations c now d))" if "nothing_authorized c d" for d
    using that unfolding nothing_authorized_def
    by (auto simp: stopped_defs strand_operations_def retain_results_def)
  from this [OF revoked_authorized [of "ApprovalGateStatus.Revoked" c now
      "fold id (take 8 (closing_statements c now ms)) db"]]
  show ?thesis by simp
qed

lemma eff_bind:
  assumes "tx_bind m k s = Inr (v, s')" and "\<And>x. eff.keeps (k x)"
  obtains x t where "m s = Inr (x, t)" "nothing_runs c (ses_db s') = nothing_runs c (ses_db t)"
    "nothing_authorized c (ses_db s') = nothing_authorized c (ses_db t)"
  using assms by (rule eff.rest_keeps) (auto dest: effect_tables_cong intro: that)

lemma cancelled_effects:
  assumes "cancel_commission_work sys rd request c n s = Inr (v, s')"
  shows "nothing_runs c (ses_db s') \<and> nothing_authorized c (ses_db s')"
proof -
  have closing: "nothing_runs c (ses_db t') \<and> nothing_authorized c (ses_db t')"
    if "close_commission c now ms t = Inr (x, t')" for now ms t x t'
    using that closed_runs [of c now ms "ses_db t"] closed_authorized [of c now ms "ses_db t"]
    unfolding close_commission_def tx_updates by auto
  from assms show ?thesis
    unfolding cancel_commission_work_def
    by (auto simp: peel_simps split: if_splits elim!: eff_bind [where c = c] dest!: closing)
qed

section \<open>Amendments\<close>

lemma eff_amendment_rows [intro!]:
  "eff.keeps (tx_update (accept_amendment_row i now j))"
  "eff.keeps (tx_update (invalidate_other_amendments c i))"
  by (rule eff.keeps_update, simp add: effect_tables_def accept_amendment_row_def invalidate_other_amendments_def)+

lemma mand_amendment [intro!]:
  "mand.keeps (tx_update (set_revision c k))"
  "mand.keeps (copy_current_criterion_versions c k)"
  "mand.keeps (revalidate_lease rd c e ceil k l)"
  "mand.keeps (revoke_old_grants c now)"
  "mand.keeps (tx_update (accept_amendment_row i now j))"
  "mand.keeps (tx_update (invalidate_other_amendments c i))"
  "mand.keeps (record_event_with_payload rd c ev k p)"
proof -
  show "mand.keeps (tx_update (set_revision c k))"
    by (rule mand.keeps_update) (simp add: set_revision_def same_mandates_def image_update_where)
  have up: "mand.keeps (tx_update u)" if "\<And>db. same_mandates db (u db)" for u
    using that by (rule mand.keeps_update)
  show "mand.keeps (copy_current_criterion_versions c k)"
    by (auto simp: copy_current_criterion_versions_def)
  show "mand.keeps (revalidate_lease rd c e ceil k l)"
    by (auto simp: revalidate_lease_def record_attempt_profile_claim_outcome_def work_update_defs same_mandates_def
        intro!: up split: prod.splits)
  show "mand.keeps (revoke_old_grants c now)"
    by (auto simp: revoke_old_grants_def closing_defs same_mandates_def intro!: up)
  show "mand.keeps (tx_update (accept_amendment_row i now j))" "mand.keeps (tx_update (invalidate_other_amendments c i))"
    by (auto simp: work_update_defs same_mandates_def intro!: up)
  show "mand.keeps (record_event_with_payload rd c ev k p)"
    by (auto simp: record_event_with_payload_def)
qed

lemma find_replaced:
  "List.find (\<lambda>r. fst r = c) rows = Some (c', old) \<Longrightarrow>
     List.find (\<lambda>r. fst r = c) (update_where (\<lambda>(c', _). c' = c) (\<lambda>(c', _). (c', new)) rows) = Some (c, new)"
  by (induction rows) (auto simp: update_where_def split: if_splits)

text \<open>Replacing the mandate: what is read afterwards is what the Amendment holds.\<close>

lemma replaced_mandate:
  assumes "replace_mandate c a k s = Inr (u, s')"
  shows "load_authority c (ses_db s') = amr_authority a"
    and "load_resource_ceilings c (ses_db s) = Inr old \<Longrightarrow>
      load_resource_ceilings c (ses_db s') = Inr (amr_resource_ceilings a)"
proof -
  from assms obtain t u1 t1 t2 where "tx_update (delete_authority c) s = Inr ((), t)"
    and t1: "insert_authority c (amr_authority a) t = Inr (u1, t1)"
    and "tx_execute (replace_resource_ceilings c (amr_resource_ceilings a)) t1 = Inr ((), t2)"
    and rest: "tx_bind (tx_update (set_revision c k)) (\<lambda>_. copy_current_criterion_versions c k) t2 = Inr (u, s')"
    unfolding replace_mandate_def replace_authority_def by (auto simp: tx_bind_Inr)
  then have t: "ses_db t = delete_authority c (ses_db s)"
    and t2: "replace_resource_ceilings c (amr_resource_ceilings a) (ses_db t1) = Inr (ses_db t2)"
    by (auto simp: tx_simps)
  have "mand.keeps (tx_bind (tx_update (set_revision c k)) (\<lambda>_. copy_current_criterion_versions c k))" by auto
  with rest have same: "same_mandates (ses_db t2) (ses_db s')" unfolding mand.keeps_def by blast
  have ceil: "ses_db t2 = (ses_db t1)\<lparr>db_resource_ceilings := update_where (\<lambda>(c', _). c' = c)
      (\<lambda>(c', _). (c', amr_resource_ceilings a)) (db_resource_ceilings (ses_db t1))\<rparr>"
    using t2 by (auto simp: replace_resource_ceilings_def split: if_splits)
  show "load_authority c (ses_db s') = amr_authority a"
    by (rule load_authority_rows [of "db_authority_scopes (ses_db t)"])
      (use insert_authority_rows [OF t1] ceil same in \<open>auto simp: t delete_authority_def same_mandates_def\<close>)
  have "db_resource_ceilings (ses_db s') = update_where (\<lambda>(c', _). c' = c)
      (\<lambda>(c', _). (c', amr_resource_ceilings a)) (db_resource_ceilings (ses_db s))"
    using insert_authority_ceilings [OF t1] ceil same by (simp add: t delete_authority_def same_mandates_def)
  then show "load_resource_ceilings c (ses_db s') = Inr (amr_resource_ceilings a)"
    if "load_resource_ceilings c (ses_db s) = Inr old"
    using that by (auto simp: load_resource_ceilings_def query_row_def no_rows_def find_replaced split: option.splits)
qed

lemma amendment_carried_out:
  assumes "accept_amendment_work sys rd c i d n s = Inr (v, s')"
  shows "\<exists>a. find_amendment i c (ses_db s) = Inr a \<and> amr_status a = ''proposed'' \<and> amr_digest a = d \<and> amr_base_revision a = n
    \<and> load_authority c (ses_db s') = amr_authority a
    \<and> (\<forall>old. load_resource_ceilings c (ses_db s) = Inr old \<longrightarrow>
         load_resource_ceilings c (ses_db s') = Inr (amr_resource_ceilings a))"
proof -
  from assms obtain a t where a: "find_amendment i c (ses_db s) = Inr a" "amr_status a = ''proposed''" "amr_digest a = d"
    "amr_base_revision a = n" and t: "replace_mandate c a (n + 1) s = Inr ((), t)"
    and same: "same_mandates (ses_db t) (ses_db s')"
    unfolding accept_amendment_work_def
    by (auto simp: peel_simps split: if_splits option.splits elim!: mand.rest_keeps)
  then show ?thesis
    using replaced_mandate [OF t] by (auto simp: same_mandates_def load_authority_def load_authority_scope_def load_resource_ceilings_def)
qed

lemma amendment_revokes:
  assumes "accept_amendment_work sys rd c i d n s = Inr (v, s')"
  shows "nothing_authorized c (ses_db s')"
proof -
  have revoking: "nothing_authorized c (ses_db t')" if "revoke_old_grants c now t = Inr (x, t')" for now t x t'
    using that revoked_authorized [of "ApprovalGateStatus.Invalidated" c now "ses_db t"]
    unfolding revoke_old_grants_def tx_updates by auto
  from assms show ?thesis
    unfolding accept_amendment_work_def
    by (auto simp: peel_simps tx_bind_Inr [where m = "replace_mandate c a k" for a k]
        tx_bind_Inr [where m = "tx_collect f xs" for f :: "string \<times> string \<Rightarrow> json tx" and xs]
        split: if_splits option.splits elim!: eff_bind [where c = c] dest!: revoking)
qed

section \<open>Approval\<close>

interpretation gate: table_relation
  "\<lambda>db db'. db_gates db' = db_gates db \<and> db_operations db' = db_operations db"
  by unfold_locales auto

lemma gate_exposure: "gate.keeps (authorize_exposure rd c operation i d n now)"
proof -
  have "gate.keeps (tx_execute (insert_exposure e))" "gate.keeps (tx_execute (insert_event c' t k p now'))" for e c' t k p now'
    by (rule gate.keeps_execute, (auto simp: insert_exposure_def insert_event_def Let_def split: if_splits) [1])+
  then show ?thesis
    by (auto simp: authorize_exposure_def record_event_with_payload_def split: option.splits)
qed

text \<open>The operation belongs to a running Attempt whose lease is active under the current mandate; one operation
  and no other is authorized.\<close>

definition in_current_context :: "string \<Rightarrow> OperationRequest \<Rightarrow> int \<Rightarrow> Db \<Rightarrow> bool" where
  "in_current_context c operation n db =
     list_ex (\<lambda>ctx. context_is_current ctx n (op_plan_revision operation))
       (operation_context c (op_assignment_id operation) (op_attempt_id operation) (op_worker_lease_id operation) db)"

definition authorizes_only :: "string \<Rightarrow> int \<Rightarrow> Db \<Rightarrow> Db \<Rightarrow> bool" where
  "authorizes_only i now db db' \<longleftrightarrow>
     db_operations db' = update_where (\<lambda>q. or_id q = i \<and> or_status q = ''approval_required'')
       (\<lambda>q. q\<lparr>or_status := ''authorized'', or_authorized_at := Some now\<rparr>) (db_operations db)"

text \<open>The checks that only read keep the database and say what they found.\<close>

lemma ensured_context:
  assumes "ensure_current_operation_context rd c operation n s = Inr (u, s')"
  shows "ses_db s' = ses_db s" and "op_mandate_revision operation = n"
    and "in_current_context c operation n (ses_db s)"
  using assms
  by (auto simp: ensure_current_operation_context_def ensure_context_def peel_simps tx_return_def context_is_current_def
      in_current_context_def split: list.splits if_splits)

lemma current_context:
  assumes "tx_bind (ensure_current_operation_context rd c operation n) f s = Inr (v, s')"
  obtains u t where "f u t = Inr (v, s')" "ses_db t = ses_db s"
    "in_current_context c operation n (ses_db s)"
proof -
  from assms obtain u t where t: "ensure_current_operation_context rd c operation n s = Inr (u, t)" "f u t = Inr (v, s')"
    unfolding tx_bind_Inr by blast
  show ?thesis by (rule that [OF t(2) ensured_context(1, 3) [OF t(1)]])
qed

lemma checked_grant:
  assumes "tx_bind (check_credential_grant rd c operation) f s = Inr (v, s')"
  obtains u t where "f u t = Inr (v, s')" "ses_db t = ses_db s"
  using assms by (auto simp: check_credential_grant_def tx_simps tx_with_clock_def outcome_simps split: if_splits)

lemma authorized_rows:
  assumes "tx_bind (tx_update (authorize_gate i now)) (\<lambda>_.
      tx_bind (authorize_exposure rd c operation j d n now) (\<lambda>_.
      tx_bind (tx_update (authorize_operation i now)) f)) s = Inr (v, s')" and "\<And>x. gate.keeps (f x)"
  shows "db_operations (ses_db s') = db_operations (authorize_operation i now (authorize_gate i now (ses_db s)))"
proof -
  from assms(1) obtain u t t' where t: "authorize_exposure rd c operation j d n now (s\<lparr>ses_db := authorize_gate i now (ses_db s)\<rparr>) = Inr (u, t)"
    and "t' = t\<lparr>ses_db := authorize_operation i now (ses_db t)\<rparr>" "f () t' = Inr (v, s')"
    unfolding tx_bind_Inr by (auto simp: tx_simps)
  then show ?thesis
    using assms(2) [of "()"] gate_exposure [of rd c operation j d n now] unfolding gate.keeps_def
    by (fastforce simp: authorize_operation_def)
qed

lemma found_gate:
  assumes "gate_and_operation i c db = Inr (g, r)" and "distinct (map ag_id (db_gates db))"
  shows "List.find (\<lambda>g. ag_id g = i) (db_gates db) = Some g" "ag_id g = i" "or_id r = ag_operation_request_id g"
    "r \<in> set (db_operations db)"
proof -
  let ?pairs = "[(g, r). g \<leftarrow> db_gates db, ag_id g = i \<and> ag_commission_id g = c,
                    r \<leftarrow> db_operations db, or_id r = ag_operation_request_id g]"
  from assms(1) obtain rest where "?pairs = (g, r) # rest"
    unfolding gate_and_operation_def by (cases ?pairs) (auto simp del: set_concat)
  then have "(g, r) \<in> set ?pairs" by (metis list.set_intros(1))
  then have g: "g \<in> set (db_gates db)" "ag_id g = i" and r: "r \<in> set (db_operations db)" "or_id r = ag_operation_request_id g"
    by auto
  then show "ag_id g = i" "or_id r = ag_operation_request_id g" "r \<in> set (db_operations db)" by auto
  from g assms(2) show "List.find (\<lambda>g. ag_id g = i) (db_gates db) = Some g"
    by (auto simp: find_Some_iff2 find_Some_iff in_set_conv_nth distinct_conv_nth)
qed

lemma approval_carried_out:
  assumes "approve_operation_work sys rd c i d n s = Inr (v, s')" and "distinct (map ag_id (db_gates (ses_db s)))"
  shows "\<exists>g r operation now. gate_and_operation i c (ses_db s) = Inr (g, r)
    \<and> ag_status g = ''open'' \<and> or_status r = ''approval_required'' \<and> ag_operation_digest g = d
    \<and> and_then (without_target_revision (or_canonical r)) (sys_operation_from_value sys) = Inr operation
    \<and> in_current_context c operation n (ses_db s)
    \<and> fst (classify_operation operation (load_authority c (ses_db s))) = OperationClassification.ApprovalGate
    \<and> authorizes_only (or_id r) now (ses_db s) (ses_db s')"
proof -
  have rest: "gate.keeps (tx_bind (record_event_with_payload rd c ev n p) (\<lambda>_. project_commission sys c))" for ev n p
  proof -
    have "gate.keeps (tx_execute (insert_event c' t k p' now'))" for c' t k p' now'
      by (rule gate.keeps_execute) (auto simp: insert_event_def Let_def split: if_splits)
    then show ?thesis by (auto simp: record_event_with_payload_def project_commission_def)
  qed
  note rows = found_gate [OF _ assms(2)]
  have writes: "db_operations (authorize_operation i now (authorize_gate i now (ses_db s)))
      = update_where (\<lambda>q. or_id q = or_id r \<and> or_status q = ''approval_required'')
          (\<lambda>q. q\<lparr>or_status := ''authorized'', or_authorized_at := Some now\<rparr>) (db_operations (ses_db s))"
    if "gate_and_operation i c (ses_db s) = Inr (g, r)" for g r now
  proof -
    have gate: "map_option ag_operation_request_id (List.find (\<lambda>g. ag_id g = i) (db_gates (authorize_gate i now (ses_db s))))
        = Some (or_id r)"
      using rows [OF that] by (simp add: authorize_gate_def find_update_where)
    show ?thesis unfolding authorize_operation_def gate by (simp add: authorize_gate_def eq_commute)
  qed
  from assms(1) show ?thesis
    unfolding approve_operation_work_def
    by (auto simp: peel_simps bind_lift_Inr writes authorizes_only_def [symmetric] split: if_splits elim!: current_context checked_grant
        dest!: authorized_rows [OF _ rest]) blast
qed

section \<open>Recording a plan\<close>

text \<open>The dependencies of an Assignment are written right after its own row, and the schema lets them refer only
  to rows that exist: a plan is recorded only when every dependency is listed before.\<close>

interpretation planned: table_relation "\<lambda>db db'. pt_planned (db_plan db') = pt_planned (db_plan db)"
  by unfold_locales auto

lemma planned_execute [intro!]:
  "planned.keeps (tx_execute (insert_plan r1))"
  "planned.keeps (tx_execute (insert_planned_dependency r2))"
  "planned.keeps (tx_execute (insert_planned_criterion r3))"
  "planned.keeps (tx_execute (insert_verification_gate r4))"
  "planned.keeps (tx_execute (bind_criterion_versions c n))"
  "planned.keeps (tx_execute (insert_event c t n p now))"
  "planned.keeps (tx_update (activate c n now))"
  by (rule planned.keeps_execute planned.keeps_update, (auto simp: plan_insert_defs insert_event_def activate_def Let_def split: if_splits) [1])+

lemma planned_frame: "planned.keeps m \<Longrightarrow> m s = Inr (v, s') \<Longrightarrow> has_planned (ses_db s') = has_planned (ses_db s)"
  unfolding planned.keeps_def by (simp add: has_planned_def fun_eq_iff)

lemma dependencies_planned:
  assumes "tx_for (\<lambda>(position, dependency). tx_execute (insert_planned_dependency
      \<lparr>pk_commission_id = c, pk_assignment = a, pk_target = dependency, pk_position = int position\<rparr>)) ds s = Inr (u, s')"
  shows "\<forall>d \<in> snd ` set ds. has_planned (ses_db s) c d"
  using assms
proof (induction ds arbitrary: s)
  case (Cons x ds)
  then obtain t where run: "tx_execute (insert_planned_dependency
      \<lparr>pk_commission_id = c, pk_assignment = a, pk_target = snd x, pk_position = int (fst x)\<rparr>) s = Inr ((), t)"
    and rest: "tx_for (\<lambda>(position, dependency). tx_execute (insert_planned_dependency
      \<lparr>pk_commission_id = c, pk_assignment = a, pk_target = dependency, pk_position = int position\<rparr>)) ds t = Inr (u, s')"
    unfolding tx_for.simps tx_bind_Inr by (cases x) auto
  then have "insert_planned_dependency
      \<lparr>pk_commission_id = c, pk_assignment = a, pk_target = snd x, pk_position = int (fst x)\<rparr> (ses_db s) = Inr (ses_db t)"
    by (auto simp: tx_simps)
  then have "has_planned (ses_db s) c (snd x)"
    by (auto simp: insert_planned_dependency_def split: if_splits)
  with Cons.IH [OF rest] show ?case unfolding planned_frame [OF planned_execute(2) run] by simp
qed simp

lemma stored_planned:
  assumes "store_planned_assignment c first n (k, a) s = Inr (u, s')"
  shows "has_planned (ses_db s') c i \<longleftrightarrow> has_planned (ses_db s) c i \<or> i = pa_id a"
    and "\<forall>d \<in> set (pa_dependencies a). has_planned (ses_db s) c d \<or> d = pa_id a"
proof -
  from assms obtain t t' where "tx_execute (insert_planned (planned_row c (first + int k) n a)) s = Inr ((), t)"
    and deps: "tx_for (\<lambda>(position, dependency). tx_execute (insert_planned_dependency
          \<lparr>pk_commission_id = c, pk_assignment = pa_id a, pk_target = dependency, pk_position = int position\<rparr>))
        (enumerate 0 (pa_dependencies a)) t = Inr ((), t')"
    and crits: "tx_for (\<lambda>(position, criterion). tx_execute (insert_planned_criterion
          \<lparr>pk_commission_id = c, pk_assignment = pa_id a, pk_target = criterion, pk_position = int position\<rparr>))
        (enumerate 0 (pa_criterion_ids a)) t' = Inr (u, s')"
    unfolding store_planned_assignment_def by (auto simp: tx_bind_Inr)
  then have "insert_planned (planned_row c (first + int k) n a) (ses_db s) = Inr (ses_db t)" by (auto simp: tx_simps)
  then have "ses_db t = on_plan (\<lambda>p. p\<lparr>pt_planned := pt_planned p @ [planned_row c (first + int k) n a]\<rparr>) (ses_db s)"
    by (auto simp: insert_planned_def Let_def split: if_splits)
  then have row: "has_planned (ses_db t) c i \<longleftrightarrow> has_planned (ses_db s) c i \<or> i = pa_id a" for i
    by (auto simp: on_plan_def has_planned_def planned_row_def)
  have "planned.keeps (tx_for (\<lambda>(position, dependency). tx_execute (insert_planned_dependency
      \<lparr>pk_commission_id = c, pk_assignment = pa_id a, pk_target = dependency, pk_position = int position\<rparr>))
        (enumerate 0 (pa_dependencies a)))"
    "planned.keeps (tx_for (\<lambda>(position, criterion). tx_execute (insert_planned_criterion
      \<lparr>pk_commission_id = c, pk_assignment = pa_id a, pk_target = criterion, pk_position = int position\<rparr>))
        (enumerate 0 (pa_criterion_ids a)))" by auto
  from planned_frame [OF this(1) deps] planned_frame [OF this(2) crits]
  show "has_planned (ses_db s') c i \<longleftrightarrow> has_planned (ses_db s) c i \<or> i = pa_id a" using row by simp
  have "snd ` set (enumerate 0 (pa_dependencies a)) = set (pa_dependencies a)"
    by (metis map_snd_enumerate set_map)
  with dependencies_planned [OF deps] row show "\<forall>d \<in> set (pa_dependencies a). has_planned (ses_db s) c d \<or> d = pa_id a"
    by simp
qed

definition dependencies_first :: "PlannedAssignment list \<Rightarrow> bool" where
  "dependencies_first assignments =
     list_all (\<lambda>i. set (pa_dependencies (assignments ! i)) \<subseteq> set (map pa_id (take (Suc i) assignments)))
       [0..<length assignments]"

lemma stored_in_order:
  assumes "tx_for (store_planned_assignment c first n) (enumerate k assignments) s = Inr (u, s')" and "i < length assignments"
    and "d \<in> set (pa_dependencies (assignments ! i))"
  shows "has_planned (ses_db s) c d \<or> d \<in> set (map pa_id (take (Suc i) assignments))"
  using assms
proof (induction assignments arbitrary: k s i)
  case (Cons a assignments)
  from Cons.prems(1) obtain u' t where t: "store_planned_assignment c first n (k, a) s = Inr (u', t)"
    and rest: "tx_for (store_planned_assignment c first n) (enumerate (Suc k) assignments) t = Inr (u, s')"
    by (auto simp: tx_bind_Inr)
  show ?case
  proof (cases i)
    case 0
    with stored_planned(2) [OF t] Cons.prems(3) show ?thesis by auto
  next
    case (Suc j)
    with Cons.IH [OF rest, of j] Cons.prems stored_planned(1) [OF t] show ?thesis by auto
  qed
qed simp

lemma recorded_in_order:
  assumes "record_plan_revision rd c n plan rec now s = Inr (u, s')" and "\<And>l. \<not> has_planned (ses_db s) c l"
  shows "dependencies_first (plan_assignments plan)"
proof -
  from assms(1) obtain t t' t'' first where
    t: "tx_execute (insert_plan \<lparr>plr_commission_id = c, plr_revision = pre_revision rec, plr_source = pre_source rec,
          plr_reason = pre_reason rec, plr_snapshot = plan, plr_created_at = now\<rparr>) s = Inr ((), t)"
    and t': "record_event_with_payload rd c EventKind.PlanRevised n
         (JObject (object_insert ''plan_revision'' (json_of_int (pre_revision rec)) (pre_provenance rec))) t = Inr ((), t')"
    and stored: "tx_for (store_planned_assignment c first (pre_revision rec)) (enumerate 0 (plan_assignments plan)) t' = Inr ((), t'')"
    unfolding record_plan_revision_def
    by (auto simp: bind_query_Inr tx_bind_Inr [where m = "tx_execute x" for x] tx_bind_Inr [where m = "tx_for f xs" for f xs]
        tx_bind_Inr [where m = "record_event_with_payload rd c ev n p" for ev p])
  have "planned.keeps (record_event_with_payload rd c ev k p)" for ev k p
    by (auto simp: record_event_with_payload_def)
  from planned_frame [OF this t'] planned_frame [OF planned_execute(1) t]
  have "has_planned (ses_db t') = has_planned (ses_db s)" by simp
  with stored_in_order [OF stored] assms(2) show ?thesis
    by (fastforce simp: dependencies_first_def list_all_iff)
qed

lemma merged_shape:
  "merge_assignments requirements assignments = Inr merged \<Longrightarrow>
     map pa_id merged = map pa_id assignments \<and> map pa_dependencies merged = map pa_dependencies assignments"
  by (induction assignments arbitrary: merged) (auto simp: outcome_simps)

lemma dependencies_first_shape:
  assumes "map pa_id merged = map pa_id assignments" and "map pa_dependencies merged = map pa_dependencies assignments"
  shows "dependencies_first merged = dependencies_first assignments"
proof -
  have len: "length merged = length assignments" using assms(1) by (rule map_eq_imp_length_eq)
  have "pa_dependencies (merged ! i) = pa_dependencies (assignments ! i)" if "i < length assignments" for i
    using assms(2) that len by (metis nth_map)
  moreover have "map pa_id (take k merged) = map pa_id (take k assignments)" for k
    using assms(1) by (metis take_map)
  ultimately show ?thesis unfolding dependencies_first_def len by (auto simp: list_all_iff)
qed

lemma proposed_plan:
  assumes "proposal_plan_or_legacy (Some plan) c db = Inr plan'"
  obtains merged requirements where "merge_assignments requirements (plan_assignments plan) = Inr merged"
    "plan' = plan\<lparr>plan_assignments := merged\<rparr>"
proof -
  from assms obtain row where "(case row of (commission :: CommissionRow, ceilings :: ResourceCeilings) \<Rightarrow>
      case Some plan of Some p \<Rightarrow>
         and_then (merge_assignments (cm_worker_requirements commission) (plan_assignments p)) (\<lambda>assignments.
         Ok (p\<lparr>plan_assignments := assignments\<rparr>))
     | None \<Rightarrow> Ok (legacy_plan commission ceilings db)) = Inr plan'"
    unfolding proposal_plan_or_legacy_def and_then_eq_Inr by (elim exE conjE)
  then show ?thesis by (cases row) (auto simp: and_then_eq_Inr intro: that)
qed

lemma acceptance_needs_order:
  assumes "accept_commission_work sys runtime rd request c n s = Inr (v, s')"
    and r: "find_commission c (ses_db s) = Inr r" "cm_planning r = None" "cm_plan r = Some plan"
    and fresh: "\<And>l. \<not> has_planned (ses_db s) c l"
  shows "dependencies_first (plan_assignments plan)"
proof -
  have pre: "planned.keeps (open_principal_verification_gates c k now)" "planned.keeps (record_event rd c ev k)" for k now ev
    by (auto simp: open_principal_verification_gates_def record_event_def record_event_with_payload_def)
  from assms(1) r obtain t1 t2 t3 t4 t5 now where
    run: "tx_update (activate c (n + 1) now) (s\<lparr>ses_clock := Suc (ses_clock s)\<rparr>) = Inr ((), t1)"
    "tx_execute (bind_criterion_versions c (n + 1)) t1 = Inr ((), t2)"
    "open_principal_verification_gates c (n + 1) now t2 = Inr ((), t3)"
    "record_event rd c EventKind.CommissionAccepted (n + 1) t3 = Inr ((), t4)"
    and plan: "plan_of_proposal rd c (Some plan) (n + 1) now t4 = Inr ((), t5)"
    unfolding accept_commission_work_def
    by (auto simp: peel_simps tx_bind_Inr [where m = "tx_update u" for u] tx_bind_Inr [where m = "tx_execute u" for u]
        tx_bind_Inr [where m = "open_principal_verification_gates c k l" for k l]
        tx_bind_Inr [where m = "record_event rd c ev k" for ev k]
        tx_bind_Inr [where m = "plan_of_proposal rd c p k l" for p k l] split: if_splits)
  have same: "has_planned (ses_db t4) = has_planned (ses_db s)"
    using planned_frame [OF planned_execute(7) run(1)] planned_frame [OF planned_execute(5) run(2)]
      planned_frame [OF pre(1) run(3)] planned_frame [OF pre(2) run(4)] by simp
  from plan obtain plan' where plan': "proposal_plan_or_legacy (Some plan) c (ses_db t4) = Inr plan'"
    and init: "initialize_commission_plan rd c (n + 1) plan' False now t4 = Inr ((), t5)"
    by (auto simp: plan_of_proposal_def bind_query_Inr)
  from plan' obtain merged requirements where merged: "merge_assignments requirements (plan_assignments plan) = Inr merged"
    "plan' = plan\<lparr>plan_assignments := merged\<rparr>"
    by (rule proposed_plan)
  from recorded_in_order [OF init [unfolded initialize_commission_plan_def Let_def]]
  have "dependencies_first merged" using fresh same merged(2) by simp
  with merged_shape [OF merged(1)] dependencies_first_shape [of merged "plan_assignments plan"] show ?thesis by blast
qed

section \<open>A request carried out for the first time\<close>

context idempotent_handler
begin

lemma carried_out:
  assumes "handle sys rd request db = Inr (v, db')" and "mutation_key request = Inr key" and "recorded db key = None"
  obtains s answers where "accepts sys request"
    "work sys rd request \<lparr>ses_db = db, ses_clock = 0, ses_millis = 0, ses_uuid = 0\<rparr> = Inr (v, s)"
    "db' = (ses_db s)\<lparr>db_idempotency_keys := answers\<rparr>"
proof -
  from runs [OF assms(1)] assms(2) obtain hash where ok: "accepts sys request"
    and t: "idempotent_transaction rd key hash (work sys rd request) db = Inr (v, db')" by auto
  from t show ?thesis
  proof (cases rule: idempotent_cases)
    case replayed
    with assms(3) show ?thesis by simp
  next
    case (worked s s' u)
    from worked(3) obtain answers where "ses_db s' = (ses_db s)\<lparr>db_idempotency_keys := answers\<rparr>"
      by (auto simp: save_idempotent_result_def tx_simps insert_idempotency_key_def split: if_splits)
    then show ?thesis by (intro that [OF ok worked(2)]) (simp add: worked(4))
  qed
qed

end

text \<open>Recording the answer changes none of the tables the results speak of.\<close>

lemma answers_irrelevant [simp]:
  "nothing_runs c (db\<lparr>db_idempotency_keys := k\<rparr>) = nothing_runs c db"
  "nothing_authorized c (db\<lparr>db_idempotency_keys := k\<rparr>) = nothing_authorized c db"
  "abs_life (db\<lparr>db_idempotency_keys := k\<rparr>) = abs_life db"
  "load_authority c (db\<lparr>db_idempotency_keys := k\<rparr>) = load_authority c db"
  "load_resource_ceilings c (db\<lparr>db_idempotency_keys := k\<rparr>) = load_resource_ceilings c db"
  "authorizes_only i now db' (db\<lparr>db_idempotency_keys := k\<rparr>) = authorizes_only i now db' db"
  "has_commission (db\<lparr>db_idempotency_keys := k\<rparr>) c = has_commission db c"
proof -
  have "effect_tables (db\<lparr>db_idempotency_keys := k\<rparr>) = effect_tables db" by (simp add: effect_tables_def)
  from effect_tables_cong [OF this] show "nothing_runs c (db\<lparr>db_idempotency_keys := k\<rparr>) = nothing_runs c db"
    "nothing_authorized c (db\<lparr>db_idempotency_keys := k\<rparr>) = nothing_authorized c db" .
qed (simp_all add: abs_life_def fun_eq_iff load_authority_def load_authority_scope_def
      load_resource_ceilings_def authorizes_only_def has_commission_def)

end
