(* ===== verification/Spec2Isabelle.thy ===== *)
theory Spec2Isabelle
  imports Planning Catalog Operations Attachment Domain Sample_Memory Store_Effects
begin

text \<open>
  Tyrion is a local control plane for coding agents. An Entry Session connects to the daemon as an
  \<^emph>\<open>Attachment\<close> and proposes a \<^emph>\<open>Commission\<close>: a goal, Acceptance Criteria, an Authority Envelope and
  Resource Ceilings. The Principal accepts it; a plan splits it into Assignments; the frontier decides which
  Assignments may run, routing decides on which Worker, and effects on the outside world go through
  operations that are classified and, where needed, approved. Everything is recorded in one SQLite database.
  This library models the decisions of that control plane and the durable state they act on.

  \<^bold>\<open>Theories and the code they model\<close> (files under \<^verbatim>\<open>src/src\<close>).

  \<^item> \<^verbatim>\<open>Tyrion_Prelude\<close>: machine integers with the checked and saturating operations of Rust, text and path
    operations of the standard library, association lists, results. \<^verbatim>\<open>Json\<close>: \<^verbatim>\<open>serde_json::Value\<close> and its accessors.
  \<^item> \<^verbatim>\<open>Domain\<close> (\<^verbatim>\<open>domain.rs\<close>), \<^verbatim>\<open>Errors\<close> (\<^verbatim>\<open>error.rs\<close>), \<^verbatim>\<open>Protocol\<close> (\<^verbatim>\<open>protocol.rs\<close>), \<^verbatim>\<open>Attachment\<close>
    (\<^verbatim>\<open>attachment.rs\<close>): enumerations and the texts they are stored as, errors, requests, capabilities.
  \<^item> \<^verbatim>\<open>Frontier\<close> (\<^verbatim>\<open>store/frontier.rs\<close>): selection of ready Assignments.
  \<^item> \<^verbatim>\<open>Acyclic_Plan\<close>, \<^verbatim>\<open>Plan_Validation\<close>, \<^verbatim>\<open>Plan_Spec\<close>, \<^verbatim>\<open>Proposal\<close> (\<^verbatim>\<open>store.rs\<close>): \<^verbatim>\<open>validate_plan_against\<close>,
    \<^verbatim>\<open>validate_proposal\<close> and what they call. Iteration over hash maps takes its order from an argument, so the
    theorems hold for every order.
  \<^item> \<^verbatim>\<open>Planning\<close> (\<^verbatim>\<open>store/planning.rs\<close>): plans written by a planning Worker.
  \<^item> \<^verbatim>\<open>Routing\<close>, \<^verbatim>\<open>Catalog\<close> (\<^verbatim>\<open>worker/routing.rs\<close>, \<^verbatim>\<open>worker/contained_codex.rs\<close>): Worker configurations.
  \<^item> \<^verbatim>\<open>Operations\<close> (\<^verbatim>\<open>store.rs\<close>): shape and classification of operations, credential grants.
  \<^item> \<^verbatim>\<open>Store_Db\<close> (\<^verbatim>\<open>store/schema.rs\<close>, \<^verbatim>\<open>store.rs\<close>): the tables as lists of records, one insertion function per
    table with its CHECK, PRIMARY KEY, UNIQUE and REFERENCES constraints, transactions, idempotency, events and
    authentication.
  \<^item> \<^verbatim>\<open>Store_Attachments\<close> (connecting, resuming, replay, takeover, pause), \<^verbatim>\<open>Store_Proposals\<close> (proposing),
    \<^verbatim>\<open>Store_Plans\<close> and \<^verbatim>\<open>Store_Acceptance\<close> (accepting, storing the plan, routing), \<^verbatim>\<open>Store_Operations\<close> (proposing
    and approving operations, granting credentials), \<^verbatim>\<open>Store_Cancellation\<close>, \<^verbatim>\<open>Store_Amendments\<close> (all \<^verbatim>\<open>store.rs\<close>): the
    request handlers, each a transaction with its guards, writes, events and answer in the order of the code. One
    definition per SQL statement that changes a table.
  \<^item> \<^verbatim>\<open>Store_History\<close>, \<^verbatim>\<open>Store_Control\<close>, \<^verbatim>\<open>Store_Quiet\<close>: what every handler keeps of the history and of control.
    \<^verbatim>\<open>Store_Machine\<close>: the step relation \<^verbatim>\<open>store_step\<close>, one rule per handler, whose steps are the successful requests.
    \<^verbatim>\<open>Store_Spec\<close>, \<^verbatim>\<open>Store_Life\<close>: control and the life of Commissions as abstract machines that the steps refine.
    \<^verbatim>\<open>Store_Effects\<close>: what cancelling, amending and approving leave behind.
  \<^item> \<^verbatim>\<open>Profile_Claims\<close>, \<^verbatim>\<open>Profile_Memory\<close> (\<^verbatim>\<open>store.rs\<close>, \<^verbatim>\<open>store/schema.rs\<close>): what the Principal's Profile remembers. The
    tables of Claims, their versions, observations, lifecycle and Learning Boundaries; the loops that demote soft Claims
    to make room; the handlers that state, observe, confirm, suppress, revise and forget a Claim or forbid learning
    one. \<^verbatim>\<open>Profile_Invariants\<close>: the step relation \<^verbatim>\<open>memory_step\<close> of these handlers and the invariant they keep, through the
    locale \<^verbatim>\<open>memory_invariant\<close>.
  \<^item> \<^verbatim>\<open>Sample_Memory\<close>: two reachable memories and a full Profile, for the witnesses.
  \<^item> \<^verbatim>\<open>Sample_Run\<close>: concrete data and one run of ten requests, evaluated step by step, for the witnesses.

  \<^bold>\<open>Conventions.\<close> A fallible function returns \<^verbatim>\<open>TyrionError failure + 'a\<close>; a panic is a failure of its own, so
  that absence of panics is a theorem. \<^verbatim>\<open>u32\<close> and \<^verbatim>\<open>u64\<close> are words. Columns of type \<^verbatim>\<open>i64\<close> are integers;
  where the code adds to one without a check the values are far from the bound (revisions count requests), and
  where it saturates the model saturates. A column that holds JSON written by the program holds the encoded value
  in the model. A transaction is a function of a session: the database and how many readings of the clock and
  of the random generator were taken. Each reading is an argument of the request and may differ at every call, so
  no theorem assumes that time moves forward or that identifiers are new. A failed transaction changes nothing.
  The serialization library, SHA-256, the file system and the read-only projections are fields of the record
  \<^verbatim>\<open>Sys\<close> or arguments of the function that uses them.

  \<^bold>\<open>What is shown.\<close> Plans: the validator accepts exactly the well-formed plans, and what that gives for
  authority, ceilings and progress. Frontier: selection respects ceilings and write scopes. Routing and catalog:
  eligibility, optimality, independence of catalog order, containment. Operations: nothing outside the
  Authority Envelope is permitted. Store: in every reachable state each Commission has one active Attachment;
  control refines a partial map with a fencing counter; history only grows and replay misses nothing; launch
  tokens work once; capabilities only shrink; the life of a Commission refines an abstract machine in which
  cancelled is final; a cancellation leaves nothing running or authorized; an Amendment and an approval are exactly
  what the Principal confirmed; a mandate is read back as it was proposed. Memory: active Profiles stay within their
  budgets of Claims and tokens, making room for a Claim ends and never demotes a hard one, and no active Claim makes a
  statement that a Learning Boundary forbids. Four theorems record flaws of the code:
  scopes with a trailing slash whose overlap is missed; a planner summary that makes the parser panic; a valid plan
  that lists an Assignment before its dependency and can then never be accepted; an Amendment that gives a coding
  Commission effects which a proposal may not have.

  \<^bold>\<open>Termination and fuel.\<close> No definition uses fuel. The graph searches \<^verbatim>\<open>visit\<close> and \<^verbatim>\<open>depends_search\<close> are total
  functions with their own termination proofs (the unexplored nodes decrease), as is the loop \<^verbatim>\<open>demote_until\<close> (every
  round leaves one active soft Claim less).

  \<^bold>\<open>Not modelled.\<close> Processes, containers, sockets, the keychain and HTTP (\<^verbatim>\<open>worker.rs\<close>, \<^verbatim>\<open>credential.rs\<close>,
  \<^verbatim>\<open>containment.rs\<close>, \<^verbatim>\<open>daemon.rs\<close>): they are input and output. The command line, installation and rendering
  (\<^verbatim>\<open>bin\<close>, \<^verbatim>\<open>init.rs\<close>, \<^verbatim>\<open>uninstall.rs\<close>, \<^verbatim>\<open>digest.rs\<close>). Opening and migrating the database. Of \<^verbatim>\<open>store.rs\<close>,
  running Assignments and integrating their results, which interleaves the database with git and Worker processes,
  executing and reconciling operations, recovery after a restart, verification, exporting and importing memory bundles
  (an import creates its own Commission), and what a Worker is told of the Profile. The lower-casing of Unicode text is
  an argument of the memory handlers. So \<^verbatim>\<open>store_step\<close> and
  \<^verbatim>\<open>memory_step\<close> have no rules for these requests, and an invariant of the reachable states is one of the requests they have.
\<close>


section \<open>Control of a Commission\<close>



text \<open>C2. Control refines its specification, a partial map from Commissions to their active Attachment and
  control revision: every request that succeeds leaves the map unchanged, adds a new Commission at control
  revision 0, or hands one Commission to another Attachment and counts its control revision up by one.\<close>

theorem control_refines_spec:
  assumes "reachable sys db" and "store_step sys db db'"
  shows "control_spec (abs_control db) (abs_control db')"
  using assms(2) control.reachable [OF assms(1)] by (rule step_refines)

lemma control_refines_spec_witness:
  "control_spec (abs_control db_joined) (abs_control db_taken)
   \<and> abs_control db_joined ''c'' = Some (''b'', 0) \<and> abs_control db_taken ''c'' = Some (''e'', 1)"
proof (intro conjI)
  from sample_reachable(5) sample_steps(6) show "control_spec (abs_control db_joined) (abs_control db_taken)"
    by (rule control_refines_spec)
  show "abs_control db_joined ''c'' = Some (''b'', 0)" by code_simp
  show "abs_control db_taken ''c'' = Some (''e'', 1)" by code_simp
qed

text \<open>C3. Takeovers are fenced: once a takeover that expected control revision \<open>k\<close> was carried out, then
  whatever requests follow, a different request that still expects \<open>k\<close> never takes control.\<close>

theorem takeover_fenced:
  assumes "reachable sys db" and "mutation_key request = Inr key" and "recorded db key = None"
    and "take_control sys rd request c db = Inr (v, db')" and "(store_step sys)\<^sup>*\<^sup>* db' later"
    and "req_expected_control_revision request' = req_expected_control_revision request"
    and "mutation_key request' = Inr key'" and "recorded later key' = None"
  shows "take_control sys rd' request' c later \<noteq> Inr r"
proof
  assume again: "take_control sys rd' request' c later = Inr r"
  obtain w db2 where r: "r = (w, db2)" by force
  have wf: "control_wf db" using assms(1) by (rule control.reachable)
  from takeover_abs [OF assms(4) wf assms(2, 3)] obtain a k where
    k: "req_expected_control_revision request = Some k" "abs_control db' c = Some (a, k + 1)" by auto
  have wf': "control_wf db'" using control.step [OF _ wf] assms(4) by (blast intro: store_step.takeover)
  from run_control_monotone [OF assms(5) wf' k(2)] obtain a' k' where
    later: "control_wf later" "abs_control later c = Some (a', k')" "k + 1 \<le> k'" by blast
  from takeover_abs [OF again [unfolded r] later(1) assms(7, 8)] obtain b j where
    "req_expected_control_revision request' = Some j" "abs_control later c = Some (b, j)" by auto
  with k later assms(6) show False by simp
qed

lemma takeover_fenced_witness:
  "isl (take_control sample_sys (sample_readings ''g'') (sample_req ''k7'' (Some ''tat_bx_bxx'')) ''c'' db_taken)"
proof -
  obtain v where run: "take_control sample_sys (sample_readings ''f'') (sample_req ''k6'' (Some ''tat_ex_exx'')) ''c''
      db_joined = Inr (v, db_taken)"
    using sample_runs(6) by blast
  have keys: "mutation_key (sample_req ''k6'' (Some ''tat_ex_exx'')) = Inr ''k6''"
    "mutation_key (sample_req ''k7'' (Some ''tat_bx_bxx'')) = Inr ''k7''" by code_simp+
  have unseen: "recorded db_joined ''k6'' = None" "recorded db_taken ''k7'' = None" by code_simp+
  have "\<And>r. take_control sample_sys (sample_readings ''g'') (sample_req ''k7'' (Some ''tat_bx_bxx'')) ''c''
      db_taken \<noteq> Inr r"
    by (rule takeover_fenced [OF sample_reachable(5) keys(1) unseen(1) run rtranclp.rtrancl_refl _ keys(2) unseen(2)])
      (simp add: sample_req_def)
  then show ?thesis by (metis isl_def sum.exhaust)
qed

section \<open>History\<close>

text \<open>C4. The history is append-only: along any run no event is removed, changed or reordered, no recorded
  answer is lost, and the numbers of new events are larger than all numbers given out before.\<close>

theorem history_append_only:
  assumes "reachable sys db" and "(store_step sys)\<^sup>*\<^sup>* db db'"
  shows "\<exists>es. db_events db' = db_events db @ es \<and> list_all (\<lambda>e. db_event_sequence db < ev_sequence e) es
    \<and> sorted_wrt (<) (map ev_sequence (db_events db')) \<and> prefix (db_idempotency_keys db) (db_idempotency_keys db')"
proof -
  have "reachable sys db'" using assms unfolding reachable_def by (rule rtranclp_trans)
  then have "events_wf db'" by (rule log.reachable)
  with run_history [OF assms(2)] show ?thesis
    by (auto simp: events_wf_def history_grows_def list_all_iff)
qed

lemma history_append_only_witness:
  "\<exists>es. db_events db_taken = db_events db_connected @ es"
proof -
  have "(store_step sample_sys)\<^sup>*\<^sup>* db_connected db_taken"
    by (meson sample_steps converse_rtranclp_into_rtranclp rtranclp.rtrancl_refl)
  from history_append_only [OF sample_reachable(2) this] show ?thesis by blast
qed

text \<open>C5. Replay is gap-free: a client that replays from cursor \<open>k\<close>, and later from the cursor it got back,
  has received exactly the events after \<open>k\<close> of the later log, each once and in order.\<close>

theorem replay_gap_free:
  assumes "reachable sys db" and "(store_step sys)\<^sup>*\<^sup>* db later"
  shows "events_after c k later
    = events_after c k db @ events_after c (next_cursor k (events_after c k db)) later"
proof -
  have "reachable sys later" using assms unfolding reachable_def by (rule rtranclp_trans)
  with assms show ?thesis by (intro replay_resumes log.reachable run_history)
qed

lemma replay_gap_free_witness:
  "events_after ''c'' 1 db_joined
     = events_after ''c'' 1 db_issued_again @ events_after ''c'' 3 db_joined"
proof -
  have "(store_step sample_sys)\<^sup>*\<^sup>* db_issued_again db_joined" using sample_steps(5) ..
  moreover have "next_cursor 1 (events_after ''c'' 1 db_issued_again) = 3" by code_simp
  ultimately show ?thesis using replay_gap_free [OF sample_reachable(4), of "db_joined" "''c''" 1] by simp
qed

section \<open>Attachments\<close>

text \<open>C6. A launch token works once, in time and for the adapter it was issued to: a connection succeeds only
  with a token that exists, is unused, has not expired on the clock and names the same adapter; and after it,
  whatever requests follow, no connection with that token succeeds.\<close>

theorem launch_token_single_use:
  assumes "connect_attachment sys rd request token handshake cursor db = Inr (v, db')"
    and "(store_step sys)\<^sup>*\<^sup>* db' later"
  shows "(\<exists>t now. List.find (\<lambda>t. lt_token_hash t = attachment_token_hash sys token) (db_launch_tokens db) = Some t
       \<and> lt_consumed_at t = None \<and> rd_unix_timestamp rd 0 = Inr now \<and> now < lt_expires_at t
       \<and> lt_expected_harness t = ai_harness (ah_adapter handshake)
       \<and> lt_expected_adapter_identity t = ai_adapter_identity (ah_adapter handshake)
       \<and> lt_expected_adapter_version t = ai_adapter_version (ah_adapter handshake))
    \<and> connect_attachment sys rd' request' token handshake' cursor' later \<noteq> Inr r"
proof -
  have "token_used db' (attachment_token_hash sys token)" using assms(1) by (rule connect_token)
  with run_history [OF assms(2)] have "token_used later (attachment_token_hash sys token)"
    by (simp add: history_grows_def)
  then have "connect_attachment sys rd' request' token handshake' cursor' later \<noteq> Inr r"
    by (rule used_token_refused)
  with connect_token(1) [OF assms(1)] show ?thesis by blast
qed

lemma launch_token_single_use_witness:
  "isl (connect_attachment sample_sys (sample_readings ''g'') (sample_req ''k9'' None) ''tlt_a_ax'' sample_handshake None
     db_connected)"
proof -
  obtain v where run: "connect_attachment sample_sys (sample_readings ''b'') (sample_req ''k2'' None) ''tlt_a_ax''
      sample_handshake None db_issued = Inr (v, db_connected)"
    using sample_runs(2) by blast
  have "connect_attachment sample_sys (sample_readings ''g'') (sample_req ''k9'' None) ''tlt_a_ax''
      sample_handshake None db_connected \<noteq> Inr r" for r
    using launch_token_single_use [OF run rtranclp.rtrancl_refl] by blast
  then show ?thesis by (metis isl_def sum.exhaust)
qed

text \<open>C7. Capabilities only shrink: along any run an Attachment never disappears and never gains a capability
  it did not have.\<close>

theorem capabilities_never_grow:
  assumes "reachable sys db" and "(store_step sys)\<^sup>*\<^sup>* db db'" and "capabilities_of db a = Some C"
  shows "\<exists>C'. capabilities_of db' a = Some C' \<and> C' \<subseteq> C"
proof -
  have "caps_shrink db db'"
    using assms(2)
  proof (induction rule: rtranclp_induct)
    case (step y z)
    have "reachable sys y" using assms(1) step.hyps(1) unfolding reachable_def by (rule rtranclp_trans)
    from step_caps [OF step.hyps(2) attached.reachable [OF this]] step.IH show ?case by (blast intro: caps.rel_trans)
  qed (rule caps.rel_refl)
  with assms(3) show ?thesis by (auto simp: caps_shrink_def)
qed

lemma capabilities_never_grow_witness:
  "\<exists>C'. capabilities_of db_taken ''e'' = Some C' \<and> C' \<subseteq> set sample_capabilities"
proof -
  have "(store_step sample_sys)\<^sup>*\<^sup>* db_joined db_taken" using sample_steps(6) ..
  moreover have "capabilities_of db_joined ''e'' = Some (set sample_capabilities)"
    by (simp add: capabilities_of_def db_joined_def sample_attachment_def)
  ultimately show ?thesis using capabilities_never_grow [OF sample_reachable(5)] by blast
qed


section \<open>The life of a Commission\<close>



text \<open>C9. A cancelled Commission stays cancelled at the revision it had, whatever requests follow, and the
  revision of a Commission never decreases.\<close>

theorem cancelled_is_final:
  assumes "(store_step sys)\<^sup>*\<^sup>* db db'" and "abs_life db c = Some (st, n)"
  shows "\<exists>st' n'. abs_life db' c = Some (st', n') \<and> n \<le> n' \<and> (st = ''cancelled'' \<longrightarrow> st' = ''cancelled'' \<and> n' = n)"
  using assms by (rule run_life)

lemma cancelled_is_final_witness:
  "\<exists>st' n'. abs_life db_cancelled ''c'' = Some (st', n') \<and> 1 \<le> n'"
proof -
  have "(store_step sample_sys)\<^sup>*\<^sup>* db_active db_cancelled"
    by (meson sample_steps converse_rtranclp_into_rtranclp rtranclp.rtrancl_refl)
  moreover have "abs_life db_active ''c'' = Some (''active'', 1)"
    by (simp add: abs_life_def db_active_def active_commission_def sample_commission_def)
  ultimately show ?thesis using cancelled_is_final by blast
qed

text \<open>C10. Cancelling is complete. When a request to cancel is carried out, the Commission is cancelled and nothing
  of it is left running or authorized: no running Attempt or Worker, no active lease or reservation, no open gate,
  no operation that may still start, no operation in progress (those become uncertain), no usable credential.\<close>

theorem cancel_revokes_everything:
  assumes "cancel_commission sys rd lock request c db = Inr (v, db')"
    and "mutation_key request = Inr key" and "recorded db key = None"
  shows "(\<exists>n. abs_life db' c = Some (''cancelled'', n)) \<and> nothing_runs c db' \<and> nothing_authorized c db'"
  using assms
proof (rule cancelling.carried_out)
  fix s answers
  assume run: "cancel_commission_work sys rd request c (the (req_expected_revision request))
      \<lparr>ses_db = db, ses_clock = 0, ses_millis = 0, ses_uuid = 0\<rparr> = Inr (v, s)"
    and db': "db' = (ses_db s)\<lparr>db_idempotency_keys := answers\<rparr>"
  from cancel_life [OF run] cancelled_effects [OF run] show ?thesis unfolding db' answers_irrelevant by auto
qed

lemma cancel_revokes_everything_witness:
  "abs_life db_cancelled ''c'' = Some (''cancelled'', 2) \<and> nothing_runs ''c'' db_cancelled \<and> nothing_authorized ''c'' db_cancelled"
proof -
  obtain v where run: "cancel_commission sample_sys (sample_readings ''l'') (Inr ()) (sample_revision 2 ''ka'' (Some ''tat_ex_exx''))
      ''c'' db_amended = Inr (v, db_cancelled)"
    using sample_runs(10) by blast
  have "mutation_key (sample_revision 2 ''ka'' (Some ''tat_ex_exx'')) = Inr ''ka''" "recorded db_amended ''ka'' = None"
    by code_simp+
  from cancel_revokes_everything [OF run this]
  have "nothing_runs ''c'' db_cancelled \<and> nothing_authorized ''c'' db_cancelled" by blast
  moreover have "abs_life db_cancelled ''c'' = Some (''cancelled'', 2)"
    by (simp add: abs_life_def db_cancelled_def active_commission_def sample_commission_def)
  ultimately show ?thesis by blast
qed

text \<open>C11. An Amendment is accepted exactly as the Principal saw it. When a request to accept one is carried out it
  carried the Principal's credential and the digest of an Amendment that was proposed for the current revision;
  afterwards the authority and the ceilings of the Commission are those of the Amendment, the revision is one
  higher, and every gate, operation and credential of the old mandate is revoked.\<close>

theorem amendment_exact:
  assumes "accept_commission_amendment sys rd token_hash lock request c i d db = Inr (v, db')"
    and "mutation_key request = Inr key" and "recorded db key = None"
  shows "authenticate_principal sys request token_hash = Inr ()
    \<and> (\<exists>a st n. find_amendment i c db = Inr a \<and> amr_status a = ''proposed'' \<and> amr_digest a = d
         \<and> abs_life db c = Some (st, n) \<and> amr_base_revision a = n \<and> req_expected_revision request = Some n
         \<and> abs_life db' c = Some (st, n + 1) \<and> load_authority c db' = amr_authority a
         \<and> (\<forall>old. load_resource_ceilings c db = Inr old \<longrightarrow>
              load_resource_ceilings c db' = Inr (amr_resource_ceilings a)))
    \<and> nothing_authorized c db'"
proof -
  from assms obtain s answers where ok: "req_expected_revision request \<noteq> None \<and> authenticate_principal sys request token_hash = Inr () \<and> lock = Inr ()"
    and run: "accept_amendment_work sys rd c i d (the (req_expected_revision request))
      \<lparr>ses_db = db, ses_clock = 0, ses_millis = 0, ses_uuid = 0\<rparr> = Inr (v, s)"
    and db': "db' = (ses_db s)\<lparr>db_idempotency_keys := answers\<rparr>" by (rule accepting_amendment.carried_out)
  from amend_life [OF run] amendment_carried_out [OF run] amendment_revokes [OF run] ok show ?thesis
    unfolding db' by auto
qed

lemma amendment_exact_witness:
  "load_authority ''c'' db_amended = am_authority sample_amendment"
proof -
  obtain v where run: "accept_commission_amendment sample_sys (sample_readings ''k'') ''p'' (Inr ()) principal_req ''c'' ''i'' ''j''
      db_amending = Inr (v, db_amended)"
    using sample_runs(9) by blast
  have key: "mutation_key principal_req = Inr ''k9''" by code_simp
  have "recorded db_amending ''k9'' = None" by code_simp
  moreover have "find_amendment ''i'' ''c'' db_amending = Inr sample_amendment_row"
    by (simp add: find_amendment_def db_amending_def sample_amendment_row_def)
  ultimately show ?thesis
    using amendment_exact [OF run key] by (auto simp: sample_amendment_row_def)
qed

text \<open>C12. An operation is authorized only as the Principal saw it. When an approval is carried out it carried the
  Principal's credential and the digest of an open gate; the operation decoded from the stored canonical form lies
  in the current Authority Envelope and needs a gate, and its Attempt runs under an active lease of the current
  mandate; and among all operations exactly the one behind the gate becomes authorized. Gate ids are assumed to be
  distinct, as the primary key of the table guarantees.\<close>

theorem approval_exact:
  assumes "approve_operation sys rd token_hash request c i d db = Inr (v, db')"
    and "mutation_key request = Inr key" and "recorded db key = None" and "distinct (map ag_id (db_gates db))"
  shows "authenticate_principal sys request token_hash = Inr ()
    \<and> (\<exists>g r operation n now. gate_and_operation i c db = Inr (g, r) \<and> ag_status g = ''open''
         \<and> or_status r = ''approval_required'' \<and> ag_operation_digest g = d
         \<and> and_then (without_target_revision (or_canonical r)) (sys_operation_from_value sys) = Inr operation
         \<and> req_expected_revision request = Some n \<and> in_current_context c operation n db
         \<and> within_envelope operation (load_authority c db) \<and> authorizes_only (or_id r) now db db')"
proof -
  from assms(1-3) obtain s answers where
    ok: "req_expected_revision request \<noteq> None \<and> authenticate_principal sys request token_hash = Inr ()"
    and run: "approve_operation_work sys rd c i d (the (req_expected_revision request))
      \<lparr>ses_db = db, ses_clock = 0, ses_millis = 0, ses_uuid = 0\<rparr> = Inr (v, s)"
    and db': "db' = (ses_db s)\<lparr>db_idempotency_keys := answers\<rparr>" by (rule approving.carried_out)
  have gate: "within_envelope operation authority"
    if "fst (classify_operation operation authority) = OperationClassification.ApprovalGate" for operation authority
    using that by (auto simp: classify_operation_def split: if_splits)
  from approval_carried_out [OF run] assms(4) ok show ?thesis
    unfolding db' answers_irrelevant Session.select_convs using gate by fastforce
qed

definition gated_operation :: OperationRequest where
  "gated_operation =
     \<lparr>op_assignment_id = ''h'', op_attempt_id = ''t'', op_worker_lease_id = ''l'', op_mandate_revision = 1,
      op_plan_revision = 1, op_operation = ''filesystem.write'', op_repository = Some ''/r'', op_target = ''src/a'',
      op_parameters = [], op_destination = Some ''local'', op_effect = Some ''filesystem.write'',
      op_credential = None, op_consequences = [''x''],
      op_limits = \<lparr>ol_max_output_bytes = 1, ol_max_duration_seconds = 1, ol_max_paid_service_spend_cents = 0\<rparr>\<rparr>"

definition gated_sys :: Sys where
  "gated_sys = sample_sys\<lparr>sys_operation_from_value := (\<lambda>_. Inr gated_operation)\<rparr>"

definition gated_row :: OperationRow where
  "gated_row =
     \<lparr>or_id = ''o'', or_commission_id = ''c'', or_operation = gated_operation, or_canonical = JObject [], or_digest = ''d'',
      or_classification = ''approval_gate'', or_status = ''approval_required'', or_classification_reason = ''x'',
      or_proposed_at = 1000, or_authorized_at = None, or_started_at = None, or_completed_at = None, or_receipt = None\<rparr>"

definition db_gated :: Db where
  "db_gated = empty_db
     \<lparr>db_commissions := [active_commission],
      db_authority_scopes := authority_rows ''c'' sample_authority,
      db_assignments := [sample_work_assignment ''running''],
      db_attempts := [\<lparr>atm_id = ''t'', atm_assignment_id = ''h'', atm_worker_configuration = ''w'', atm_status = ''running'',
         atm_started_at = 1000, atm_completed_at = None, atm_execution_completed_at_ms = None,
         atm_completed_at_ms = None, atm_revision_disposition = ''none''\<rparr>],
      db_leases := [\<lparr>wl_id = ''l'', wl_attempt_id = ''t'', wl_expires_at = 2000, wl_mandate_revision = 1,
         wl_released_at = None, wl_status = ''active''\<rparr>],
      db_operations := [gated_row],
      db_gates := [\<lparr>ag_id = ''g'', ag_commission_id = ''c'', ag_operation_request_id = ''o'', ag_operation_digest = ''d'',
         ag_status = ''open'', ag_opened_at = 1000, ag_authorized_at = None, ag_consumed_at = None,
         ag_invalidated_at = None\<rparr>]\<rparr>"

definition approved :: "(json \<times> Db) result" where
  "approved = approve_operation gated_sys (sample_readings ''q'') ''p'' principal_req ''c'' ''g'' ''d'' db_gated"

lemma approval_exact_witness:
  "\<exists>v db' operation now. approved = Inr (v, db') \<and> in_current_context ''c'' operation 1 db_gated
     \<and> authorizes_only ''o'' now db_gated db'"
proof -
  have run: "\<not> isl approved" by code_simp
  have facts: "mutation_key principal_req = Inr ''k9''" "recorded db_gated ''k9'' = None"
    "distinct (map ag_id (db_gates db_gated))" "req_expected_revision principal_req = Some 1"
    by (simp_all add: mutation_key_def principal_req_def sample_revision_def sample_req_def recorded_def db_gated_def empty_db_def)
  from run obtain v db' where run: "approved = Inr (v, db')" by (metis isl_def sum.exhaust prod.exhaust)
  from approval_exact [OF run [unfolded approved_def] facts(1-3)] facts(4)
  obtain g r operation now where gr: "gate_and_operation ''g'' ''c'' db_gated = Inr (g, r)"
    and rest: "in_current_context ''c'' operation 1 db_gated" "authorizes_only (or_id r) now db_gated db'" by auto
  from gr have "or_id r = ''o''" by (auto simp: gate_and_operation_def db_gated_def gated_row_def)
  with run rest show ?thesis by auto
qed

text \<open>C13. Flaw: a plan is stored in the order in which it lists its Assignments, and the schema requires each
  dependency to be stored before. A Commission whose plan lists an Assignment before one of its dependencies can
  therefore never be accepted, although the plan passes validation, which does not look at the order; the
  witness is such a plan.\<close>

theorem misordered_plan_never_accepted:
  assumes "find_commission c db = Inr r" and "cm_planning r = None" and "cm_plan r = Some plan"
    and "\<not> dependencies_first (plan_assignments plan)" and "\<forall>l. \<not> has_planned db c l"
    and "mutation_key request = Inr key" and "recorded db key = None"
  shows "accept_commission sys runtime rd request c db \<noteq> Inr answer"
proof
  assume run: "accept_commission sys runtime rd request c db = Inr answer"
  obtain v db' where answer: "answer = (v, db')" by force
  from run [unfolded answer] assms(6, 7) show False
  proof (rule accepting.carried_out)
    fix s answers
    assume "accept_commission_work sys runtime rd request c (the (req_expected_revision request))
      \<lparr>ses_db = db, ses_clock = 0, ses_millis = 0, ses_uuid = 0\<rparr> = Inr (v, s)"
    from acceptance_needs_order [OF this] assms(1-5) show False by simp
  qed
qed

definition misordered_plan :: CommissionPlan where
  "misordered_plan = \<lparr>plan_assignments = rev (plan_assignments sample_plan)\<rparr>"

definition db_misordered :: Db where
  "db_misordered = db_taken\<lparr>db_commissions := [sample_commission\<lparr>cm_control_revision := 1, cm_plan := Some misordered_plan\<rparr>]\<rparr>"

lemma misordered_plan_never_accepted_witness:
  "validate_plan_against hash_order_id sample_mandate misordered_plan = Inr ()
   \<and> isl (accept_commission sample_sys sample_runtime (sample_readings ''h'') (sample_revision 0 ''k7'' (Some ''tat_ex_exx''))
       ''c'' db_misordered)"
proof
  show "validate_plan_against hash_order_id sample_mandate misordered_plan = Inr ()" by code_simp
  have row: "find_commission ''c'' db_misordered = Inr (sample_commission\<lparr>cm_control_revision := 1, cm_plan := Some misordered_plan\<rparr>)"
    by (simp add: find_commission_Ok db_misordered_def sample_commission_def)
  have "\<not> dependencies_first (plan_assignments misordered_plan)"
    by (simp add: dependencies_first_def misordered_plan_def sample_plan_def sample_assignment_def upt_rec)
  moreover have "\<forall>l. \<not> has_planned db_misordered ''c'' l"
    by (simp add: has_planned_def db_misordered_def db_taken_def db_joined_def db_issued_again_def db_proposed_def
        db_connected_def empty_db_def empty_plan_def)
  moreover have "mutation_key (sample_revision 0 ''k7'' (Some ''tat_ex_exx'')) = Inr ''k7''" "recorded db_misordered ''k7'' = None"
    by code_simp+
  ultimately have "accept_commission sample_sys sample_runtime (sample_readings ''h'') (sample_revision 0 ''k7'' (Some ''tat_ex_exx''))
      ''c'' db_misordered \<noteq> Inr answer" for answer
    by (intro misordered_plan_never_accepted [OF row]) (simp_all add: sample_commission_def)
  then show "isl (accept_commission sample_sys sample_runtime (sample_readings ''h'') (sample_revision 0 ''k7'' (Some ''tat_ex_exx''))
       ''c'' db_misordered)" by (metis isl_def sum.exhaust)
qed

text \<open>C14. Divergence: the documentation of \<^verbatim>\<open>validate_codex_git_effects\<close> says that a coding Commission carries at
  most local file writes whose target lies outside the Principal's checkout. A proposal is checked for that, an
  Amendment is not: there is a run of requests after which an active coding Commission has an authority that the
  check would refuse, with effects elsewhere and a target inside the checkout.\<close>

theorem amendment_escapes_checkout:
  "\<exists>db r repository base. reachable sample_sys db \<and> find_commission ''c'' db = Inr r \<and> cm_status r = ''active''
     \<and> cm_execution r = CodexGit repository base
     \<and> auth_effects (load_authority ''c'' db) = [''filesystem.write'', ''http.post'']
     \<and> (repository @ ''/sub'') \<in> set (auth_repositories (load_authority ''c'' db))
     \<and> isl (validate_codex_git_effects (sys_canonicalize sample_sys)
          (sample_proposal\<lparr>prop_authority := load_authority ''c'' db\<rparr>) repository)"
proof (intro exI conjI)
  have authority: "load_authority ''c'' db_amended = am_authority sample_amendment"
    by (rule load_authority_rows [where old = "[]"]) (simp_all add: db_amended_def)
  show "reachable sample_sys db_amended" by (rule sample_reachable)
  show "find_commission ''c'' db_amended = Inr (active_commission\<lparr>cm_revision := 2\<rparr>)"
    by (simp add: find_commission_Ok db_amended_def active_commission_def sample_commission_def)
  show "cm_status (active_commission\<lparr>cm_revision := 2\<rparr>) = ''active''" by (simp add: active_commission_def)
  show "cm_execution (active_commission\<lparr>cm_revision := 2\<rparr>) = CodexGit ''/r'' ''0000000000000000000000000000000000000000''"
    by (simp add: active_commission_def sample_commission_def sample_proposal_def)
  show "auth_effects (load_authority ''c'' db_amended) = [''filesystem.write'', ''http.post'']"
    by (simp add: authority sample_amendment_def)
  show "''/r'' @ ''/sub'' \<in> set (auth_repositories (load_authority ''c'' db_amended))"
    by (simp add: authority sample_amendment_def)
  show "isl (validate_codex_git_effects (sys_canonicalize sample_sys)
          (sample_proposal\<lparr>prop_authority := load_authority ''c'' db_amended\<rparr>) ''/r'')"
    by (simp add: authority validate_codex_git_effects_def sample_amendment_def Let_def)
qed

text \<open>C15. Round trip of the mandate: when a proposal is carried out, the authority and the ceilings read back for
  the new Commission are those of the proposal, entry by entry and in order.\<close>

theorem mandate_roundtrip:
  assumes "reachable sys db" and "create_proposal sys rd request proposal db = Inr (v, db')"
    and "mutation_key request = Inr key" and "recorded db key = None"
  shows "\<exists>c. \<not> has_commission db c \<and> has_commission db' c \<and> load_authority c db' = prop_authority proposal
    \<and> load_resource_ceilings c db' = Inr (prop_resource_ceilings proposal)"
  using assms(2-4)
proof (rule proposing.carried_out)
  fix s answers
  let ?s = "\<lparr>ses_db = db, ses_clock = 0, ses_millis = 0, ses_uuid = 0\<rparr>"
  assume run: "create_proposal_work sys rd request proposal ?s = Inr (v, s)"
    and db': "db' = (ses_db s)\<lparr>db_idempotency_keys := answers\<rparr>"
  have "mandate_wf (ses_db ?s)" using mandates.reachable [OF assms(1)] by simp
  from proposal_loads [OF run this] show ?thesis unfolding db' answers_irrelevant Session.select_convs by metis
qed

lemma mandate_roundtrip_witness:
  "\<exists>c. has_commission db_proposed c \<and> load_authority c db_proposed = prop_authority full_proposal"
proof -
  obtain v where run: "create_proposal sample_sys (sample_readings ''c'') (sample_req ''k3'' (Some ''tat_bx_bxx'')) full_proposal
      db_connected = Inr (v, db_proposed)"
    using sample_runs(3) by blast
  have "mutation_key (sample_req ''k3'' (Some ''tat_bx_bxx'')) = Inr ''k3''" "recorded db_connected ''k3'' = None"
    by code_simp+
  from mandate_roundtrip [OF sample_reachable(2) run this] show ?thesis by blast
qed


section \<open>Memory\<close>

text \<open>C16. Making room in an active Profile ends, after at most as many demotions as there are soft Claims in it, and
  it succeeds exactly when the hard Claims leave room. Then the Profile has room for the new Claim; only soft Claims
  of that Profile were demoted, and every other row of the tables is as before, but for the lifecycle history.\<close>

theorem profile_room_exact:
  assumes "claims_wf m"
  shows "let P = in_profile k i {case x of None \<Rightarrow> [] | Some claim_id \<Rightarrow> claim_id};
      room = (\<lambda>(claims, tokens). claims + 1 \<le> claim_limit \<and> tokens + incoming \<le> token_limit)
    in if room (profile_load (\<lambda>c. P c \<and> pc_strength c \<noteq> ''soft'') m)
       then \<exists>ds m'. make_room_in_active_profile k i claim_limit token_limit incoming x now m = Inr (ds, m')
         \<and> length ds \<le> soft_active P m \<and> room (profile_load P m') \<and> demotes (set ds) now m m'
         \<and> (\<forall>d \<in> set ds. \<exists>c \<in> set (mem_claims m). pc_id c = d \<and> P c \<and> pc_strength c = ''soft'')
       else make_room_in_active_profile k i claim_limit token_limit incoming x now m =
         invalid_request (''the '' @ k @ '' Profile cannot admit this preference without truncating hard Profile Claims'')"
proof -
  let ?x = "{case x of None \<Rightarrow> [] | Some claim_id \<Rightarrow> claim_id}"
  let ?room = "\<lambda>(claims, tokens). claims + 1 \<le> claim_limit \<and> tokens + incoming \<le> token_limit"
  have budget: "a_budget ?room" by (auto simp: a_budget_def)
  show ?thesis
  proof (cases "?room (profile_load (\<lambda>c. in_profile k i ?x c \<and> pc_strength c \<noteq> ''soft'') m)")
    case True
    then obtain ds m' where run: "make_room_in_active_profile k i claim_limit token_limit incoming x now m = Inr (ds, m')"
      using demote_until_exact [OF assms budget, of k i ?x] unfolding make_room_in_active_profile_def by presburger
    from demote_until_Ok [OF run [unfolded make_room_in_active_profile_def]] run True show ?thesis unfolding Let_def by auto
  next
    case False
    with demote_until_exact [OF assms budget, of k i ?x] show ?thesis
      unfolding make_room_in_active_profile_def Let_def by presburger
  qed
qed

lemma profile_room_exact_witness:
  "\<exists>ds m'. make_room_in_active_profile ''principal'' None 3 100 5 None 2000 crowded_memory = Inr (ds, m')
     \<and> ds = [''s''] \<and> demotes (set ds) 2000 crowded_memory m'"
proof -
  have "case profile_load (\<lambda>c. in_profile ''principal'' None {[]} c \<and> pc_strength c \<noteq> ''soft'') crowded_memory of
      (claims, tokens) \<Rightarrow> claims + 1 \<le> 3 \<and> tokens + 5 \<le> 100" by code_simp
  with profile_room_exact [OF crowded_wf, where k = "''principal''" and i = None and x = None and claim_limit = 3
      and token_limit = 100 and incoming = 5 and now = 2000]
  obtain ds m' where run: "make_room_in_active_profile ''principal'' None 3 100 5 None 2000 crowded_memory = Inr (ds, m')"
    and "demotes (set ds) 2000 crowded_memory m'" unfolding Let_def by auto
  moreover have "ds = [''s'']" using crowded_run run by simp
  ultimately show ?thesis by blast
qed

text \<open>C17. Budgets. In every reachable state of the memory, whatever preferences, observations, confirmations,
  suppressions, revisions and deletions led to it, the active Profile of a Project has at most 80 Claims and 4000
  tokens, and that of the Principal at most 20 Claims and 1000 tokens.\<close>

theorem active_profile_bounded:
  assumes "memory_reachable env m"
  shows "case profile_load (in_profile k i {}) m of (claims, tokens) \<Rightarrow>
    if k = ''project'' then claims \<le> 80 \<and> tokens \<le> 4000 else claims \<le> 20 \<and> tokens \<le> 1000"
proof -
  have "fits_limits k (profile_load (in_profile k i {}) m)"
    using memory_reachable_wf [OF assms] by (simp add: memory_wf_def within_budget_def)
  then show ?thesis by (simp add: fits_limits_def profile_limits_def case_prod_unfold split: if_splits)
qed

lemma active_profile_bounded_witness:
  "profile_load (in_profile ''principal'' None {}) memory_taught = (1, 1) \<and> (1 :: int) \<le> 20"
proof -
  have "profile_load (in_profile ''principal'' None {}) memory_taught = (1, 1)" by code_simp
  with active_profile_bounded [OF sample_memories(1), of "''principal''" None] show ?thesis by simp
qed




section \<open>Plans: the gate before dispatch\<close>

text \<open>C19. Plan validation is exact. For every order in which the hash maps may iterate and every plan
  with fewer than \<open>2 ^ 32\<close> Assignments, the validator accepts the plan if and only if it is well formed:
  all evidence deterministic, attempts sufficient, every Assignment within the mandate, every criterion
  owned exactly once, dependencies declared, competition groups coherent and the whole acyclic.\<close>

theorem plan_gate_exact:
  assumes "valid_orders ho" and "length (plan_assignments plan) < 2 ^ 32"
  shows "validate_plan_against ho m plan = Inr () \<longleftrightarrow> wf_plan m plan"
  using assms by (rule validate_plan_against_iff)

lemma plan_gate_exact_witness:
  "valid_orders hash_order_id \<and> length (plan_assignments sample_plan) < 2 ^ 32
   \<and> wf_plan sample_mandate sample_plan"
  using plan_gate_exact [OF valid_orders_id, of sample_plan sample_mandate] sample_plan_accepted by simp

text \<open>C20. An accepted plan stays inside its mandate: every criterion of the mandate is owned by exactly
  one Assignment, every write scope lies under an authorized path, and no Assignment asks for more
  concurrency, storage or spend than the Commission ceilings.\<close>

theorem accepted_plan_within_mandate:
  assumes "valid_orders ho" and "length (plan_assignments plan) < 2 ^ 32"
    and "validate_plan_against ho m plan = Inr ()"
  shows "(\<forall>c \<in> set (pm_criterion_ids m). \<exists>!a. a \<in> set (plan_assignments plan) \<and> c \<in> set (pa_criterion_ids a))
    \<and> (\<forall>a \<in> set (plan_assignments plan). \<forall>s \<in> set (pa_write_scopes a).
         \<exists>p \<in> set (auth_paths (pm_authority m)). path_is_within_scope s p)
    \<and> (\<forall>a \<in> set (plan_assignments plan).
         0 < ar_concurrency_slots (pa_resources a)
         \<and> ar_concurrency_slots (pa_resources a) \<le> rc_max_worker_concurrency (pm_resource_ceilings m)
         \<and> ar_max_storage_bytes (pa_resources a) \<le> rc_max_storage_bytes (pm_resource_ceilings m)
         \<and> ar_max_model_spend_cents (pa_resources a) \<le> rc_max_model_spend_cents (pm_resource_ceilings m)
         \<and> ar_max_paid_service_spend_cents (pa_resources a)
             \<le> rc_max_paid_service_spend_cents (pm_resource_ceilings m))"
proof -
  let ?as = "plan_assignments plan"
  from assms have wf: "wf_plan m plan" by (simp add: validate_plan_against_iff)
  then have ok: "\<And>a. a \<in> set ?as \<Longrightarrow> assignment_ok m a" and own: "distinct (concat (map pa_criterion_ids ?as))"
    and cover: "set (concat (map pa_criterion_ids ?as)) = set (pm_criterion_ids m)"
    by (simp_all add: wf_plan_def scan_ok_def Let_def)
  have "\<exists>!a. a \<in> set ?as \<and> c \<in> set (pa_criterion_ids a)" if "c \<in> set (pm_criterion_ids m)" for c
    using owned_once [OF own] that cover by auto
  then show ?thesis
    using ok assignment_ok_resources assignment_ok_scopes by blast
qed

lemma accepted_plan_within_mandate_witness:
  "validate_plan_against hash_order_id sample_mandate sample_plan = Inr ()
   \<and> (\<exists>!a. a \<in> set (plan_assignments sample_plan) \<and> ''c2'' \<in> set (pa_criterion_ids a))"
  using accepted_plan_within_mandate [OF valid_orders_id _ sample_plan_accepted] sample_plan_accepted
  by (simp add: sample_mandate_def)

text \<open>C21. Progress: as long as some Assignments of an accepted plan are unfinished, one of them depends
  on none of the others, so dispatch never deadlocks on dependencies.\<close>

theorem accepted_plan_progress:
  assumes "valid_orders ho" and "length (plan_assignments plan) < 2 ^ 32"
    and "validate_plan_against ho m plan = Inr ()"
    and "rest \<noteq> {}" and "rest \<subseteq> set (plan_assignments plan)"
  shows "\<exists>a \<in> rest. \<forall>b \<in> rest. pa_id b \<notin> set (pa_dependencies a)"
proof -
  from assms have wf: "wf_plan m plan" by (simp add: validate_plan_against_iff)
  then have acy: "acyclic (depends (assignment_entries plan))" and ids: "distinct (map pa_id (plan_assignments plan))"
    by (simp_all add: wf_plan_def scan_ok_def Let_def)
  have fin: "finite (pa_id ` rest)" using assms(5) by (meson List.finite_set finite_imageI finite_subset)
  from acyclic_has_ready [OF acy fin] assms(4) obtain i where
    i: "i \<in> pa_id ` rest" "\<forall>d. (i, d) \<in> depends (assignment_entries plan) \<longrightarrow> d \<notin> pa_id ` rest" by blast
  then obtain a where a: "a \<in> rest" "i = pa_id a" by blast
  with assms(5) have "map_of (assignment_entries plan) i = Some a"
    by (auto intro: assignment_entries_lookup [OF ids])
  with a i show ?thesis by (auto simp: depends_def)
qed

lemma accepted_plan_progress_witness:
  "\<exists>a \<in> set (plan_assignments sample_plan). \<forall>b \<in> set (plan_assignments sample_plan).
     pa_id b \<notin> set (pa_dependencies a)"
  by (rule accepted_plan_progress [OF valid_orders_id _ sample_plan_accepted]) (simp_all add: sample_plan_def)

text \<open>C22. Neither plan nor proposal validation can panic: the searches, the indexed accesses and the
  unreachable arms are never hit, on any input and under any iteration order of the hash maps.\<close>

theorem proposal_validation_never_panics:
  assumes "valid_orders ho"
  shows "\<not> panics (validate_proposal canonicalize ho p)"
  using assms by (rule validate_proposal_no_panic)

lemma proposal_validation_never_panics_witness:
  "valid_orders hash_order_id \<and> \<not> panics (validate_proposal (\<lambda>p. Inr p) hash_order_id sample_proposal)"
  using proposal_validation_never_panics [OF valid_orders_id] by simp

text \<open>C23. Acceptance Criteria are accepted exactly when there is at least one, their ids differ, and
  each is complete and asks for a procedure that its verifier type and the execution kind allow.\<close>

theorem acceptance_criteria_exact:
  "validate_acceptance_criteria e cs = Inr () \<longleftrightarrow>
     cs \<noteq> [] \<and> (\<forall>c \<in> set cs. criterion_ok e c) \<and> distinct (map ac_id cs)"
  by (rule validate_acceptance_criteria_iff)

lemma acceptance_criteria_exact_witness:
  "validate_acceptance_criteria (CodexGit ''/r'' ''0'') [sample_criterion] = Inr ()
   \<and> criterion_ok (CodexGit ''/r'' ''0'') sample_criterion"
proof -
  have "validate_acceptance_criteria (CodexGit ''/r'' ''0'') [sample_criterion] = Inr ()" by code_simp
  with acceptance_criteria_exact [of "CodexGit ''/r'' ''0''" "[sample_criterion]"] show ?thesis by simp
qed

text \<open>C24. A mandate that lets a \<^verbatim>\<open>codex_git\<close> Commission have effects confines them: only the local
  \<^verbatim>\<open>filesystem.write\<close> effect is possible, and no effect directory contains the Principal's checkout or
  lies in it, after symbolic links are resolved.\<close>

theorem codex_git_effects_confined:
  assumes "validate_codex_git_effects canonicalize p r = Inr ()"
    and "auth_effects (prop_authority p) \<noteq> [] \<or> auth_destinations (prop_authority p) \<noteq> []"
  shows "set (auth_effects (prop_authority p)) \<subseteq> {''filesystem.write''}
    \<and> set (auth_destinations (prop_authority p)) \<subseteq> {''local''}
    \<and> (\<exists>checkout. canonicalize r = Inr checkout
         \<and> (\<forall>t \<in> set (auth_repositories (prop_authority p)) - {r}. \<exists>q. canonicalize t = Inr q
              \<and> \<not> path_starts_with q checkout \<and> \<not> path_starts_with checkout q))"
  using validate_codex_git_effects_Ok [OF assms] by blast

lemma codex_git_effects_confined_witness:
  "set (auth_effects (prop_authority sample_proposal)) \<subseteq> {''filesystem.write''}"
proof -
  have "validate_codex_git_effects (\<lambda>p. Inr p) sample_proposal ''/r'' = Inr ()" by code_simp
  moreover have "auth_effects (prop_authority sample_proposal) \<noteq> []"
    by (simp add: sample_proposal_def sample_authority_def)
  ultimately show ?thesis using codex_git_effects_confined [of "\<lambda>p. Inr p" sample_proposal "''/r''"] by blast
qed


section \<open>The frontier: what runs at once\<close>

text \<open>C25. The frontier never oversubscribes. In each of concurrency, storage, CPU and memory, the use
  before plus everything selected stays within the ceiling (or nothing was added), as natural
  numbers: no 64-bit sum wraps.\<close>

theorem frontier_within_ceilings:
  "\<exists>sel. fr_selected (select ws occ used ceil) = map work_item sel \<and> subseq sel ws
     \<and> (\<forall>f \<in> {concurrency, storage, cpu_millis, memory_mib}.
          unat (f used) + (\<Sum>w\<leftarrow>sel. unat (f (work_resources w))) \<le> max (unat (f used)) (unat (f ceil)))"
proof (intro exI conjI)
  let ?sel = "chosen ws occ used ceil"
  show "fr_selected (select ws occ used ceil) = map work_item ?sel" by (simp add: select_split)
  show "subseq ?sel ws" by (rule chosen_subseq)
  show "\<forall>f \<in> {concurrency, storage, cpu_millis, memory_mib}.
      unat (f used) + (\<Sum>w\<leftarrow>?sel. unat (f (work_resources w))) \<le> max (unat (f used)) (unat (f ceil))"
  proof (cases "?sel = []")
    case False
    then have ne: "map work_resources ?sel \<noteq> []" by simp
    note within = conc.total_within [OF chosen_admitted ne] stor.total_within [OF chosen_admitted ne]
      cpu.total_within [OF chosen_admitted ne] mem.total_within [OF chosen_admitted ne]
    show ?thesis using within by (simp add: comp_def le_max_iff_disj)
  qed simp
qed

definition sample_work :: "nat \<Rightarrow> string \<Rightarrow> nat Work" where
  "sample_work n scope = \<lparr>work_item = n, work_write_scopes = [scope], work_competition = None,
     work_resources = \<lparr>concurrency = 1, storage = 10, cpu_millis = 100, memory_mib = 100\<rparr>\<rparr>"

definition sample_host :: Resources where
  "sample_host = \<lparr>concurrency = 2, storage = 100, cpu_millis = 1000, memory_mib = 1000\<rparr>"

lemma frontier_within_ceilings_witness:
  "\<exists>sel :: nat Work list. subseq sel [sample_work 1 ''src'', sample_work 2 ''src/a'']
     \<and> (\<Sum>w\<leftarrow>sel. unat (concurrency (work_resources w))) \<le> 2"
proof -
  obtain sel :: "nat Work list" where "subseq sel [sample_work 1 ''src'', sample_work 2 ''src/a'']"
    and "unat (concurrency default_resources) + (\<Sum>w\<leftarrow>sel. unat (concurrency (work_resources w)))
           \<le> max (unat (concurrency default_resources)) (unat (concurrency sample_host))"
    using frontier_within_ceilings [of "[sample_work 1 ''src'', sample_work 2 ''src/a'']" "[]"
        default_resources sample_host] by blast
  then show ?thesis by (intro exI [of _ sel]) (simp add: sample_host_def default_resources_def)
qed

text \<open>C26. No two writers at once: a selected Assignment overlaps the write scopes of running work, or of
  another selected Assignment, only when both are candidates of the same competition.\<close>

theorem frontier_write_exclusion:
  "\<exists>sel. fr_selected (select ws occ used ceil) = map work_item sel \<and> subseq sel ws
     \<and> list_all (\<lambda>w. list_all (\<lambda>a. scopes_overlap (work_write_scopes w) (occ_write_scopes a)
           \<longrightarrow> competitions_match (work_competition w) (occ_competition a)) occ) sel
     \<and> sorted_wrt (\<lambda>v w. scopes_overlap (work_write_scopes v) (work_write_scopes w)
           \<longrightarrow> competitions_match (work_competition v) (work_competition w)) sel"
proof (intro exI conjI)
  let ?sel = "chosen ws occ used ceil"
  show "fr_selected (select ws occ used ceil) = map work_item ?sel" by (simp add: select_split)
  show "subseq ?sel ws" by (rule chosen_subseq)
  show "list_all (\<lambda>w. list_all (\<lambda>a. scopes_overlap (work_write_scopes w) (occ_write_scopes a)
           \<longrightarrow> competitions_match (work_competition w) (occ_competition a)) occ) ?sel"
    using chosen_clear_of_occupied by (fastforce simp: list_all_iff clashes_def)
  show "sorted_wrt (\<lambda>v w. scopes_overlap (work_write_scopes v) (work_write_scopes w)
           \<longrightarrow> competitions_match (work_competition v) (work_competition w)) ?sel"
    by (rule sorted_wrt_mono_rel [OF _ chosen_pairwise]) (simp add: clashes_def)
qed

lemma sample_frontier:
  "select [sample_work 1 ''src'', sample_work 2 ''src/a'', sample_work 3 ''doc''] [] default_resources sample_host
   = \<lparr>fr_selected = [1, 3], fr_held = [(2, DeclaredWriteOverlap)]\<rparr>"
  by code_simp

lemma frontier_write_exclusion_witness:
  "\<exists>sel :: nat Work list. [1, 3] = map work_item sel
     \<and> sorted_wrt (\<lambda>v w. scopes_overlap (work_write_scopes v) (work_write_scopes w)
           \<longrightarrow> competitions_match (work_competition v) (work_competition w)) sel"
proof -
  obtain sel :: "nat Work list" where "[1, 3] = map work_item sel"
    and "sorted_wrt (\<lambda>v w. scopes_overlap (work_write_scopes v) (work_write_scopes w)
           \<longrightarrow> competitions_match (work_competition v) (work_competition w)) sel"
    using frontier_write_exclusion [of
      "[sample_work 1 ''src'', sample_work 2 ''src/a'', sample_work 3 ''doc'']" "[]" default_resources sample_host]
    unfolding sample_frontier Frontier.select_convs by (elim exE conjE)
  then show ?thesis by (intro exI conjI)
qed

text \<open>C27. Nothing is held without cause: judged against the final selection, a held candidate still
  clashes with running or selected work, or still does not fit the budget, or the host.\<close>

theorem frontier_holds_justified:
  "\<exists>sel held. select ws occ used ceil
       = \<lparr>fr_selected = map work_item sel, fr_held = map (\<lambda>(w, r). (work_item w, r)) held\<rparr>
     \<and> list_all (\<lambda>(w, r). hold_justified (occ @ map occupy sel)
           (foldl reserve used (map work_resources sel)) ceil w r) held"
proof -
  have "list_all (\<lambda>(w, r). hold_justified (occ @ map occupy (chosen ws occ used ceil))
      (final_use ws occ used ceil) ceil w r) (deferred ws occ used ceil)"
    by (auto simp: list_all_iff dest: deferred_justified)
  with select_split show ?thesis by blast
qed

text \<open>C28. The textual overlap test is exact for paths: two scopes overlap if and only if some path lies
  in both.\<close>

theorem scope_overlap_exact:
  "scopes_overlap [a] [b] \<longleftrightarrow> (\<exists>p. path_is_within_scope p a \<and> path_is_within_scope p b)"
proof
  assume "scopes_overlap [a] [b]"
  then show "\<exists>p. path_is_within_scope p a \<and> path_is_within_scope p b"
    by (auto simp: scopes_overlap_iff intro: path_is_within_scope_refl)
qed (auto intro: common_path_overlap)


section \<open>Planning Workers\<close>



text \<open>C31. A planner grants no money and shares the storage: completing its proposal keeps ids, goals,
  scopes and dependencies, gives each Assignment one slot and no spend, and the storage shares together
  stay within the Commission ceiling whenever there is a byte for each Assignment.\<close>

theorem completed_plan_from_mandate:
  assumes "proposed \<noteq> []" and "length proposed \<le> unat (rc_max_storage_bytes ceilings)"
  shows "(\<Sum>a\<leftarrow>plan_assignments (complete_plan proposed ceilings). unat (ar_max_storage_bytes (pa_resources a)))
           \<le> unat (rc_max_storage_bytes ceilings)
    \<and> list_all2 (\<lambda>p a. pa_id a = pp_id p \<and> pa_goal a = pp_goal p \<and> pa_write_scopes a = pp_write_scopes p
         \<and> pa_dependencies a = pp_dependencies p \<and> pa_criterion_ids a = pp_criterion_ids p
         \<and> ar_concurrency_slots (pa_resources a) = 1 \<and> ar_max_model_spend_cents (pa_resources a) = 0
         \<and> ar_max_paid_service_spend_cents (pa_resources a) = 0)
       proposed (plan_assignments (complete_plan proposed ceilings))"
proof
  have "unat (rc_max_storage_bytes ceilings) < 2 ^ 64"
    using unsigned_less [of "rc_max_storage_bytes ceilings", where ?'a = nat] by simp
  with assms have "length proposed * unat (even_share proposed ceilings) \<le> unat (rc_max_storage_bytes ceilings)"
    using even_share_total [of proposed ceilings] by simp
  then show "(\<Sum>a\<leftarrow>plan_assignments (complete_plan proposed ceilings). unat (ar_max_storage_bytes (pa_resources a)))
      \<le> unat (rc_max_storage_bytes ceilings)"
    by (simp add: complete_plan_def complete_assignment_def comp_def sum_list_triv)
qed (simp add: complete_plan_def complete_assignment_def list_all2_conv_all_nth)

definition sample_proposed :: ProposedAssignment where
  "sample_proposed = \<lparr>pp_id = ''a'', pp_goal = ''g'', pp_criterion_ids = [''c1''],
     pp_write_scopes = [''src''], pp_read_scopes = [], pp_dependencies = []\<rparr>"

lemma completed_plan_from_mandate_witness:
  "(\<Sum>a\<leftarrow>plan_assignments (complete_plan [sample_proposed, sample_proposed] sample_ceilings).
      unat (ar_max_storage_bytes (pa_resources a))) \<le> 1000"
  using completed_plan_from_mandate [of "[sample_proposed, sample_proposed]" sample_ceilings]
  by (simp add: sample_ceilings_def)

text \<open>C32. Reading a planner's summary panics exactly when the last closing brace comes before the first
  opening brace with something in between: the slice then starts after it ends. On any other text the
  planner gets a plan or an error to repair.\<close>

theorem planner_summary_panics_iff:
  "panics (parse_proposed_plan from_str output) \<longleftrightarrow>
     (\<exists>s e. find_char (CHR ''{'') output = Some s \<and> rfind_char (CHR ''}'') output = Some e \<and> Suc e < s)"
  by (auto simp: parse_proposed_plan_def slice_inclusive_def split: option.splits sum.splits)


section \<open>Routing\<close>

definition sample_request :: RouteRequest where
  "sample_request = \<lparr>rr_requirements = default_worker_requirements,
     rr_resources = \<lparr>ar_concurrency_slots = 1, ar_max_storage_bytes = 10,
                     ar_max_model_spend_cents = 5, ar_max_paid_service_spend_cents = 0\<rparr>,
     rr_required_authority_action = DETERMINISTIC_ACTION,
     rr_required_authority_scope_types = [''action''], rr_entry_harness = ''pi''\<rparr>"

definition empty_host :: Host where
  "empty_host = \<lparr>fs_read = \<lambda>_. Inl ''no such file'', fs_metadata = \<lambda>_. Inl ''no such file'',
     sha256_hex = \<lambda>s. s\<rparr>"

lemma sample_route:
  "rd_selected_configuration (route empty_host [deterministic_configuration] sample_request {})
   = Some deterministic_configuration"
  by code_simp

text \<open>C33. Routing selects only what may run: the selected configuration is in the catalog, passes every
  gate (Skills, tools, capabilities, context, authority and resources), is available on this machine
  and was not ruled out by the caller.\<close>

theorem routed_configuration_eligible:
  assumes "rd_selected_configuration (route host catalog request unavailable) = Some c"
  shows "c \<in> set catalog \<and> eligible_for c request \<and> configuration_is_available host c
         \<and> wc_id c \<notin> unavailable"
  using route_selected_cases [OF assms] by (metis is_preferred_def usable_def)

lemma routed_configuration_eligible_witness: "eligible_for deterministic_configuration sample_request"
  using routed_configuration_eligible [OF sample_route] by blast

text \<open>C34. Routing is optimal in the declared lexicographic order: the selected configuration is the best
  ranked eligible one, or that one cannot be used and the selected one is the best ranked usable
  configuration within one percentage point of it and of its replacement class.\<close>

theorem routed_configuration_best:
  assumes "rd_selected_configuration (route host catalog request unavailable) = Some c"
  shows "is_preferred catalog request c
    \<or> (\<exists>p. is_preferred catalog request p \<and> \<not> usable host unavailable p \<and> approximately_equal p c
         \<and> (\<forall>d \<in> set catalog. eligible_for d request \<and> usable host unavailable d \<and> approximately_equal p d
              \<longrightarrow> rank_of c \<le> rank_of d))"
  using assms by (rule route_selected_cases) blast+

lemma routed_configuration_best_witness:
  "is_preferred [deterministic_configuration] sample_request deterministic_configuration"
proof -
  have "usable empty_host {} deterministic_configuration" by code_simp
  then show ?thesis
    using routed_configuration_best [OF sample_route] by (auto simp: is_preferred_def)
qed




section \<open>The Worker catalog\<close>

text \<open>C36. Catalog validation is exact: it accepts a catalog if and only if it is not empty, its ids are
  distinct and every configuration is complete, known, positive in its limits and, when a structured
  adapter governs it, pinned to an executable with the declared digest and free of external authority.\<close>

theorem catalog_validation_exact:
  "validate_catalog host cs = Inr () \<longleftrightarrow>
     cs \<noteq> [] \<and> distinct (map wc_id cs) \<and> (\<forall>c \<in> set cs. configuration_ok host c)"
  by (rule validate_catalog_iff)

lemma catalog_validation_exact_witness:
  "validate_catalog empty_host [deterministic_configuration] = Inr ()
   \<and> configuration_ok empty_host deterministic_configuration"
proof -
  have "validate_catalog empty_host [deterministic_configuration] = Inr ()" by code_simp
  with catalog_validation_exact [of empty_host "[deterministic_configuration]"] show ?thesis by simp
qed

text \<open>C37. Loading with a pinned runtime binds every governed configuration to it: its containment profile
  is the runtime's, its resources are the runtime's or a profile within them, and nothing else of any
  configuration changes.\<close>

theorem loaded_catalog_contained:
  assumes "load_catalog host from_slice path (Some d) = Inr cs'"
  shows "\<exists>cs. validate_catalog host cs = Inr () \<and> list_all2 same_but_containment cs cs'
           \<and> (\<forall>c \<in> set cs'. governed c \<longrightarrow> bound_to d c)"
proof -
  from assms obtain cs where "validate_catalog host cs = Inr ()" "bind_structured_containment d cs = Inr cs'"
    by (auto simp: load_catalog_def outcome_simps simp del: bind_structured_containment.simps)
  with bind_structured_containment_Ok show ?thesis by blast
qed

definition sample_profile :: ResourceProfile where
  "sample_profile = \<lparr>prof_vcpus = 2, prof_memory_mib = 4096, prof_writable_storage_mib = 1024,
     prof_max_processes = 256, prof_memory_request_mib = 512, prof_cpu_request_millis = 500\<rparr>"

definition sample_descriptor :: ContainedCodexDescriptor where
  "sample_descriptor = \<lparr>cd_id = ''codex'', cd_version = ''1'', cd_model = ''m'', cd_settings = [],
     cd_max_storage_bytes = 1000, cd_containment_profile = ''p'', cd_supports_claude = False,
     cd_supports_pi = False, cd_supports_opencode = False, cd_pi_model_provider = None,
     cd_pi_model = None, cd_resources = sample_profile\<rparr>"

lemma loaded_catalog_contained_witness:
  "\<exists>cs. validate_catalog empty_host cs = Inr ()
      \<and> list_all2 same_but_containment cs [contained_codex_configuration sample_descriptor]"
proof -
  have "configuration_ok empty_host (contained_codex_configuration sample_descriptor)"
    by (simp add: configuration_ok_def contained_codex_configuration_def deterministic_configuration_def
        sample_descriptor_def names_ok_def governed_def is_structured_def supported_context_strategy_def
        CODEX_GIT_ACTION_def)
  then have "validate_catalog empty_host [contained_codex_configuration sample_descriptor] = Inr ()"
    by (simp add: validate_catalog_iff)
  then have "load_catalog empty_host (\<lambda>_. Inl []) None (Some sample_descriptor)
      = Inr [contained_codex_configuration sample_descriptor]"
    by (simp add: load_catalog_def bind_configuration_def is_structured_def contained_codex_configuration_def
        deterministic_configuration_def)
  from loaded_catalog_contained [OF this] show ?thesis by blast
qed

section \<open>Operations and credentials\<close>

definition sample_operation :: OperationRequest where
  "sample_operation = \<lparr>op_assignment_id = ''a'', op_attempt_id = ''t'', op_worker_lease_id = ''l'',
     op_mandate_revision = 1, op_plan_revision = 1, op_operation = ''filesystem.write'',
     op_repository = Some ''/r'', op_target = ''src/a'', op_parameters = [(''content'', ''x'')],
     op_destination = Some ''local'', op_effect = Some ''filesystem.write'', op_credential = None,
     op_consequences = [''replaces a file''],
     op_limits = \<lparr>ol_max_output_bytes = 10, ol_max_duration_seconds = 10, ol_max_paid_service_spend_cents = 0\<rparr>\<rparr>"

text \<open>C38. Nothing outside the Authority Envelope is permitted: an operation that is not classified
  prohibited names an authorized action, and its repository, target path, destination and effect are
  all authorized.\<close>

theorem permitted_operation_authorized:
  assumes "fst (classify_operation operation authority) \<noteq> OperationClassification.Prohibited"
  shows "op_operation operation \<in> set (auth_actions authority)
    \<and> (repository_scoped operation \<longrightarrow>
         (\<exists>r \<in> set (auth_repositories authority). op_repository operation = Some r)
         \<and> (\<exists>p \<in> set (auth_paths authority). path_is_within_scope (op_target operation) p))
    \<and> (\<forall>d. op_destination operation = Some d \<longrightarrow> d \<in> set (auth_destinations authority))
    \<and> (\<forall>e. op_effect operation = Some e \<longrightarrow> e \<in> set (auth_effects authority))"
  using classify_operation_sound [OF assms] unfolding within_envelope_iff by blast

lemma permitted_operation_authorized_witness: "''local'' \<in> set (auth_destinations sample_authority)"
proof -
  have "fst (classify_operation sample_operation sample_authority) = ApprovalGate" by code_simp
  then have "\<forall>d. op_destination sample_operation = Some d \<longrightarrow> d \<in> set (auth_destinations sample_authority)"
    using permitted_operation_authorized [of sample_operation sample_authority] by simp
  then show ?thesis by (simp add: sample_operation_def)
qed



section \<open>Attachments and the wire\<close>




end
